(* ===== verification/Prelude.thy ===== *)
theory Prelude
  imports Main "HOL-Library.Multiset" "HOL-Library.List_Lexorder" "HOL-Library.Char_ord"
begin

text \<open>
  Vocabulary shared by every component: the machine types, the result type of fallible
  code with the early return of the \<open>?\<close> operator, loops that stop at the first error,
  updates of the first matching list element, and ordered maps (\<open>BTreeMap\<close>) as
  association lists with strictly increasing keys.
\<close>

named_theorems result_simps \<open>evaluation of fallible code\<close>
named_theorems text_simps \<open>byte-string operations\<close>

type_synonym i64 = int
type_synonym i32 = int
type_synonym u64 = nat
type_synonym usize = nat
type_synonym timestamp = int
type_synonym uuid = nat

section \<open>Fallible code\<close>

type_synonym ('e, 'a) result = "'e + 'a"

abbreviation Err :: "'e \<Rightarrow> ('e, 'a) result" where "Err \<equiv> Inl"
abbreviation Ok :: "'a \<Rightarrow> ('e, 'a) result" where "Ok \<equiv> Inr"

definition and_then :: "('e, 'a) result \<Rightarrow> ('a \<Rightarrow> ('e, 'b) result) \<Rightarrow> ('e, 'b) result" where
  "and_then r f = (case r of Inl e \<Rightarrow> Inl e | Inr x \<Rightarrow> f x)"

definition map_err :: "('e \<Rightarrow> 'f) \<Rightarrow> ('e, 'a) result \<Rightarrow> ('f, 'a) result" where
  "map_err g r = (case r of Inl e \<Rightarrow> Inl (g e) | Inr x \<Rightarrow> Inr x)"

definition reject_if :: "bool \<Rightarrow> 'e \<Rightarrow> ('e, unit) result" where
  "reject_if c e = (if c then Err e else Ok ())"

definition ok_or :: "'e \<Rightarrow> 'a option \<Rightarrow> ('e, 'a) result" where
  "ok_or e v = (case v of None \<Rightarrow> Err e | Some x \<Rightarrow> Ok x)"

definition is_ok :: "('e, 'a) result \<Rightarrow> bool" where
  "is_ok r = (case r of Inl _ \<Rightarrow> False | Inr _ \<Rightarrow> True)"

lemma and_then_simps [simp, result_simps]:
  "and_then (Inl e) f = Inl e"
  "and_then (Inr x) f = f x"
  by (simp_all add: and_then_def)

lemma and_then_Ok [result_simps]:
  "and_then r f = Inr y \<longleftrightarrow> (\<exists>x. r = Inr x \<and> f x = Inr y)"
  by (cases r) auto

lemma and_then_Err:
  "and_then r f = Inl e \<longleftrightarrow> r = Inl e \<or> (\<exists>x. r = Inr x \<and> f x = Inl e)"
  by (cases r) auto

lemma map_err_simps [simp, result_simps]:
  "map_err g (Inl e) = Inl (g e)"
  "map_err g (Inr x) = Inr x"
  by (simp_all add: map_err_def)

lemma map_err_Ok [simp, result_simps]: "map_err g r = Inr x \<longleftrightarrow> r = Inr x"
  by (cases r) auto

lemma reject_if_simps [simp, result_simps]:
  "reject_if True e = Inl e"
  "reject_if False e = Inr ()"
  by (simp_all add: reject_if_def)

lemma reject_if_Ok [simp, result_simps]: "reject_if c e = Inr u \<longleftrightarrow> \<not> c"
  by (simp add: reject_if_def)

lemma reject_if_Err [simp]: "reject_if c e = Inl e' \<longleftrightarrow> c \<and> e' = e"
  by (auto simp: reject_if_def)

lemma ok_or_simps [simp, result_simps]:
  "ok_or e None = Inl e"
  "ok_or e (Some x) = Inr x"
  by (simp_all add: ok_or_def)

lemma ok_or_Ok [simp, result_simps]: "ok_or e v = Inr x \<longleftrightarrow> v = Some x"
  by (cases v) auto

lemma is_ok_simps [simp]: "is_ok (Inl e) = False" "is_ok (Inr x) = True"
  by (simp_all add: is_ok_def)

lemma is_ok_iff: "is_ok r \<longleftrightarrow> (\<exists>x. r = Inr x)"
  by (cases r) auto

subsection \<open>Loops that return at the first error\<close>

fun for_each :: "('a \<Rightarrow> ('e, unit) result) \<Rightarrow> 'a list \<Rightarrow> ('e, unit) result" where
  "for_each f [] = Ok ()"
| "for_each f (x # xs) = and_then (f x) (\<lambda>_. for_each f xs)"

fun map_results :: "('a \<Rightarrow> ('e, 'b) result) \<Rightarrow> 'a list \<Rightarrow> ('e, 'b list) result" where
  "map_results f [] = Ok []"
| "map_results f (x # xs) =
     and_then (f x) (\<lambda>y. and_then (map_results f xs) (\<lambda>ys. Ok (y # ys)))"

lemma for_each_Ok [result_simps]: "for_each f xs = Inr u \<longleftrightarrow> (\<forall>x \<in> set xs. f x = Inr ())"
  by (induction xs) (auto simp: result_simps)

lemma for_each_Err: "for_each f xs = Inl e \<Longrightarrow> \<exists>x \<in> set xs. f x = Inl e"
  by (induction xs) (auto simp: and_then_Err)

lemma map_results_Ok [result_simps]:
  "map_results f xs = Inr ys \<longleftrightarrow> list_all2 (\<lambda>x y. f x = Inr y) xs ys"
  by (induction xs arbitrary: ys) (auto simp: result_simps list_all2_Cons1)

section \<open>Lists\<close>

fun update_first :: "('a \<Rightarrow> bool) \<Rightarrow> ('a \<Rightarrow> 'a) \<Rightarrow> 'a list \<Rightarrow> 'a list option" where
  "update_first P f [] = None"
| "update_first P f (x # xs) =
     (if P x then Some (f x # xs) else map_option ((#) x) (update_first P f xs))"

lemma update_first_None [simp]: "update_first P f xs = None \<longleftrightarrow> (\<forall>x \<in> set xs. \<not> P x)"
  by (induction xs) auto

lemma update_first_split:
  "update_first P f xs = Some ys \<Longrightarrow>
     \<exists>us x vs. xs = us @ x # vs \<and> ys = us @ f x # vs \<and> P x \<and> (\<forall>u \<in> set us. \<not> P u)"
proof (induction xs arbitrary: ys)
  case (Cons x xs)
  show ?case
  proof (cases "P x")
    case True
    with Cons.prems have "x # xs = [] @ x # xs \<and> ys = [] @ f x # xs" by simp
    with True show ?thesis by fastforce
  next
    case False
    with Cons.prems obtain zs where zs: "update_first P f xs = Some zs" "ys = x # zs" by auto
    from Cons.IH [OF zs(1)] obtain us y vs where
      "xs = us @ y # vs" "zs = us @ f y # vs" "P y" "\<forall>u \<in> set us. \<not> P u" by blast
    with zs(2) False have "x # xs = (x # us) @ y # vs \<and> ys = (x # us) @ f y # vs \<and> P y
        \<and> (\<forall>u \<in> set (x # us). \<not> P u)" by simp
    then show ?thesis by blast
  qed
qed simp

lemma update_first_map:
  "update_first P f xs = Some ys \<Longrightarrow> (\<And>x. g (f x) = g x) \<Longrightarrow> map g ys = map g xs"
  by (drule update_first_split) auto

lemma length_update_first: "update_first P f xs = Some ys \<Longrightarrow> length ys = length xs"
  by (drule update_first_split) auto

lemma find_unique: "distinct (map f xs) \<Longrightarrow> x \<in> set xs \<Longrightarrow> find (\<lambda>y. f y = f x) xs = Some x"
  by (induction xs) auto

definition sorted_set :: "'a::linorder list \<Rightarrow> 'a list" where
  "sorted_set xs = remdups_adj (sort xs)"

lemma set_sorted_set [simp]: "set (sorted_set xs) = set xs"
  by (simp add: sorted_set_def)

lemma sorted_sorted_set [simp]: "sorted (sorted_set xs)"
  by (simp add: sorted_set_def sorted_remdups_adj)

lemma distinct_sorted_set [simp]: "distinct (sorted_set xs)"
proof -
  have "distinct (remdups_adj ys)" if "sorted ys" for ys :: "'a list"
    using that by (induction ys rule: remdups_adj.induct) (auto simp: order_le_less)
  then show ?thesis by (simp add: sorted_set_def)
qed

lemma sorted_set_unique: "sorted xs \<Longrightarrow> distinct xs \<Longrightarrow> sorted_set xs = xs"
  by (simp add: sorted_set_def sorted_sort_id remdups_adj_distinct)

lemma sorted_set_cong: "set xs = set ys \<Longrightarrow> sorted_set xs = sorted_set ys"
  by (rule sorted_distinct_set_unique) simp_all

section \<open>Ordered maps\<close>

text \<open>
  The interface the components use of an ordered map: point lookup, insertion that
  replaces, and the keys in strictly increasing order.
\<close>

locale ordered_map =
  fixes om_empty :: "'m"
    and om_insert :: "'k::linorder \<Rightarrow> 'v \<Rightarrow> 'm \<Rightarrow> 'm"
    and om_get :: "'m \<Rightarrow> 'k \<Rightarrow> 'v option"
    and om_keys :: "'m \<Rightarrow> 'k list"
    and om_inv :: "'m \<Rightarrow> bool"
  assumes inv_empty: "om_inv om_empty"
    and inv_insert: "om_inv m \<Longrightarrow> om_inv (om_insert k v m)"
    and get_empty: "om_get om_empty k = None"
    and get_insert: "om_inv m \<Longrightarrow> om_get (om_insert k v m) j = (if j = k then Some v else om_get m j)"
    and keys_dom: "om_inv m \<Longrightarrow> set (om_keys m) = {k. om_get m k \<noteq> None}"
    and keys_sorted: "om_inv m \<Longrightarrow> sorted (om_keys m) \<and> distinct (om_keys m)"
begin

lemma keys_empty: "om_keys om_empty = []"
  using keys_dom [OF inv_empty] by (simp add: get_empty)

lemma keys_insert: "om_inv m \<Longrightarrow> set (om_keys (om_insert k v m)) = insert k (set (om_keys m))"
  by (auto simp: keys_dom inv_insert get_insert)

lemma inv_inserts: "om_inv m \<Longrightarrow> om_inv (fold (\<lambda>x. om_insert (f x) (g x)) xs m)"
  by (induction xs arbitrary: m) (simp_all add: inv_insert)

lemma get_inserts:
  "om_inv m \<Longrightarrow> om_get (fold (\<lambda>x. om_insert (f x) (g x)) xs m) k =
     (case find (\<lambda>x. f x = k) (rev xs) of None \<Rightarrow> om_get m k | Some x \<Rightarrow> Some (g x))"
proof (induction xs arbitrary: m)
  case (Cons x xs)
  have find_app: "find P (ys @ [y]) = (case find P ys of None \<Rightarrow> if P y then Some y else None
      | Some z \<Rightarrow> Some z)" for P and y :: 'c and ys
    by (induction ys) auto
  from Cons.IH [OF inv_insert [OF Cons.prems]] Cons.prems show ?case
    by (simp add: find_app get_insert split: option.splits)
qed simp

lemma keys_inserts:
  assumes "om_inv m"
  shows "set (om_keys (fold (\<lambda>x. om_insert (f x) (g x)) xs m)) = set (om_keys m) \<union> f ` set xs"
  using assms by (induction xs arbitrary: m) (auto simp: inv_insert keys_insert)

lemma keys_inserts_eq:
  "om_keys (fold (\<lambda>x. om_insert (f x) (g x)) xs om_empty) = sorted_set (map f xs)"
proof (rule sorted_distinct_set_unique)
  let ?m = "fold (\<lambda>x. om_insert (f x) (g x)) xs om_empty"
  have inv: "om_inv ?m" by (rule inv_inserts [OF inv_empty])
  from keys_sorted [OF inv] show "sorted (om_keys ?m)" "distinct (om_keys ?m)" by simp_all
  show "set (om_keys ?m) = set (sorted_set (map f xs))"
    by (simp add: keys_inserts [OF inv_empty] keys_empty)
qed simp_all

end

type_synonym ('k, 'v) btree_map = "('k \<times> 'v) list"

fun bt_insert :: "'k::linorder \<Rightarrow> 'v \<Rightarrow> ('k, 'v) btree_map \<Rightarrow> ('k, 'v) btree_map" where
  "bt_insert k v [] = [(k, v)]"
| "bt_insert k v (e # es) =
     (if fst e < k then e # bt_insert k v es
      else if fst e = k then (k, v) # es
      else (k, v) # e # es)"

definition bt_get :: "('k, 'v) btree_map \<Rightarrow> 'k \<Rightarrow> 'v option" where
  "bt_get m k = map_of m k"

definition bt_remove :: "'k \<Rightarrow> ('k, 'v) btree_map \<Rightarrow> ('k, 'v) btree_map" where
  "bt_remove k m = filter (\<lambda>e. fst e \<noteq> k) m"

definition bt_keys :: "('k, 'v) btree_map \<Rightarrow> 'k list" where
  "bt_keys m = map fst m"

definition bt_values :: "('k, 'v) btree_map \<Rightarrow> 'v list" where
  "bt_values m = map snd m"

definition bt_inv :: "('k::linorder, 'v) btree_map \<Rightarrow> bool" where
  "bt_inv m \<longleftrightarrow> sorted_wrt (<) (map fst m)"

lemma bt_keys_insert: "set (bt_keys (bt_insert k v m)) = insert k (set (bt_keys m))"
  by (induction m) (auto simp: bt_keys_def)

lemma bt_inv_insert [intro]: "bt_inv m \<Longrightarrow> bt_inv (bt_insert k v m)"
proof (induction m)
  case (Cons e es)
  then show ?case
    using bt_keys_insert [of k v es] by (auto simp: bt_inv_def bt_keys_def)
qed (simp add: bt_inv_def)

lemma bt_get_insert [simp]: "bt_inv m \<Longrightarrow> bt_get (bt_insert k v m) j = (if j = k then Some v else bt_get m j)"
proof (induction m)
  case (Cons e es)
  have "k \<notin> fst ` set es" if "k < fst e"
    using Cons.prems that by (force simp: bt_inv_def)
  then have "map_of es k = None" if "k < fst e"
    using that by (simp add: map_of_eq_None_iff)
  with Cons show ?case by (cases e) (auto simp: bt_inv_def bt_get_def)
qed (simp add: bt_get_def)

lemma bt_inv_strict: "bt_inv m \<longleftrightarrow> sorted (map fst m) \<and> distinct (map fst m)"
  by (auto simp: bt_inv_def strict_sorted_iff)

lemma bt_inv_remove [intro]: "bt_inv m \<Longrightarrow> bt_inv (bt_remove k m)"
  by (induction m) (auto simp: bt_inv_def bt_remove_def)

lemma bt_get_remove [simp]: "bt_get (bt_remove k m) j = (if j = k then None else bt_get m j)"
  by (induction m) (auto simp: bt_get_def bt_remove_def)

lemma bt_inv_Nil [simp, intro]: "bt_inv []"
  by (simp add: bt_inv_def)

lemma bt_get_Nil [simp]: "bt_get [] k = None"
  by (simp add: bt_get_def)

lemma bt_entry: "bt_inv m \<Longrightarrow> (k, v) \<in> set m \<longleftrightarrow> bt_get m k = Some v"
  by (simp add: bt_get_def bt_inv_strict)

lemma bt_values_get: "bt_inv m \<Longrightarrow> v \<in> set (bt_values m) \<longleftrightarrow> (\<exists>k. bt_get m k = Some v)"
  by (auto simp: bt_values_def bt_entry [symmetric] image_iff) force

lemma bt_keys_dom: "set (bt_keys m) = {k. bt_get m k \<noteq> None}"
  by (auto simp: bt_keys_def bt_get_def map_of_eq_None_iff)

interpretation btm: ordered_map "[]" bt_insert bt_get bt_keys bt_inv
proof unfold_locales
  show "sorted (bt_keys m) \<and> distinct (bt_keys m)" if "bt_inv m" for m :: "('a, 'b) btree_map"
    using that by (simp add: bt_inv_strict bt_keys_def)
qed (auto simp: bt_keys_dom)

text \<open>Two ordered maps with the same lookups are the same list.\<close>

lemma bt_ext:
  assumes "bt_inv m" "bt_inv n" "\<And>k. bt_get m k = bt_get n k"
  shows "m = n"
  using assms
proof (induction m arbitrary: n)
  case Nil
  then have "set (bt_keys n) = {}" using btm.keys_dom [of n] by simp
  then show ?case by (simp add: bt_keys_def)
next
  case (Cons e es)
  obtain f fs where n: "n = f # fs"
    using Cons.prems(3) [of "fst e"] by (cases n) (auto simp: bt_get_def)
  have head: "fst e = fst f"
  proof (rule ccontr)
    assume "fst e \<noteq> fst f"
    moreover have keys: "set (bt_keys (e # es)) = set (bt_keys n)"
      using Cons.prems(3) by (simp add: bt_keys_dom)
    have "fst f \<in> set (bt_keys (e # es))" unfolding keys by (simp add: n bt_keys_def)
    moreover have "fst e \<in> set (bt_keys n)" unfolding keys [symmetric] by (simp add: bt_keys_def)
    ultimately have "fst f \<in> fst ` set es" "fst e \<in> fst ` set fs"
      using n by (auto simp: bt_keys_def)
    then have "fst e < fst f" "fst f < fst e"
      using Cons.prems(1,2) n by (auto simp: bt_inv_def)
    then show False by simp
  qed
  have notin: "bt_get es (fst e) = None" "bt_get fs (fst e) = None"
    using Cons.prems(1,2) n head by (force simp: bt_inv_strict bt_get_def map_of_eq_None_iff)+
  have "snd e = snd f"
    using Cons.prems(3) [of "fst e"] n head by (simp add: bt_get_def)
  moreover have "es = fs"
  proof (rule Cons.IH)
    show "bt_inv es" "bt_inv fs" using Cons.prems(1,2) n by (auto simp: bt_inv_def)
    show "bt_get es k = bt_get fs k" for k
      using Cons.prems(3) [of k] notin n head by (cases "k = fst e") (auto simp: bt_get_def)
  qed
  ultimately show ?case using n head by (simp add: prod_eq_iff)
qed

end
