(* ===== verification/Rust_Text.thy ===== *)
theory Rust_Text
  imports Prelude
begin

text \<open>
  Rust's \<open>str\<close>: a \<open>string\<close> of HOL is the list of the UTF-8 bytes, so \<open>length\<close> is
  \<open>str::len\<close>, and a byte list splits into characters at its lead bytes. Here are the
  operations of the standard library the source uses on it (prefixes, substrings, lines,
  white space, decimal numbers, path components) with their general lemmas.
\<close>

abbreviation LF :: char where "LF \<equiv> CHR 0x0A"
abbreviation CR :: char where "CR \<equiv> CHR 0x0D"
abbreviation NUL :: char where "NUL \<equiv> CHR 0x00"
abbreviation TAB :: char where "TAB \<equiv> CHR 0x09"
abbreviation BACKSLASH :: char where "BACKSLASH \<equiv> CHR 0x5C"
abbreviation BACKTICK :: char where "BACKTICK \<equiv> CHR 0x60"

definition byte :: "char \<Rightarrow> nat" where
  "byte c = of_char c"

section \<open>Prefixes, suffixes and substrings\<close>

definition strip_prefix :: "string \<Rightarrow> string \<Rightarrow> string option" where
  "strip_prefix p s = (if take (length p) s = p then Some (drop (length p) s) else None)"

definition strip_suffix :: "string \<Rightarrow> string \<Rightarrow> string option" where
  "strip_suffix p s = map_option rev (strip_prefix (rev p) (rev s))"

definition starts_with :: "string \<Rightarrow> string \<Rightarrow> bool" where
  "starts_with p s \<longleftrightarrow> take (length p) s = p"

definition ends_with :: "string \<Rightarrow> string \<Rightarrow> bool" where
  "ends_with p s \<longleftrightarrow> starts_with (rev p) (rev s)"

lemma starts_with_iff: "starts_with p s \<longleftrightarrow> (\<exists>r. s = p @ r)"
  unfolding starts_with_def by (metis append_eq_conv_conj append_take_drop_id)

lemma starts_with_append [simp]: "starts_with p (p @ r)"
  by (auto simp: starts_with_iff)

lemma ends_with_iff: "ends_with p s \<longleftrightarrow> (\<exists>r. s = r @ p)"
  unfolding ends_with_def starts_with_iff by (metis rev_append rev_rev_ident)

lemma strip_prefix_Some [text_simps]: "strip_prefix p s = Some r \<longleftrightarrow> s = p @ r"
  unfolding strip_prefix_def by (metis append_eq_conv_conj append_take_drop_id option.discI option.inject)

lemma strip_prefix_None: "strip_prefix p s = None \<longleftrightarrow> \<not> starts_with p s"
  by (simp add: strip_prefix_def starts_with_def)

lemma strip_prefix_append [simp]: "strip_prefix p (p @ r) = Some r"
  by (simp add: text_simps)

lemma strip_suffix_Some [text_simps]: "strip_suffix p s = Some r \<longleftrightarrow> s = r @ p"
  unfolding strip_suffix_def map_option_eq_Some strip_prefix_Some
  by (metis rev_append rev_rev_ident)

lemma strip_suffix_append [simp]: "strip_suffix p (r @ p) = Some r"
  by (simp add: text_simps)

fun contains_sub :: "string \<Rightarrow> string \<Rightarrow> bool" where
  "contains_sub p [] = (p = [])"
| "contains_sub p (c # cs) = (starts_with p (c # cs) \<or> contains_sub p cs)"

lemma contains_sub_iff: "contains_sub p s \<longleftrightarrow> (\<exists>a b. s = a @ p @ b)"
proof (induction s)
  case (Cons c cs)
  have "(\<exists>a b. c # cs = a @ p @ b) \<longleftrightarrow> (\<exists>b. c # cs = p @ b) \<or> (\<exists>a b. cs = a @ p @ b)"
    by (auto simp: Cons_eq_append_conv)
  with Cons show ?case by (simp add: starts_with_iff)
qed simp

lemma contains_sub_mono: "contains_sub p s \<Longrightarrow> contains_sub p (a @ s @ b)"
  unfolding contains_sub_iff by (metis append.assoc)

lemma contains_sub_set: "contains_sub p s \<Longrightarrow> set p \<subseteq> set s"
  by (auto simp: contains_sub_iff)

text \<open>\<open>str::find\<close> with a string pattern: the byte index of the first occurrence.\<close>

fun find_sub :: "string \<Rightarrow> string \<Rightarrow> nat option" where
  "find_sub p [] = (if p = [] then Some 0 else None)"
| "find_sub p (c # cs) =
     (if starts_with p (c # cs) then Some 0 else map_option Suc (find_sub p cs))"

lemma find_sub_None: "find_sub p s = None \<longleftrightarrow> \<not> contains_sub p s"
  by (induction s) auto

lemma find_sub_Some:
  "find_sub p s = Some i \<Longrightarrow>
     s = take i s @ p @ drop (i + length p) s \<and> i + length p \<le> length s"
proof (induction s arbitrary: i)
  case (Cons c cs)
  show ?case
  proof (cases "starts_with p (c # cs)")
    case True
    then obtain r where "c # cs = p @ r" by (auto simp: starts_with_iff)
    moreover from True Cons.prems have "i = 0" by simp
    ultimately show ?thesis by simp
  next
    case False
    with Cons.prems obtain j where "find_sub p cs = Some j" "i = Suc j" by auto
    with Cons.IH [of j] show ?thesis by simp
  qed
qed (simp split: if_splits)

lemma find_sub_first:
  "find_sub p s = Some i \<Longrightarrow> j < i \<Longrightarrow> \<not> starts_with p (drop j s)"
proof (induction s arbitrary: i j)
  case (Cons c cs)
  show ?case
  proof (cases "starts_with p (c # cs)")
    case False
    with Cons.prems(1) obtain i' where i': "find_sub p cs = Some i'" "i = Suc i'" by auto
    then show ?thesis using False Cons.IH [OF i'(1)] Cons.prems(2) by (cases j) auto
  qed (use Cons.prems in simp)
qed (simp split: if_splits)

lemma find_sub_le: "find_sub p s = Some i \<Longrightarrow> i \<le> length s"
  by (drule find_sub_Some) simp

text \<open>\<open>match_indices(p).count()\<close>: occurrences that do not overlap, from the left.\<close>

function count_sub :: "string \<Rightarrow> string \<Rightarrow> nat" where
  "count_sub p s =
     (if p = [] then length s + 1
      else case find_sub p s of None \<Rightarrow> 0 | Some i \<Rightarrow> Suc (count_sub p (drop (i + length p) s)))"
  by pat_completeness auto
termination
  by (relation "measure (\<lambda>(p, s). length s)") (auto dest!: find_sub_Some intro!: diff_less)

declare count_sub.simps [simp del]

lemma count_sub_1:
  assumes "count_sub p s = 1" "p \<noteq> []"
  obtains a b where "s = a @ p @ b" "find_sub p s = Some (length a)" "\<not> contains_sub p b"
proof -
  from assms obtain i where i: "find_sub p s = Some i" "count_sub p (drop (i + length p) s) = 0"
    by (subst (asm) count_sub.simps) (auto split: option.splits)
  from i(2) assms(2) have "\<not> contains_sub p (drop (i + length p) s)"
    by (subst (asm) count_sub.simps) (auto split: option.splits simp: find_sub_None)
  with find_sub_Some [OF i(1)] i(1) that [of "take i s" "drop (i + length p) s"] show ?thesis
    by simp
qed

definition contains_any :: "char list \<Rightarrow> string \<Rightarrow> bool" where
  "contains_any cs s \<longleftrightarrow> list_ex (\<lambda>c. c \<in> set cs) s"

lemma contains_any_iff: "contains_any cs s \<longleftrightarrow> set s \<inter> set cs \<noteq> {}"
  by (auto simp: contains_any_def list_ex_iff)

definition split_once :: "string \<Rightarrow> string \<Rightarrow> (string \<times> string) option" where
  "split_once p s = map_option (\<lambda>i. (take i s, drop (i + length p) s)) (find_sub p s)"

section \<open>Splitting and joining\<close>

fun split_char :: "char \<Rightarrow> string \<Rightarrow> string list" where
  "split_char d [] = [[]]"
| "split_char d (c # cs) =
     (if c = d then [] # split_char d cs
      else case split_char d cs of [] \<Rightarrow> [[c]] | x # xs \<Rightarrow> (c # x) # xs)"

fun join :: "string \<Rightarrow> string list \<Rightarrow> string" where
  "join sep [] = []"
| "join sep [x] = x"
| "join sep (x # y # ys) = x @ sep @ join sep (y # ys)"

lemma split_char_nonempty [simp]: "split_char d s \<noteq> []"
  by (induction s) (auto split: list.splits)

lemma join_Cons: "xs \<noteq> [] \<Longrightarrow> join sep (x # xs) = x @ sep @ join sep xs"
  by (cases xs) auto

lemma join_split_char [simp]: "join [d] (split_char d s) = s"
proof (induction s)
  case (Cons c cs)
  then show ?case
    by (cases "split_char d cs") (auto simp: join_Cons, (cases "tl (split_char d cs)"; simp)+)
qed simp

lemma split_char_pieces: "x \<in> set (split_char d s) \<Longrightarrow> d \<notin> set x \<and> set x \<subseteq> set s"
proof (induction s arbitrary: x)
  case (Cons c cs)
  obtain y ys where y: "split_char d cs = y # ys" by (cases "split_char d cs") auto
  then have IH: "d \<notin> set z" "set z \<subseteq> set cs" if "z \<in> set (y # ys)" for z
    using Cons.IH [of z] that by simp_all
  have "d \<notin> set x \<and> set x \<subseteq> insert c (set cs)"
  proof (cases "c = d")
    case True
    with Cons.prems y IH [of x] show ?thesis by auto
  next
    case False
    with Cons.prems y have "x = c # y \<or> x \<in> set ys" by auto
    with False IH [of x] IH [of y] show ?thesis by auto
  qed
  then show ?case by simp
qed auto

lemma split_char_no: "d \<notin> set s \<Longrightarrow> split_char d s = [s]"
  by (induction s) auto

lemma split_char_append: "d \<notin> set x \<Longrightarrow> split_char d (x @ d # s) = x # split_char d s"
  by (induction x) auto

lemma split_join:
  "xs \<noteq> [] \<Longrightarrow> (\<forall>x \<in> set xs. d \<notin> set x) \<Longrightarrow> split_char d (join [d] xs) = xs"
  by (induction xs rule: induct_list012) (auto simp: split_char_no split_char_append)

text \<open>
  \<open>str::lines\<close>: pieces that end at a line feed, with the line feed and one carriage
  return before it removed; the rest after the last line feed is a line unless empty.
\<close>

definition strip_cr :: "string \<Rightarrow> string" where
  "strip_cr l = (case strip_suffix [CR] l of None \<Rightarrow> l | Some l' \<Rightarrow> l')"

definition lines :: "string \<Rightarrow> string list" where
  "lines s = (let ps = split_char LF s
     in map strip_cr (butlast ps) @ (if last ps = [] then [] else [last ps]))"

section \<open>ASCII classes and case\<close>

definition is_ascii_digit :: "char \<Rightarrow> bool" where
  "is_ascii_digit c \<longleftrightarrow> 48 \<le> byte c \<and> byte c \<le> 57"

definition is_ascii_upper :: "char \<Rightarrow> bool" where
  "is_ascii_upper c \<longleftrightarrow> 65 \<le> byte c \<and> byte c \<le> 90"

definition is_ascii_lower :: "char \<Rightarrow> bool" where
  "is_ascii_lower c \<longleftrightarrow> 97 \<le> byte c \<and> byte c \<le> 122"

definition is_ascii_alphanumeric :: "char \<Rightarrow> bool" where
  "is_ascii_alphanumeric c \<longleftrightarrow> is_ascii_digit c \<or> is_ascii_upper c \<or> is_ascii_lower c"

definition is_ascii_hexdigit :: "char \<Rightarrow> bool" where
  "is_ascii_hexdigit c \<longleftrightarrow> is_ascii_digit c \<or> (65 \<le> byte c \<and> byte c \<le> 70)
     \<or> (97 \<le> byte c \<and> byte c \<le> 102)"

definition ascii_lower :: "char \<Rightarrow> char" where
  "ascii_lower c = (if is_ascii_upper c then char_of (byte c + 32) else c)"

definition to_ascii_lowercase :: "string \<Rightarrow> string" where
  "to_ascii_lowercase s = map ascii_lower s"

definition eq_ignore_ascii_case :: "string \<Rightarrow> string \<Rightarrow> bool" where
  "eq_ignore_ascii_case a b \<longleftrightarrow> to_ascii_lowercase a = to_ascii_lowercase b"

section \<open>Characters of the UTF-8 encoding\<close>

definition is_continuation :: "char \<Rightarrow> bool" where
  "is_continuation c \<longleftrightarrow> 128 \<le> byte c \<and> byte c < 192"

function chars :: "string \<Rightarrow> string list" where
  "chars [] = []"
| "chars (c # cs) =
     (if byte c < 128 then [c] # chars cs
      else (c # takeWhile is_continuation cs) # chars (dropWhile is_continuation cs))"
  by pat_completeness auto
termination
  by (relation "measure length") (auto simp: le_imp_less_Suc length_dropWhile_le)

lemma concat_chars [simp]: "concat (chars s) = s"
  by (induction s rule: chars.induct) auto

lemma chars_nonempty: "x \<in> set (chars s) \<Longrightarrow> x \<noteq> []"
  by (induction s rule: chars.induct) (auto split: if_splits)

text \<open>A character is one ASCII byte or consists of bytes above the ASCII range.\<close>

lemma chars_ascii:
  "u \<in> set (chars s) \<Longrightarrow> (\<exists>c. u = [c] \<and> byte c < 128) \<or> (\<forall>c \<in> set u. 128 \<le> byte c)"
proof (induction s rule: chars.induct)
  case (2 c cs)
  have rest: "\<forall>d \<in> set (takeWhile is_continuation cs). 128 \<le> byte d"
    by (auto simp: is_continuation_def dest: set_takeWhileD)
  show ?case
  proof (cases "byte c < 128")
    case True
    with 2 show ?thesis by simp blast
  next
    case False
    then consider "u = c # takeWhile is_continuation cs"
      | "u \<in> set (chars (dropWhile is_continuation cs))" using "2.prems" by auto
    then show ?thesis using False rest 2 by cases auto
  qed
qed simp

text \<open>The Unicode property \<open>White_Space\<close>, and the control characters (category Cc).\<close>

definition is_whitespace :: "string \<Rightarrow> bool" where
  "is_whitespace u = (case map byte u of
       [a] \<Rightarrow> (9 \<le> a \<and> a \<le> 13) \<or> a = 32
     | [a, b] \<Rightarrow> a = 194 \<and> (b = 133 \<or> b = 160)
     | [a, b, c] \<Rightarrow> (a = 225 \<and> b = 154 \<and> c = 128)
         \<or> (a = 226 \<and> b = 128 \<and> ((128 \<le> c \<and> c \<le> 138) \<or> c = 168 \<or> c = 169 \<or> c = 175))
         \<or> (a = 226 \<and> b = 129 \<and> c = 159) \<or> (a = 227 \<and> b = 128 \<and> c = 128)
     | _ \<Rightarrow> False)"

definition is_control :: "string \<Rightarrow> bool" where
  "is_control u = (case map byte u of
       [a] \<Rightarrow> a < 32 \<or> a = 127
     | [a, b] \<Rightarrow> a = 194 \<and> 128 \<le> b \<and> b < 160
     | _ \<Rightarrow> False)"

definition trim :: "string \<Rightarrow> string" where
  "trim s = concat (rev (dropWhile is_whitespace (rev (dropWhile is_whitespace (chars s)))))"

fun words_of :: "string list \<Rightarrow> string \<Rightarrow> string list" where
  "words_of [] w = (if w = [] then [] else [w])"
| "words_of (u # us) w =
     (if is_whitespace u then (if w = [] then words_of us [] else w # words_of us [])
      else words_of us (w @ u))"

definition split_whitespace :: "string \<Rightarrow> string list" where
  "split_whitespace s = words_of (chars s) []"

lemma all_dropWhile: "(\<forall>x \<in> set (dropWhile P xs). P x) \<longleftrightarrow> (\<forall>x \<in> set xs. P x)"
  by (induction xs) auto

lemma concat_dropWhile_chars:
  "set ys \<subseteq> set (chars s) \<Longrightarrow> concat ys = [] \<longleftrightarrow> ys = []"
  using chars_nonempty [of _ s] by (cases ys) auto

lemma trim_empty_iff: "trim s = [] \<longleftrightarrow> (\<forall>u \<in> set (chars s). is_whitespace u)"
proof -
  let ?d = "dropWhile is_whitespace (chars s)"
  let ?e = "dropWhile is_whitespace (rev ?d)"
  have "set (rev ?e) \<subseteq> set (chars s)"
    by (auto dest!: set_dropWhileD)
  then have "trim s = [] \<longleftrightarrow> ?e = []"
    unfolding trim_def by (subst concat_dropWhile_chars) simp_all
  also have "\<dots> \<longleftrightarrow> (\<forall>u \<in> set ?d. is_whitespace u)"
    by (simp add: dropWhile_eq_Nil_conv)
  finally show ?thesis by (simp only: all_dropWhile)
qed

lemma trim_Nil [simp]: "trim [] = []"
  by (simp add: trim_def)

lemma trim_nonempty: "trim s \<noteq> [] \<Longrightarrow> s \<noteq> []"
  by auto

text \<open>\<open>is_char_boundary\<close> and the largest boundary not above an index.\<close>

definition is_char_boundary :: "string \<Rightarrow> nat \<Rightarrow> bool" where
  "is_char_boundary s i \<longleftrightarrow>
     i = 0 \<or> i = length s \<or> (i < length s \<and> \<not> is_continuation (s ! i))"

section \<open>Decimal numbers\<close>

abbreviation i64_max :: int where "i64_max \<equiv> 9223372036854775807"
abbreviation i64_min :: int where "i64_min \<equiv> - 9223372036854775808"
abbreviation i32_max :: int where "i32_max \<equiv> 2147483647"
abbreviation i32_min :: int where "i32_min \<equiv> - 2147483648"
abbreviation u64_max :: nat where "u64_max \<equiv> 18446744073709551615"
abbreviation u32_max :: nat where "u32_max \<equiv> 4294967295"

fun show_nat :: "nat \<Rightarrow> string" where
  "show_nat n = (if n < 10 then [char_of (48 + n)] else show_nat (n div 10) @ [char_of (48 + n mod 10)])"

declare show_nat.simps [simp del]

definition show_int :: "int \<Rightarrow> string" where
  "show_int i = (if i < 0 then CHR ''-'' # show_nat (nat (- i)) else show_nat (nat i))"

fun digits_value :: "nat \<Rightarrow> string \<Rightarrow> nat option" where
  "digits_value acc [] = Some acc"
| "digits_value acc (c # cs) =
     (if is_ascii_digit c then digits_value (10 * acc + (byte c - 48)) cs else None)"

definition parse_digits :: "string \<Rightarrow> nat option" where
  "parse_digits s = (if s = [] then None else digits_value 0 s)"

definition parse_unsigned :: "nat \<Rightarrow> string \<Rightarrow> nat option" where
  "parse_unsigned hi s =
     (case parse_digits (case s of c # cs \<Rightarrow> if c = CHR ''+'' then cs else s | [] \<Rightarrow> []) of
        None \<Rightarrow> None | Some n \<Rightarrow> if n \<le> hi then Some n else None)"

definition parse_signed :: "int \<Rightarrow> int \<Rightarrow> string \<Rightarrow> int option" where
  "parse_signed lo hi s =
     (let v = (case s of
          [] \<Rightarrow> None
        | c # cs \<Rightarrow> if c = CHR ''-'' then map_option (\<lambda>n. - int n) (parse_digits cs)
                   else if c = CHR ''+'' then map_option int (parse_digits cs)
                   else map_option int (parse_digits s))
      in case v of None \<Rightarrow> None | Some i \<Rightarrow> if lo \<le> i \<and> i \<le> hi then Some i else None)"

abbreviation parse_i64 :: "string \<Rightarrow> i64 option" where "parse_i64 \<equiv> parse_signed i64_min i64_max"
abbreviation parse_u64 :: "string \<Rightarrow> u64 option" where "parse_u64 \<equiv> parse_unsigned u64_max"

lemma byte_digit: "d < 10 \<Longrightarrow> byte (char_of (48 + d)) = 48 + d"
  by (simp add: byte_def)

lemma is_ascii_digit_char_of [simp]: "(d :: nat) < 10 \<Longrightarrow> is_ascii_digit (char_of (48 + d))"
  by (simp add: is_ascii_digit_def byte_digit)

lemma digits_value_append:
  "digits_value acc (xs @ ys) =
     (case digits_value acc xs of None \<Rightarrow> None | Some n \<Rightarrow> digits_value n ys)"
  by (induction xs arbitrary: acc) auto

lemma show_nat_nonempty [simp]: "show_nat n \<noteq> []"
  by (subst show_nat.simps) simp

lemma show_nat_digits: "c \<in> set (show_nat n) \<Longrightarrow> is_ascii_digit c"
proof (induction n rule: show_nat.induct)
  case (1 n)
  from "1.prems" show ?case
    by (subst (asm) show_nat.simps) (auto split: if_splits intro: "1.IH")
qed

lemma digits_value_show_nat: "digits_value 0 (show_nat n) = Some n"
proof (induction n rule: show_nat.induct)
  case (1 n)
  show ?case
    by (subst show_nat.simps) (auto simp: "1.IH" digits_value_append byte_digit)
qed

lemma parse_digits_show_nat [simp]: "parse_digits (show_nat n) = Some n"
  by (simp add: parse_digits_def digits_value_show_nat)

lemma show_nat_no_sign: "hd (show_nat n) \<noteq> CHR ''-''" "hd (show_nat n) \<noteq> CHR ''+''"
proof -
  have "is_ascii_digit (hd (show_nat n))" by (rule show_nat_digits [of _ n]) simp
  then show "hd (show_nat n) \<noteq> CHR ''-''" "hd (show_nat n) \<noteq> CHR ''+''"
    by (auto simp: is_ascii_digit_def byte_def)
qed

lemma parse_unsigned_show_nat [simp]: "n \<le> hi \<Longrightarrow> parse_unsigned hi (show_nat n) = Some n"
  using show_nat_no_sign [of n] parse_digits_show_nat [of n]
  by (cases "show_nat n") (auto simp: parse_unsigned_def)

lemma parse_signed_show_int [simp]:
  assumes "lo \<le> i" "i \<le> hi"
  shows "parse_signed lo hi (show_int i) = Some i"
proof (cases "i < 0")
  case True
  with assms show ?thesis by (simp add: parse_signed_def show_int_def)
next
  case False
  obtain c cs where c: "show_nat (nat i) = c # cs" by (cases "show_nat (nat i)") auto
  then have "c \<noteq> CHR ''-''" "c \<noteq> CHR ''+''" using show_nat_no_sign [of "nat i"] by simp_all
  moreover have "parse_digits (c # cs) = Some (nat i)" by (simp flip: c)
  ultimately show ?thesis using False assms by (simp add: parse_signed_def show_int_def c)
qed

lemma parse_signed_range: "parse_signed lo hi s = Some i \<Longrightarrow> lo \<le> i \<and> i \<le> hi"
  by (auto simp: parse_signed_def Let_def split: option.splits if_splits)

lemma parse_unsigned_range: "parse_unsigned hi s = Some n \<Longrightarrow> n \<le> hi"
  by (auto simp: parse_unsigned_def split: option.splits if_splits)

section \<open>Unix paths\<close>

datatype component = RootDir | CurDir | ParentDir | Normal string

definition is_absolute :: "string \<Rightarrow> bool" where
  "is_absolute p \<longleftrightarrow> starts_with ''/'' p"

definition piece_components :: "string \<Rightarrow> component list" where
  "piece_components x =
     (if x = '''' \<or> x = ''.'' then [] else if x = ''..'' then [ParentDir] else [Normal x])"

text \<open>
  \<open>Path::components\<close>: repeated and trailing separators and inner \<open>.\<close> are skipped; a
  leading \<open>.\<close> of a relative path is kept.
\<close>

definition path_components :: "string \<Rightarrow> component list" where
  "path_components p =
     (if is_absolute p then [RootDir]
      else if hd (split_char CHR ''/'' p) = ''.'' then [CurDir] else [])
     @ concat (map piece_components (split_char CHR ''/'' p))"

definition is_normal :: "component \<Rightarrow> bool" where
  "is_normal c = (case c of Normal _ \<Rightarrow> True | _ \<Rightarrow> False)"

definition normal_only :: "string \<Rightarrow> bool" where
  "normal_only p \<longleftrightarrow> list_all is_normal (path_components p)"

fun component_text :: "component \<Rightarrow> string" where
  "component_text RootDir = ''/''"
| "component_text CurDir = ''.''"
| "component_text ParentDir = ''..''"
| "component_text (Normal x) = x"

lemma normal_only_relative: "normal_only p \<Longrightarrow> \<not> is_absolute p"
  by (auto simp: normal_only_def path_components_def is_normal_def)

lemma normal_only_no_parent:
  "normal_only p \<Longrightarrow> x \<in> set (split_char CHR ''/'' p) \<Longrightarrow> x \<noteq> ''..''"
  by (auto simp: normal_only_def path_components_def piece_components_def list_all_iff
      is_normal_def split: if_splits component.splits)

end
