(* ===== verification/Gates.thy ===== *)
theory Gates
  imports Rust_Text
begin

text \<open>
  Two contracts that several components share. A \<open>path_gate\<close> is a check on repository
  paths: what it accepts resolves strictly below the directory it is joined to. A
  \<open>branch_gate\<close> is a check on branch names: what it accepts is one harmless argument of a
  \<open>git\<close> command line. Each component's validator is an interpretation.
\<close>

text \<open>Lexical resolution of a path against a directory, both as lists of names.\<close>

fun resolve :: "string list \<Rightarrow> component list \<Rightarrow> string list" where
  "resolve dir [] = dir"
| "resolve dir (RootDir # cs) = resolve [] cs"
| "resolve dir (CurDir # cs) = resolve dir cs"
| "resolve dir (ParentDir # cs) = resolve (butlast dir) cs"
| "resolve dir (Normal x # cs) = resolve (dir @ [x]) cs"

lemma resolve_normal:
  "list_all is_normal cs \<Longrightarrow> resolve dir cs = dir @ map component_text cs"
  by (induction dir cs rule: resolve.induct) (auto simp: is_normal_def)

lemma normal_only_components:
  assumes "normal_only p" "p \<noteq> []"
  shows "path_components p \<noteq> []"
proof
  assume empty: "path_components p = []"
  obtain x xs where x: "split_char CHR ''/'' p = x # xs"
    by (cases "split_char CHR ''/'' p") auto
  from empty x have "x = ''''" and rel: "\<not> is_absolute p"
    by (auto simp: path_components_def piece_components_def split: if_splits)
  moreover have "p = join ''/'' (x # xs)"
    using join_split_char [of "CHR ''/''" p] x by simp
  ultimately have "xs = []"
    by (cases xs) (auto simp: is_absolute_def starts_with_def)
  with \<open>x = ''''\<close> \<open>p = join ''/'' (x # xs)\<close> assms(2) show False by simp
qed

locale path_gate =
  fixes accepts :: "string \<Rightarrow> bool"
  assumes accepts_nonempty: "accepts p \<Longrightarrow> p \<noteq> []"
    and accepts_normal: "accepts p \<Longrightarrow> normal_only p"
begin

lemma accepts_relative: "accepts p \<Longrightarrow> \<not> is_absolute p"
  by (rule normal_only_relative [OF accepts_normal])

lemma accepts_no_parent: "accepts p \<Longrightarrow> ''..'' \<notin> set (split_char CHR ''/'' p)"
  using normal_only_no_parent [OF accepts_normal, of p] by blast

lemma accepts_below:
  assumes "accepts p"
  shows "\<exists>names. names \<noteq> [] \<and> resolve dir (path_components p) = dir @ names"
  using resolve_normal [of "path_components p" dir] accepts_normal [OF assms]
    normal_only_components [OF accepts_normal accepts_nonempty, OF assms assms]
  by (auto simp: normal_only_def)

end

locale branch_gate =
  fixes accepts :: "string \<Rightarrow> bool"
  assumes branch_nonempty: "accepts b \<Longrightarrow> b \<noteq> []"
    and branch_no_dash: "accepts b \<Longrightarrow> \<not> starts_with ''-'' b"
    and branch_one_line: "accepts b \<Longrightarrow> \<not> contains_any [NUL, CR, LF, CHR '' ''] b"
    and branch_no_range: "accepts b \<Longrightarrow> \<not> contains_sub ''..'' b"
begin

text \<open>An accepted branch is a plain argument: no option, no revision range, no white space.\<close>

lemma branch_argument:
  "accepts b \<Longrightarrow> b \<noteq> [] \<and> hd b \<noteq> CHR ''-'' \<and> set b \<inter> {NUL, CR, LF, CHR '' ''} = {}
     \<and> \<not> contains_sub ''..'' b"
  using branch_nonempty [of b] branch_no_dash [of b] branch_one_line [of b] branch_no_range [of b]
  by (cases b) (auto simp: starts_with_def contains_any_iff)

text \<open>In particular it cannot be taken for a full option once it follows \<open>refs/heads/\<close>.\<close>

lemma branch_refspec_no_dash: "accepts b \<Longrightarrow> \<not> starts_with ''-'' (''refs/heads/'' @ b)"
  by (simp add: starts_with_def)

end

end
