(* ===== verification/Json.thy ===== *)
theory Json
  imports Rust_Text "HOL-Library.Word"
begin

text \<open>
  JSON values as the source handles them: the constructors of \<open>serde_json::Value\<close> (an
  object is an ordered map, a number a non-negative or negative integer or the bits of a
  double), the accessors the source calls on them, and the \<open>jsonb\<close> operators of its SQL.
\<close>

datatype json_number = PosInt u64 | NegInt i64 | Float "64 word"

datatype json =
    JNull
  | JBool bool
  | JNum json_number
  | JStr string
  | JArr "json list"
  | JObj "(string, json) btree_map"

section \<open>Accessors\<close>

fun jget :: "string \<Rightarrow> json \<Rightarrow> json option" where
  "jget k (JObj m) = bt_get m k"
| "jget k _ = None"

fun as_str :: "json \<Rightarrow> string option" where
  "as_str (JStr s) = Some s"
| "as_str _ = None"

fun as_bool :: "json \<Rightarrow> bool option" where
  "as_bool (JBool b) = Some b"
| "as_bool _ = None"

fun as_i64 :: "json \<Rightarrow> i64 option" where
  "as_i64 (JNum (PosInt n)) = (if int n \<le> i64_max then Some (int n) else None)"
| "as_i64 (JNum (NegInt i)) = Some i"
| "as_i64 _ = None"

fun as_u64 :: "json \<Rightarrow> u64 option" where
  "as_u64 (JNum (PosInt n)) = Some n"
| "as_u64 _ = None"

fun as_array :: "json \<Rightarrow> json list option" where
  "as_array (JArr xs) = Some xs"
| "as_array _ = None"

fun is_object :: "json \<Rightarrow> bool" where
  "is_object (JObj _) = True"
| "is_object _ = False"

text \<open>An object built from its fields, and an integer literal.\<close>

definition jobj :: "(string \<times> json) list \<Rightarrow> json" where
  "jobj fs = JObj (fold (\<lambda>f. bt_insert (fst f) (snd f)) fs [])"

definition jint :: "int \<Rightarrow> json" where
  "jint i = JNum (if 0 \<le> i then PosInt (nat i) else NegInt i)"

text \<open>
  \<open>Value::pointer\<close>: the reference tokens after the slashes, objects by key and arrays by a
  decimal index without sign or leading zeros. The source's pointers have no escapes.
\<close>

definition array_index :: "string \<Rightarrow> nat option" where
  "array_index t =
     (if starts_with ''+'' t \<or> (starts_with ''0'' t \<and> length t \<noteq> 1) then None else parse_u64 t)"

definition jstep :: "string \<Rightarrow> json \<Rightarrow> json option" where
  "jstep t v = (case v of
       JObj m \<Rightarrow> bt_get m t
     | JArr xs \<Rightarrow> (case array_index t of
           None \<Rightarrow> None | Some i \<Rightarrow> if i < length xs then Some (xs ! i) else None)
     | _ \<Rightarrow> None)"

fun jwalk :: "string list \<Rightarrow> json \<Rightarrow> json option" where
  "jwalk [] v = Some v"
| "jwalk (t # ts) v = Option.bind (jstep t v) (jwalk ts)"

definition pointer :: "string \<Rightarrow> json \<Rightarrow> json option" where
  "pointer p v = (if p = [] then Some v
     else if \<not> starts_with ''/'' p then None
     else jwalk (tl (split_char CHR ''/'' p)) v)"

text \<open>\<open>Option::or_else\<close>.\<close>

definition or_else :: "'a option \<Rightarrow> 'a option \<Rightarrow> 'a option" where
  "or_else a b = (case a of None \<Rightarrow> b | Some _ \<Rightarrow> a)"

lemma or_else_simps [simp]: "or_else None b = b" "or_else (Some x) b = Some x"
  by (simp_all add: or_else_def)

lemma as_str_Some [simp]: "as_str v = Some s \<longleftrightarrow> v = JStr s"
  by (cases v) auto

lemma as_bool_Some [simp]: "as_bool v = Some b \<longleftrightarrow> v = JBool b"
  by (cases v) auto

lemma as_array_Some [simp]: "as_array v = Some xs \<longleftrightarrow> v = JArr xs"
  by (cases v) auto

lemma is_object_iff: "is_object v \<longleftrightarrow> (\<exists>m. v = JObj m)"
  by (cases v) auto

lemma jget_Some: "jget k v = Some x \<Longrightarrow> is_object v"
  by (cases v) auto

section \<open>Well-formed values\<close>

text \<open>Every object has its keys in strictly increasing order, at every depth.\<close>

fun json_wf :: "json \<Rightarrow> bool" where
  "json_wf (JArr xs) = (\<forall>x \<in> set xs. json_wf x)"
| "json_wf (JObj m) = (bt_inv m \<and> (\<forall>e \<in> set m. json_wf (snd e)))"
| "json_wf _ = True"

lemma json_wf_JObj_inv: "json_wf (JObj m) \<Longrightarrow> bt_inv m"
  by simp

lemma bt_inv_jobj [simp]: "bt_inv (fold (\<lambda>f. bt_insert (fst f) (snd f)) fs [])"
  by (rule btm.inv_inserts) simp

section \<open>The \<open>jsonb\<close> operators of the queue's SQL\<close>

text \<open>\<open>v -> 'k'\<close> is \<^const>\<open>jget\<close>: null on anything but an object that has the key.\<close>

definition jsonb_typeof :: "json \<Rightarrow> string" where
  "jsonb_typeof v = (case v of
       JNull \<Rightarrow> ''null'' | JBool _ \<Rightarrow> ''boolean'' | JNum _ \<Rightarrow> ''number''
     | JStr _ \<Rightarrow> ''string'' | JArr _ \<Rightarrow> ''array'' | JObj _ \<Rightarrow> ''object'')"

text \<open>\<open>v ->> 'k'\<close>: strings as they are, null as null, everything else in its printed form.\<close>

definition jsonb_arrow_text :: "(json \<Rightarrow> string) \<Rightarrow> json \<Rightarrow> string \<Rightarrow> string option" where
  "jsonb_arrow_text printed v k = (case jget k v of
       None \<Rightarrow> None | Some JNull \<Rightarrow> None | Some (JStr s) \<Rightarrow> Some s | Some w \<Rightarrow> Some (printed w))"

fun jsonb_elements :: "json \<Rightarrow> json list" where
  "jsonb_elements (JArr xs) = xs"
| "jsonb_elements v = [v]"

text \<open>\<open>a || b\<close>: two objects are merged, the right one winning; otherwise both become arrays.\<close>

fun jsonb_concat :: "json \<Rightarrow> json \<Rightarrow> json" where
  "jsonb_concat (JObj a) (JObj b) = JObj (fold (\<lambda>f. bt_insert (fst f) (snd f)) b a)"
| "jsonb_concat a b = JArr (jsonb_elements a @ jsonb_elements b)"

text \<open>
  \<open>jsonb_set(v, '{k}', x, TRUE)\<close> for a key that is not an index: it fails on a scalar and
  on an array.
\<close>

fun jsonb_set :: "json \<Rightarrow> string \<Rightarrow> json \<Rightarrow> json option" where
  "jsonb_set (JObj m) k x = Some (JObj (bt_insert k x m))"
| "jsonb_set _ k x = None"

lemma jget_jsonb_set:
  "jsonb_set v k x = Some w \<Longrightarrow> json_wf v \<Longrightarrow> jget j w = (if j = k then Some x else jget j v)"
  by (cases v) auto

lemma map_of_eq_find_rev:
  "bt_inv b \<Longrightarrow> map_option snd (find (\<lambda>f. fst f = k) (rev b)) = map_of b k"
proof -
  assume "bt_inv b"
  then have "distinct (map fst b)" by (simp add: bt_inv_strict)
  then have "map_of (rev b) x = map_of b x" for x
  proof (cases "map_of b x")
    case None
    then have "map_of (rev b) x = None" by (simp add: map_of_eq_None_iff)
    with None show ?thesis by simp
  next
    case (Some y)
    then have "(x, y) \<in> set (rev b)" by (simp add: map_of_SomeD)
    moreover have "distinct (map fst (rev b))"
      using \<open>distinct (map fst b)\<close> by (simp flip: rev_map)
    ultimately show ?thesis using Some by (simp add: map_of_is_SomeI)
  qed
  then have "map_of (rev b) = map_of b" ..
  moreover have "map_option snd (find (\<lambda>f. fst f = k) xs) = map_of xs k" for xs :: "('a \<times> 'b) list"
    by (induction xs) auto
  ultimately show ?thesis by metis
qed

lemma bt_get_merge:
  assumes "bt_inv a" "bt_inv b"
  shows "bt_get (fold (\<lambda>f. bt_insert (fst f) (snd f)) b a) k =
     (case bt_get b k of None \<Rightarrow> bt_get a k | Some x \<Rightarrow> Some x)"
  using map_of_eq_find_rev [OF assms(2), of k]
  by (subst btm.get_inserts [OF assms(1)]) (auto simp: bt_get_def split: option.splits)

lemma jget_jsonb_concat:
  "json_wf (JObj a) \<Longrightarrow> json_wf (JObj b) \<Longrightarrow>
     jget k (jsonb_concat (JObj a) (JObj b)) =
       (case jget k (JObj b) of None \<Rightarrow> jget k (JObj a) | Some x \<Rightarrow> Some x)"
  by (simp add: bt_get_merge split: option.split)

end
