(* ===== verification/Policy.thy ===== *)
theory Policy
  imports Gates Json
begin

text \<open>
  The repository policy of \<open>src/policy.rs\<close>: its fields with their defaults, the fixed
  argument vectors of the validation commands, and \<open>Policy::validate\<close> in the order of its
  checks. The YAML decoder, the JSON encoder and SHA-256 are parameters.
\<close>

datatype validation_command =
  GitDiffCheck | MakeCheck | CargoCheck | CargoTest | CargoClippy | NpmCheck

record policy =
  automation_actors :: "string list"
  maintainers :: "string list"
  policy_required_checks :: "string list"
  require_approval :: bool
  require_current_branch :: bool
  reconcile_interval_seconds :: u64
  allow_bot_force_push :: bool
  bot_owned_branches :: "string list"
  repair_allowed_paths :: "string list"
  stack_parents :: "(i32, i32) btree_map"
  validation_commands :: "validation_command list"

datatype policy_error = Invalid string

fun argv :: "validation_command \<Rightarrow> string list" where
  "argv GitDiffCheck = [''git'', ''diff'', ''--cached'', ''--check'', ''--'']"
| "argv MakeCheck = [''make'', ''check'']"
| "argv CargoCheck = [''cargo'', ''check'', ''--locked'']"
| "argv CargoTest = [''cargo'', ''test'', ''--locked'']"
| "argv CargoClippy =
     [''cargo'', ''clippy'', ''--locked'', ''--all-targets'', ''--'', ''-D'', ''warnings'']"
| "argv NpmCheck = [''npm'', ''--prefix'', ''workers/pi'', ''run'', ''check'']"

definition default_policy :: policy where
  "default_policy = \<lparr>
     automation_actors = [],
     maintainers = [],
     policy_required_checks = [],
     require_approval = True,
     require_current_branch = True,
     reconcile_interval_seconds = 300,
     allow_bot_force_push = False,
     bot_owned_branches = [],
     repair_allowed_paths = [],
     stack_parents = [],
     validation_commands = [GitDiffCheck]\<rparr>"

definition bad_repair_path :: "string \<Rightarrow> bool" where
  "bad_repair_path path \<longleftrightarrow>
     path = []
     \<or> contains_any [BACKSLASH, NUL, CR, LF] path
     \<or> is_absolute path
     \<or> \<not> normal_only path"

definition bad_branch :: "string \<Rightarrow> bool" where
  "bad_branch branch \<longleftrightarrow>
     branch = []
     \<or> length branch > 255
     \<or> branch = ''.''
     \<or> branch = ''..''
     \<or> starts_with ''-'' branch
     \<or> starts_with ''/'' branch
     \<or> ends_with ''/'' branch
     \<or> ends_with ''.'' branch
     \<or> branch = ''@''
     \<or> contains_sub ''//'' branch
     \<or> contains_sub [CHR ''@'', CHR ''{''] branch
     \<or> contains_any [NUL, CR, LF, CHR '' '', CHR ''~'', CHR ''^'', CHR '':'', CHR ''?'',
           CHR ''*'', CHR ''['', BACKSLASH] branch
     \<or> contains_sub ''..'' branch
     \<or> list_ex (\<lambda>b. byte b < 32 \<or> byte b = 127) branch
     \<or> list_ex (\<lambda>c. c = '''' \<or> c = ''.'' \<or> c = ''..'') (split_char CHR ''/'' branch)"

definition validate :: "policy \<Rightarrow> (policy_error, unit) result" where
  "validate p =
     and_then (reject_if (reconcile_interval_seconds p < 30)
       (Invalid ''reconcile_interval_seconds must be at least 30'')) (\<lambda>_.
     and_then (reject_if (list_ex (\<lambda>actor. trim actor = []) (automation_actors p))
       (Invalid ''automation_actors cannot contain empty values'')) (\<lambda>_.
     and_then (reject_if (list_ex (\<lambda>maintainer. trim maintainer = []) (maintainers p))
       (Invalid ''maintainers cannot contain empty values'')) (\<lambda>_.
     and_then (reject_if (list_ex bad_repair_path (repair_allowed_paths p))
       (Invalid ''repair_allowed_paths must contain canonical repository-relative paths'')) (\<lambda>_.
     and_then (reject_if (list_ex bad_branch (bot_owned_branches p))
       (Invalid ''bot_owned_branches must contain valid branch names'')) (\<lambda>_.
     and_then (reject_if (allow_bot_force_push p \<and> bot_owned_branches p = [])
       (Invalid ''allow_bot_force_push requires bot_owned_branches'')) (\<lambda>_.
     and_then (reject_if (list_ex (\<lambda>(child, parent). child = parent) (stack_parents p))
       (Invalid ''stack_parents cannot point a pull request to itself'')) (\<lambda>_.
     Ok ())))))))"

definition from_yaml ::
  "(string \<Rightarrow> (string, policy) result) \<Rightarrow> string \<Rightarrow> (policy_error, policy) result" where
  "from_yaml yaml source =
     and_then (map_err Invalid (yaml source)) (\<lambda>p.
     and_then (validate p) (\<lambda>_. Ok p))"

definition revision :: "(policy \<Rightarrow> string) \<Rightarrow> (string \<Rightarrow> string) \<Rightarrow> policy \<Rightarrow> string" where
  "revision to_vec sha256_hex p = ''sha256:'' @ sha256_hex (to_vec p)"

definition is_configured_automation_actor :: "policy \<Rightarrow> string \<Rightarrow> bool" where
  "is_configured_automation_actor p login = list_ex (\<lambda>actor. actor = login) (automation_actors p)"

section \<open>What a validated policy guarantees\<close>

definition policy_ok :: "policy \<Rightarrow> bool" where
  "policy_ok p \<longleftrightarrow>
     30 \<le> reconcile_interval_seconds p
     \<and> (\<forall>a \<in> set (automation_actors p). trim a \<noteq> [])
     \<and> (\<forall>m \<in> set (maintainers p). trim m \<noteq> [])
     \<and> (\<forall>q \<in> set (repair_allowed_paths p). \<not> bad_repair_path q)
     \<and> (\<forall>b \<in> set (bot_owned_branches p). \<not> bad_branch b)
     \<and> (allow_bot_force_push p \<longrightarrow> bot_owned_branches p \<noteq> [])
     \<and> (\<forall>(child, parent) \<in> set (stack_parents p). child \<noteq> parent)"

lemma validate_Ok: "validate p = Ok () \<longleftrightarrow> policy_ok p"
  by (auto simp: validate_def policy_ok_def and_then_Ok list_ex_iff)

lemma is_configured_iff: "is_configured_automation_actor p l \<longleftrightarrow> l \<in> set (automation_actors p)"
  by (auto simp: is_configured_automation_actor_def list_ex_iff)

lemma policy_ok_default: "policy_ok default_policy"
  by (simp add: policy_ok_def default_policy_def)

interpretation repair_path: path_gate "\<lambda>p. \<not> bad_repair_path p"
  by unfold_locales (simp_all add: bad_repair_path_def)

interpretation owned_branch: branch_gate "\<lambda>b. \<not> bad_branch b"
  by unfold_locales (auto simp: bad_branch_def contains_any_iff)

section \<open>Properties\<close>

text \<open>
  A policy that \<open>from_yaml\<close> returns is safe to act on, whatever the decoder. Every
  allowed repair path resolves strictly below the directory it is joined to, every branch
  that may be rewritten is one plain \<open>git\<close> argument, force pushes need such a branch, the
  interval is at least 30 seconds and no pull request is its own stack parent.
\<close>

theorem from_yaml_safe:
  assumes "from_yaml yaml source = Ok p"
  shows "(\<forall>q dir. q \<in> set (repair_allowed_paths p) \<longrightarrow>
            (\<exists>names. names \<noteq> [] \<and> resolve dir (path_components q) = dir @ names))
       \<and> (\<forall>b \<in> set (bot_owned_branches p). b \<noteq> [] \<and> hd b \<noteq> CHR ''-''
            \<and> set b \<inter> {NUL, CR, LF, CHR '' ''} = {} \<and> \<not> contains_sub ''..'' b)
       \<and> (allow_bot_force_push p \<longrightarrow> bot_owned_branches p \<noteq> [])
       \<and> 30 \<le> reconcile_interval_seconds p
       \<and> (\<forall>n. (n, n) \<notin> set (stack_parents p))"
proof -
  from assms have "policy_ok p"
    by (auto simp: from_yaml_def and_then_Ok validate_Ok)
  then have paths: "\<And>q. q \<in> set (repair_allowed_paths p) \<Longrightarrow> \<not> bad_repair_path q"
    and branches: "\<And>b. b \<in> set (bot_owned_branches p) \<Longrightarrow> \<not> bad_branch b"
    and rest: "allow_bot_force_push p \<longrightarrow> bot_owned_branches p \<noteq> []"
      "30 \<le> reconcile_interval_seconds p" "\<forall>n. (n, n) \<notin> set (stack_parents p)"
    by (auto simp: policy_ok_def)
  show ?thesis
    using repair_path.accepts_below [OF paths] owned_branch.branch_argument [OF branches] rest
    by blast
qed

definition sample_policy :: policy where
  "sample_policy = default_policy\<lparr>repair_allowed_paths := [''src/lib.rs''],
     bot_owned_branches := [''pitools/stack''], allow_bot_force_push := True,
     stack_parents := [(8, 7)]\<rparr>"

lemma from_yaml_sample: "from_yaml (\<lambda>_. Ok sample_policy) ''...'' = Ok sample_policy"
  by code_simp

theorem from_yaml_safe_witness:
  "from_yaml (\<lambda>_. Ok sample_policy) ''...'' = Ok sample_policy
   \<and> (\<exists>names. names \<noteq> [] \<and> resolve [''work''] (path_components ''src/lib.rs'') = [''work''] @ names)"
proof -
  have "''src/lib.rs'' \<in> set (repair_allowed_paths sample_policy)" by code_simp
  with from_yaml_safe [OF from_yaml_sample] from_yaml_sample show ?thesis by blast
qed

end
