(* ===== verification/Models.thy ===== *)
theory Models
  imports Json
begin

text \<open>
  The data model of \<open>src/models.rs\<close>: pull requests, checks, feedback, the input of the
  readiness evaluation and its result. A readiness reason is ordered by the name its
  derived \<open>Debug\<close> prints, the order the evaluation sorts by.
\<close>

record pull_request_key =
  key_repository_id :: i64
  key_number :: i32

datatype pull_request_state = Pr_Open | Pr_Closed | Pr_Merged

record pull_request_snapshot =
  prs_repository_id :: i64
  prs_github_id :: i64
  prs_number :: i32
  prs_title :: string
  prs_url :: string
  prs_state :: pull_request_state
  prs_draft :: bool
  prs_merged :: bool
  prs_head_sha :: string
  prs_base_sha :: string
  prs_head_branch :: string
  prs_base_branch :: string
  prs_author_login :: string
  prs_updated_at :: timestamp

datatype check_status = Queued | InProgress | Completed | UnknownStatus

datatype check_conclusion =
    Success | Failure | Cancelled | TimedOut | Neutral | Skipped | ActionRequired
  | Stale | StartupFailure | UnknownConclusion

record check_snapshot =
  cs_name :: string
  cs_app_id :: "i64 option"
  cs_required_app_id :: "i64 option"
  cs_status :: check_status
  cs_conclusion :: "check_conclusion option"
  cs_required :: bool

record feedback_snapshot =
  fs_id :: string
  fs_actor_login :: string
  fs_actor_type :: string
  fs_body :: string
  fs_resolved :: bool
  fs_is_automation :: bool

record readiness_input =
  mergeable :: "bool option"
  branch_is_current :: bool
  required_checks :: "check_snapshot list"
  approved :: bool
  approval_count :: usize
  required_approval_count :: usize
  stale_approval_present :: bool
  last_push_approval_required :: bool
  latest_push_approval :: bool
  code_owner_review_required :: bool
  code_owner_review_satisfied :: bool
  unresolved_feedback :: "feedback_snapshot list"
  is_draft :: bool

datatype readiness_reason =
    Draft | MergeabilityUnknown | MergeConflict | BranchOutOfDate | RequiredCheckPending
  | RequiredCheckFailed | RequiredCheckMissing | RequiredCheckWrongApp
  | RequiredReviewMissing | RequiredReviewCountMissing | StaleReview
  | LastPushApprovalMissing | CodeOwnerReviewMissing | UnresolvedAutomationFeedback

record readiness_snapshot =
  ready :: bool
  reason_codes :: "readiness_reason list"
  evaluated_at :: timestamp
  snapshot_id :: uuid

text \<open>The variant names of the derived \<open>Debug\<close>, and the codes of the derived \<open>Serialize\<close>.\<close>

fun debug_name :: "readiness_reason \<Rightarrow> string" where
  "debug_name Draft = ''Draft''"
| "debug_name MergeabilityUnknown = ''MergeabilityUnknown''"
| "debug_name MergeConflict = ''MergeConflict''"
| "debug_name BranchOutOfDate = ''BranchOutOfDate''"
| "debug_name RequiredCheckPending = ''RequiredCheckPending''"
| "debug_name RequiredCheckFailed = ''RequiredCheckFailed''"
| "debug_name RequiredCheckMissing = ''RequiredCheckMissing''"
| "debug_name RequiredCheckWrongApp = ''RequiredCheckWrongApp''"
| "debug_name RequiredReviewMissing = ''RequiredReviewMissing''"
| "debug_name RequiredReviewCountMissing = ''RequiredReviewCountMissing''"
| "debug_name StaleReview = ''StaleReview''"
| "debug_name LastPushApprovalMissing = ''LastPushApprovalMissing''"
| "debug_name CodeOwnerReviewMissing = ''CodeOwnerReviewMissing''"
| "debug_name UnresolvedAutomationFeedback = ''UnresolvedAutomationFeedback''"

lemma debug_name_inject: "debug_name a = debug_name b \<Longrightarrow> a = b"
  by (cases a; cases b) simp_all

instantiation readiness_reason :: linorder
begin

definition less_eq_readiness_reason :: "readiness_reason \<Rightarrow> readiness_reason \<Rightarrow> bool" where
  "less_eq_readiness_reason a b \<longleftrightarrow> debug_name a \<le> debug_name b"

definition less_readiness_reason :: "readiness_reason \<Rightarrow> readiness_reason \<Rightarrow> bool" where
  "less_readiness_reason a b \<longleftrightarrow> debug_name a < debug_name b"

instance
  by standard
    (auto simp: less_eq_readiness_reason_def less_readiness_reason_def intro: debug_name_inject)

end

end
