(* ===== verification/Readiness.thy ===== *)
theory Readiness
  imports Policy Models
begin

text \<open>
  \<open>readiness::evaluate\<close> of \<open>src/readiness.rs\<close>: the reasons are collected in the order of
  the code, then sorted by their name and deduplicated.
\<close>

definition required_names :: "readiness_input \<Rightarrow> policy \<Rightarrow> string list" where
  "required_names input policy =
     remdups_adj (sort (map cs_name (filter cs_required (required_checks input))
       @ policy_required_checks policy))"

text \<open>One round of the loop over the required names.\<close>

definition check_reasons :: "readiness_input \<Rightarrow> string \<Rightarrow> readiness_reason list" where
  "check_reasons input required_name =
     (case find (\<lambda>check. cs_name check = required_name) (required_checks input) of
        None \<Rightarrow> [RequiredCheckMissing]
      | Some check \<Rightarrow>
          if cs_required_app_id check \<noteq> None \<and> cs_app_id check \<noteq> cs_required_app_id check
          then [RequiredCheckWrongApp]
          else (case (cs_status check, cs_conclusion check) of
              (Completed, Some Success) \<Rightarrow> []
            | (Completed, Some Skipped) \<Rightarrow> []
            | (Completed, _) \<Rightarrow> [RequiredCheckFailed]
            | _ \<Rightarrow> [RequiredCheckPending]))"

definition collect_reasons :: "readiness_input \<Rightarrow> policy \<Rightarrow> readiness_reason list" where
  "collect_reasons input policy =
     (if is_draft input then [Draft] else [])
     @ (case mergeable input of
          Some True \<Rightarrow> []
        | Some False \<Rightarrow> [MergeConflict]
        | None \<Rightarrow> [MergeabilityUnknown])
     @ (if require_current_branch policy \<and> \<not> branch_is_current input
        then [BranchOutOfDate] else [])
     @ concat (map (check_reasons input) (required_names input policy))
     @ (if require_approval policy \<and> \<not> approved input then [RequiredReviewMissing] else [])
     @ (if required_approval_count input > approval_count input
        then (if approval_count input = 0 then [RequiredReviewMissing]
              else [RequiredReviewCountMissing])
        else [])
     @ (if last_push_approval_required input \<and> \<not> latest_push_approval input
        then (if stale_approval_present input then [StaleReview] else [LastPushApprovalMissing])
        else [])
     @ (if code_owner_review_required input \<and> \<not> code_owner_review_satisfied input
        then [CodeOwnerReviewMissing] else [])
     @ (if list_ex (\<lambda>feedback. is_configured_automation_actor policy (fs_actor_login feedback)
              \<and> \<not> fs_resolved feedback) (unresolved_feedback input)
        then [UnresolvedAutomationFeedback] else [])"

definition evaluate ::
  "timestamp \<Rightarrow> uuid \<Rightarrow> readiness_input \<Rightarrow> policy \<Rightarrow> readiness_snapshot" where
  "evaluate now new_id input policy =
     (let codes = remdups_adj (sort_key debug_name (collect_reasons input policy))
      in \<lparr>ready = (codes = []), reason_codes = codes, evaluated_at = now, snapshot_id = new_id\<rparr>)"

section \<open>The specification: when each reason is due\<close>

text \<open>The check that decides a required name: the first one observed under it.\<close>

definition deciding_check :: "readiness_input \<Rightarrow> string \<Rightarrow> check_snapshot option" where
  "deciding_check input n = find (\<lambda>c. cs_name c = n) (required_checks input)"

definition is_required_name :: "readiness_input \<Rightarrow> policy \<Rightarrow> string \<Rightarrow> bool" where
  "is_required_name input policy n \<longleftrightarrow>
     n \<in> set (policy_required_checks policy)
     \<or> (\<exists>c \<in> set (required_checks input). cs_required c \<and> cs_name c = n)"

definition right_app :: "check_snapshot \<Rightarrow> bool" where
  "right_app c \<longleftrightarrow> cs_required_app_id c = None \<or> cs_app_id c = cs_required_app_id c"

definition passed :: "check_snapshot \<Rightarrow> bool" where
  "passed c \<longleftrightarrow> cs_status c = Completed \<and> cs_conclusion c \<in> {Some Success, Some Skipped}"

definition some_required ::
  "readiness_input \<Rightarrow> policy \<Rightarrow> (check_snapshot option \<Rightarrow> bool) \<Rightarrow> bool" where
  "some_required input policy P \<longleftrightarrow>
     (\<exists>n. is_required_name input policy n \<and> P (deciding_check input n))"

fun reason_due :: "readiness_input \<Rightarrow> policy \<Rightarrow> readiness_reason \<Rightarrow> bool" where
  "reason_due i p Draft = is_draft i"
| "reason_due i p MergeabilityUnknown = (mergeable i = None)"
| "reason_due i p MergeConflict = (mergeable i = Some False)"
| "reason_due i p BranchOutOfDate = (require_current_branch p \<and> \<not> branch_is_current i)"
| "reason_due i p RequiredCheckMissing = some_required i p (\<lambda>d. d = None)"
| "reason_due i p RequiredCheckWrongApp =
     some_required i p (\<lambda>d. \<exists>c. d = Some c \<and> \<not> right_app c)"
| "reason_due i p RequiredCheckFailed =
     some_required i p (\<lambda>d. \<exists>c. d = Some c \<and> right_app c \<and> cs_status c = Completed \<and> \<not> passed c)"
| "reason_due i p RequiredCheckPending =
     some_required i p (\<lambda>d. \<exists>c. d = Some c \<and> right_app c \<and> cs_status c \<noteq> Completed)"
| "reason_due i p RequiredReviewMissing =
     ((require_approval p \<and> \<not> approved i)
      \<or> (approval_count i = 0 \<and> 0 < required_approval_count i))"
| "reason_due i p RequiredReviewCountMissing =
     (0 < approval_count i \<and> approval_count i < required_approval_count i)"
| "reason_due i p StaleReview =
     (last_push_approval_required i \<and> \<not> latest_push_approval i \<and> stale_approval_present i)"
| "reason_due i p LastPushApprovalMissing =
     (last_push_approval_required i \<and> \<not> latest_push_approval i \<and> \<not> stale_approval_present i)"
| "reason_due i p CodeOwnerReviewMissing =
     (code_owner_review_required i \<and> \<not> code_owner_review_satisfied i)"
| "reason_due i p UnresolvedAutomationFeedback =
     (\<exists>f \<in> set (unresolved_feedback i).
        fs_actor_login f \<in> set (automation_actors p) \<and> \<not> fs_resolved f)"

lemma set_required_names: "n \<in> set (required_names i p) \<longleftrightarrow> is_required_name i p n"
  by (auto simp: required_names_def is_required_name_def)

text \<open>The verdict on one required name, by the check that decides it.\<close>

fun check_due :: "check_snapshot option \<Rightarrow> readiness_reason \<Rightarrow> bool" where
  "check_due d RequiredCheckMissing = (d = None)"
| "check_due d RequiredCheckWrongApp = (\<exists>c. d = Some c \<and> \<not> right_app c)"
| "check_due d RequiredCheckFailed =
     (\<exists>c. d = Some c \<and> right_app c \<and> cs_status c = Completed \<and> \<not> passed c)"
| "check_due d RequiredCheckPending =
     (\<exists>c. d = Some c \<and> right_app c \<and> cs_status c \<noteq> Completed)"
| "check_due d _ = False"

lemma set_check_reasons: "r \<in> set (check_reasons i n) \<longleftrightarrow> check_due (deciding_check i n) r"
proof (cases "deciding_check i n")
  case None
  then show ?thesis by (cases r) (simp_all add: check_reasons_def deciding_check_def)
next
  case (Some c)
  then show ?thesis
    by (cases r) (auto simp: check_reasons_def deciding_check_def right_app_def passed_def
        split: check_status.splits check_conclusion.splits option.splits)
qed

lemma check_reasons_due:
  "(\<exists>n. is_required_name i p n \<and> r \<in> set (check_reasons i n)) \<longleftrightarrow>
     r \<in> {RequiredCheckMissing, RequiredCheckWrongApp, RequiredCheckFailed, RequiredCheckPending}
     \<and> reason_due i p r"
  unfolding set_check_reasons by (cases r) (simp_all add: some_required_def)

lemma collect_reasons_due: "r \<in> set (collect_reasons i p) \<longleftrightarrow> reason_due i p r"
proof -
  have checks: "r \<in> set (concat (map (check_reasons i) (required_names i p))) \<longleftrightarrow>
     r \<in> {RequiredCheckMissing, RequiredCheckWrongApp, RequiredCheckFailed, RequiredCheckPending}
     \<and> reason_due i p r"
    unfolding check_reasons_due [symmetric] by (auto simp: set_required_names)
  show ?thesis
    unfolding collect_reasons_def set_append Un_iff checks
    by (cases r) (auto simp: is_configured_iff list_ex_iff split: option.splits bool.splits)
qed

lemma sort_key_debug_name: "sort_key debug_name rs = sort rs"
  by (rule sort_key_inj_key_eq)
    (auto simp: inj_on_def sorted_map less_eq_readiness_reason_def [abs_def, symmetric]
      intro: debug_name_inject)

lemma reason_codes_evaluate: "reason_codes (evaluate now i_d input p) = sorted_set (collect_reasons input p)"
  by (simp add: evaluate_def sorted_set_def sort_key_debug_name)

lemma set_reason_codes: "set (reason_codes (evaluate now i_d input p)) = {r. reason_due input p r}"
  by (auto simp: reason_codes_evaluate collect_reasons_due)

section \<open>Properties\<close>

text \<open>The merge gate in one predicate: what the readiness evaluation is meant to decide.\<close>

definition merge_ready :: "readiness_input \<Rightarrow> policy \<Rightarrow> bool" where
  "merge_ready i p \<longleftrightarrow>
     \<not> is_draft i
     \<and> mergeable i = Some True
     \<and> (require_current_branch p \<longrightarrow> branch_is_current i)
     \<and> (\<forall>n. is_required_name i p n \<longrightarrow>
          (\<exists>c. deciding_check i n = Some c \<and> right_app c \<and> passed c))
     \<and> (require_approval p \<longrightarrow> approved i)
     \<and> required_approval_count i \<le> approval_count i
     \<and> (last_push_approval_required i \<longrightarrow> latest_push_approval i)
     \<and> (code_owner_review_required i \<longrightarrow> code_owner_review_satisfied i)
     \<and> (\<forall>f \<in> set (unresolved_feedback i).
          fs_actor_login f \<in> set (automation_actors p) \<longrightarrow> fs_resolved f)"

lemma no_check_reason_iff:
  "(\<forall>r \<in> {RequiredCheckMissing, RequiredCheckWrongApp, RequiredCheckFailed, RequiredCheckPending}.
      \<not> reason_due i p r) \<longleftrightarrow>
   (\<forall>n. is_required_name i p n \<longrightarrow>
      (\<exists>c. deciding_check i n = Some c \<and> right_app c \<and> passed c))"
  by (auto simp: some_required_def passed_def)

lemma no_reason_iff: "(\<forall>r. \<not> reason_due i p r) \<longleftrightarrow> merge_ready i p"
proof -
  have all: "(\<forall>r. P r) \<longleftrightarrow>
     (\<forall>r \<in> {RequiredCheckMissing, RequiredCheckWrongApp, RequiredCheckFailed, RequiredCheckPending}. P r)
     \<and> P Draft \<and> P MergeabilityUnknown \<and> P MergeConflict \<and> P BranchOutOfDate
     \<and> P RequiredReviewMissing \<and> P RequiredReviewCountMissing \<and> P StaleReview
     \<and> P LastPushApprovalMissing \<and> P CodeOwnerReviewMissing \<and> P UnresolvedAutomationFeedback"
    for P :: "readiness_reason \<Rightarrow> bool"
    by (rule iffI, blast, rule allI, case_tac r) simp_all
  have count: "required_approval_count i \<le> approval_count i \<longleftrightarrow>
      \<not> (approval_count i = 0 \<and> 0 < required_approval_count i)
      \<and> \<not> (0 < approval_count i \<and> approval_count i < required_approval_count i)" by linarith
  show ?thesis
    unfolding all no_check_reason_iff merge_ready_def count
    by (cases "mergeable i") auto
qed

text \<open>
  C10: the reason codes are exactly the reasons that are due, each one once, in the order
  of their names.
\<close>

theorem evaluate_reasons_exact:
  "set (reason_codes (evaluate now new_id i p)) = {r. reason_due i p r}
   \<and> sorted (map debug_name (reason_codes (evaluate now new_id i p)))
   \<and> distinct (reason_codes (evaluate now new_id i p))"
proof -
  have "sorted (sorted_set (collect_reasons i p))" by simp
  then have "sorted (map debug_name (sorted_set (collect_reasons i p)))"
    by (simp add: sorted_map less_eq_readiness_reason_def [abs_def, symmetric])
  then show ?thesis unfolding set_reason_codes by (simp add: reason_codes_evaluate)
qed

text \<open>
  A pull request is reported ready exactly when the merge gate holds: it is open for
  merging, every required check passed under the required app, and no review, code-owner
  or automation feedback requirement is open.
\<close>

theorem evaluate_ready_iff: "ready (evaluate now new_id i p) \<longleftrightarrow> merge_ready i p"
proof -
  have "ready (evaluate now new_id i p) \<longleftrightarrow> set (reason_codes (evaluate now new_id i p)) = {}"
    by (simp only: evaluate_def Let_def readiness_snapshot.simps set_empty)
  also have "\<dots> \<longleftrightarrow> (\<forall>r. \<not> reason_due i p r)"
    unfolding set_reason_codes by auto
  finally show ?thesis by (simp add: no_reason_iff)
qed

end
