(* ===== verification/Job_Queue.thy ===== *)
theory Job_Queue
  imports Json "HOL-Library.Product_Lexorder"
begin

text \<open>
  The durable job queue of \<open>src/queue.rs\<close> with the statements of \<open>src/repository.rs\<close> that
  write its table. The table \<open>jobs\<close> is a list of rows; a statement is one atomic step, an
  \<open>UPDATE\<close> rewrites the rows its \<open>WHERE\<close> selects, and the number of rewritten rows is what
  \<open>rows_affected\<close> returns. The time, the fresh identifiers and the rows locked by other
  transactions are arguments. A published wake-up is recorded in \<open>wakeups\<close>.
\<close>

datatype job_kind = Reconcile | FeedbackRepair | CiRepair | StackRebase

fun as_database_value :: "job_kind \<Rightarrow> string" where
  "as_database_value Reconcile = ''reconcile''"
| "as_database_value FeedbackRepair = ''feedback_repair''"
| "as_database_value CiRepair = ''ci_repair''"
| "as_database_value StackRebase = ''stack_rebase''"

datatype job_state = JQueued | JRunning | JWaitingApproval | JSucceeded | JFailed | JCancelled

record job_spec =
  spec_repository_id :: i64
  spec_pull_request_number :: i32
  spec_kind :: job_kind
  spec_plan :: json

record job_key =
  key_repository :: i64
  key_pull_request :: i32
  key_kind :: job_kind

definition deduplication_key :: "job_spec \<Rightarrow> job_key" where
  "deduplication_key spec = \<lparr>key_repository = spec_repository_id spec,
     key_pull_request = spec_pull_request_number spec, key_kind = spec_kind spec\<rparr>"

text \<open>A row of the table, after all migrations.\<close>

record job =
  job_id :: uuid
  repository_id :: i64
  pull_request_number :: i32
  kind :: string
  state :: job_state
  current_item :: "string option"
  plan :: json
  job_result :: "json option"
  attempt :: i32
  max_attempts :: i32
  lease_owner :: "string option"
  lease_until :: "timestamp option"
  lease_token :: "uuid option"
  cancel_requested :: bool
  check_run_id :: "i64 option"
  check_run_url :: "string option"
  created_at :: timestamp
  updated_at :: timestamp

record queue_db =
  jobs :: "job list"
  repositories :: "i64 list"
  nats_connected :: bool
  wakeups :: "uuid list"

datatype queue_error = Database | Serialization

record leased_job =
  leased_id :: uuid
  leased_repository_id :: i64
  leased_pull_request_number :: i32
  leased_kind :: string
  leased_plan :: json
  leased_until :: timestamp
  leased_token :: uuid
  leased_attempt :: i32
  leased_max_attempts :: i32

section \<open>Statements\<close>

definition is_active :: "job \<Rightarrow> bool" where
  "is_active j \<longleftrightarrow> state j \<in> {JQueued, JRunning, JWaitingApproval}"

definition release_lease :: "job \<Rightarrow> job" where
  "release_lease j = j\<lparr>lease_owner := None, lease_until := None, lease_token := None\<rparr>"

definition update_jobs :: "(job \<Rightarrow> bool) \<Rightarrow> (job \<Rightarrow> job) \<Rightarrow> queue_db \<Rightarrow> queue_db" where
  "update_jobs P f db = db\<lparr>jobs := map (\<lambda>j. if P j then f j else j) (jobs db)\<rparr>"

definition rows_affected :: "(job \<Rightarrow> bool) \<Rightarrow> queue_db \<Rightarrow> nat" where
  "rows_affected P db = length (filter P (jobs db))"

definition execute :: "(job \<Rightarrow> bool) \<Rightarrow> (job \<Rightarrow> job) \<Rightarrow> queue_db \<Rightarrow> bool \<times> queue_db" where
  "execute P f db = (rows_affected P db = 1, update_jobs P f db)"

text \<open>An \<open>UPDATE\<close> whose right-hand side can fail: then no row changes.\<close>

definition execute_fallible ::
  "(job \<Rightarrow> bool) \<Rightarrow> (job \<Rightarrow> job option) \<Rightarrow> queue_db \<Rightarrow> (queue_error, bool \<times> queue_db) result" where
  "execute_fallible P f db =
     (if list_ex (\<lambda>j. P j \<and> f j = None) (jobs db) then Err Database
      else Ok (execute P (\<lambda>j. the (f j)) db))"

definition publish :: "uuid \<Rightarrow> queue_db \<Rightarrow> queue_db" where
  "publish i db = (if nats_connected db then db\<lparr>wakeups := wakeups db @ [i]\<rparr> else db)"

definition new_job :: "uuid \<Rightarrow> timestamp \<Rightarrow> job_spec \<Rightarrow> job" where
  "new_job i now spec = \<lparr>job_id = i, repository_id = spec_repository_id spec,
     pull_request_number = spec_pull_request_number spec,
     kind = as_database_value (spec_kind spec), state = JQueued, current_item = None,
     plan = spec_plan spec, job_result = None, attempt = 0, max_attempts = 5,
     lease_owner = None, lease_until = None, lease_token = None, cancel_requested = False,
     check_run_id = None, check_run_url = None, created_at = now, updated_at = now\<rparr>"

definition same_key :: "job_key \<Rightarrow> job \<Rightarrow> bool" where
  "same_key k j \<longleftrightarrow> repository_id j = key_repository k
     \<and> pull_request_number j = key_pull_request k \<and> kind j = as_database_value (key_kind k)"

text \<open>The already succeeded job of the same key for the same head, newest first.\<close>

definition succeeded_for_head :: "(json \<Rightarrow> string) \<Rightarrow> job_key \<Rightarrow> string \<Rightarrow> queue_db \<Rightarrow> job list" where
  "succeeded_for_head printed k head_sha db =
     rev (sort_key (\<lambda>j. (created_at j, job_id j))
       (filter (\<lambda>j. same_key k j \<and> state j = JSucceeded
            \<and> jsonb_arrow_text printed (plan j) ''head_sha'' = Some head_sha) (jobs db)))"

text \<open>The insert with its conflict clause on the partial unique index of active jobs.\<close>

definition insert_job ::
  "timestamp \<Rightarrow> uuid \<Rightarrow> job_spec \<Rightarrow> queue_db \<Rightarrow> (queue_error, uuid \<times> queue_db) result" where
  "insert_job now proposed_id spec db =
     (case find (\<lambda>j. same_key (deduplication_key spec) j \<and> is_active j) (jobs db) of
        Some existing \<Rightarrow> Ok (job_id existing, db)
      | None \<Rightarrow>
          if proposed_id \<in> set (map job_id (jobs db)) \<or> spec_repository_id spec \<notin> set (repositories db)
          then Err Database
          else Ok (proposed_id, db\<lparr>jobs := jobs db @ [new_job proposed_id now spec]\<rparr>))"

definition enqueue ::
  "(json \<Rightarrow> string) \<Rightarrow> timestamp \<Rightarrow> uuid \<Rightarrow> job_spec \<Rightarrow> queue_db
     \<Rightarrow> (queue_error, uuid \<times> queue_db) result" where
  "enqueue printed now proposed_id spec db =
     (let terminal_head_sha = Option.bind (jget ''head_sha'' (spec_plan spec)) as_str;
          finished = (case terminal_head_sha of
              Some head_sha \<Rightarrow>
                if spec_kind spec = CiRepair \<or> spec_kind spec = StackRebase
                then succeeded_for_head printed (deduplication_key spec) head_sha db else []
            | None \<Rightarrow> [])
      in case finished of
           j # _ \<Rightarrow> Ok (job_id j, db)
         | [] \<Rightarrow> and_then (insert_job now proposed_id spec db) (\<lambda>(i, db'). Ok (i, publish i db')))"

definition request_cancel :: "timestamp \<Rightarrow> uuid \<Rightarrow> queue_db \<Rightarrow> bool \<times> queue_db" where
  "request_cancel now i db = execute (\<lambda>j. job_id j = i \<and> is_active j)
     (\<lambda>j. (release_lease j)\<lparr>state := JCancelled, cancel_requested := True, updated_at := now\<rparr>) db"

definition skipped_items_of :: "job \<Rightarrow> json" where
  "skipped_items_of j = jsonb_concat
     (case jget ''skipped_items'' (plan j) of None \<Rightarrow> JArr [] | Some v \<Rightarrow> v)
     (JArr [case current_item j of None \<Rightarrow> JNull | Some x \<Rightarrow> JStr x])"

definition can_skip :: "uuid \<Rightarrow> job \<Rightarrow> bool" where
  "can_skip i j \<longleftrightarrow> job_id j = i \<and> state j \<in> {JRunning, JWaitingApproval}
     \<and> \<not> cancel_requested j \<and> current_item j \<noteq> None \<and> current_item j \<noteq> Some ''''"

definition skip_current_item ::
  "timestamp \<Rightarrow> uuid \<Rightarrow> queue_db \<Rightarrow> (queue_error, bool \<times> queue_db) result" where
  "skip_current_item now i db = execute_fallible (can_skip i)
     (\<lambda>j. map_option (\<lambda>p. (release_lease j)\<lparr>state := JQueued, current_item := None, plan := p,
             attempt := max (attempt j - 1) 0, updated_at := now\<rparr>)
        (jsonb_set (plan j) ''skipped_items'' (skipped_items_of j))) db"

text \<open>The lease condition of every statement that a worker issues for its job.\<close>

definition holds_lease :: "timestamp \<Rightarrow> uuid \<Rightarrow> string \<Rightarrow> uuid \<Rightarrow> job \<Rightarrow> bool" where
  "holds_lease now i worker token j \<longleftrightarrow> job_id j = i \<and> state j = JRunning
     \<and> \<not> cancel_requested j \<and> lease_owner j = Some worker \<and> lease_token j = Some token
     \<and> (case lease_until j of None \<Rightarrow> False | Some until \<Rightarrow> until > now)"

definition mark_waiting_approval ::
  "timestamp \<Rightarrow> uuid \<Rightarrow> string \<Rightarrow> uuid \<Rightarrow> json \<Rightarrow> queue_db \<Rightarrow> bool \<times> queue_db" where
  "mark_waiting_approval now i worker token details db = execute (holds_lease now i worker token)
     (\<lambda>j. (release_lease j)\<lparr>state := JWaitingApproval, plan := jsonb_concat (plan j) details,
        job_result := Some (jobj [(''state'', JStr ''waiting_approval'')]), updated_at := now\<rparr>) db"

definition can_approve :: "uuid \<Rightarrow> job \<Rightarrow> bool" where
  "can_approve i j \<longleftrightarrow> job_id j = i \<and> state j = JWaitingApproval \<and> \<not> cancel_requested j
     \<and> map_option jsonb_typeof (jget ''approval_details'' (plan j)) = Some ''object''
     \<and> map_option jsonb_typeof (Option.bind (jget ''approval_details'' (plan j)) (jget ''plan_hash''))
         = Some ''string''"

definition approved_plan :: "json \<Rightarrow> json option" where
  "approved_plan p = Option.bind (jsonb_set p ''approved'' (JBool True))
     (\<lambda>q. Option.bind (Option.bind (jget ''approval_details'' p) (jget ''plan_hash''))
        (jsonb_set q ''approved_hash''))"

definition approve_plan ::
  "timestamp \<Rightarrow> uuid \<Rightarrow> queue_db \<Rightarrow> (queue_error, bool \<times> queue_db) result" where
  "approve_plan now i db =
     and_then (execute_fallible (can_approve i)
       (\<lambda>j. map_option (\<lambda>p. j\<lparr>state := JQueued, plan := p, job_result := None, updated_at := now\<rparr>)
          (approved_plan (plan j))) db)
     (\<lambda>(changed, db'). Ok (changed, if changed then publish i db' else db'))"

section \<open>Leasing\<close>

definition lease_duration :: int where
  "lease_duration = 5 * 60 * 1000000"

definition lease_expired :: "timestamp \<Rightarrow> job \<Rightarrow> bool" where
  "lease_expired now j \<longleftrightarrow> (case lease_until j of None \<Rightarrow> True | Some until \<Rightarrow> until \<le> now)"

definition is_exhausted :: "timestamp \<Rightarrow> job \<Rightarrow> bool" where
  "is_exhausted now j \<longleftrightarrow> \<not> cancel_requested j \<and> state j \<in> {JQueued, JRunning}
     \<and> attempt j \<ge> max_attempts j \<and> (state j = JQueued \<or> lease_expired now j)"

definition fail_exhausted :: "timestamp \<Rightarrow> job \<Rightarrow> job" where
  "fail_exhausted now j = (release_lease j)\<lparr>state := JFailed,
     job_result := Some (jobj [(''reason'', JStr ''max_attempts_exhausted''),
        (''attempt'', jint (attempt j)), (''max_attempts'', jint (max_attempts j))]),
     updated_at := now\<rparr>"

definition is_leasable :: "timestamp \<Rightarrow> job \<Rightarrow> bool" where
  "is_leasable now j \<longleftrightarrow> \<not> cancel_requested j \<and> attempt j < max_attempts j
     \<and> (state j = JQueued \<or> (state j = JRunning \<and> lease_expired now j))"

definition candidates :: "timestamp \<Rightarrow> uuid list \<Rightarrow> queue_db \<Rightarrow> job list" where
  "candidates now locked db = sort_key (\<lambda>j. (created_at j, job_id j))
     (filter (\<lambda>j. is_leasable now j \<and> job_id j \<notin> set locked) (jobs db))"

definition take_lease :: "timestamp \<Rightarrow> string \<Rightarrow> uuid \<Rightarrow> job \<Rightarrow> job" where
  "take_lease now worker token j = j\<lparr>state := JRunning, lease_owner := Some worker,
     lease_until := Some (now + lease_duration), lease_token := Some token,
     attempt := attempt j + 1, updated_at := now\<rparr>"

definition lease_next ::
  "timestamp \<Rightarrow> string \<Rightarrow> uuid \<Rightarrow> uuid list \<Rightarrow> queue_db \<Rightarrow> leased_job option \<times> queue_db" where
  "lease_next now worker token locked db =
     (let db1 = update_jobs (is_exhausted now) (fail_exhausted now) db
      in case candidates now locked db1 of
           [] \<Rightarrow> (None, db1)
         | row # _ \<Rightarrow>
             (Some \<lparr>leased_id = job_id row, leased_repository_id = repository_id row,
                leased_pull_request_number = pull_request_number row, leased_kind = kind row,
                leased_plan = plan row, leased_until = now + lease_duration, leased_token = token,
                leased_attempt = attempt row + 1, leased_max_attempts = max_attempts row\<rparr>,
              update_jobs (\<lambda>j. job_id j = job_id row) (take_lease now worker token) db1))"

definition assert_lease :: "timestamp \<Rightarrow> uuid \<Rightarrow> string \<Rightarrow> uuid \<Rightarrow> queue_db \<Rightarrow> bool" where
  "assert_lease now i worker token db =
     (case find (\<lambda>j. job_id j = i) (jobs db) of
        None \<Rightarrow> False | Some j \<Rightarrow> holds_lease now i worker token j)"

definition renew_lease ::
  "timestamp \<Rightarrow> uuid \<Rightarrow> string \<Rightarrow> uuid \<Rightarrow> queue_db \<Rightarrow> bool \<times> queue_db" where
  "renew_lease now i worker token db = execute (holds_lease now i worker token)
     (\<lambda>j. j\<lparr>lease_until := Some (now + lease_duration), updated_at := now\<rparr>) db"

definition mark_succeeded ::
  "timestamp \<Rightarrow> uuid \<Rightarrow> string \<Rightarrow> uuid \<Rightarrow> json \<Rightarrow> queue_db \<Rightarrow> bool \<times> queue_db" where
  "mark_succeeded now i worker token res db = execute (holds_lease now i worker token)
     (\<lambda>j. (release_lease j)\<lparr>state := JSucceeded, job_result := Some res, updated_at := now\<rparr>) db"

definition mark_failed ::
  "timestamp \<Rightarrow> uuid \<Rightarrow> string \<Rightarrow> uuid \<Rightarrow> json \<Rightarrow> queue_db \<Rightarrow> bool \<times> queue_db" where
  "mark_failed now i worker token res db = execute (holds_lease now i worker token)
     (\<lambda>j. (release_lease j)\<lparr>state := JFailed, job_result := Some res, updated_at := now\<rparr>) db"

section \<open>Writes of the repository layer to the table\<close>

definition link_job_check_run ::
  "timestamp \<Rightarrow> uuid \<Rightarrow> i64 \<Rightarrow> string \<Rightarrow> string option \<Rightarrow> queue_db \<Rightarrow> (queue_error, queue_db) result" where
  "link_job_check_run now i run_id url item db =
     (if list_ex (\<lambda>j. job_id j = i) (jobs db)
         \<and> list_ex (\<lambda>j. job_id j \<noteq> i \<and> check_run_id j = Some run_id) (jobs db)
      then Err Database
      else Ok (update_jobs (\<lambda>j. job_id j = i) (\<lambda>j. j\<lparr>check_run_id := Some run_id,
          check_run_url := Some url, current_item := item, updated_at := now\<rparr>) db))"

definition cancel_job :: "timestamp \<Rightarrow> job \<Rightarrow> job" where
  "cancel_job now j = (release_lease j)\<lparr>state := JCancelled, cancel_requested := True, updated_at := now\<rparr>"

definition cancel_repository_jobs :: "timestamp \<Rightarrow> i64 \<Rightarrow> queue_db \<Rightarrow> queue_db" where
  "cancel_repository_jobs now r db =
     update_jobs (\<lambda>j. repository_id j = r \<and> is_active j) (cancel_job now) db"

definition cancel_installation_jobs :: "timestamp \<Rightarrow> i64 list \<Rightarrow> queue_db \<Rightarrow> queue_db" where
  "cancel_installation_jobs now rs db =
     update_jobs (\<lambda>j. repository_id j \<in> set rs \<and> is_active j) (cancel_job now) db"

end
