(* ===== verification/Queue_Safety.thy ===== *)
theory Queue_Safety
  imports Job_Queue
begin

text \<open>
  The queue as a state machine: one labelled step per statement, its invariant, and what
  holds in every run. The label records the token of a granted lease.
\<close>

section \<open>The invariant\<close>

definition is_terminal :: "job \<Rightarrow> bool" where
  "is_terminal j \<longleftrightarrow> state j \<in> {JSucceeded, JFailed, JCancelled}"

definition lease_wf :: "job \<Rightarrow> bool" where
  "lease_wf j \<longleftrightarrow> (if state j = JRunning
     then lease_owner j \<noteq> None \<and> lease_until j \<noteq> None \<and> lease_token j \<noteq> None
     else lease_owner j = None \<and> lease_until j = None \<and> lease_token j = None)"

definition job_wf :: "job \<Rightarrow> bool" where
  "job_wf j \<longleftrightarrow> lease_wf j \<and> 0 \<le> attempt j \<and> attempt j \<le> max_attempts j \<and> 0 < max_attempts j
     \<and> (cancel_requested j \<longleftrightarrow> state j = JCancelled)"

definition logical_key :: "job \<Rightarrow> i64 \<times> i32 \<times> string" where
  "logical_key j = (repository_id j, pull_request_number j, kind j)"

definition queue_inv :: "queue_db \<Rightarrow> bool" where
  "queue_inv db \<longleftrightarrow> distinct (map job_id (jobs db)) \<and> list_all job_wf (jobs db)
     \<and> distinct (map logical_key (filter is_active (jobs db)))"

lemma is_terminal_active: "is_terminal j \<longleftrightarrow> \<not> is_active j"
  by (cases "state j") (auto simp: is_terminal_def is_active_def)

lemma queue_inv_ids: "queue_inv db \<Longrightarrow> j \<in> set (jobs db) \<Longrightarrow> k \<in> set (jobs db) \<Longrightarrow>
    job_id j = job_id k \<Longrightarrow> j = k"
  by (auto simp: queue_inv_def distinct_map dest: inj_onD)

lemma queue_inv_find: "queue_inv db \<Longrightarrow> j \<in> set (jobs db) \<Longrightarrow> job_id j = i \<Longrightarrow>
    find (\<lambda>j. job_id j = i) (jobs db) = Some j"
  using find_unique [of job_id "jobs db" j] by (simp add: queue_inv_def)

lemma queue_inv_wf: "queue_inv db \<Longrightarrow> j \<in> set (jobs db) \<Longrightarrow> job_wf j"
  by (simp add: queue_inv_def list_all_iff)

lemma queue_inv_active_unique:
  assumes "queue_inv db" "j \<in> set (jobs db)" "k \<in> set (jobs db)"
    "is_active j" "is_active k" "logical_key j = logical_key k"
  shows "j = k"
  using assms by (auto simp: queue_inv_def distinct_map dest: inj_onD)

text \<open>An update keeps a row admissible if it keeps its identity and never revives it.\<close>

definition keeps_row :: "job \<Rightarrow> job \<Rightarrow> bool" where
  "keeps_row j j' \<longleftrightarrow> job_id j' = job_id j \<and> logical_key j' = logical_key j
     \<and> (is_active j' \<longrightarrow> is_active j) \<and> (job_wf j \<longrightarrow> job_wf j')"

lemma distinct_active_map:
  assumes "\<And>j. j \<in> set js \<Longrightarrow> logical_key (g j) = logical_key j \<and> (is_active (g j) \<longrightarrow> is_active j)"
    and "distinct (map logical_key (filter is_active js))"
  shows "distinct (map logical_key (filter is_active (map g js)))"
  using assms
proof (induction js)
  case (Cons a js)
  have sub: "logical_key ` set (filter is_active (map g js)) \<subseteq> logical_key ` set (filter is_active js)"
  proof -
    have "logical_key (g j) \<in> logical_key ` set (filter is_active js)"
      if "j \<in> set js" "is_active (g j)" for j
      using Cons.prems(1) [of j] that by simp
    then show ?thesis by auto
  qed
  have "distinct (map logical_key (filter is_active (map g js)))"
    using Cons by (auto split: if_splits)
  moreover have "logical_key (g a) \<notin> logical_key ` set (filter is_active (map g js))" if "is_active (g a)"
    using that sub Cons.prems by (auto split: if_splits)
  ultimately show ?case by simp
qed simp

lemma update_jobs_inv:
  assumes inv: "queue_inv db"
    and keep: "\<And>j. j \<in> set (jobs db) \<Longrightarrow> P j \<Longrightarrow> keeps_row j (f j)"
  shows "queue_inv (update_jobs P f db)"
proof -
  let ?g = "\<lambda>j. if P j then f j else j"
  have "map job_id (map ?g (jobs db)) = map job_id (jobs db)"
    using keep by (auto simp: keeps_row_def)
  then have ids: "distinct (map job_id (map ?g (jobs db)))"
    using inv by (simp only: queue_inv_def)
  have "distinct (map logical_key (filter is_active (map ?g (jobs db))))"
    using inv keep by (intro distinct_active_map) (auto simp: queue_inv_def keeps_row_def)
  moreover have "list_all job_wf (map ?g (jobs db))"
    using inv keep by (auto simp: queue_inv_def list_all_iff keeps_row_def)
  ultimately show ?thesis
    using inv ids by (simp add: queue_inv_def update_jobs_def)
qed

lemmas row_defs = keeps_row_def job_wf_def lease_wf_def logical_key_def is_active_def release_lease_def

lemma jobs_update [simp]: "jobs (update_jobs P f db) = map (\<lambda>j. if P j then f j else j) (jobs db)"
  by (simp add: update_jobs_def)

lemma execute_snd [simp]: "snd (execute P f db) = update_jobs P f db"
  by (simp add: execute_def)

lemma execute_fst: "fst (execute P f db) \<longleftrightarrow> rows_affected P db = 1"
  by (simp add: execute_def)

lemma execute_fallible_Ok:
  "execute_fallible P f db = Ok r \<longleftrightarrow>
     (\<forall>j \<in> set (jobs db). P j \<longrightarrow> f j \<noteq> None) \<and> r = execute P (\<lambda>j. the (f j)) db"
  by (auto simp: execute_fallible_def list_ex_iff)

lemma jobs_publish [simp]: "jobs (publish i db) = jobs db"
  by (simp add: publish_def)

lemma queue_inv_publish [simp]: "queue_inv (publish i db) = queue_inv db"
  by (simp add: queue_inv_def)

lemma update_none [simp]: "\<forall>j \<in> set (jobs db). \<not> P j \<Longrightarrow> update_jobs P f db = db"
  by (simp add: update_jobs_def map_idI)

lemma rows_affected_0: "rows_affected P db = 0 \<longleftrightarrow> (\<forall>j \<in> set (jobs db). \<not> P j)"
  by (simp add: rows_affected_def filter_empty_conv)

text \<open>A statement with the identifier in its \<open>WHERE\<close> clause touches at most one row.\<close>

lemma rows_affected_le_1:
  assumes "queue_inv db" "\<And>j. P j \<Longrightarrow> job_id j = i"
  shows "rows_affected P db \<le> 1"
proof -
  have sub: "set (filter P js) \<subseteq> {j. job_id j = i}" for js using assms(2) by auto
  have "distinct (map job_id (filter P (jobs db)))"
    using assms(1) by (simp add: queue_inv_def distinct_map_filter)
  moreover have "set (map job_id (filter P (jobs db))) \<subseteq> {i}" using sub by auto
  ultimately have "length (map job_id (filter P (jobs db))) \<le> card {i}"
    by (metis card_mono distinct_card finite.emptyI finite_insert)
  then show ?thesis by (simp add: rows_affected_def)
qed

lemma execute_unchanged:
  assumes "queue_inv db" "\<And>j. P j \<Longrightarrow> job_id j = i" "\<not> fst (execute P f db)"
  shows "snd (execute P f db) = db"
proof -
  from rows_affected_le_1 [OF assms(1), of P i] assms(2,3) have "rows_affected P db = 0"
    by (simp add: execute_fst)
  then show ?thesis by (simp add: rows_affected_0)
qed

section \<open>Every statement keeps the invariant\<close>

lemma request_cancel_inv: "queue_inv db \<Longrightarrow> queue_inv (snd (request_cancel now i db))"
  unfolding request_cancel_def execute_snd by (rule update_jobs_inv) (auto simp: row_defs)

lemma execute_fallible_inv:
  assumes "queue_inv db" "execute_fallible P f db = Ok r"
    and "\<And>j j'. P j \<Longrightarrow> f j = Some j' \<Longrightarrow> keeps_row j j'"
  shows "queue_inv (snd r)"
proof -
  from assms(2) have r: "r = execute P (\<lambda>j. the (f j)) db"
    and some: "\<And>j. j \<in> set (jobs db) \<Longrightarrow> P j \<Longrightarrow> \<exists>j'. f j = Some j'"
    by (auto simp: execute_fallible_Ok)
  show ?thesis
    unfolding r execute_snd using some assms(3) by (intro update_jobs_inv assms(1)) fastforce
qed

lemma skip_current_item_inv:
  assumes "queue_inv db" "skip_current_item now i db = Ok (b, db')"
  shows "queue_inv db'"
proof -
  have "queue_inv (snd (b, db'))"
    using assms(2) unfolding skip_current_item_def
    by (rule execute_fallible_inv [OF assms(1)]) (auto simp: row_defs can_skip_def)
  then show ?thesis by simp
qed

lemma mark_waiting_approval_inv:
  "queue_inv db \<Longrightarrow> queue_inv (snd (mark_waiting_approval now i w t d db))"
  unfolding mark_waiting_approval_def execute_snd
  by (rule update_jobs_inv) (auto simp: row_defs holds_lease_def)

lemma approve_plan_inv:
  assumes "queue_inv db" "approve_plan now i db = Ok (b, db')"
  shows "queue_inv db'"
proof -
  from assms(2) obtain db1 where
    db1: "execute_fallible (can_approve i) (\<lambda>j. map_option (\<lambda>p. j\<lparr>state := JQueued, plan := p,
        job_result := None, updated_at := now\<rparr>) (approved_plan (plan j))) db = Ok (b, db1)"
    and db': "db' = (if b then publish i db1 else db1)"
    by (auto simp: approve_plan_def and_then_Ok)
  have "queue_inv (snd (b, db1))"
    by (rule execute_fallible_inv [OF assms(1) db1]) (auto simp: row_defs can_approve_def)
  then show ?thesis by (simp add: db')
qed

lemma renew_lease_inv: "queue_inv db \<Longrightarrow> queue_inv (snd (renew_lease now i w t db))"
  unfolding renew_lease_def execute_snd
  by (rule update_jobs_inv) (auto simp: row_defs holds_lease_def)

lemma mark_succeeded_inv: "queue_inv db \<Longrightarrow> queue_inv (snd (mark_succeeded now i w t r db))"
  unfolding mark_succeeded_def execute_snd
  by (rule update_jobs_inv) (auto simp: row_defs holds_lease_def)

lemma mark_failed_inv: "queue_inv db \<Longrightarrow> queue_inv (snd (mark_failed now i w t r db))"
  unfolding mark_failed_def execute_snd
  by (rule update_jobs_inv) (auto simp: row_defs holds_lease_def)

lemma fail_exhausted_inv: "queue_inv db \<Longrightarrow> queue_inv (update_jobs (is_exhausted now) (fail_exhausted now) db)"
  by (rule update_jobs_inv) (auto simp: row_defs is_exhausted_def fail_exhausted_def)

lemma set_candidates:
  "j \<in> set (candidates now locked db) \<longleftrightarrow>
     j \<in> set (jobs db) \<and> is_leasable now j \<and> job_id j \<notin> set locked"
  by (auto simp: candidates_def)

lemma take_lease_keeps: "is_leasable now j \<Longrightarrow> keeps_row j (take_lease now w t j)"
  by (auto simp: row_defs is_leasable_def take_lease_def)

lemma lease_next_inv:
  assumes "queue_inv db"
  shows "queue_inv (snd (lease_next now w t locked db))"
proof -
  let ?db1 = "update_jobs (is_exhausted now) (fail_exhausted now) db"
  have inv: "queue_inv ?db1" by (rule fail_exhausted_inv [OF assms])
  show ?thesis
  proof (cases "candidates now locked ?db1")
    case Nil
    with inv show ?thesis by (simp add: lease_next_def)
  next
    case (Cons row rest)
    then have row: "row \<in> set (jobs ?db1)" "is_leasable now row"
      using set_candidates [of row now locked ?db1] by simp_all
    have "queue_inv (update_jobs (\<lambda>j. job_id j = job_id row) (take_lease now w t) ?db1)"
      using row queue_inv_ids [OF inv _ row(1)] by (intro update_jobs_inv inv) (metis take_lease_keeps)
    with Cons show ?thesis by (simp add: lease_next_def)
  qed
qed

lemma as_database_value_inject: "as_database_value a = as_database_value b \<longleftrightarrow> a = b"
  by (cases a; cases b) simp_all

lemma insert_job_inv:
  assumes "queue_inv db" "insert_job now i spec db = Ok (k, db')"
  shows "queue_inv db'"
proof (cases "find (\<lambda>j. same_key (deduplication_key spec) j \<and> is_active j) (jobs db)")
  case None
  let ?j = "new_job i now spec"
  from None have none: "\<forall>j \<in> set (jobs db). same_key (deduplication_key spec) j \<longrightarrow> \<not> is_active j"
    by (auto simp: find_None_iff)
  from None assms(2) have new: "i \<notin> job_id ` set (jobs db)" and db': "db' = db\<lparr>jobs := jobs db @ [?j]\<rparr>"
    by (auto simp: insert_job_def split: if_splits)
  have "logical_key ?j \<notin> logical_key ` set (filter is_active (jobs db))"
    using none by (auto simp: same_key_def logical_key_def new_job_def deduplication_key_def)
  moreover have "job_wf ?j" "job_id ?j = i" "is_active ?j" by (simp_all add: row_defs new_job_def)
  ultimately show ?thesis using assms(1) new by (simp add: db' queue_inv_def)
next
  case (Some j)
  with assms show ?thesis by (simp add: insert_job_def)
qed

lemma enqueue_inv:
  assumes "queue_inv db" "enqueue printed now i spec db = Ok (k, db')"
  shows "queue_inv db'"
  using assms insert_job_inv [OF assms(1)]
  by (auto simp: enqueue_def Let_def and_then_Ok split: list.splits)

lemma link_job_check_run_inv:
  "queue_inv db \<Longrightarrow> link_job_check_run now i r u it db = Ok db' \<Longrightarrow> queue_inv db'"
  by (auto simp: link_job_check_run_def row_defs split: if_splits intro!: update_jobs_inv)

lemma cancel_job_keeps: "keeps_row j (cancel_job now j)"
  by (auto simp: row_defs cancel_job_def)

lemma cancel_repository_jobs_inv: "queue_inv db \<Longrightarrow> queue_inv (cancel_repository_jobs now r db)"
  by (simp add: cancel_repository_jobs_def update_jobs_inv cancel_job_keeps)

lemma cancel_installation_jobs_inv: "queue_inv db \<Longrightarrow> queue_inv (cancel_installation_jobs now rs db)"
  by (simp add: cancel_installation_jobs_def update_jobs_inv cancel_job_keeps)

section \<open>Runs\<close>

datatype queue_label = Grant uuid | Silent

inductive queue_step :: "queue_db \<Rightarrow> queue_label \<Rightarrow> queue_db \<Rightarrow> bool" where
  step_enqueue: "enqueue printed now i spec db = Ok (k, db') \<Longrightarrow> queue_step db Silent db'"
| step_cancel: "queue_step db Silent (snd (request_cancel now i db))"
| step_skip: "skip_current_item now i db = Ok (b, db') \<Longrightarrow> queue_step db Silent db'"
| step_waiting: "queue_step db Silent (snd (mark_waiting_approval now i w t d db))"
| step_approve: "approve_plan now i db = Ok (b, db') \<Longrightarrow> queue_step db Silent db'"
| step_lease: "queue_step db (Grant t) (snd (lease_next now w t locked db))"
| step_renew: "queue_step db Silent (snd (renew_lease now i w t db))"
| step_succeeded: "queue_step db Silent (snd (mark_succeeded now i w t r db))"
| step_failed: "queue_step db Silent (snd (mark_failed now i w t r db))"
| step_link: "link_job_check_run now i r u it db = Ok db' \<Longrightarrow> queue_step db Silent db'"
| step_cancel_repository: "queue_step db Silent (cancel_repository_jobs now r db)"
| step_cancel_installation: "queue_step db Silent (cancel_installation_jobs now rs db)"

inductive_cases queue_step_cases: "queue_step db l db'"
inductive_cases silent_step_cases: "queue_step db Silent db'"

inductive queue_run :: "queue_db \<Rightarrow> uuid list \<Rightarrow> queue_db \<Rightarrow> bool" where
  run_nil: "queue_run db [] db"
| run_silent: "queue_run db ts db' \<Longrightarrow> queue_step db' Silent db'' \<Longrightarrow> queue_run db ts db''"
| run_grant: "queue_run db ts db' \<Longrightarrow> queue_step db' (Grant t) db'' \<Longrightarrow> queue_run db (t # ts) db''"

definition empty_queue :: "i64 list \<Rightarrow> bool \<Rightarrow> queue_db" where
  "empty_queue repos connected =
     \<lparr>jobs = [], repositories = repos, nats_connected = connected, wakeups = []\<rparr>"

lemmas statement_inv = request_cancel_inv mark_waiting_approval_inv lease_next_inv renew_lease_inv
  mark_succeeded_inv mark_failed_inv cancel_repository_jobs_inv cancel_installation_jobs_inv

lemmas fallible_inv = enqueue_inv skip_current_item_inv approve_plan_inv link_job_check_run_inv

lemma queue_step_inv: "queue_step db l db' \<Longrightarrow> queue_inv db \<Longrightarrow> queue_inv db'"
  by (erule queue_step.cases) (auto simp: statement_inv dest: fallible_inv)

lemma queue_run_inv: "queue_run db ts db' \<Longrightarrow> queue_inv db \<Longrightarrow> queue_inv db'"
  by (induction rule: queue_run.induct) (auto intro: queue_step_inv)

lemma queue_inv_empty: "queue_inv (empty_queue repos connected)"
  by (simp add: queue_inv_def empty_queue_def)

end
