(* ===== verification/Queue_Properties.thy ===== *)
theory Queue_Properties
  imports Queue_Safety
begin

text \<open>
  What the queue promises to its clients, proved from the invariant and the step relation:
  terminal jobs stay as they are, a lease that was superseded or released never works
  again, the oldest free job is leased, one active job per key, and cancellation is final.
\<close>

lemma succeeded_for_head_Cons:
  "succeeded_for_head printed key sha db = j # rest \<Longrightarrow>
     j \<in> set (jobs db) \<and> same_key key j \<and> state j = JSucceeded"
  by (drule arg_cong [where f = set]) (auto simp: succeeded_for_head_def)

lemma enqueue_cases:
  assumes "enqueue printed now i spec db = Ok (k, db')"
  shows "(\<exists>j \<in> set (jobs db). same_key (deduplication_key spec) j \<and> state j = JSucceeded
            \<and> k = job_id j \<and> db' = db)
       \<or> (\<exists>db1. insert_job now i spec db = Ok (k, db1) \<and> db' = publish k db1)"
  using assms
  by (auto simp: enqueue_def Let_def and_then_Ok split: list.splits option.splits if_splits
      dest: succeeded_for_head_Cons)

section \<open>Rows across statements\<close>

text \<open>
  \<open>outlives R db db'\<close>: every row of \<open>db\<close> has a successor in \<open>db'\<close>, and every row of \<open>db'\<close>
  is such a successor or a freshly queued one.
\<close>

definition outlives :: "(job \<Rightarrow> job \<Rightarrow> bool) \<Rightarrow> queue_db \<Rightarrow> queue_db \<Rightarrow> bool" where
  "outlives R db db' \<longleftrightarrow>
     (\<exists>g new. jobs db' = map g (jobs db) @ new \<and> (\<forall>j \<in> set (jobs db). job_id (g j) = job_id j \<and> R j (g j))
        \<and> (\<forall>j \<in> set new. state j = JQueued \<and> lease_token j = None))"

lemma outlives_update:
  "(\<And>j. j \<in> set (jobs db) \<Longrightarrow> P j \<Longrightarrow> job_id (f j) = job_id j \<and> R j (f j)) \<Longrightarrow>
   (\<And>j. R j j) \<Longrightarrow> outlives R db (update_jobs P f db)"
  unfolding outlives_def
  by (rule exI [of _ "\<lambda>j. if P j then f j else j"], rule exI [of _ "[]"]) auto

lemma outlives_refl: "(\<And>j. R j j) \<Longrightarrow> outlives R db db"
  unfolding outlives_def by (rule exI [of _ id], rule exI [of _ "[]"]) simp

lemma outlives_publish [simp]: "outlives R db (publish i db') = outlives R db db'"
  by (simp add: outlives_def)

lemma outlives_execute_fallible:
  assumes "execute_fallible P f db = Ok r"
    and "\<And>j j'. P j \<Longrightarrow> f j = Some j' \<Longrightarrow> job_id j' = job_id j \<and> R j j'" "\<And>j. R j j"
  shows "outlives R db (snd r)"
proof -
  from assms(1) have r: "r = execute P (\<lambda>j. the (f j)) db"
    and some: "\<And>j. j \<in> set (jobs db) \<Longrightarrow> P j \<Longrightarrow> \<exists>j'. f j = Some j'"
    by (auto simp: execute_fallible_Ok)
  show ?thesis
    unfolding r execute_snd using some assms(2) by (intro outlives_update assms(3)) fastforce
qed

lemma outlives_enqueue:
  assumes "enqueue printed now i spec db = Ok (k, db')" "\<And>j. R j j"
  shows "outlives R db db'"
proof -
  have ins: "outlives R db db1" if "insert_job now i spec db = Ok (k1, db1)" for k1 db1
  proof (cases "jobs db1 = jobs db")
    case True
    then show ?thesis using outlives_refl [of R db] assms(2) by (simp add: outlives_def)
  next
    case False
    with that have "jobs db1 = map id (jobs db) @ [new_job i now spec]"
      by (auto simp: insert_job_def split: option.splits if_splits)
    then show ?thesis
      unfolding outlives_def using assms(2)
      by (intro exI [of _ id] exI [of _ "[new_job i now spec]"]) (simp add: new_job_def)
  qed
  from assms(1) show ?thesis
    using ins by (auto simp: enqueue_def Let_def and_then_Ok outlives_refl assms(2) split: list.splits)
qed

text \<open>The relation each statement keeps between a row and its successor, by label.\<close>

definition row_step :: "queue_label \<Rightarrow> job \<Rightarrow> job \<Rightarrow> bool" where
  "row_step l j j' \<longleftrightarrow>
     (is_terminal j \<longrightarrow> state j' = state j \<and> job_result j' = job_result j \<and> plan j' = plan j
        \<and> attempt j' = attempt j \<and> cancel_requested j' = cancel_requested j)
     \<and> (lease_token j' = None \<or> lease_token j' = lease_token j
        \<or> (\<exists>t. l = Grant t \<and> lease_token j' = Some t))"

lemma row_step_refl [simp]: "row_step l j j"
  by (simp add: row_step_def)

lemma row_step_release:
  "\<not> is_terminal j \<Longrightarrow> lease_token j' = None \<or> lease_token j' = lease_token j \<Longrightarrow> row_step l j j'"
  by (auto simp: row_step_def)

lemmas stmt_defs = holds_lease_def can_skip_def can_approve_def is_terminal_def is_active_def
  release_lease_def is_exhausted_def fail_exhausted_def

lemma lease_next_cases:
  assumes "queue_inv db"
  obtains (none) "lease_next now w t locked db =
      (None, update_jobs (is_exhausted now) (fail_exhausted now) db)"
      "\<forall>j \<in> set (jobs db). is_leasable now j \<longrightarrow> job_id j \<in> set locked"
  | (granted) row where "row \<in> set (jobs db)" "is_leasable now row" "job_id row \<notin> set locked"
      "\<forall>j \<in> set (jobs db). is_leasable now j \<and> job_id j \<notin> set locked \<longrightarrow>
         (created_at row, job_id row) \<le> (created_at j, job_id j)"
      "lease_next now w t locked db =
        (Some \<lparr>leased_id = job_id row, leased_repository_id = repository_id row,
           leased_pull_request_number = pull_request_number row, leased_kind = kind row,
           leased_plan = plan row, leased_until = now + lease_duration, leased_token = t,
           leased_attempt = attempt row + 1, leased_max_attempts = max_attempts row\<rparr>,
         db\<lparr>jobs := map (\<lambda>j. if j = row then take_lease now w t j
            else if is_exhausted now j then fail_exhausted now j else j) (jobs db)\<rparr>)"
proof -
  let ?db1 = "update_jobs (is_exhausted now) (fail_exhausted now) db"
  let ?g = "\<lambda>j. if is_exhausted now j then fail_exhausted now j else j"
  have leas: "is_leasable now (?g j) \<longleftrightarrow> is_leasable now j" for j
    by (auto simp: is_leasable_def is_exhausted_def fail_exhausted_def)
  have same: "?g j = j" if "is_leasable now j" for j
    using that by (auto simp: is_leasable_def is_exhausted_def)
  have gid: "job_id (?g j) = job_id j" for j
    by (simp add: fail_exhausted_def release_lease_def)
  have cand: "set (candidates now locked ?db1) =
      {j \<in> set (jobs db). is_leasable now j \<and> job_id j \<notin> set locked}"
  proof (rule set_eqI)
    fix x
    have "x \<in> set (candidates now locked ?db1) \<longleftrightarrow>
        (\<exists>j \<in> set (jobs db). x = ?g j \<and> is_leasable now (?g j) \<and> job_id (?g j) \<notin> set locked)"
      unfolding set_candidates jobs_update set_map by blast
    also have "\<dots> \<longleftrightarrow> (\<exists>j \<in> set (jobs db). x = j \<and> is_leasable now j \<and> job_id j \<notin> set locked)"
      unfolding leas gid using same by (metis (no_types))
    finally show "x \<in> set (candidates now locked ?db1) \<longleftrightarrow>
        x \<in> {j \<in> set (jobs db). is_leasable now j \<and> job_id j \<notin> set locked}" by blast
  qed
  show thesis
  proof (cases "candidates now locked ?db1")
    case Nil
    with cand have "\<forall>j \<in> set (jobs db). is_leasable now j \<longrightarrow> job_id j \<in> set locked" by auto
    with Nil show thesis by (intro none) (simp_all add: lease_next_def)
  next
    case (Cons row rest)
    then have row: "row \<in> set (jobs db)" "is_leasable now row" "job_id row \<notin> set locked"
      using cand by auto
    have "sorted (map (\<lambda>j. (created_at j, job_id j)) (row # rest))"
      unfolding Cons [symmetric] candidates_def by (rule sorted_sort_key)
    moreover have "j = row \<or> j \<in> set rest"
      if "j \<in> set (jobs db)" "is_leasable now j" "job_id j \<notin> set locked" for j
      using that cand Cons by auto
    ultimately have oldest: "\<forall>j \<in> set (jobs db). is_leasable now j \<and> job_id j \<notin> set locked \<longrightarrow>
         (created_at row, job_id row) \<le> (created_at j, job_id j)" by fastforce
    have "(if job_id (?g j) = job_id row then take_lease now w t (?g j) else ?g j) =
        (if j = row then take_lease now w t j else ?g j)" if "j \<in> set (jobs db)" for j
      using queue_inv_ids [OF assms that row(1)] same [OF row(2)] gid [of j] by auto
    then have "map (\<lambda>j. if job_id j = job_id row then take_lease now w t j else j) (map ?g (jobs db))
      = map (\<lambda>j. if j = row then take_lease now w t j else ?g j) (jobs db)"
      by (simp add: comp_def)
    with Cons show thesis
      by (intro granted [OF row oldest]) (simp add: lease_next_def update_jobs_def)
  qed
qed

lemma outlives_lease_next:
  assumes "queue_inv db"
  shows "outlives (row_step (Grant t)) db (snd (lease_next now w t locked db))"
  using assms
proof (cases rule: lease_next_cases [of db now w t locked])
  case none
  then show ?thesis
    by (auto intro!: outlives_update simp: row_step_def stmt_defs)
next
  case (granted row)
  then have "outlives (row_step (Grant t)) db (db\<lparr>jobs := map (\<lambda>j. if j = row then take_lease now w t j
            else if is_exhausted now j then fail_exhausted now j else j) (jobs db)\<rparr>)"
    unfolding outlives_def
    by (intro exI [of _ "\<lambda>j. if j = row then take_lease now w t j
            else if is_exhausted now j then fail_exhausted now j else j"] exI [of _ "[]"])
      (auto simp: row_step_def stmt_defs take_lease_def is_leasable_def)
  with granted(5) show ?thesis by simp
qed

lemma outlives_step:
  assumes "queue_step db l db'" "queue_inv db"
  shows "outlives (row_step l) db db'"
  using assms
proof (cases rule: queue_step.cases)
  case step_enqueue
  then show ?thesis by (auto intro: outlives_enqueue)
next
  case (step_skip now i b)
  then show ?thesis
    unfolding skip_current_item_def
    by (auto dest!: outlives_execute_fallible [where R = "row_step Silent"]
        simp: stmt_defs row_step_def)
next
  case (step_approve now i b)
  then show ?thesis
    unfolding approve_plan_def and_then_Ok
    by (auto dest!: outlives_execute_fallible [where R = "row_step Silent"]
        simp: stmt_defs row_step_def)
next
  case step_lease
  with assms(2) show ?thesis by (simp add: outlives_lease_next)
next
  case step_link
  then show ?thesis
    by (auto simp: link_job_check_run_def row_step_def split: if_splits intro!: outlives_update)
qed (auto intro!: outlives_update simp: request_cancel_def mark_waiting_approval_def renew_lease_def
    mark_succeeded_def mark_failed_def cancel_repository_jobs_def cancel_installation_jobs_def
    cancel_job_def row_step_def stmt_defs)

section \<open>Runs\<close>

definition same_outcome :: "job \<Rightarrow> job \<Rightarrow> bool" where
  "same_outcome j j' \<longleftrightarrow> job_id j' = job_id j \<and> state j' = state j \<and> job_result j' = job_result j
     \<and> plan j' = plan j \<and> attempt j' = attempt j \<and> cancel_requested j' = cancel_requested j"

lemma terminal_step:
  assumes "queue_step db l db'" "queue_inv db" "j \<in> set (jobs db)" "is_terminal j"
  shows "\<exists>j' \<in> set (jobs db'). same_outcome j j' \<and> is_terminal j'"
proof -
  from outlives_step [OF assms(1,2)] obtain g new where
    g: "jobs db' = map g (jobs db) @ new" "job_id (g j) = job_id j" "row_step l j (g j)"
    using assms(3) by (auto simp: outlives_def)
  then have "same_outcome j (g j)" "is_terminal (g j)"
    using assms(4) by (auto simp: row_step_def same_outcome_def is_terminal_def)
  with g(1) assms(3) show ?thesis by auto
qed

lemma terminal_run:
  assumes "queue_run db ts db'" "queue_inv db" "j \<in> set (jobs db)" "is_terminal j"
  shows "\<exists>j' \<in> set (jobs db'). same_outcome j j' \<and> is_terminal j'"
  using assms
proof (induction rule: queue_run.induct)
  case (run_nil db)
  then show ?case by (auto simp: same_outcome_def)
next
  case (run_silent db ts db' db'')
  then obtain j1 where "j1 \<in> set (jobs db')" "same_outcome j j1" "is_terminal j1" by blast
  with terminal_step [OF run_silent.hyps(2) queue_run_inv [OF run_silent.hyps(1)]] run_silent.prems(1)
  show ?case by (fastforce simp: same_outcome_def)
next
  case (run_grant db ts db' t db'')
  then obtain j1 where "j1 \<in> set (jobs db')" "same_outcome j j1" "is_terminal j1" by blast
  with terminal_step [OF run_grant.hyps(2) queue_run_inv [OF run_grant.hyps(1)]] run_grant.prems(1)
  show ?case by (fastforce simp: same_outcome_def)
qed

definition fenced :: "uuid \<Rightarrow> uuid \<Rightarrow> queue_db \<Rightarrow> bool" where
  "fenced i t db \<longleftrightarrow> (\<forall>j \<in> set (jobs db). job_id j = i \<longrightarrow> lease_token j \<noteq> Some t)"

lemma fenced_step:
  assumes "queue_step db l db'" "queue_inv db" "l \<noteq> Grant t" "fenced i t db"
  shows "fenced i t db'"
proof -
  from outlives_step [OF assms(1,2)] obtain g new where
    g: "jobs db' = map g (jobs db) @ new" "\<forall>j \<in> set (jobs db). job_id (g j) = job_id j \<and> row_step l j (g j)"
      "\<forall>j \<in> set new. lease_token j = None"
    by (auto simp: outlives_def)
  with assms(3,4) show ?thesis by (fastforce simp: fenced_def row_step_def)
qed

lemma fenced_run:
  assumes "queue_run db ts db'" "queue_inv db" "t \<notin> set ts" "fenced i t db"
  shows "fenced i t db'"
  using assms
proof (induction rule: queue_run.induct)
  case (run_silent db ts db' db'')
  then show ?case using fenced_step [OF run_silent.hyps(2) queue_run_inv [OF run_silent.hyps(1)]] by simp
next
  case (run_grant db ts db' t' db'')
  then show ?case using fenced_step [OF run_grant.hyps(2) queue_run_inv [OF run_grant.hyps(1)]] by simp
qed simp

text \<open>The statements a worker issues under a lease, and what refusing one of them means.\<close>

definition refuses :: "uuid \<Rightarrow> string \<Rightarrow> uuid \<Rightarrow> queue_db \<Rightarrow> bool" where
  "refuses i w t db \<longleftrightarrow> (\<forall>now v.
     \<not> assert_lease now i w t db
     \<and> renew_lease now i w t db = (False, db)
     \<and> mark_waiting_approval now i w t v db = (False, db)
     \<and> mark_succeeded now i w t v db = (False, db)
     \<and> mark_failed now i w t v db = (False, db))"

lemma refuses_no_holder: "(\<forall>j \<in> set (jobs db). \<forall>now. \<not> holds_lease now i w t j) \<Longrightarrow> refuses i w t db"
  by (auto simp: refuses_def assert_lease_def renew_lease_def mark_waiting_approval_def
      mark_succeeded_def mark_failed_def execute_def rows_affected_def find_Some_iff
      filter_empty_conv split: option.splits)

lemma refuses_fenced: "fenced i t db \<Longrightarrow> refuses i w t db"
  by (rule refuses_no_holder) (auto simp: fenced_def holds_lease_def)

lemma refuses_terminal:
  assumes "queue_inv db" "j \<in> set (jobs db)" "job_id j = i" "is_terminal j"
  shows "refuses i w t db"
proof (rule refuses_no_holder, intro ballI allI)
  fix k now
  assume "k \<in> set (jobs db)"
  then have "job_id k = i \<Longrightarrow> k = j" using queue_inv_ids [OF assms(1) _ assms(2)] assms(3) by simp
  with assms(4) show "\<not> holds_lease now i w t k" by (auto simp: holds_lease_def is_terminal_def)
qed

section \<open>Properties\<close>

text \<open>
  C1: in every state the queue reaches from an empty table, at most one active job exists
  per repository, pull request and kind, lease fields are set exactly on running jobs,
  attempts stay within their bounds, and a requested cancellation is a cancelled job.
\<close>

theorem queue_run_invariant:
  assumes "queue_run (empty_queue repos connected) ts db"
  shows "queue_inv db"
  using queue_run_inv [OF assms queue_inv_empty] .

text \<open>
  A job that has succeeded, failed or been cancelled keeps its state, result, plan and
  attempt count in every later state.
\<close>

theorem terminal_jobs_stay:
  assumes "queue_inv db" "queue_run db ts db'" "j \<in> set (jobs db)" "is_terminal j"
  shows "\<exists>j' \<in> set (jobs db'). same_outcome j j'"
  using terminal_run [OF assms(2,1,3,4)] by blast

text \<open>
  C2: fencing. A token that a job does not currently carry is never accepted for it again,
  in any later state in which no lease was granted under that token: the worker cannot
  renew, complete, fail or park the job, and the refused statement changes nothing.
\<close>

theorem stale_lease_refused:
  assumes "queue_inv db" "fenced i t db" "queue_run db ts db'" "t \<notin> set ts"
  shows "refuses i w t db'"
  using refuses_fenced [OF fenced_run [OF assms(3,1,4,2)]] .

text \<open>
  C3: \<open>lease_next\<close> grants the oldest job that is free, by creation time and identifier,
  among the unlocked ones; its attempts stay within the maximum, the granted worker
  holds the lease at that time, no other worker and token did before or does after, and
  nothing is granted exactly when no unlocked job is free.
\<close>

theorem lease_next_oldest:
  assumes inv: "queue_inv db" and res: "lease_next now w t locked db = (r, db')"
  shows "case r of
      None \<Rightarrow> \<not> (\<exists>j \<in> set (jobs db). is_leasable now j \<and> job_id j \<notin> set locked)
    | Some l \<Rightarrow> (\<exists>row \<in> set (jobs db). job_id row = leased_id l \<and> is_leasable now row
          \<and> job_id row \<notin> set locked
          \<and> (\<forall>j \<in> set (jobs db). is_leasable now j \<and> job_id j \<notin> set locked \<longrightarrow>
                (created_at row, job_id row) \<le> (created_at j, job_id j)))
        \<and> leased_attempt l \<le> leased_max_attempts l
        \<and> assert_lease now (leased_id l) w t db'
        \<and> (\<forall>w' t'. \<not> assert_lease now (leased_id l) w' t' db)
        \<and> (\<forall>w' t'. assert_lease now (leased_id l) w' t' db' \<longrightarrow> w' = w \<and> t' = t)"
  using inv
proof (cases rule: lease_next_cases [of db now w t locked])
  case none
  with res show ?thesis by auto
next
  case (granted row)
  let ?g = "\<lambda>j. if j = row then take_lease now w t j
      else if is_exhausted now j then fail_exhausted now j else j"
  from granted(5) res have r: "r = Some \<lparr>leased_id = job_id row, leased_repository_id = repository_id row,
           leased_pull_request_number = pull_request_number row, leased_kind = kind row,
           leased_plan = plan row, leased_until = now + lease_duration, leased_token = t,
           leased_attempt = attempt row + 1, leased_max_attempts = max_attempts row\<rparr>"
    and db': "jobs db' = map ?g (jobs db)" by auto
  have gid: "job_id (?g j) = job_id j" for j
    by (simp add: take_lease_def fail_exhausted_def release_lease_def)
  have before: "find (\<lambda>j. job_id j = job_id row) (jobs db) = Some row"
    using queue_inv_find [OF inv granted(1)] by simp
  have "queue_inv db'" using lease_next_inv [OF inv, of now w t locked] res by simp
  moreover have "take_lease now w t row \<in> set (jobs db')" using granted(1) by (auto simp: db')
  ultimately have after: "find (\<lambda>j. job_id j = job_id row) (jobs db') = Some (take_lease now w t row)"
    by (rule queue_inv_find) (simp add: take_lease_def)
  have new: "holds_lease now (job_id row) w' t' (take_lease now w t row) \<longleftrightarrow> w' = w \<and> t' = t" for w' t'
    using granted(2) by (auto simp: holds_lease_def take_lease_def is_leasable_def lease_duration_def)
  have old: "\<not> holds_lease now (job_id row) w' t' row" for w' t'
    using granted(2) by (auto simp: holds_lease_def is_leasable_def lease_expired_def split: option.splits)
  show ?thesis
    using granted(1-4) by (auto simp: r assert_lease_def before after new old is_leasable_def)
qed

text \<open>
  Enqueueing is idempotent per key. A returned identifier is a job of that key which
  is active afterwards or had already succeeded for the same head; when an active one
  existed, or one had succeeded, no row is added, and otherwise exactly one queued row is.
\<close>

theorem enqueue_deduplicates:
  assumes inv: "queue_inv db" and res: "enqueue printed now i spec db = Ok (k, db')"
  shows "(\<exists>j \<in> set (jobs db'). job_id j = k \<and> same_key (deduplication_key spec) j
            \<and> (is_active j \<or> state j = JSucceeded))
       \<and> (jobs db' = jobs db
          \<or> (jobs db' = jobs db @ [new_job i now spec] \<and> k = i
             \<and> (\<forall>j \<in> set (jobs db). same_key (deduplication_key spec) j \<longrightarrow> \<not> is_active j)))"
proof -
  have ins: ?thesis if "insert_job now i spec db = Ok (k, db1)" "jobs db1 = jobs db'" for db1
  proof (cases "find (\<lambda>j. same_key (deduplication_key spec) j \<and> is_active j) (jobs db)")
    case None
    with that have "jobs db' = jobs db @ [new_job i now spec]" "k = i"
      by (auto simp: insert_job_def split: if_splits)
    moreover have "same_key (deduplication_key spec) (new_job i now spec)"
      by (simp add: same_key_def deduplication_key_def new_job_def)
    ultimately show ?thesis using None
      by (auto simp: find_None_iff) (auto simp: new_job_def is_active_def)
  next
    case (Some j)
    with that show ?thesis by (auto simp: insert_job_def find_Some_iff)
  qed
  from enqueue_cases [OF res] show ?thesis
    using ins by (elim disjE bexE exE conjE) auto
qed

text \<open>
  C11: cancellation is final. Once \<open>request_cancel\<close> has reported a change, the job is
  cancelled in every later state and every statement of every worker for it is refused,
  whatever is granted in between.
\<close>

theorem cancel_is_final:
  assumes inv: "queue_inv db" and cancel: "request_cancel now i db = (True, db1)"
    and run: "queue_run db1 ts db2"
  shows "(\<exists>j \<in> set (jobs db2). job_id j = i \<and> state j = JCancelled \<and> cancel_requested j)
       \<and> (\<forall>w t. refuses i w t db2)"
proof -
  from cancel have db1: "db1 = snd (request_cancel now i db)"
    and "rows_affected (\<lambda>j. job_id j = i \<and> is_active j) db = 1"
    by (auto simp: request_cancel_def execute_def)
  then obtain j where j: "j \<in> set (jobs db)" "job_id j = i" "is_active j"
    using rows_affected_0 [of "\<lambda>j. job_id j = i \<and> is_active j" db] by auto
  let ?c = "(release_lease j)\<lparr>state := JCancelled, cancel_requested := True, updated_at := now\<rparr>"
  have c: "?c \<in> set (jobs db1)" "is_terminal ?c"
    using j by (auto simp: db1 request_cancel_def is_terminal_def image_iff)
  have inv1: "queue_inv db1" unfolding db1 by (rule request_cancel_inv [OF inv])
  from terminal_run [OF run inv1 c] obtain k where
    k: "k \<in> set (jobs db2)" "same_outcome ?c k" "is_terminal k" by blast
  then have "job_id k = i \<and> state k = JCancelled \<and> cancel_requested k"
    using j(2) by (simp add: same_outcome_def release_lease_def)
  moreover have "refuses i w t db2" for w t
    using refuses_terminal [OF queue_run_inv [OF run inv1] k(1) _ k(3)] calculation by blast
  ultimately show ?thesis using k(1) by blast
qed

text \<open>
  Skipping consumes exactly the current item. When \<open>skip_current_item\<close> reports a change
  the job is queued again without a lease, its plan differs only in \<open>skipped_items\<close>, which
  gains the item at its end, and its attempts are not counted up.
\<close>

theorem skip_consumes_current_item:
  assumes inv: "queue_inv db" and skip: "skip_current_item now i db = Ok (True, db')"
    and wf: "\<forall>j \<in> set (jobs db). json_wf (plan j)"
  shows "\<exists>j \<in> set (jobs db). \<exists>j' \<in> set (jobs db'). \<exists>item.
       job_id j = i \<and> job_id j' = i \<and> current_item j = Some item
     \<and> state j' = JQueued \<and> lease_token j' = None \<and> current_item j' = None
     \<and> (\<forall>key. jget key (plan j') = (if key = ''skipped_items'' then Some (skipped_items_of j)
           else jget key (plan j)))
     \<and> last (jsonb_elements (skipped_items_of j)) = JStr item
     \<and> attempt j' \<le> attempt j"
proof -
  let ?f = "\<lambda>j. map_option (\<lambda>p. (release_lease j)\<lparr>state := JQueued, current_item := None, plan := p,
             attempt := max (attempt j - 1) 0, updated_at := now\<rparr>)
        (jsonb_set (plan j) ''skipped_items'' (skipped_items_of j))"
  from skip have ok: "\<forall>j \<in> set (jobs db). can_skip i j \<longrightarrow> ?f j \<noteq> None"
    and ex: "execute (can_skip i) (\<lambda>j. the (?f j)) db = (True, db')"
    by (simp_all add: skip_current_item_def execute_fallible_Ok)
  then have "rows_affected (can_skip i) db = 1" by (simp add: execute_def)
  then obtain j where j: "j \<in> set (jobs db)" "can_skip i j"
    using rows_affected_0 [of "can_skip i" db] by auto
  with ok obtain p where p: "jsonb_set (plan j) ''skipped_items'' (skipped_items_of j) = Some p" by auto
  from ex j have "the (?f j) \<in> set (jobs db')" by (auto simp: execute_def image_iff)
  moreover obtain item where item: "current_item j = Some item" using j(2) by (auto simp: can_skip_def)
  moreover have "last (jsonb_elements (skipped_items_of j)) = JStr item"
    using item by (cases "case jget ''skipped_items'' (plan j) of None \<Rightarrow> JArr [] | Some v \<Rightarrow> v")
      (simp_all add: skipped_items_of_def)
  moreover have "0 \<le> attempt j" using queue_inv_wf [OF inv j(1)] by (simp add: job_wf_def)
  ultimately show ?thesis
    using j p wf jget_jsonb_set [OF p]
    by (intro bexI [of _ j] bexI [of _ "the (?f j)"] exI [of _ item])
      (auto simp: can_skip_def release_lease_def)
qed

section \<open>Concrete runs\<close>

definition sample_spec :: job_spec where
  "sample_spec = \<lparr>spec_repository_id = 7, spec_pull_request_number = 3, spec_kind = CiRepair,
     spec_plan = jobj [(''head_sha'', JStr ''abc''), (''source'', JStr ''reconcile'')]\<rparr>"

definition sample_queue :: queue_db where
  "sample_queue = (empty_queue [7] True)\<lparr>jobs := [new_job 1 0 sample_spec], wakeups := [1]\<rparr>"

lemma sample_enqueue: "enqueue (\<lambda>_. []) 0 1 sample_spec (empty_queue [7] True) = Ok (1, sample_queue)"
  by code_simp

lemma sample_run: "queue_run (empty_queue [7] True) [] sample_queue"
  by (rule run_silent [OF run_nil step_enqueue [OF sample_enqueue]])

lemma sample_inv: "queue_inv sample_queue"
  by (rule queue_run_inv [OF sample_run queue_inv_empty])

definition sample_cancelled :: queue_db where
  "sample_cancelled = snd (request_cancel 5 1 sample_queue)"

lemma sample_cancelled_inv: "queue_inv sample_cancelled"
  unfolding sample_cancelled_def by (rule request_cancel_inv [OF sample_inv])

theorem queue_run_invariant_witness:
  "queue_run (empty_queue [7] True) [] sample_queue \<and> queue_inv sample_queue"
  using queue_run_invariant [OF sample_run] sample_run by simp

theorem terminal_jobs_stay_witness:
  "\<exists>j' \<in> set (jobs (snd (lease_next 9 ''w'' 2 [] sample_cancelled))).
     same_outcome (hd (jobs sample_cancelled)) j'"
proof (rule terminal_jobs_stay [OF sample_cancelled_inv])
  show "queue_run sample_cancelled [2] (snd (lease_next 9 ''w'' 2 [] sample_cancelled))"
    by (rule run_grant [OF run_nil step_lease])
  show "hd (jobs sample_cancelled) \<in> set (jobs sample_cancelled)" by code_simp
  show "is_terminal (hd (jobs sample_cancelled))" by code_simp
qed

theorem stale_lease_refused_witness:
  "refuses 1 ''worker-a'' 4 (snd (lease_next 9 ''worker-b'' 5 [] sample_queue))"
proof (rule stale_lease_refused [OF sample_inv])
  show "fenced 1 4 sample_queue" by (simp add: fenced_def sample_queue_def new_job_def)
  show "queue_run sample_queue [5] (snd (lease_next 9 ''worker-b'' 5 [] sample_queue))"
    by (rule run_grant [OF run_nil step_lease])
qed simp

theorem lease_next_oldest_witness:
  "leased_attempt (the (fst (lease_next 9 ''w'' 2 [] sample_queue))) = 1
   \<and> assert_lease 9 1 ''w'' 2 (snd (lease_next 9 ''w'' 2 [] sample_queue))"
proof -
  have "fst (lease_next 9 ''w'' 2 [] sample_queue) = Some \<lparr>leased_id = 1, leased_repository_id = 7,
      leased_pull_request_number = 3, leased_kind = ''ci_repair'',
      leased_plan = spec_plan sample_spec, leased_until = 300000009, leased_token = 2,
      leased_attempt = 1, leased_max_attempts = 5\<rparr>" (is "_ = Some ?l")
    by code_simp
  then have "lease_next 9 ''w'' 2 [] sample_queue = (Some ?l, snd (lease_next 9 ''w'' 2 [] sample_queue))"
    by (simp add: prod_eq_iff)
  from lease_next_oldest [OF sample_inv this] \<open>fst _ = Some ?l\<close> show ?thesis by simp
qed

theorem enqueue_deduplicates_witness:
  "\<exists>j \<in> set (jobs sample_queue). job_id j = 1 \<and> same_key (deduplication_key sample_spec) j"
  using enqueue_deduplicates [OF queue_inv_empty sample_enqueue] by blast

theorem cancel_is_final_witness:
  "refuses 1 ''w'' 2 (snd (lease_next 9 ''w'' 2 [] sample_cancelled))"
proof -
  have "fst (request_cancel 5 1 sample_queue) = True" by code_simp
  then have "request_cancel 5 1 sample_queue = (True, sample_cancelled)"
    by (simp add: sample_cancelled_def prod_eq_iff)
  from cancel_is_final [OF sample_inv this run_grant [OF run_nil step_lease]] show ?thesis by blast
qed

definition sample_running :: queue_db where
  "sample_running = projr (link_job_check_run 9 1 55 ''https://x'' (Some ''ci_repair'')
     (snd (lease_next 9 ''w'' 2 [] sample_queue)))"

lemma sample_running_inv: "queue_inv sample_running"
proof (rule link_job_check_run_inv [OF lease_next_inv [OF sample_inv, of 9 "''w''" 2 "[]"]])
  show "link_job_check_run 9 1 55 ''https://x'' (Some ''ci_repair'')
     (snd (lease_next 9 ''w'' 2 [] sample_queue)) = Ok sample_running"
    by code_simp
qed

theorem skip_consumes_current_item_witness:
  "\<exists>j \<in> set (jobs sample_running). current_item j = Some ''ci_repair''
     \<and> last (jsonb_elements (skipped_items_of j)) = JStr ''ci_repair''"
proof -
  have "is_ok (skip_current_item 9 1 sample_running) \<and> fst (projr (skip_current_item 9 1 sample_running))"
    by code_simp
  then obtain db' where skip: "skip_current_item 9 1 sample_running = Ok (True, db')"
    by (cases "skip_current_item 9 1 sample_running") (auto simp: prod_eq_iff)
  have wf: "\<forall>j \<in> set (jobs sample_running). json_wf (plan j)" by code_simp
  have "\<forall>j \<in> set (jobs sample_running). current_item j = Some ''ci_repair''" by code_simp
  with skip_consumes_current_item [OF sample_running_inv skip wf] show ?thesis by fastforce
qed

end
