(* ===== verification/Http.thy ===== *)
theory Http
  imports Rust_Text
begin

text \<open>
  What the HTTP clients rest on: effects that thread a world and may fail, URLs by the parts
  that the code reads, requests and responses, and the replacement of a substring. Sending a
  request, parsing and joining URLs and decoding a body are parameters.
\<close>

section \<open>Effects\<close>

type_synonym ('w, 'e, 'a) io = "'w \<Rightarrow> ('e, 'a) result \<times> 'w"

definition io_ok :: "'a \<Rightarrow> ('w, 'e, 'a) io" where
  "io_ok x w = (Ok x, w)"

definition io_lift :: "('e, 'a) result \<Rightarrow> ('w, 'e, 'a) io" where
  "io_lift r w = (r, w)"

definition io_then :: "('w, 'e, 'a) io \<Rightarrow> ('a \<Rightarrow> ('w, 'e, 'b) io) \<Rightarrow> ('w, 'e, 'b) io" where
  "io_then m f w = (case m w of (Inl e, w') \<Rightarrow> (Err e, w') | (Inr x, w') \<Rightarrow> f x w')"

definition io_map_err :: "('e \<Rightarrow> 'f) \<Rightarrow> ('w, 'e, 'a) io \<Rightarrow> ('w, 'f, 'a) io" where
  "io_map_err g m w = (case m w of (r, w') \<Rightarrow> (map_err g r, w'))"

lemma io_ok_simp [simp]: "io_ok x w = (Inr x, w)"
  by (simp add: io_ok_def)

lemma io_lift_simp [simp]: "io_lift r w = (r, w)"
  by (simp add: io_lift_def)

lemma io_then_cases:
  "io_then m f w = (r, w') \<longleftrightarrow>
     (\<exists>e. m w = (Inl e, w') \<and> r = Inl e) \<or> (\<exists>x w1. m w = (Inr x, w1) \<and> f x w1 = (r, w'))"
  by (auto simp: io_then_def split: prod.splits sum.splits)

lemma io_then_Ok: "io_then m f w = (Inr y, w') \<longleftrightarrow> (\<exists>x w1. m w = (Inr x, w1) \<and> f x w1 = (Inr y, w'))"
  by (auto simp: io_then_cases)

lemma io_then_lift [simp]:
  "io_then (io_lift (Inl e)) f w = (Inl e, w)" "io_then (io_lift (Inr x)) f w = f x w"
  "io_then (io_ok x) f w = f x w"
  by (simp_all add: io_then_def)

section \<open>URLs, requests and responses\<close>

record url =
  url_text :: string
  url_scheme :: string
  url_host :: "string option"
  url_port :: "nat option"
  url_username :: string
  url_password :: "string option"
  url_path :: string
  url_segments :: "string list option"

datatype http_method = GET | POST | PATCH

record 'b http_request =
  rq_method :: http_method
  rq_url :: url
  rq_bearer :: string
  rq_accept :: string
  rq_body :: "'b option"

record http_response =
  rs_status :: nat
  rs_links :: "string option list"
  rs_content_length :: "nat option"
  rs_chunks :: "(string, string) result list"

definition is_success :: "http_response \<Rightarrow> bool" where
  "is_success r \<longleftrightarrow> 200 \<le> rs_status r \<and> rs_status r < 300"

section \<open>Replacing a substring\<close>

text \<open>\<open>str::replace\<close> of a non-empty pattern: from left to right, without overlap.\<close>

function replace_all :: "string \<Rightarrow> string \<Rightarrow> string \<Rightarrow> string" where
  "replace_all p r s =
     (if p = [] then s
      else case find_sub p s of
          None \<Rightarrow> s
        | Some i \<Rightarrow> take i s @ r @ replace_all p r (drop (i + length p) s))"
  by pat_completeness auto
termination
proof (relation "measure (\<lambda>(p, r, s). length s)", goal_cases)
  case (2 p r s i)
  then have "contains_sub p s" by (metis find_sub_None option.distinct(1))
  then have "s \<noteq> []" using 2(1) by (auto simp: contains_sub_iff)
  with 2(1) show ?case by simp
qed simp

declare replace_all.simps [simp del]

section \<open>UTF-8\<close>

text \<open>\<open>String::from_utf8\<close>: the sequences that RFC 3629 allows.\<close>

definition cont_between :: "nat \<Rightarrow> nat \<Rightarrow> char \<Rightarrow> bool" where
  "cont_between lo hi c \<longleftrightarrow> lo \<le> byte c \<and> byte c \<le> hi"

fun utf8_valid :: "string \<Rightarrow> bool" where
  "utf8_valid [] = True"
| "utf8_valid (a # s) =
     (if byte a < 128 then utf8_valid s
      else if 194 \<le> byte a \<and> byte a \<le> 223 then
        (case s of b # t \<Rightarrow> cont_between 128 191 b \<and> utf8_valid t | _ \<Rightarrow> False)
      else if 224 \<le> byte a \<and> byte a \<le> 239 then
        (case s of
           b # c # t \<Rightarrow> cont_between (if byte a = 224 then 160 else 128) (if byte a = 237 then 159 else 191) b
             \<and> cont_between 128 191 c \<and> utf8_valid t
         | _ \<Rightarrow> False)
      else if 240 \<le> byte a \<and> byte a \<le> 244 then
        (case s of
           b # c # d # t \<Rightarrow> cont_between (if byte a = 240 then 144 else 128) (if byte a = 244 then 143 else 191) b
             \<and> cont_between 128 191 c \<and> cont_between 128 191 d \<and> utf8_valid t
         | _ \<Rightarrow> False)
      else False)"

end
