(* ===== verification/Pr_Controls.thy ===== *)
theory Pr_Controls
  imports Http Json
begin

text \<open>
  The pull-request contract of \<open>src/pr_controls.rs\<close>: plan items, the living work-plan
  comment and the final summary with their rendering and bounds, the run state machine
  driven by control requests, and the approval fingerprint. The URL parser, the JSON
  encoder and SHA-256 are parameters.
\<close>

definition work_plan_marker :: string where
  "work_plan_marker = ''<!-- pitools:work-plan:v1 -->''"

definition final_summary_marker_prefix :: string where
  "final_summary_marker_prefix = ''<!-- pitools:final-summary:v1:''"

abbreviation max_github_markdown_bytes :: nat where "max_github_markdown_bytes \<equiv> 60000"
abbreviation max_items :: nat where "max_items \<equiv> 100"
abbreviation max_item_id_bytes :: nat where "max_item_id_bytes \<equiv> 64"
abbreviation max_text_bytes :: nat where "max_text_bytes \<equiv> 1000"

datatype item_status =
  ItemPending | ItemInProgress | ItemCompleted | ItemFailed | ItemSkipped | ItemCancelled

fun label :: "item_status \<Rightarrow> string" where
  "label ItemPending = ''pending''"
| "label ItemInProgress = ''in progress''"
| "label ItemCompleted = ''completed''"
| "label ItemFailed = ''failed''"
| "label ItemSkipped = ''skipped''"
| "label ItemCancelled = ''cancelled''"

record plan_item =
  item_id :: string
  item_summary :: string
  item_status :: item_status

datatype contract_error = InvalidField string string | MarkdownTooLarge

datatype control_error =
  UnknownAction | Unauthorized | DuplicateAction | RunNotActive | ApprovalNotApplicable | NoCurrentItem

section \<open>Validation\<close>

definition identifier_reason :: string where
  "identifier_reason = ''must be 1-64 ASCII letters, digits, '' @ [CHR 0x27] @ ''.'' @ [CHR 0x27]
     @ '', '' @ [CHR 0x27] @ ''_'' @ [CHR 0x27] @ '' or '' @ [CHR 0x27] @ ''-'' @ [CHR 0x27]"

definition validate_identifier :: "string \<Rightarrow> string \<Rightarrow> (contract_error, unit) result" where
  "validate_identifier field value =
     reject_if (value = [] \<or> length value > max_item_id_bytes
        \<or> \<not> list_all (\<lambda>b. is_ascii_alphanumeric b \<or> b \<in> {CHR ''-'', CHR ''_'', CHR ''.''}) value)
       (InvalidField field identifier_reason)"

definition secret_indicators :: "string list" where
  "secret_indicators = [''github_pat_'', ''ghp_'', ''sk-proj-'', ''-----begin private key'',
     ''authorization: bearer'', ''x-access-token:'']"

definition validate_safe_text :: "string \<Rightarrow> string \<Rightarrow> (contract_error, unit) result" where
  "validate_safe_text field value =
     and_then (reject_if (trim value = [] \<or> length value > max_text_bytes \<or> contains_any [CR, NUL] value)
       (InvalidField field ''must be non-empty, single-line-safe text of at most 1000 bytes'')) (\<lambda>_.
     reject_if (list_ex (\<lambda>indicator. contains_sub indicator (to_ascii_lowercase value)) secret_indicators)
       (InvalidField field ''contains secret-like material''))"

definition validate_approval_hash :: "string \<Rightarrow> (contract_error, unit) result" where
  "validate_approval_hash value =
     (let e = InvalidField ''approval hash'' ''must use the sha256:<64 hex characters> format''
      in case strip_prefix ''sha256:'' value of
           None \<Rightarrow> Err e
         | Some hex_value \<Rightarrow>
             reject_if (length hex_value \<noteq> 64 \<or> \<not> list_all is_ascii_hexdigit hex_value) e)"

definition validate_items :: "plan_item list \<Rightarrow> (contract_error, unit) result" where
  "validate_items items =
     and_then (reject_if (length items > max_items)
       (InvalidField ''plan items'' ''cannot contain more than 100 entries'')) (\<lambda>_.
     reject_if (\<not> distinct (map item_id items))
       (InvalidField ''plan items'' ''item ids must be unique''))"

definition validate_https_url :: "(string \<Rightarrow> url option) \<Rightarrow> string \<Rightarrow> (contract_error, url) result" where
  "validate_https_url parse_url value =
     (case parse_url value of
        None \<Rightarrow> Err (InvalidField ''Check Run URL'' ''must be an absolute HTTPS URL'')
      | Some u \<Rightarrow>
          if url_scheme u \<noteq> ''https'' \<or> url_host u = None \<or> url_username u \<noteq> ''''
          then Err (InvalidField ''Check Run URL''
                 ''must be an absolute HTTPS URL without user information'')
          else Ok u)"

definition collect_safe_lines :: "string \<Rightarrow> string list \<Rightarrow> (contract_error, string list) result" where
  "collect_safe_lines field values =
     and_then (reject_if (length values > max_items)
       (InvalidField field ''cannot contain more than 100 entries'')) (\<lambda>_.
     and_then (for_each (validate_safe_text field) values) (\<lambda>_. Ok values))"

definition new_plan_item :: "string \<Rightarrow> string \<Rightarrow> item_status \<Rightarrow> (contract_error, plan_item) result" where
  "new_plan_item i summary status =
     and_then (validate_identifier ''item id'' i) (\<lambda>_.
     and_then (validate_safe_text ''item summary'' summary) (\<lambda>_.
     Ok \<lparr>item_id = i, item_summary = summary, item_status = status\<rparr>))"

section \<open>Rendering\<close>

definition escape_char :: "string \<Rightarrow> string" where
  "escape_char u =
     (if u = ''&'' then ''&amp;''
      else if u = ''<'' then ''&lt;''
      else if u = ''>'' then ''&gt;''
      else if u \<in> {[BACKSLASH], ''*'', ''['', '']'', [BACKTICK]} then BACKSLASH # u
      else if u = [LF] \<or> u = [TAB] then '' ''
      else if is_control u then []
      else u)"

definition escape_markdown :: "string \<Rightarrow> string" where
  "escape_markdown value = concat (map escape_char (chars value))"

definition ensure_render_bound :: "string \<Rightarrow> (contract_error, string) result" where
  "ensure_render_bound markdown =
     (if length markdown > max_github_markdown_bytes then Err MarkdownTooLarge else Ok markdown)"

definition render_section :: "string \<Rightarrow> string list \<Rightarrow> string" where
  "render_section heading values =
     [LF] @ ''## '' @ heading @ [LF, LF]
     @ (if values = [] then ''- None.'' @ [LF]
        else concat (map (\<lambda>v. ''- '' @ escape_markdown v @ [LF]) values))"

record work_plan_comment =
  wpc_check_run_url :: url
  wpc_items :: "plan_item list"
  wpc_approval_hash :: "string option"

definition new_work_plan_comment ::
  "(string \<Rightarrow> url option) \<Rightarrow> string \<Rightarrow> plan_item list \<Rightarrow> (contract_error, work_plan_comment) result" where
  "new_work_plan_comment parse_url check_run_url items =
     and_then (validate_items items) (\<lambda>_.
     and_then (validate_https_url parse_url check_run_url) (\<lambda>u.
     Ok \<lparr>wpc_check_run_url = u, wpc_items = items, wpc_approval_hash = None\<rparr>))"

definition with_approval_hash ::
  "work_plan_comment \<Rightarrow> string \<Rightarrow> (contract_error, work_plan_comment) result" where
  "with_approval_hash comment approval_hash =
     and_then (validate_approval_hash approval_hash) (\<lambda>_.
     Ok (comment\<lparr>wpc_approval_hash := Some approval_hash\<rparr>))"

definition dash :: string where
  "dash = '' '' @ [CHR 0xE2, CHR 0x80, CHR 0x94] @ '' ''"

definition render_item :: "plan_item \<Rightarrow> string" where
  "render_item item = ''- '' @ [BACKTICK] @ item_id item @ [BACKTICK] @ dash
     @ label (item_status item) @ dash @ escape_markdown (item_summary item) @ [LF]"

definition work_plan_text :: "work_plan_comment \<Rightarrow> string" where
  "work_plan_text c =
       work_plan_marker @ [LF] @ ''## PiTools work plan'' @ [LF, LF]
        @ ''[Open Check Run]('' @ url_text (wpc_check_run_url c) @ '')'' @ [LF, LF]
        @ (case wpc_approval_hash c of
             None \<Rightarrow> []
           | Some h \<Rightarrow> ''Approval fingerprint: '' @ [BACKTICK] @ h @ [BACKTICK, LF, LF])
        @ (if wpc_items c = [] then ''No work items.'' @ [LF]
           else concat (map render_item (wpc_items c)))
        @ [LF] @ ''Use the Check Run controls to approve planned work when requested, skip the current item, or cancel the run.'' @ [LF]"

definition render_work_plan :: "work_plan_comment \<Rightarrow> (contract_error, string) result" where
  "render_work_plan c = ensure_render_bound (work_plan_text c)"

record final_summary =
  fsum_run_id :: string
  fsum_changes :: "string list"
  fsum_tests :: "string list"
  fsum_remaining_blockers :: "string list"

definition new_final_summary ::
  "string \<Rightarrow> string list \<Rightarrow> string list \<Rightarrow> string list \<Rightarrow> (contract_error, final_summary) result" where
  "new_final_summary run_id changes tests blockers =
     and_then (validate_identifier ''run id'' run_id) (\<lambda>_.
     and_then (collect_safe_lines ''change'' changes) (\<lambda>cs.
     and_then (collect_safe_lines ''test'' tests) (\<lambda>ts.
     and_then (collect_safe_lines ''remaining blocker'' blockers) (\<lambda>bs.
     Ok \<lparr>fsum_run_id = run_id, fsum_changes = cs, fsum_tests = ts,
         fsum_remaining_blockers = bs\<rparr>))))"

definition render_final_summary :: "final_summary \<Rightarrow> (contract_error, string) result" where
  "render_final_summary s =
     ensure_render_bound
       (final_summary_marker_prefix @ fsum_run_id s @ '' -->'' @ [LF]
        @ ''## PiTools final summary'' @ [LF]
        @ render_section ''Changes'' (fsum_changes s)
        @ render_section ''Tests'' (fsum_tests s)
        @ render_section ''Remaining blockers'' (fsum_remaining_blockers s))"

section \<open>Control requests\<close>

datatype control_action = ApprovePlan | SkipCurrentItem | CancelRun

definition parse_action :: "string \<Rightarrow> (control_error, control_action) result" where
  "parse_action value =
     (if value = ''approve-plan'' then Ok ApprovePlan
      else if value = ''skip-current-item'' then Ok SkipCurrentItem
      else if value = ''cancel-run'' then Ok CancelRun
      else Err UnknownAction)"

record control_request =
  request_id :: string
  request_actor :: string
  request_action :: control_action

definition new_control_request ::
  "string \<Rightarrow> string \<Rightarrow> control_action \<Rightarrow> (contract_error, control_request) result" where
  "new_control_request i actor action =
     and_then (validate_identifier ''control request id'' i) (\<lambda>_.
     and_then (validate_identifier ''actor login'' actor) (\<lambda>_.
     Ok \<lparr>request_id = i, request_actor = actor, request_action = action\<rparr>))"

definition is_authorized :: "string \<Rightarrow> string \<Rightarrow> string list \<Rightarrow> bool" where
  "is_authorized actor pr_author maintainers \<longleftrightarrow>
     actor \<noteq> []
     \<and> ((pr_author \<noteq> [] \<and> eq_ignore_ascii_case actor pr_author)
        \<or> list_ex (\<lambda>m. m \<noteq> [] \<and> eq_ignore_ascii_case actor m) maintainers)"

datatype run_status = WaitingApproval | Running | RunCompleted | RunCancelled

record run_state =
  run_status :: run_status
  run_items :: "plan_item list"
  applied_request_ids :: "string set"

definition has_status :: "item_status \<Rightarrow> plan_item \<Rightarrow> bool" where
  "has_status s item \<longleftrightarrow> item_status item = s"

definition set_status :: "item_status \<Rightarrow> plan_item \<Rightarrow> plan_item" where
  "set_status s item = item\<lparr>item_status := s\<rparr>"

definition new_run :: "plan_item list \<Rightarrow> (contract_error, run_state) result" where
  "new_run items =
     and_then (validate_items items) (\<lambda>_.
     Ok (case update_first (has_status ItemPending) (set_status ItemInProgress) items of
           Some items' \<Rightarrow> \<lparr>run_status = Running, run_items = items', applied_request_ids = {}\<rparr>
         | None \<Rightarrow> \<lparr>run_status = (if list_ex (has_status ItemInProgress) items then Running
                                else RunCompleted),
                   run_items = items, applied_request_ids = {}\<rparr>))"

definition waiting_approval_run :: "plan_item list \<Rightarrow> (contract_error, run_state) result" where
  "waiting_approval_run items =
     and_then (validate_items items) (\<lambda>_.
     Ok \<lparr>run_status = WaitingApproval, run_items = items, applied_request_ids = {}\<rparr>)"

definition apply_approve :: "run_state \<Rightarrow> (control_error, run_state) result" where
  "apply_approve s =
     (if run_status s \<noteq> WaitingApproval then Err ApprovalNotApplicable
      else case update_first (has_status ItemPending) (set_status ItemInProgress) (run_items s) of
             None \<Rightarrow> Err RunNotActive
           | Some items \<Rightarrow> Ok (s\<lparr>run_items := items, run_status := Running\<rparr>))"

definition apply_skip :: "run_state \<Rightarrow> (control_error, run_state) result" where
  "apply_skip s =
     (let waiting = (run_status s = WaitingApproval)
      in if \<not> waiting \<and> run_status s \<noteq> Running then Err RunNotActive
         else case update_first (has_status (if waiting then ItemPending else ItemInProgress))
                     (set_status ItemSkipped) (run_items s) of
                None \<Rightarrow> Err NoCurrentItem
              | Some items \<Rightarrow>
                  (case update_first (has_status ItemPending) (set_status ItemInProgress) items of
                     Some items' \<Rightarrow> Ok (s\<lparr>run_items := (if waiting then items else items')\<rparr>)
                   | None \<Rightarrow> Ok (s\<lparr>run_items := items, run_status := RunCompleted\<rparr>)))"

definition cancel_open_item :: "plan_item \<Rightarrow> plan_item" where
  "cancel_open_item item =
     (if item_status item = ItemPending \<or> item_status item = ItemInProgress
      then set_status ItemCancelled item else item)"

definition apply_cancel :: "run_state \<Rightarrow> (control_error, run_state) result" where
  "apply_cancel s =
     (if run_status s \<notin> {WaitingApproval, Running} then Err RunNotActive
      else Ok (s\<lparr>run_items := map cancel_open_item (run_items s), run_status := RunCancelled\<rparr>))"

definition apply_control ::
  "run_state \<Rightarrow> control_request \<Rightarrow> string \<Rightarrow> string list \<Rightarrow> (control_error, run_state) result" where
  "apply_control s request pr_author maintainers =
     and_then (reject_if (\<not> is_authorized (request_actor request) pr_author maintainers) Unauthorized) (\<lambda>_.
     and_then (reject_if (request_id request \<in> applied_request_ids s) DuplicateAction) (\<lambda>_.
     and_then (case request_action request of
         ApprovePlan \<Rightarrow> apply_approve s
       | SkipCurrentItem \<Rightarrow> apply_skip s
       | CancelRun \<Rightarrow> apply_cancel s) (\<lambda>updated.
     Ok (updated\<lparr>applied_request_ids := insert (request_id request) (applied_request_ids updated)\<rparr>))))"

section \<open>The approval fingerprint\<close>

definition control_fields :: "string list" where
  "control_fields = [''approved'', ''approved_hash'', ''approval_details'', ''skipped_items'']"

fun without_fields :: "string list \<Rightarrow> json \<Rightarrow> json" where
  "without_fields ks (JObj m) = JObj (fold bt_remove ks m)"
| "without_fields ks v = v"

definition without_approval_control_fields :: "json \<Rightarrow> json" where
  "without_approval_control_fields = without_fields control_fields"

definition without_plan_hash :: "json \<Rightarrow> json" where
  "without_plan_hash = without_fields [''plan_hash'']"

definition fingerprint_payload :: "json \<Rightarrow> json \<Rightarrow> json" where
  "fingerprint_payload plan details =
     jobj [(''plan'', without_approval_control_fields plan), (''details'', without_plan_hash details)]"

definition approval_fingerprint ::
  "(json \<Rightarrow> string) \<Rightarrow> (string \<Rightarrow> string) \<Rightarrow> json \<Rightarrow> json \<Rightarrow> string" where
  "approval_fingerprint to_vec sha256_hex plan details =
     ''sha256:'' @ sha256_hex (to_vec (fingerprint_payload plan details))"

definition bind_approval_details ::
  "(json \<Rightarrow> string) \<Rightarrow> (string \<Rightarrow> string) \<Rightarrow> json \<Rightarrow> json \<Rightarrow> json" where
  "bind_approval_details to_vec sha256_hex plan details =
     (let d = (case details of JObj m \<Rightarrow> m | _ \<Rightarrow> [(''details'', details)]);
          hash = approval_fingerprint to_vec sha256_hex plan (JObj d)
      in JObj (bt_insert ''plan_hash'' (JStr hash) d))"

definition plan_is_approved :: "(json \<Rightarrow> string) \<Rightarrow> (string \<Rightarrow> string) \<Rightarrow> json \<Rightarrow> bool" where
  "plan_is_approved to_vec sha256_hex plan \<longleftrightarrow>
     Option.bind (jget ''approved'' plan) as_bool = Some True
     \<and> (case (Option.bind (jget ''approved_hash'' plan) as_str, jget ''approval_details'' plan) of
          (Some approved_hash, Some details) \<Rightarrow>
            (case Option.bind (jget ''plan_hash'' details) as_str of
               None \<Rightarrow> False
             | Some details_hash \<Rightarrow> approved_hash = details_hash
                 \<and> approved_hash = approval_fingerprint to_vec sha256_hex plan details)
        | _ \<Rightarrow> False)"

end
