(* ===== verification/Control_Properties.thy ===== *)
theory Control_Properties
  imports Pr_Controls
begin

text \<open>
  What the pull-request contract guarantees: escaped text cannot carry markup, a rendered
  comment has one marker, and runs move only by authorized, once-only requests that keep
  the run's status and its items in agreement and end after finitely many controls.
\<close>

section \<open>Rendered text\<close>

fun md_safe :: "string \<Rightarrow> bool" where
  "md_safe [] = True"
| "md_safe [c] = (c \<notin> {BACKSLASH, CHR ''<'', CHR ''>'', LF, CHR ''*'', CHR ''['', CHR '']'', BACKTICK})"
| "md_safe (c # d # ds) =
     (if c = BACKSLASH then d \<in> {BACKSLASH, CHR ''*'', CHR ''['', CHR '']'', BACKTICK} \<and> md_safe ds
      else c \<notin> {CHR ''<'', CHR ''>'', LF, CHR ''*'', CHR ''['', CHR '']'', BACKTICK} \<and> md_safe (d # ds))"

lemma md_safe_Cons:
  "md_safe (c # cs) = (if c = BACKSLASH then
       (case cs of [] \<Rightarrow> False | d # ds \<Rightarrow> d \<in> {BACKSLASH, CHR ''*'', CHR ''['', CHR '']'', BACKTICK} \<and> md_safe ds)
     else c \<notin> {CHR ''<'', CHR ''>'', LF, CHR ''*'', CHR ''['', CHR '']'', BACKTICK} \<and> md_safe cs)"
  by (cases cs) auto

definition plain_char :: "char \<Rightarrow> bool" where
  "plain_char c \<longleftrightarrow> c \<notin> {BACKSLASH, CHR ''<'', CHR ''>'', LF, CHR ''*'', CHR ''['', CHR '']'', BACKTICK}"

lemma md_safe_plain: "list_all plain_char xs \<Longrightarrow> md_safe (xs @ ys) = md_safe ys"
  by (induction xs) (auto simp: md_safe_Cons plain_char_def)

lemma plain_high: "128 \<le> byte c \<Longrightarrow> plain_char c"
  by (auto simp: plain_char_def byte_def)

lemma md_safe_escape_char:
  assumes "(\<exists>c. u = [c] \<and> byte c < 128) \<or> (\<forall>c \<in> set u. 128 \<le> byte c)"
  shows "md_safe (escape_char u @ r) = md_safe r"
proof (cases "\<exists>c. u = [c] \<and> byte c < 128")
  case True
  then obtain c where u: "u = [c]" by blast
  show ?thesis
  proof (cases "plain_char c")
    case True
    then have "escape_char u = [] \<or> escape_char u = [c] \<or> escape_char u = '' '' \<or> escape_char u = ''&amp;''"
      by (simp add: u escape_char_def plain_char_def)
    with True show ?thesis by (auto simp: md_safe_Cons plain_char_def)
  next
    case False
    then show ?thesis by (auto simp: u plain_char_def escape_char_def md_safe_Cons)
  qed
next
  case False
  with assms have high: "\<forall>c \<in> set u. 128 \<le> byte c" by blast
  then have "list_all plain_char u" by (auto simp: list_all_iff intro: plain_high)
  moreover have "u \<noteq> [c]" if "byte c < 128" for c using high that by auto
  then have "escape_char u = u \<or> escape_char u = []"
    by (simp add: escape_char_def byte_def)
  ultimately show ?thesis by (auto simp: md_safe_plain)
qed

lemma md_safe_escape: "md_safe (escape_markdown v)"
proof -
  have "md_safe (concat (map escape_char us))"
    if "\<forall>u \<in> set us. (\<exists>c. u = [c] \<and> byte c < 128) \<or> (\<forall>c \<in> set u. 128 \<le> byte c)" for us
    using that by (induction us) (simp_all add: md_safe_escape_char)
  then show ?thesis using chars_ascii by (simp add: escape_markdown_def)
qed

lemma md_safe_no_lt: "md_safe s \<Longrightarrow> CHR ''<'' \<notin> set s"
  by (induction s rule: md_safe.induct) (auto split: if_splits)

lemma escape_no_lt [simp]: "CHR ''<'' \<notin> set (escape_markdown v)"
  by (rule md_safe_no_lt [OF md_safe_escape])

definition valid_item :: "plan_item \<Rightarrow> bool" where
  "valid_item item \<longleftrightarrow>
     new_plan_item (item_id item) (item_summary item) (item_status item) = Ok item"

lemma identifier_no_lt: "validate_identifier f v = Ok () \<Longrightarrow> CHR ''<'' \<notin> set v"
  by (auto simp: validate_identifier_def list_all_iff is_ascii_alphanumeric_def is_ascii_digit_def
      is_ascii_upper_def is_ascii_lower_def byte_def)

lemma valid_item_no_lt: "valid_item item \<Longrightarrow> CHR ''<'' \<notin> set (item_id item)"
  by (auto simp: valid_item_def new_plan_item_def and_then_Ok dest: identifier_no_lt)

lemma render_item_no_lt: "valid_item item \<Longrightarrow> CHR ''<'' \<notin> set (render_item item)"
  using valid_item_no_lt [of item] by (cases "item_status item") (auto simp: render_item_def dash_def)

lemma approval_hash_no_lt: "validate_approval_hash h = Ok () \<Longrightarrow> CHR ''<'' \<notin> set h"
  by (auto simp: validate_approval_hash_def Let_def strip_prefix_Some list_all_iff
      is_ascii_hexdigit_def is_ascii_digit_def byte_def split: option.splits)

lemma ensure_render_bound_Ok:
  "ensure_render_bound m = Ok r \<longleftrightarrow> r = m \<and> length m \<le> max_github_markdown_bytes"
  by (auto simp: ensure_render_bound_def)

lemma no_lt_no_comment: "CHR ''<'' \<notin> set s \<Longrightarrow> \<not> contains_sub ''<!--'' s"
  using contains_sub_set [of "''<!--''" s] by auto

lemma render_section_no_lt: "CHR ''<'' \<notin> set heading \<Longrightarrow> CHR ''<'' \<notin> set (render_section heading vs)"
  by (auto simp: render_section_def)

section \<open>Runs\<close>

definition count_status :: "item_status \<Rightarrow> plan_item list \<Rightarrow> nat" where
  "count_status st items = length (filter (has_status st) items)"

lemma count_status_update:
  assumes "update_first (has_status a) (set_status b) items = Some items'" "a \<noteq> b"
  shows "count_status a items = Suc (count_status a items')"
    and "count_status b items' = Suc (count_status b items)"
    and "c \<noteq> a \<Longrightarrow> c \<noteq> b \<Longrightarrow> count_status c items' = count_status c items"
    and "map item_id items' = map item_id items"
  using update_first_split [OF assms(1)] assms(2)
  by (auto simp: count_status_def has_status_def set_status_def)

lemma count_status_0: "update_first (has_status a) f items = None \<longleftrightarrow> count_status a items = 0"
  by (simp add: count_status_def filter_empty_conv)

lemma count_status_cancel [simp]:
  "count_status ItemPending (map cancel_open_item items) = 0"
  "count_status ItemInProgress (map cancel_open_item items) = 0"
  "map (item_id \<circ> cancel_open_item) items = map item_id items"
  by (auto simp: count_status_def has_status_def set_status_def cancel_open_item_def filter_empty_conv)

text \<open>
  What holds of a run that was started with \<open>k\<close> items already in progress: a waiting run has these
  in progress, a running one also the item it works at (or only these, once no item is pending), a
  completed one at most these and nothing pending, a cancelled one no open item.
\<close>

definition run_inv :: "nat \<Rightarrow> run_state \<Rightarrow> bool" where
  "run_inv k s \<longleftrightarrow>
     distinct (map item_id (run_items s)) \<and> length (run_items s) \<le> max_items
     \<and> (let pending = count_status ItemPending (run_items s);
             working = count_status ItemInProgress (run_items s)
        in case run_status s of
             WaitingApproval \<Rightarrow> working = k
           | Running \<Rightarrow> working = Suc k \<or> (pending = 0 \<and> working = k \<and> 0 < k)
           | RunCompleted \<Rightarrow> pending = 0 \<and> working \<le> k
           | RunCancelled \<Rightarrow> pending = 0 \<and> working = 0)"

definition open_work :: "run_state \<Rightarrow> nat" where
  "open_work s = 2 * count_status ItemPending (run_items s) + count_status ItemInProgress (run_items s)
     + (if run_status s \<in> {WaitingApproval, Running} then 1 else 0)"

fun apply_controls ::
  "string \<Rightarrow> string list \<Rightarrow> run_state \<Rightarrow> control_request list \<Rightarrow> (control_error, run_state) result" where
  "apply_controls author ms s [] = Ok s"
| "apply_controls author ms s (r # rs) =
     and_then (apply_control s r author ms) (\<lambda>s'. apply_controls author ms s' rs)"

lemma apply_control_Ok:
  "apply_control s r author ms = Ok s' \<longleftrightarrow>
     is_authorized (request_actor r) author ms \<and> request_id r \<notin> applied_request_ids s
     \<and> (\<exists>u. (case request_action r of ApprovePlan \<Rightarrow> apply_approve s
           | SkipCurrentItem \<Rightarrow> apply_skip s | CancelRun \<Rightarrow> apply_cancel s) = Ok u
          \<and> s' = u\<lparr>applied_request_ids := insert (request_id r) (applied_request_ids u)\<rparr>)"
  by (auto simp: apply_control_def and_then_Ok)

lemma run_inv_ids [simp]:
  "run_inv k (s\<lparr>applied_request_ids := X\<rparr>) = run_inv k s"
  "open_work (s\<lparr>applied_request_ids := X\<rparr>) = open_work s"
  by (auto simp: run_inv_def Let_def open_work_def split: run_status.splits)

lemma ids_length: "map item_id xs = map item_id ys \<Longrightarrow> length xs = length ys"
  by (metis length_map)

lemma apply_approve_step:
  assumes "apply_approve s = Ok u" "run_inv k s"
  shows "run_inv k u \<and> open_work u < open_work s \<and> applied_request_ids u = applied_request_ids s"
proof -
  from assms(1) obtain items where
    first: "update_first (has_status ItemPending) (set_status ItemInProgress) (run_items s) = Some items"
    and u: "u = s\<lparr>run_items := items, run_status := Running\<rparr>" "run_status s = WaitingApproval"
    by (auto simp: apply_approve_def split: if_splits option.splits)
  note c = count_status_update [OF first]
  from u assms(2) c ids_length [OF c(4)] show ?thesis by (auto simp: run_inv_def Let_def open_work_def)
qed

lemma apply_cancel_step:
  assumes "apply_cancel s = Ok u" "run_inv k s"
  shows "run_inv k u \<and> open_work u < open_work s \<and> applied_request_ids u = applied_request_ids s"
  using assms by (auto simp: apply_cancel_def run_inv_def Let_def open_work_def split: if_splits)

lemma apply_skip_step:
  assumes "apply_skip s = Ok u" "run_inv k s"
  shows "run_inv k u \<and> open_work u < open_work s \<and> applied_request_ids u = applied_request_ids s"
proof -
  let ?old = "if run_status s = WaitingApproval then ItemPending else ItemInProgress"
  from assms(1) obtain items where
    first: "update_first (has_status ?old) (set_status ItemSkipped) (run_items s) = Some items"
    and act: "run_status s = WaitingApproval \<or> run_status s = Running"
    by (auto simp: apply_skip_def Let_def split: if_splits option.splits)
  have "?old \<noteq> ItemSkipped" by simp
  note c1 = count_status_update [OF first this]
  note ids1 = c1(4) ids_length [OF c1(4)]
  show ?thesis
  proof (cases "update_first (has_status ItemPending) (set_status ItemInProgress) items")
    case None
    have u: "u = s\<lparr>run_items := items, run_status := RunCompleted\<rparr>"
      using assms(1) first act
      by (auto simp: apply_skip_def Let_def None split: if_splits)
    from None have "count_status ItemPending items = 0" by (simp only: count_status_0)
    with u act assms(2) c1 ids1 show ?thesis by (auto simp: run_inv_def Let_def open_work_def)
  next
    case (Some items')
    with assms(1) first act have u: "u = s\<lparr>run_items :=
        (if run_status s = WaitingApproval then items else items')\<rparr>"
      by (auto simp: apply_skip_def Let_def split: if_splits)
    note c2 = count_status_update [OF Some]
    from u act assms(2) c1 c2 ids1 ids_length [OF c2(4)] show ?thesis
      by (auto simp: run_inv_def Let_def open_work_def)
  qed
qed

lemma apply_control_step:
  assumes "apply_control s r author ms = Ok s'" "run_inv k s"
  shows "run_inv k s' \<and> open_work s' < open_work s
     \<and> applied_request_ids s' = insert (request_id r) (applied_request_ids s)"
proof -
  from assms(1) obtain u where
    u: "(case request_action r of ApprovePlan \<Rightarrow> apply_approve s | SkipCurrentItem \<Rightarrow> apply_skip s
         | CancelRun \<Rightarrow> apply_cancel s) = Ok u"
    and s': "s' = u\<lparr>applied_request_ids := insert (request_id r) (applied_request_ids u)\<rparr>"
    by (auto simp: apply_control_Ok)
  have "run_inv k u \<and> open_work u < open_work s \<and> applied_request_ids u = applied_request_ids s"
    using u assms(2) apply_approve_step apply_skip_step apply_cancel_step
    by (cases "request_action r") auto
  then show ?thesis by (simp add: s')
qed

lemma apply_controls_run:
  assumes "apply_controls author ms s rs = Ok s'" "run_inv k s"
  shows "run_inv k s' \<and> open_work s' + length rs \<le> open_work s
     \<and> applied_request_ids s' = applied_request_ids s \<union> request_id ` set rs"
  using assms
proof (induction rs arbitrary: s)
  case (Cons r rs)
  then obtain s1 where s1: "apply_control s r author ms = Ok s1" "apply_controls author ms s1 rs = Ok s'"
    by (auto simp: and_then_Ok)
  from apply_control_step [OF s1(1) Cons.prems(2)] Cons.IH [OF s1(2)] show ?case by auto
qed simp

lemma validate_items_Ok:
  "validate_items items = Ok () \<longleftrightarrow> length items \<le> max_items \<and> distinct (map item_id items)"
  by (auto simp: validate_items_def and_then_Ok)

definition started_from :: "plan_item list \<Rightarrow> run_state \<Rightarrow> bool" where
  "started_from items s \<longleftrightarrow> new_run items = Ok s \<or> waiting_approval_run items = Ok s"

lemma started_from_inv:
  assumes "started_from items s"
  shows "run_inv (count_status ItemInProgress items) s \<and> length (run_items s) = length items"
proof (cases "waiting_approval_run items = Ok s")
  case True
  then show ?thesis
    by (auto simp: waiting_approval_run_def and_then_Ok validate_items_Ok run_inv_def Let_def)
next
  case False
  with assms have new: "new_run items = Ok s" by (simp add: started_from_def)
  show ?thesis
  proof (cases "update_first (has_status ItemPending) (set_status ItemInProgress) items")
    case None
    then have "count_status ItemPending items = 0" by (simp only: count_status_0)
    then show ?thesis using new
      by (auto simp: new_run_def and_then_Ok validate_items_Ok run_inv_def Let_def None
          count_status_def filter_empty_conv list_ex_iff)
  next
    case (Some items')
    note c = count_status_update [OF Some]
    from Some new c ids_length [OF c(4)] show ?thesis
      by (auto simp: new_run_def and_then_Ok validate_items_Ok run_inv_def Let_def)
  qed
qed

lemma open_work_le: "open_work s \<le> 2 * length (run_items s) + 1"
proof -
  have "count_status ItemPending xs + count_status ItemInProgress xs \<le> length xs" for xs
    by (induction xs) (auto simp: count_status_def has_status_def)
  from this [of "run_items s"] show ?thesis by (auto simp: open_work_def)
qed

section \<open>Properties\<close>

definition sample_items :: "plan_item list" where
  "sample_items =
     [\<lparr>item_id = ''feedback-1'', item_summary = ''Fix *it* <b>'', item_status = ItemPending\<rparr>,
      \<lparr>item_id = ''ci-2'', item_summary = ''Repair [x]'', item_status = ItemPending\<rparr>]"

definition sample_request :: "string \<Rightarrow> control_action \<Rightarrow> control_request" where
  "sample_request i a = \<lparr>request_id = i, request_actor = ''Ann'', request_action = a\<rparr>"

definition sample_waiting :: run_state where
  "sample_waiting = \<lparr>run_status = WaitingApproval, run_items = sample_items, applied_request_ids = {}\<rparr>"

definition sample_parse :: "string \<Rightarrow> url option" where
  "sample_parse s = (if starts_with ''https://'' s
     then Some \<lparr>url_text = s, url_scheme = ''https'', url_host = Some ''h'', url_port = None, url_username = [],
      url_password = None, url_path = ''/'', url_segments = None\<rparr>
     else None)"

definition sample_comment :: work_plan_comment where
  "sample_comment = \<lparr>wpc_check_run_url = the (sample_parse ''https://h/1''), wpc_items = sample_items,
     wpc_approval_hash = None\<rparr>"

definition sample_markdown :: string where
  "sample_markdown = work_plan_text sample_comment"

definition sample_skipped :: run_state where
  "sample_skipped = (case apply_control sample_waiting (sample_request ''r1'' SkipCurrentItem) ''ann'' []
     of Ok s \<Rightarrow> s | Err _ \<Rightarrow> sample_waiting)"

text \<open>
  A rendered work-plan comment starts with its marker and carries no second comment
  opener, whatever the summaries say; it stays within GitHub's size bound.
\<close>

theorem work_plan_single_marker:
  assumes items: "\<forall>item \<in> set items. valid_item item"
    and new: "new_work_plan_comment parse_url address items = Ok c0"
    and hash: "c = c0 \<or> with_approval_hash c0 h = Ok c"
    and url: "CHR ''<'' \<notin> set (url_text (wpc_check_run_url c0))"
    and render: "render_work_plan c = Ok markdown"
  shows "\<exists>rest. markdown = work_plan_marker @ rest \<and> \<not> contains_sub ''<!--'' rest
       \<and> length markdown \<le> max_github_markdown_bytes"
proof -
  let ?i = "if wpc_items c = [] then ''No work items.'' @ [LF] else concat (map render_item (wpc_items c))"
  let ?h = "case wpc_approval_hash c of None \<Rightarrow> []
      | Some h \<Rightarrow> ''Approval fingerprint: '' @ [BACKTICK] @ h @ [BACKTICK, LF, LF]"
  have c: "wpc_items c = items" "wpc_check_run_url c = wpc_check_run_url c0"
    "wpc_approval_hash c = None \<or> (\<exists>h. wpc_approval_hash c = Some h \<and> validate_approval_hash h = Ok ())"
    using new hash by (auto simp: new_work_plan_comment_def with_approval_hash_def and_then_Ok)
  have "CHR ''<'' \<notin> set ?i"
    using items c(1) render_item_no_lt by auto
  moreover have "CHR ''<'' \<notin> set ?h"
    using c(3) approval_hash_no_lt by auto
  ultimately show ?thesis
    using render url c(2) unfolding render_work_plan_def work_plan_text_def ensure_render_bound_Ok
    by (intro exI conjI) (assumption | rule no_lt_no_comment | simp)+
qed

lemma work_plan_single_marker_witness:
  "\<exists>rest. sample_markdown = work_plan_marker @ rest \<and> \<not> contains_sub ''<!--'' rest
       \<and> length sample_markdown \<le> max_github_markdown_bytes"
proof (rule work_plan_single_marker [of sample_items sample_parse "''https://h/1''" sample_comment
      sample_comment])
  show "\<forall>item \<in> set sample_items. valid_item item" by code_simp
  show "new_work_plan_comment sample_parse ''https://h/1'' sample_items = Ok sample_comment" by code_simp
  show "CHR ''<'' \<notin> set (url_text (wpc_check_run_url sample_comment))" by code_simp
  have "length sample_markdown \<le> 500" by code_simp
  then show "render_work_plan sample_comment = Ok sample_markdown"
    by (simp add: render_work_plan_def ensure_render_bound_def sample_markdown_def)
qed simp

text \<open>
  Escaped text is inert Markdown: no angle bracket and no line feed is left, and every
  emphasis, link or code character and every backslash is escaped by a backslash.
\<close>

theorem escape_markdown_safe: "md_safe (escape_markdown value) \<and> CHR ''<'' \<notin> set (escape_markdown value)"
  using md_safe_escape md_safe_no_lt by blast

text \<open>
  C6: after any accepted sequence of controls the status of a run agrees with its items, whatever
  their status was at the start; with \<open>k\<close> items in progress at the start, a waiting run has \<open>k\<close> of
  them in progress, a running one \<open>k + 1\<close> (or just the \<open>k\<close> that were, when no item is pending), a
  completed one at most \<open>k\<close> and none pending, a cancelled one neither. So a run that starts with no
  item in progress works at exactly one item while it runs and leaves no open item when it ends.
  Item ids stay unique.
\<close>

theorem control_runs_consistent:
  assumes "started_from items s0" "apply_controls author ms s0 rs = Ok s"
  shows "run_inv (count_status ItemInProgress items) s"
  using apply_controls_run [OF assms(2) started_from_inv [OF assms(1), THEN conjunct1]] by blast

text \<open>A run that starts with an item in progress and a pending one works at both.\<close>

definition sample_resumed_items :: "plan_item list" where
  "sample_resumed_items = map (\<lambda>i. if item_id i = ''ci-2'' then i else set_status ItemInProgress i) sample_items"

definition sample_resumed :: run_state where
  "sample_resumed = \<lparr>run_status = Running, run_items = map (set_status ItemInProgress) sample_items,
     applied_request_ids = {}\<rparr>"

lemma control_runs_consistent_witness: "run_inv 0 sample_skipped \<and> run_inv 1 sample_resumed"
proof
  have "count_status ItemInProgress sample_items = 0" "started_from sample_items sample_waiting"
    "apply_controls ''ann'' [] sample_waiting [sample_request ''r1'' SkipCurrentItem] = Ok sample_skipped"
    by code_simp+
  then show "run_inv 0 sample_skipped" using control_runs_consistent by metis
  have "count_status ItemInProgress sample_resumed_items = 1" "started_from sample_resumed_items sample_resumed"
    "apply_controls ''ann'' [] sample_resumed [] = Ok sample_resumed"
    by code_simp+
  then show "run_inv 1 sample_resumed" using control_runs_consistent by metis
qed

text \<open>
  A run accepts only finitely many controls, at most two per item and one more, and no
  request id twice.
\<close>

theorem control_runs_bounded:
  assumes "started_from items s0" "apply_controls author ms s0 rs = Ok s"
  shows "length rs \<le> 2 * length items + 1 \<and> request_id ` set rs \<subseteq> applied_request_ids s"
  using apply_controls_run [OF assms(2)] started_from_inv [OF assms(1)] open_work_le [of s0] by force

lemma control_runs_bounded_witness:
  "length [sample_request ''r1'' SkipCurrentItem] \<le> 2 * length sample_items + 1
   \<and> request_id ` set [sample_request ''r1'' SkipCurrentItem] \<subseteq> applied_request_ids sample_skipped"
  by (rule control_runs_bounded [of sample_items sample_waiting "''ann''" "[]"
        "[sample_request ''r1'' SkipCurrentItem]"]) code_simp+

text \<open>
  Only an authorized actor moves a run, and a request id is spent by its first
  success: the same id is refused in every later state, by whoever sends it.
\<close>

theorem control_authorized_once:
  assumes inv: "run_inv k s" and first: "apply_control s r author ms = Ok s1"
    and later: "apply_controls author ms s1 rs = Ok s2" and same: "request_id r' = request_id r"
  shows "is_authorized (request_actor r) author ms
       \<and> apply_control s2 r' author ms \<in> {Err Unauthorized, Err DuplicateAction}"
proof -
  from apply_control_step [OF first inv] apply_controls_run [OF later]
  have "request_id r \<in> applied_request_ids s2" by blast
  with first same show ?thesis
    by (cases "is_authorized (request_actor r') author ms")
      (auto simp: apply_control_Ok, auto simp: apply_control_def)
qed

lemma control_authorized_once_witness:
  "is_authorized (request_actor (sample_request ''r1'' SkipCurrentItem)) ''ann'' []
   \<and> apply_control sample_skipped (sample_request ''r1'' CancelRun) ''ann'' []
       \<in> {Err Unauthorized, Err DuplicateAction}"
  by (rule control_authorized_once [of 0 sample_waiting _ _ _ sample_skipped "[]"]) code_simp+

text \<open>
  Skipping never authorizes. A skip in a run that waits for approval turns one pending
  item into a skipped one and starts none: the run keeps waiting or is complete.
\<close>

theorem skip_never_authorizes:
  assumes "run_status s = WaitingApproval" "request_action r = SkipCurrentItem"
    and "apply_control s r author ms = Ok s'"
  shows "run_status s' \<in> {WaitingApproval, RunCompleted}
       \<and> count_status ItemInProgress (run_items s') = count_status ItemInProgress (run_items s)
       \<and> count_status ItemPending (run_items s) = Suc (count_status ItemPending (run_items s'))
       \<and> count_status ItemSkipped (run_items s') = Suc (count_status ItemSkipped (run_items s))"
  using assms
  by (auto simp: apply_control_Ok apply_skip_def Let_def run_inv_def split: option.splits
      dest: count_status_update)

lemma skip_never_authorizes_witness:
  "run_status sample_skipped \<in> {WaitingApproval, RunCompleted}
   \<and> count_status ItemInProgress (run_items sample_skipped) = count_status ItemInProgress (run_items sample_waiting)
   \<and> count_status ItemPending (run_items sample_waiting) = Suc (count_status ItemPending (run_items sample_skipped))
   \<and> count_status ItemSkipped (run_items sample_skipped) = Suc (count_status ItemSkipped (run_items sample_waiting))"
  by (rule skip_never_authorizes [of _ "sample_request ''r1'' SkipCurrentItem" "''ann''" "[]"]) code_simp+

end
