(* ===== verification/Approval.thy ===== *)
theory Approval
  imports Queue_Properties Control_Properties
begin

text \<open>
  Plan approval across components: the fingerprint of \<open>src/pr_controls.rs\<close>, the two queue
  statements that park and approve a job (\<open>src/queue.rs\<close>), and the details that the worker
  hands to the first of them (\<open>src/worker.rs\<close>).
\<close>

text \<open>What \<open>execute_job\<close> stores when a handler reports that it waits for approval.\<close>

definition reports_waiting :: "json \<Rightarrow> bool" where
  "reports_waiting outcome = (Option.bind (jget ''waiting_approval'' outcome) as_bool = Some True)"

definition waiting_details ::
  "(json \<Rightarrow> string) \<Rightarrow> (string \<Rightarrow> string) \<Rightarrow> json \<Rightarrow> json \<Rightarrow> json" where
  "waiting_details to_vec sha256_hex job_plan outcome =
     bind_approval_details to_vec sha256_hex job_plan
       (case jget ''approval_details'' outcome of None \<Rightarrow> JObj [] | Some raw \<Rightarrow> raw)"

text \<open>The same details under the key that \<open>approve_plan\<close> and \<open>plan_is_approved\<close> read.\<close>

definition wrapped_details :: "json \<Rightarrow> json" where
  "wrapped_details details = jobj [(''approval_details'', details)]"

section \<open>Single-row statements\<close>

lemma execute_one:
  assumes "queue_inv db" "j \<in> set (jobs db)" "P j" "\<forall>k. P k \<longrightarrow> job_id k = i"
  shows "execute P f db = (True, update_jobs P f db)"
    and "k \<in> set (jobs db) \<Longrightarrow> P k \<longleftrightarrow> k = j"
    and "f j \<in> set (jobs (update_jobs P f db))"
proof -
  have "rows_affected P db \<noteq> 0" using assms(2,3) by (auto simp: rows_affected_0)
  with rows_affected_le_1 [OF assms(1), of P i] assms(4) show "execute P f db = (True, update_jobs P f db)"
    by (simp add: execute_def)
  show "k \<in> set (jobs db) \<Longrightarrow> P k \<longleftrightarrow> k = j"
    using queue_inv_ids [OF assms(1), of k j] assms(2-4) by metis
  show "f j \<in> set (jobs (update_jobs P f db))" using assms(2,3) by (auto simp: image_iff)
qed

lemma execute_fallible_one:
  assumes "queue_inv db" "j \<in> set (jobs db)" "P j" "\<forall>k. P k \<longrightarrow> job_id k = i" "f j = Some j'"
  shows "execute_fallible P f db = Ok (True, update_jobs P (\<lambda>j. the (f j)) db)"
    and "j' \<in> set (jobs (update_jobs P (\<lambda>j. the (f j)) db))"
proof -
  have "\<not> list_ex (\<lambda>k. P k \<and> f k = None) (jobs db)"
    using execute_one(2) [OF assms(1-4)] assms(5) by (auto simp: list_ex_iff)
  then show "execute_fallible P f db = Ok (True, update_jobs P (\<lambda>j. the (f j)) db)"
    unfolding execute_fallible_def execute_one(1) [OF assms(1-4)] by simp
  show "j' \<in> set (jobs (update_jobs P (\<lambda>j. the (f j)) db))"
    using execute_one(3) [OF assms(1-4), of "\<lambda>j. the (f j)"] assms(5) by simp
qed

section \<open>The fingerprint ignores what approval itself writes\<close>

lemma fold_bt_remove:
  "bt_inv m \<Longrightarrow> bt_inv (fold bt_remove ks m)"
  "bt_get (fold bt_remove ks m) k = (if k \<in> set ks then None else bt_get m k)"
  by (induction ks arbitrary: m) auto

lemma without_fields_eqI:
  assumes "bt_inv m" "bt_inv n" "\<And>k. k \<notin> set ks \<Longrightarrow> bt_get m k = bt_get n k"
  shows "without_fields ks (JObj m) = without_fields ks (JObj n)"
  using assms by (auto intro!: bt_ext simp: fold_bt_remove)

lemma without_fields_insert:
  assumes "bt_inv m" "k \<in> set ks"
  shows "without_fields ks (JObj (bt_insert k v m)) = without_fields ks (JObj m)"
  by (rule without_fields_eqI) (use assms in auto)

lemma without_fields_get:
  "is_object p \<Longrightarrow> k \<notin> set ks \<Longrightarrow> jget k (without_fields ks p) = jget k p"
  by (cases p) (auto simp: fold_bt_remove)

lemma jget_wf: "json_wf v \<Longrightarrow> jget k v = Some x \<Longrightarrow> json_wf x"
  by (cases v) (force simp: bt_get_def dest: map_of_SomeD)+

lemma bind_details_shape:
  assumes "json_wf details"
  obtains d where "bt_inv d" "d = [(''details'', details)] \<or> JObj d = details"
    "bind_approval_details tv sha p details =
       JObj (bt_insert ''plan_hash'' (JStr (approval_fingerprint tv sha p (JObj d))) d)"
proof (cases details)
  case (JObj m)
  with assms that show ?thesis by (auto simp: bind_approval_details_def)
next
  case JNull then show ?thesis using that [of "[(''details'', details)]"]
    by (auto simp: bind_approval_details_def bt_inv_def)
next
  case (JBool b) then show ?thesis using that [of "[(''details'', details)]"]
    by (auto simp: bind_approval_details_def bt_inv_def)
next
  case (JNum b) then show ?thesis using that [of "[(''details'', details)]"]
    by (auto simp: bind_approval_details_def bt_inv_def)
next
  case (JStr b) then show ?thesis using that [of "[(''details'', details)]"]
    by (auto simp: bind_approval_details_def bt_inv_def)
next
  case (JArr b) then show ?thesis using that [of "[(''details'', details)]"]
    by (auto simp: bind_approval_details_def bt_inv_def)
qed

lemma fingerprint_ignores:
  assumes "bt_inv m" "bt_inv d" "fst ` set fs \<subseteq> set control_fields"
  shows "approval_fingerprint tv sha (JObj (fold (\<lambda>f. bt_insert (fst f) (snd f)) fs m))
           (JObj (bt_insert ''plan_hash'' h d)) = approval_fingerprint tv sha (JObj m) (JObj d)"
proof -
  have "without_fields control_fields (JObj (fold (\<lambda>f. bt_insert (fst f) (snd f)) fs m)) =
      without_fields control_fields (JObj m)"
    using assms(1,3)
  proof (induction fs arbitrary: m)
    case (Cons f fs)
    then show ?case by (auto simp: without_fields_insert bt_inv_insert simp del: without_fields.simps)
  qed simp
  moreover have "without_plan_hash (JObj (bt_insert ''plan_hash'' h d)) = without_plan_hash (JObj d)"
    unfolding without_plan_hash_def by (rule without_fields_insert [OF assms(2)]) simp
  ultimately show ?thesis
    by (simp add: approval_fingerprint_def fingerprint_payload_def without_approval_control_fields_def)
qed

text \<open>The plan of a job that was parked with details \<open>d\<close> and then approved.\<close>

lemma approve_parked_plan:
  assumes "bt_inv m" "bt_inv d"
    and h: "h = approval_fingerprint tv sha (JObj m) (JObj d)"
    and p: "p = jsonb_concat (JObj m) (wrapped_details (JObj (bt_insert ''plan_hash'' (JStr h) d)))"
  obtains q where "approved_plan p = Some q" "plan_is_approved tv sha q"
    "jget ''approval_details'' p = Some (JObj (bt_insert ''plan_hash'' (JStr h) d))"
proof -
  let ?D = "JObj (bt_insert ''plan_hash'' (JStr h) d)"
  let ?p = "bt_insert ''approval_details'' ?D m"
  have pe: "p = JObj ?p" by (simp add: p wrapped_details_def jobj_def)
  have D: "jget ''plan_hash'' ?D = Some (JStr h)" using assms(2) by simp
  let ?q = "JObj (bt_insert ''approved_hash'' (JStr h) (bt_insert ''approved'' (JBool True) ?p))"
  have inv: "bt_inv ?p" using assms(1) by auto
  have q: "approved_plan p = Some ?q"
    using inv assms(1) D by (simp add: approved_plan_def pe)
  have "approval_fingerprint tv sha ?q ?D = h"
    using fingerprint_ignores [OF assms(1,2), of "[(''approval_details'', ?D), (''approved'', JBool True),
        (''approved_hash'', JStr h)]" tv sha "JStr h"]
    by (simp add: control_fields_def h)
  then have "plan_is_approved tv sha ?q"
    using inv assms(1,2) by (simp add: plan_is_approved_def bt_inv_insert)
  with q show ?thesis using that assms(1) by (simp add: pe)
qed

section \<open>Properties\<close>

text \<open>
  C7: approval of bound details succeeds. When a job is parked with the details that
  \<open>bind_approval_details\<close> produced under the key \<open>approval_details\<close>, a later
  \<open>approve_plan\<close> reports a change and queues the job again with a plan that
  \<open>plan_is_approved\<close> accepts.
\<close>

theorem approve_bound_details:
  assumes inv: "queue_inv db" and j: "j \<in> set (jobs db)" "holds_lease now i w t j"
    and wf: "json_wf (plan j)" "is_object (plan j)" "json_wf details"
  shows "\<exists>db1 db2 j2. mark_waiting_approval now i w t
           (wrapped_details (bind_approval_details tv sha (plan j) details)) db = (True, db1)
       \<and> approve_plan now' i db1 = Ok (True, db2)
       \<and> j2 \<in> set (jobs db2) \<and> job_id j2 = i \<and> state j2 = JQueued
       \<and> plan_is_approved tv sha (plan j2)"
proof -
  from wf obtain m where m: "plan j = JObj m" "bt_inv m" by (auto simp: is_object_iff)
  obtain d where d: "bt_inv d" "d = [(''details'', details)] \<or> JObj d = details" "bind_approval_details tv sha (plan j) details =
      JObj (bt_insert ''plan_hash'' (JStr (approval_fingerprint tv sha (plan j) (JObj d))) d)" (is "?D = _")
    using bind_details_shape [OF wf(3)] .
  let ?f = "\<lambda>j. (release_lease j)\<lparr>state := JWaitingApproval,
      plan := jsonb_concat (plan j) (wrapped_details ?D),
      job_result := Some (jobj [(''state'', JStr ''waiting_approval'')]), updated_at := now\<rparr>"
  have hl: "\<forall>k. holds_lease now i w t k \<longrightarrow> job_id k = i" by (simp add: holds_lease_def)
  let ?db1 = "update_jobs (holds_lease now i w t) ?f db"
  note one = execute_one [where P = "holds_lease now i w t", OF inv j hl]
  have mark: "mark_waiting_approval now i w t (wrapped_details ?D) db = (True, ?db1)"
    unfolding mark_waiting_approval_def by (rule one(1))
  have inv1: "queue_inv ?db1"
    using mark_waiting_approval_inv [OF inv, of now i w t "wrapped_details ?D"] mark by simp
  obtain q where q: "approved_plan (plan (?f j)) = Some q" "plan_is_approved tv sha q"
    "jget ''approval_details'' (plan (?f j)) = Some ?D"
    using approve_parked_plan [OF m(2) d(1) refl refl] m(1) d(3) by auto
  have can: "can_approve i (?f j)"
    using j(2) q(3) d by (auto simp: can_approve_def holds_lease_def release_lease_def jsonb_typeof_def)
  have hc: "\<forall>k. can_approve i k \<longrightarrow> job_id k = i" by (simp add: can_approve_def)
  let ?g = "\<lambda>j. map_option (\<lambda>p. j\<lparr>state := JQueued, plan := p, job_result := None, updated_at := now'\<rparr>)
      (approved_plan (plan j))"
  let ?j2 = "(?f j)\<lparr>state := JQueued, plan := q, job_result := None, updated_at := now'\<rparr>"
  have g: "?g (?f j) = Some ?j2" using q(1) by simp
  note two = execute_fallible_one [where P = "can_approve i" and f = ?g, OF inv1 one(3) [of ?f] can hc g]
  have "approve_plan now' i ?db1 =
      Ok (True, publish i (update_jobs (can_approve i) (\<lambda>j. the (?g j)) ?db1))" (is "_ = Ok (True, ?db2)")
    unfolding approve_plan_def two(1) by simp
  moreover have "?j2 \<in> set (jobs ?db2)" using two(2) by (simp only: jobs_publish)
  moreover have "job_id ?j2 = i" "state ?j2 = JQueued" "plan_is_approved tv sha (plan ?j2)"
    using q(2) hl j(2) by (simp_all add: release_lease_def)
  ultimately show ?thesis using mark by blast
qed

text \<open>
  C8: a job that the worker itself parks can never be approved. \<open>execute_job\<close> passes the
  bound details to \<open>mark_waiting_approval\<close> without the key \<open>approval_details\<close>, which merges
  them into the plan; \<open>approve_plan\<close> then changes nothing, at any time.
\<close>

theorem worker_parked_job_not_approvable:
  assumes inv: "queue_inv db" and j: "j \<in> set (jobs db)" "holds_lease now i w t j"
    and wf: "json_wf (plan j)" "is_object (plan j)" "json_wf outcome"
    and fresh: "jget ''approval_details'' (plan j) = None"
    and raw: "\<forall>raw. jget ''approval_details'' outcome = Some raw \<longrightarrow> jget ''approval_details'' raw = None"
  shows "\<exists>db1. mark_waiting_approval now i w t (waiting_details tv sha (plan j) outcome) db = (True, db1)
       \<and> (\<exists>j1 \<in> set (jobs db1). job_id j1 = i \<and> state j1 = JWaitingApproval)
       \<and> (\<forall>now'. approve_plan now' i db1 = Ok (False, db1))"
proof -
  from wf obtain m where m: "plan j = JObj m" "bt_inv m" by (auto simp: is_object_iff)
  let ?raw = "case jget ''approval_details'' outcome of None \<Rightarrow> JObj [] | Some raw \<Rightarrow> raw"
  have "json_wf ?raw" using wf(3) by (auto simp: jget_wf split: option.split)
  then obtain d where d: "bt_inv d" "d = [(''details'', ?raw)] \<or> JObj d = ?raw" "waiting_details tv sha (plan j) outcome =
      JObj (bt_insert ''plan_hash'' (JStr (approval_fingerprint tv sha (plan j) (JObj d))) d)" (is "?D = _")
    unfolding waiting_details_def by (rule bind_details_shape)
  have "bt_get d ''approval_details'' = None"
    using d(2) raw by (auto simp: bt_get_def split: option.splits)
  then have merged: "jget ''approval_details'' (jsonb_concat (JObj m) ?D) = None"
    using m d(1) fresh unfolding d(3) by (simp add: bt_get_merge bt_inv_insert)
  let ?f = "\<lambda>j. (release_lease j)\<lparr>state := JWaitingApproval,
      plan := jsonb_concat (plan j) ?D,
      job_result := Some (jobj [(''state'', JStr ''waiting_approval'')]), updated_at := now\<rparr>"
  have hl: "\<forall>k. holds_lease now i w t k \<longrightarrow> job_id k = i" by (simp add: holds_lease_def)
  let ?db1 = "update_jobs (holds_lease now i w t) ?f db"
  note one = execute_one [where P = "holds_lease now i w t", OF inv j hl]
  have mark: "mark_waiting_approval now i w t ?D db = (True, ?db1)"
    unfolding mark_waiting_approval_def by (rule one(1))
  have "\<not> can_approve i k" if "k \<in> set (jobs ?db1)" for k
  proof (cases "job_id k = i")
    case True
    have inv1: "queue_inv ?db1"
      using mark_waiting_approval_inv [OF inv, of now i w t ?D] mark by simp
    have "job_id (?f j) = i" using hl j(2) by (simp add: release_lease_def)
    then have "k = ?f j" using queue_inv_ids [OF inv1 that one(3) [of ?f]] True by simp
    then show ?thesis using merged m by (simp add: can_approve_def)
  qed (simp add: can_approve_def)
  then have "execute_fallible (can_approve i) g ?db1 = Ok (False, ?db1)" for g
    by (simp add: execute_fallible_def execute_def rows_affected_def list_ex_iff)
  then have "approve_plan now' i ?db1 = Ok (False, ?db1)" for now'
    by (simp add: approve_plan_def)
  moreover have "job_id (?f j) = i \<and> state (?f j) = JWaitingApproval"
    using hl j(2) by (simp add: release_lease_def)
  ultimately show ?thesis using mark one(3) [of ?f] by blast
qed

text \<open>
  C12: an approval covers one proposal. If two approved plans carry the same approved hash,
  and the digest does not collide on their payloads, the plans agree outside the four
  control fields and the details they were approved with agree outside the hash itself.
\<close>

theorem approval_binds_proposal:
  assumes "plan_is_approved tv sha p" "plan_is_approved tv sha q"
    and "jget ''approved_hash'' p = jget ''approved_hash'' q"
    and "jget ''approval_details'' p = Some d" "jget ''approval_details'' q = Some e"
    and no_collision: "\<And>a b. {a, b} \<subseteq> {fingerprint_payload p d, fingerprint_payload q e} \<Longrightarrow>
       sha (tv a) = sha (tv b) \<Longrightarrow> a = b"
  shows "without_approval_control_fields p = without_approval_control_fields q
       \<and> without_plan_hash d = without_plan_hash e"
proof -
  have fp: "approval_fingerprint tv sha p d = approval_fingerprint tv sha q e"
    using assms(1-5) by (auto simp: plan_is_approved_def split: option.splits)
  then have "sha (tv (fingerprint_payload p d)) = sha (tv (fingerprint_payload q e))"
    by (simp add: approval_fingerprint_def)
  then have "fingerprint_payload p d = fingerprint_payload q e" by (rule no_collision [rotated]) simp
  then show ?thesis by (auto simp: fingerprint_payload_def jobj_def)
qed

section \<open>Concrete approvals\<close>

definition sample_row :: job where
  "sample_row = hd (jobs sample_running)"

definition sample_details :: json where
  "sample_details = jobj [(''pi_result'', JObj [])]"

definition sample_outcome :: json where
  "sample_outcome = jobj [(''approval_details'', sample_details), (''waiting_approval'', JBool True)]"

definition sample_sha :: "string \<Rightarrow> string" where
  "sample_sha s = replicate 64 (CHR ''a'')"

theorem approve_bound_details_witness:
  "\<exists>db1 db2 j2. mark_waiting_approval 10 1 ''w'' 2 (wrapped_details
           (bind_approval_details (\<lambda>_. []) sample_sha (plan sample_row) sample_details)) sample_running = (True, db1)
       \<and> approve_plan 11 1 db1 = Ok (True, db2)
       \<and> j2 \<in> set (jobs db2) \<and> job_id j2 = 1 \<and> state j2 = JQueued
       \<and> plan_is_approved (\<lambda>_. []) sample_sha (plan j2)"
proof (rule approve_bound_details [OF sample_running_inv])
  show "sample_row \<in> set (jobs sample_running)" by code_simp
  show "holds_lease 10 1 ''w'' 2 sample_row" by code_simp
  show "json_wf (plan sample_row)" "is_object (plan sample_row)" "json_wf sample_details" by code_simp+
qed

theorem worker_parked_job_not_approvable_witness:
  "\<exists>db1. mark_waiting_approval 10 1 ''w'' 2
           (waiting_details (\<lambda>_. []) sample_sha (plan sample_row) sample_outcome) sample_running = (True, db1)
       \<and> (\<exists>j1 \<in> set (jobs db1). job_id j1 = 1 \<and> state j1 = JWaitingApproval)
       \<and> (\<forall>now'. approve_plan now' 1 db1 = Ok (False, db1))"
proof (rule worker_parked_job_not_approvable [OF sample_running_inv])
  show "sample_row \<in> set (jobs sample_running)" by code_simp
  show "holds_lease 10 1 ''w'' 2 sample_row" by code_simp
  show "json_wf (plan sample_row)" "is_object (plan sample_row)" "json_wf sample_outcome" by code_simp+
  show "jget ''approval_details'' (plan sample_row) = None" by code_simp
  have "jget ''approval_details'' sample_outcome = Some sample_details" by code_simp
  moreover have "jget ''approval_details'' sample_details = None" by code_simp
  ultimately show "\<forall>raw. jget ''approval_details'' sample_outcome = Some raw \<longrightarrow>
      jget ''approval_details'' raw = None" by simp
qed

definition approved_sample :: "json list \<Rightarrow> json" where
  "approved_sample skipped = jobj [(''head_sha'', JStr ''abc''), (''approved'', JBool True),
     (''approved_hash'', JStr (''sha256:'' @ sample_sha [])),
     (''approval_details'', jobj [(''plan_hash'', JStr (''sha256:'' @ sample_sha []))]),
     (''skipped_items'', JArr skipped)]"

theorem approval_binds_proposal_witness:
  "without_approval_control_fields (approved_sample []) =
   without_approval_control_fields (approved_sample [JStr ''ci_repair''])"
proof -
  let ?d = "jobj [(''plan_hash'', JStr (''sha256:'' @ sample_sha []))]"
  have same: "fingerprint_payload (approved_sample []) ?d =
      fingerprint_payload (approved_sample [JStr ''ci_repair'']) ?d" by code_simp
  show ?thesis
  proof (rule conjunct1 [OF approval_binds_proposal [of "\<lambda>_. []" sample_sha _ _ ?d ?d]])
    show "plan_is_approved (\<lambda>_. []) sample_sha (approved_sample [])"
      "plan_is_approved (\<lambda>_. []) sample_sha (approved_sample [JStr ''ci_repair''])"
      "jget ''approved_hash'' (approved_sample []) = jget ''approved_hash'' (approved_sample [JStr ''ci_repair''])"
      "jget ''approval_details'' (approved_sample []) = Some ?d"
      "jget ''approval_details'' (approved_sample [JStr ''ci_repair'']) = Some ?d"
      by code_simp+
  qed (use same in auto)
qed

end
