(* ===== verification/Stack.thy ===== *)
theory Stack
  imports Prelude
begin

text \<open>
  Stacks of pull requests, \<open>src/stack.rs\<close>: the partition of observed pull requests into
  connected components, the planner that orders one component from its base to its tip, and
  the rebase planner with its push authorization. Maps and sets keep their keys sorted as
  \<open>BTreeMap\<close> and \<open>BTreeSet\<close> do; the merge loop has no bound of its own in the source, so it
  is a partial function whose result \<open>None\<close> means that it does not return.
\<close>

record stack_pull_request =
  spr_number :: i32
  head_branch :: string
  base_branch :: string
  explicit_parent :: "i32 option"

record base_update =
  bu_pull_request :: i32
  from_branch :: string
  to_branch :: string

record stack_plan =
  merge_order :: "i32 list"
  required_base_updates :: "base_update list"

datatype stack_error =
  EmptyStack
  | DuplicatePullRequest i32
  | MissingParent i32 i32
  | AmbiguousParents i32 "i32 list"
  | ConflictingParent i32 i32 i32
  | CycleDetected "i32 list"
  | AmbiguousOrder "i32 list"
  | DirtyBranch string
  | StaleBranch string
  | ForcePushProhibited string
  | RewriteRequiresBotOwnedBranch string
  | PlanBranchMismatch string string

text \<open>\<open>map.entry(k).or_default().push(v)\<close>.\<close>

definition entry_push :: "'k::linorder \<Rightarrow> 'v \<Rightarrow> ('k, 'v list) btree_map \<Rightarrow> ('k, 'v list) btree_map" where
  "entry_push k v m = bt_insert k (case bt_get m k of None \<Rightarrow> [v] | Some vs \<Rightarrow> vs @ [v]) m"

text \<open>\<open>map.entry(k).or_default().insert(v)\<close> on a map of ordered sets.\<close>

definition entry_insert ::
  "'k::linorder \<Rightarrow> 'v::linorder \<Rightarrow> ('k, 'v list) btree_map \<Rightarrow> ('k, 'v list) btree_map" where
  "entry_insert k v m = bt_insert k (case bt_get m k of None \<Rightarrow> [v] | Some vs \<Rightarrow> insort_insert v vs) m"

definition get_or_default :: "('k, 'v list) btree_map \<Rightarrow> 'k \<Rightarrow> 'v list" where
  "get_or_default m k = (case bt_get m k of None \<Rightarrow> [] | Some vs \<Rightarrow> vs)"

section \<open>Partition into components\<close>

definition index_by_number :: "stack_pull_request list \<Rightarrow> (i32, stack_pull_request) btree_map" where
  "index_by_number prs = fold (\<lambda>p. bt_insert (spr_number p) p) prs []"

definition index_by_head :: "stack_pull_request list \<Rightarrow> (string, i32 list) btree_map" where
  "index_by_head prs = fold (\<lambda>p. entry_push (head_branch p) (spr_number p)) prs []"

definition linked_parent :: "stack_pull_request list \<Rightarrow> stack_pull_request \<Rightarrow> i32 option" where
  "linked_parent prs p =
     (let inferred = (case bt_get (index_by_head prs) (base_branch p) of
            None \<Rightarrow> None
          | Some parents \<Rightarrow> if length parents = 1 then Some (parents ! 0) else None)
      in case (case explicit_parent p of None \<Rightarrow> inferred | Some e \<Rightarrow> Some e) of
           None \<Rightarrow> None
         | Some parent \<Rightarrow> if bt_get (index_by_number prs) parent \<noteq> None then Some parent else None)"

definition link :: "stack_pull_request list \<Rightarrow> stack_pull_request
    \<Rightarrow> (i32, i32 list) btree_map \<Rightarrow> (i32, i32 list) btree_map" where
  "link prs p adj = (case linked_parent prs p of
       None \<Rightarrow> adj
     | Some parent \<Rightarrow> entry_insert parent (spr_number p) (entry_insert (spr_number p) parent adj))"

definition adjacency :: "stack_pull_request list \<Rightarrow> (i32, i32 list) btree_map" where
  "adjacency prs = fold (link prs) prs
     (fold (\<lambda>n. bt_insert n []) (bt_keys (index_by_number prs)) [])"

text \<open>\<open>if visited.insert(neighbor) { queue.push(neighbor) }\<close>.\<close>

definition push_unvisited :: "i32 \<Rightarrow> i32 list \<times> i32 set \<Rightarrow> i32 list \<times> i32 set" where
  "push_unvisited n s =
     (if n \<in> snd s then s else (fst s @ [n], insert n (snd s)))"

fun unvisited :: "i32 set \<Rightarrow> i32 list \<Rightarrow> i32 list" where
  "unvisited v [] = []"
| "unvisited v (n # ns) = (if n \<in> v then unvisited v ns else n # unvisited (insert n v) ns)"

lemma set_unvisited [simp]: "set (unvisited v ns) = set ns - v"
  by (induction v ns rule: unvisited.induct) auto

lemma distinct_unvisited [simp]: "distinct (unvisited v ns)"
  by (induction v ns rule: unvisited.induct) auto

lemma push_all: "fold push_unvisited ns (q, v) = (q @ unvisited v ns, v \<union> set ns)"
  by (induction v ns arbitrary: q rule: unvisited.induct) (auto simp: push_unvisited_def insert_absorb)

lemma explore_decreases:
  assumes "queue \<noteq> []"
    and "U = \<Union> (set ` set (bt_values adj))" "ns = get_or_default adj (last queue)"
  shows "2 * card (U - (visited \<union> set ns)) + length (butlast queue @ unvisited visited ns)
    < 2 * card (U - visited) + length queue"
proof -
  have sub: "set ns \<subseteq> U"
    using assms(2,3) by (force simp: get_or_default_def bt_get_def bt_values_def
        split: option.splits dest!: map_of_SomeD)
  have fin: "finite U" by (simp add: assms(2))
  have "card (U - visited) = card ((U - (visited \<union> set ns)) \<union> (set ns - visited))"
    using sub by (intro arg_cong [where f = card]) blast
  also have "\<dots> = card (U - (visited \<union> set ns)) + card (set ns - visited)"
    by (rule card_Un_disjoint) (use fin in auto)
  also have "card (set ns - visited) = length (unvisited visited ns)"
    using distinct_card [OF distinct_unvisited, of visited ns] by simp
  finally show ?thesis using assms(1) by (cases queue) auto
qed

function explore :: "(i32, i32 list) btree_map \<Rightarrow> i32 list \<Rightarrow> i32 list \<Rightarrow> i32 set \<Rightarrow> i32 list \<times> i32 set" where
  "explore adj queue component visited =
     (if queue = [] then (component, visited)
      else let current = last queue;
               (queue', visited') = fold push_unvisited (get_or_default adj current) (butlast queue, visited)
           in explore adj queue' (component @ [current]) visited')"
  by pat_completeness auto
termination
proof (relation "measure (\<lambda>(adj, queue, component, visited).
    2 * card (\<Union> (set ` set (bt_values adj)) - visited) + length queue)", goal_cases)
  case (2 adj queue component visited current r queue' visited')
  then have "queue' = butlast queue @ unvisited visited (get_or_default adj (last queue))"
    "visited' = visited \<union> set (get_or_default adj (last queue))"
    by (simp_all add: push_all)
  then show ?case using explore_decreases [OF 2(1) refl refl, of adj visited] by simp
qed simp

declare explore.simps [simp del]

fun components_from :: "stack_pull_request list \<Rightarrow> (i32, i32 list) btree_map \<Rightarrow> i32 list \<Rightarrow> i32 set
    \<Rightarrow> stack_pull_request list list" where
  "components_from prs adj [] visited = []"
| "components_from prs adj (n # ns) visited =
     (if n \<in> visited then components_from prs adj ns visited
      else let (component, visited') = explore adj [n] [] (insert n visited)
           in List.map_filter (bt_get (index_by_number prs)) (sort component)
              # components_from prs adj ns visited')"

definition partition_stacks :: "stack_pull_request list \<Rightarrow> stack_pull_request list list" where
  "partition_stacks prs =
     components_from prs (adjacency prs) (bt_keys (index_by_number prs)) {}"

section \<open>The planner of one component\<close>

fun index_prs :: "stack_pull_request list \<Rightarrow> (i32, stack_pull_request) btree_map
    \<Rightarrow> (string, i32 list) btree_map
    \<Rightarrow> (stack_error, (i32, stack_pull_request) btree_map \<times> (string, i32 list) btree_map) result" where
  "index_prs [] by_number by_head = Ok (by_number, by_head)"
| "index_prs (p # ps) by_number by_head =
     (if bt_get by_number (spr_number p) \<noteq> None then Err (DuplicatePullRequest (spr_number p))
      else index_prs ps (bt_insert (spr_number p) p by_number)
             (entry_push (head_branch p) (spr_number p) by_head))"

definition resolve_parent :: "(i32, stack_pull_request) btree_map \<Rightarrow> (string, i32 list) btree_map
    \<Rightarrow> i32 \<times> stack_pull_request \<Rightarrow> (stack_error, i32 option \<times> base_update list) result" where
  "resolve_parent by_number by_head e =
     (let n = fst e; p = snd e; inferred = get_or_default by_head (base_branch p)
      in if length inferred > 1 then Err (AmbiguousParents n inferred)
         else case explicit_parent p of
             None \<Rightarrow> Ok (case inferred of [] \<Rightarrow> None | i # _ \<Rightarrow> Some i, [])
           | Some parent \<Rightarrow>
               and_then (ok_or (MissingParent n parent) (bt_get by_number parent)) (\<lambda>pp.
               and_then (case inferred of
                   [] \<Rightarrow> Ok ()
                 | i # _ \<Rightarrow> reject_if (i \<noteq> parent) (ConflictingParent n parent i)) (\<lambda>_.
               Ok (Some parent,
                   if base_branch p \<noteq> head_branch pp
                   then [\<lparr>bu_pull_request = n, from_branch = base_branch p, to_branch = head_branch pp\<rparr>]
                   else []))))"

text \<open>One start of \<open>reject_cycles\<close>: climb to the parents, recording each position on the path.\<close>

definition parent_of :: "(i32, i32 option) btree_map \<Rightarrow> i32 \<Rightarrow> i32 option" where
  "parent_of parents n = Option.bind (bt_get parents n) (\<lambda>p. p)"

function climb :: "(i32, i32 option) btree_map \<Rightarrow> i32 list \<Rightarrow> (i32, nat) btree_map \<Rightarrow> i32
    \<Rightarrow> (stack_error, unit) result" where
  "climb parents path positions current =
     (case bt_get positions current of
        Some position \<Rightarrow> Err (CycleDetected (sort (drop position path)))
      | None \<Rightarrow> (case parent_of parents current of
            Some parent \<Rightarrow> climb parents (path @ [current]) (bt_insert current (length path) positions) parent
          | None \<Rightarrow> Ok ()))"
  by pat_completeness auto
termination
proof (relation "measure (\<lambda>(parents, path, positions, current).
    card (set (bt_keys parents) - set (bt_keys positions)))", goal_cases)
  case (2 parents path positions current parent)
  have "current \<in> set (bt_keys parents)"
    using 2(2) by (auto simp: parent_of_def bt_keys_dom bind_eq_Some_conv)
  moreover have "current \<notin> set (bt_keys positions)" using 2(1) by (simp add: bt_keys_dom)
  ultimately have "set (bt_keys parents) - set (bt_keys (bt_insert current (length path) positions))
      \<subset> set (bt_keys parents) - set (bt_keys positions)"
    by (auto simp: bt_keys_insert)
  then show ?case by (simp add: psubset_card_mono)
qed simp

declare climb.simps [simp del]

definition reject_cycles :: "(i32, i32 option) btree_map \<Rightarrow> (stack_error, unit) result" where
  "reject_cycles parents = for_each (climb parents [] []) (bt_keys parents)"

definition add_child :: "i32 \<times> i32 option \<Rightarrow> (i32, i32 list) btree_map \<Rightarrow> (i32, i32 list) btree_map" where
  "add_child e children = (case snd e of None \<Rightarrow> children | Some p \<Rightarrow> entry_push p (fst e) children)"

definition children_of :: "(i32, i32 option) btree_map \<Rightarrow> (i32, i32 list) btree_map" where
  "children_of parents = fold add_child parents []"

partial_function (option) merge_chain ::
  "(i32, i32 list) btree_map \<Rightarrow> i32 list \<Rightarrow> i32 \<Rightarrow> i32 list option" where
  [code]: "merge_chain children order current =
     (case get_or_default children current of
        child # _ \<Rightarrow> merge_chain children (order @ [current]) child
      | [] \<Rightarrow> Some (order @ [current]))"

definition order_stack :: "(i32, stack_pull_request) btree_map \<Rightarrow> nat \<Rightarrow> (i32, i32 option) btree_map
    \<Rightarrow> base_update list \<Rightarrow> (stack_error, stack_plan) result option" where
  "order_stack by_number wanted parents updates =
     (let roots = map fst (filter (\<lambda>e. snd e = None) parents); children = children_of parents
      in if length roots \<noteq> 1 then Some (Err (AmbiguousOrder roots))
         else case find (\<lambda>siblings. length siblings > 1) (bt_values children) of
             Some siblings \<Rightarrow> Some (Err (AmbiguousOrder siblings))
           | None \<Rightarrow> Option.bind (merge_chain children [] (roots ! 0)) (\<lambda>order.
               Some (if length order \<noteq> wanted
                     then Err (AmbiguousOrder (filter (\<lambda>n. n \<notin> set order) (bt_keys by_number)))
                     else Ok \<lparr>merge_order = order, required_base_updates = updates\<rparr>)))"

definition resolve_parents :: "stack_pull_request list
    \<Rightarrow> (stack_error, (i32, stack_pull_request) btree_map \<times> (i32, i32 option) btree_map \<times> base_update list) result" where
  "resolve_parents prs =
     and_then (reject_if (prs = []) EmptyStack) (\<lambda>_.
     and_then (index_prs prs [] []) (\<lambda>(by_number, by_head).
     and_then (map_results (resolve_parent by_number by_head) by_number) (\<lambda>resolved.
     Ok (by_number,
         fold (\<lambda>(n, r). bt_insert n (fst r)) (zip (bt_keys by_number) resolved) [],
         concat (map snd resolved)))))"

definition plan_stack :: "stack_pull_request list \<Rightarrow> (stack_error, stack_plan) result option" where
  "plan_stack prs = (case and_then (resolve_parents prs) (\<lambda>(by_number, parents, updates).
        and_then (reject_cycles parents) (\<lambda>_. Ok (by_number, parents, updates))) of
      Inl e \<Rightarrow> Some (Err e)
    | Inr (by_number, parents, updates) \<Rightarrow> order_stack by_number (length prs) parents updates)"

section \<open>Rebase plans and push authorization\<close>

record branch_state =
  bs_name :: string
  bs_clean :: bool
  bs_current :: bool
  bs_bot_owned :: bool

record rebase_target =
  rt_branch :: string
  can_fast_forward :: bool
  has_conflicts :: bool

definition rebase_target_onto :: "string \<Rightarrow> rebase_target" where
  "rebase_target_onto b = \<lparr>rt_branch = b, can_fast_forward = False, has_conflicts = False\<rparr>"

definition fast_forward_to :: "string \<Rightarrow> rebase_target" where
  "fast_forward_to b = \<lparr>rt_branch = b, can_fast_forward = True, has_conflicts = False\<rparr>"

definition conflicting_with :: "string \<Rightarrow> rebase_target" where
  "conflicting_with b = \<lparr>rt_branch = b, can_fast_forward = False, has_conflicts = True\<rparr>"

datatype rebase_outcome = FastForward | Rebase | Conflict

datatype push_mode = NoPush | FastForwardOnly | ForceWithLease

record rebase_plan =
  rp_branch :: string
  target_branch :: string
  outcome :: rebase_outcome
  push_mode_of :: push_mode

definition plan_rebase :: "branch_state \<Rightarrow> rebase_target \<Rightarrow> (stack_error, rebase_plan) result" where
  "plan_rebase branch target =
     (if \<not> bs_clean branch then Err (DirtyBranch (bs_name branch))
      else if \<not> bs_current branch then Err (StaleBranch (bs_name branch))
      else let (out, mode) =
             (if has_conflicts target then (Conflict, NoPush)
              else if can_fast_forward target then (FastForward, FastForwardOnly)
              else (Rebase, ForceWithLease))
           in Ok \<lparr>rp_branch = bs_name branch, target_branch = rt_branch target,
                  outcome = out, push_mode_of = mode\<rparr>)"

record rebase_policy =
  allow_bot_owned_rewrite :: bool
  approved_bot_owned_branches :: "string set"

definition authorize_push ::
  "rebase_policy \<Rightarrow> branch_state \<Rightarrow> rebase_plan \<Rightarrow> (stack_error, unit) result" where
  "authorize_push pol branch p =
     (if rp_branch p \<noteq> bs_name branch then Err (PlanBranchMismatch (rp_branch p) (bs_name branch))
      else if push_mode_of p \<noteq> ForceWithLease then Ok ()
      else if \<not> allow_bot_owned_rewrite pol then Err (ForcePushProhibited (bs_name branch))
      else if \<not> bs_bot_owned branch \<or> bs_name branch \<notin> approved_bot_owned_branches pol
      then Err (RewriteRequiresBotOwnedBranch (bs_name branch))
      else Ok ())"

end
