(* ===== verification/Stack_Properties.thy ===== *)
theory Stack_Properties
  imports Stack
begin

text \<open>
  The stack planner against its specification: \<open>partition\<close> computes the connected components
  of the declared and inferred parent links, the planner answers for every input, and it
  succeeds exactly on linear stacks, which it orders along their parents.
\<close>

section \<open>Maps of lists\<close>

lemma entry_push_inv [intro]: "bt_inv m \<Longrightarrow> bt_inv (entry_push k v m)"
  by (auto simp: entry_push_def)

lemma entry_insert_inv [intro]: "bt_inv m \<Longrightarrow> bt_inv (entry_insert k v m)"
  by (auto simp: entry_insert_def)

lemma get_entry_push [simp]:
  "bt_inv m \<Longrightarrow> get_or_default (entry_push k v m) j =
     (if j = k then get_or_default m k @ [v] else get_or_default m j)"
  by (auto simp: get_or_default_def entry_push_def split: option.splits)

lemma get_entry_insert [simp]:
  "bt_inv m \<Longrightarrow> set (get_or_default (entry_insert k v m) j) =
     (if j = k then insert v (set (get_or_default m k)) else set (get_or_default m j))"
  by (auto simp: get_or_default_def entry_insert_def set_insort_insert split: option.splits)

section \<open>The graph of the partition\<close>

definition linked :: "stack_pull_request list \<Rightarrow> (i32 \<times> i32) set" where
  "linked prs = {(a, b). \<exists>p \<in> set prs. (spr_number p = a \<and> linked_parent prs p = Some b)
                                 \<or> (spr_number p = b \<and> linked_parent prs p = Some a)}"

definition neighbors :: "(i32, i32 list) btree_map \<Rightarrow> (i32 \<times> i32) set" where
  "neighbors adj = {(a, b). b \<in> set (get_or_default adj a)}"

lemma index_inv [simp]: "bt_inv (index_by_number prs)"
  unfolding index_by_number_def by (rule btm.inv_inserts) simp

lemma index_keys [simp]: "bt_keys (index_by_number prs) = sorted_set (map spr_number prs)"
  unfolding index_by_number_def by (rule btm.keys_inserts_eq)

lemma index_get:
  assumes "bt_get (index_by_number prs) n = Some p"
  shows "spr_number p = n \<and> p \<in> set prs"
proof -
  have "bt_get (index_by_number prs) n =
      (case find (\<lambda>x. spr_number x = n) (rev prs) of None \<Rightarrow> None | Some x \<Rightarrow> Some x)"
    unfolding index_by_number_def by (subst btm.get_inserts) (simp_all split: option.split)
  with assms show ?thesis by (auto simp: find_Some_iff split: option.splits) (metis length_rev nth_mem set_rev)
qed

lemma index_get_defined: "bt_get (index_by_number prs) n \<noteq> None \<longleftrightarrow> n \<in> spr_number ` set prs"
  using btm.keys_dom [of "index_by_number prs"] by (metis (mono_tags) index_inv index_keys list.set_map mem_Collect_eq set_sorted_set)

lemma linked_parent_known: "linked_parent prs p = Some n \<Longrightarrow> n \<in> spr_number ` set prs"
  by (auto simp: linked_parent_def Let_def index_get_defined simp flip: not_None_eq
      split: option.splits if_splits)

lemma linked_sym: "sym (linked prs)"
  by (auto simp: linked_def sym_def)

lemma linked_known: "(a, b) \<in> linked prs \<Longrightarrow> a \<in> spr_number ` set prs \<and> b \<in> spr_number ` set prs"
  by (auto simp: linked_def dest: linked_parent_known)

lemma linked_star_known:
  "(a, b) \<in> (linked prs)\<^sup>* \<Longrightarrow> a \<in> spr_number ` set prs \<Longrightarrow> b \<in> spr_number ` set prs"
  by (induction rule: rtrancl_induct) (auto dest: linked_known)

lemma link_neighbors:
  "bt_inv adj \<Longrightarrow> bt_inv (link prs p adj) \<and>
     neighbors (link prs p adj) = neighbors adj \<union>
       (case linked_parent prs p of None \<Rightarrow> {} | Some n \<Rightarrow> {(spr_number p, n), (n, spr_number p)})"
  by (auto simp: link_def neighbors_def entry_insert_inv split: option.splits if_splits)

lemma links_neighbors:
  "bt_inv adj \<Longrightarrow> bt_inv (fold (link prs) ps adj) \<and>
     neighbors (fold (link prs) ps adj) = neighbors adj \<union>
       (\<Union>p \<in> set ps. case linked_parent prs p of None \<Rightarrow> {}
          | Some n \<Rightarrow> {(spr_number p, n), (n, spr_number p)})"
  by (induction ps arbitrary: adj) (auto simp: link_neighbors)

lemma no_neighbors: "neighbors (fold (\<lambda>n. bt_insert n []) ns []) = {}"
proof -
  have "bt_inv m \<Longrightarrow> neighbors m = {} \<Longrightarrow> neighbors (fold (\<lambda>n. bt_insert n []) ns m) = {}" for m
  proof (induction ns arbitrary: m)
    case (Cons n ns)
    have "neighbors (bt_insert n [] m) = {}"
      using Cons.prems by (auto simp: neighbors_def get_or_default_def)
    with Cons show ?case by (simp add: bt_inv_insert)
  qed simp
  from this [of "[]"] show ?thesis by (simp add: neighbors_def get_or_default_def)
qed

lemma adjacency_neighbors: "neighbors (adjacency prs) = linked prs"
proof -
  have "bt_inv (fold (\<lambda>n. bt_insert n ([] :: i32 list)) (bt_keys (index_by_number prs)) [])"
    by (rule btm.inv_inserts) simp
  note conjunct2 [OF links_neighbors [OF this, of prs prs]]
  then show ?thesis
    unfolding adjacency_def no_neighbors by (auto simp: linked_def split: option.splits)
qed

section \<open>Exploration\<close>

lemma explore_step:
  "explore adj queue c v = (if queue = [] then (c, v)
     else let ns = get_or_default adj (last queue) in
       explore adj (butlast queue @ unvisited v ns) (c @ [last queue]) (v \<union> set ns))"
  by (subst explore.simps) (simp add: push_all Let_def)

lemma explore_reach:
  assumes "explore adj queue c v = (c', v')"
    and "v = v0 \<union> set c \<union> set queue" "distinct (c @ queue)" "(set c \<union> set queue) \<inter> v0 = {}"
    and "set c \<union> set queue \<subseteq> (neighbors adj)\<^sup>* `` {n}"
    and "\<forall>a \<in> set c. set (get_or_default adj a) \<subseteq> v"
  shows "v' = v0 \<union> set c' \<and> distinct c' \<and> set c' \<inter> v0 = {} \<and> set c \<union> set queue \<subseteq> set c'
     \<and> set c' \<subseteq> (neighbors adj)\<^sup>* `` {n} \<and> (\<forall>a \<in> set c'. set (get_or_default adj a) \<subseteq> v')"
  using assms
proof (induction adj queue c v rule: explore.induct)
  case (1 adj queue c v)
  show ?case
  proof (cases "queue = []")
    case True
    with 1(2-) show ?thesis by (auto simp: explore_step)
  next
    case False
    let ?x = "last queue" and ?q = "butlast queue"
    let ?ns = "get_or_default adj ?x"
    from False have queue: "queue = ?q @ [?x]" by simp
    have set_queue: "set queue = insert ?x (set ?q)" by (subst queue) simp
    have x: "(n, ?x) \<in> (neighbors adj)\<^sup>*" using 1(6) set_queue by blast
    have "set (c @ [?x]) \<union> set (?q @ unvisited v ?ns) \<subseteq> set c' \<and> v' = v0 \<union> set c' \<and> distinct c'
      \<and> set c' \<inter> v0 = {} \<and> set c' \<subseteq> (neighbors adj)\<^sup>* `` {n}
      \<and> (\<forall>a \<in> set c'. set (get_or_default adj a) \<subseteq> v')"
    proof -
      have "(n, b) \<in> (neighbors adj)\<^sup>*" if "b \<in> set ?ns" for b
        using x that by (auto simp: neighbors_def intro: rtrancl_into_rtrancl)
      then have reach: "set (c @ [?x]) \<union> set (?q @ unvisited v ?ns) \<subseteq> (neighbors adj)\<^sup>* `` {n}"
        using 1(6) set_queue by auto
      have "distinct (c @ ?q @ [?x])" using 1(4) queue by metis
      then have dist: "distinct ((c @ [?x]) @ ?q @ unvisited v ?ns)"
        using 1(3) set_queue by auto
      have v: "v \<union> set ?ns = v0 \<union> set (c @ [?x]) \<union> set (?q @ unvisited v ?ns)"
        using 1(3) set_queue by auto
      have disj: "(set (c @ [?x]) \<union> set (?q @ unvisited v ?ns)) \<inter> v0 = {}"
        using 1(3,5) set_queue by auto
      have closed: "\<forall>a \<in> set (c @ [?x]). set (get_or_default adj a) \<subseteq> v \<union> set ?ns"
        using 1(7) by auto
      have "explore adj (?q @ unvisited v ?ns) (c @ [?x]) (v \<union> set ?ns) = (c', v')"
        using 1(2) False by (simp add: explore_step [of adj queue] Let_def)
      from 1(1) [OF False refl _ refl, OF _ this v dist disj reach closed] show ?thesis
        by (auto simp: push_all)
    qed
    then show ?thesis using set_queue by auto
  qed
qed

lemma explore_component:
  assumes run: "explore adj [n] [] (insert n v0) = (c, v')"
    and closed: "neighbors adj `` v0 \<subseteq> v0" and sym: "sym (neighbors adj)" and new: "n \<notin> v0"
  shows "set c = (neighbors adj)\<^sup>* `` {n} \<and> distinct c \<and> set c \<inter> v0 = {} \<and> v' = v0 \<union> set c
       \<and> neighbors adj `` v' \<subseteq> v'"
proof -
  have r: "v' = v0 \<union> set c \<and> distinct c \<and> set c \<inter> v0 = {} \<and> set [] \<union> set [n] \<subseteq> set c
     \<and> set c \<subseteq> (neighbors adj)\<^sup>* `` {n} \<and> (\<forall>a \<in> set c. set (get_or_default adj a) \<subseteq> v')"
    by (rule explore_reach [OF run]) (use new in auto)
  have step: "b \<in> set c" if "a \<in> set c" "(a, b) \<in> neighbors adj" for a b
  proof -
    from that r have "b \<in> v0 \<union> set c" by (auto simp: neighbors_def)
    moreover have "b \<notin> v0" using closed symD [OF sym that(2)] that(1) r by blast
    ultimately show ?thesis by blast
  qed
  have "b \<in> set c" if "(n, b) \<in> (neighbors adj)\<^sup>*" for b
    using that by (induction rule: rtrancl_induct) (use r step in auto)
  with r step closed show ?thesis by blast
qed

lemma component_numbers:
  assumes "set c \<subseteq> spr_number ` set prs"
  shows "map spr_number (List.map_filter (bt_get (index_by_number prs)) c) = c
       \<and> set (List.map_filter (bt_get (index_by_number prs)) c) \<subseteq> set prs"
  using assms
proof (induction c)
  case (Cons n c)
  then obtain p where "bt_get (index_by_number prs) n = Some p"
    using index_get_defined [of prs n] by auto
  with Cons index_get [of prs n p] show ?case by (simp add: List.map_filter_simps)
qed (simp add: List.map_filter_simps)

lemma components_from_spec:
  assumes "neighbors adj `` v \<subseteq> v" "adj = adjacency prs" "set ns \<subseteq> spr_number ` set prs"
  defines "cs \<equiv> map (map spr_number) (components_from prs adj ns v)"
  shows "(\<forall>c \<in> set cs. sorted c \<and> distinct c \<and> (\<exists>n \<in> set ns. set c = (linked prs)\<^sup>* `` {n}))
     \<and> distinct (concat cs) \<and> set (concat cs) \<inter> v = {} \<and> set ns \<subseteq> v \<union> set (concat cs)
     \<and> set (concat (components_from prs adj ns v)) \<subseteq> set prs"
  using assms(1,3) unfolding cs_def
proof (induction ns arbitrary: v)
  case (Cons n ns)
  show ?case
  proof (cases "n \<in> v")
    case True
    with Cons show ?thesis by auto
  next
    case False
    obtain c v' where run: "explore adj [n] [] (insert n v) = (c, v')" by fastforce
    have "sym (neighbors adj)" using linked_sym by (simp add: assms(2) adjacency_neighbors)
    note C = explore_component [OF run Cons.prems(1) this False]
    have star: "set c = (linked prs)\<^sup>* `` {n}" using C by (simp add: assms(2) adjacency_neighbors)
    then have known: "set (sort c) \<subseteq> spr_number ` set prs"
      using linked_star_known Cons.prems(2) by auto
    let ?rest = "components_from prs adj ns v'"
    have IH: "(\<forall>c \<in> set (map (map spr_number) ?rest). sorted c \<and> distinct c
          \<and> (\<exists>n \<in> set ns. set c = (linked prs)\<^sup>* `` {n}))
       \<and> distinct (concat (map (map spr_number) ?rest)) \<and> set (concat (map (map spr_number) ?rest)) \<inter> v' = {}
       \<and> set ns \<subseteq> v' \<union> set (concat (map (map spr_number) ?rest)) \<and> set (concat ?rest) \<subseteq> set prs"
      by (rule Cons.IH) (use C Cons.prems(2) in auto)
    have n: "n \<in> set c" using star by auto
    have eq: "components_from prs adj (n # ns) v =
        List.map_filter (bt_get (index_by_number prs)) (sort c) # ?rest"
      using False run by simp
    obtain ss where ss: "map (map spr_number) ?rest = ss" by blast
    have eq2: "map (map spr_number) (components_from prs adj (n # ns) v) = sort c # ss"
      unfolding eq using component_numbers [OF known] by (simp add: ss)
    have last: "set (concat (components_from prs adj (n # ns) v)) \<subseteq> set prs"
      unfolding eq using IH component_numbers [OF known] by simp
    have disj: "set ss' \<inter> set c = {}" if "ss' \<in> set ss" for ss'
      using IH C that unfolding ss by fastforce
    show ?thesis unfolding eq2 using IH C star n last disj unfolding ss by auto
  qed
qed simp

section \<open>Properties of the partition\<close>

text \<open>
  C9: \<open>partition\<close> computes the connected components. The numbers of its components are
  ascending, pairwise disjoint, together exactly the observed numbers, and each component is
  the set of pull requests that parent links connect to one of its members.
\<close>

theorem partition_components:
  "set (map spr_number (concat (partition_stacks prs))) = spr_number ` set prs
   \<and> distinct (map spr_number (concat (partition_stacks prs)))
   \<and> set (concat (partition_stacks prs)) \<subseteq> set prs
   \<and> (\<forall>c \<in> set (partition_stacks prs). sorted (map spr_number c)
        \<and> (\<exists>n \<in> spr_number ` set prs. spr_number ` set c = (linked prs)\<^sup>* `` {n}))"
proof -
  have keys: "set (bt_keys (index_by_number prs)) = spr_number ` set prs" by simp
  have sub: "set (bt_keys (index_by_number prs)) \<subseteq> spr_number ` set prs" by simp
  note S = components_from_spec [of "adjacency prs" "{}" prs, OF _ refl sub,
      folded partition_stacks_def]
  have cover: "spr_number ` set (concat (partition_stacks prs)) = spr_number ` set prs"
    using S keys by (auto simp: image_Union)
  show ?thesis
    using S cover keys by (simp add: map_concat) blast
qed

section \<open>Concrete stacks\<close>

definition sample_pr :: "i32 \<Rightarrow> string \<Rightarrow> string \<Rightarrow> i32 option \<Rightarrow> stack_pull_request" where
  "sample_pr n h b e = \<lparr>spr_number = n, head_branch = h, base_branch = b, explicit_parent = e\<rparr>"

definition sample_stack :: "stack_pull_request list" where
  "sample_stack = [sample_pr 12 ''c'' ''b'' None, sample_pr 10 ''a'' ''main'' None,
     sample_pr 11 ''b'' ''main'' (Some 10)]"

theorem partition_components_witness:
  "set (map spr_number (concat (partition_stacks (sample_pr 3 ''x'' ''main'' None # sample_stack)))) = {3, 10, 11, 12}
   \<and> distinct (map spr_number (concat (partition_stacks (sample_pr 3 ''x'' ''main'' None # sample_stack))))"
proof -
  have "spr_number ` set (sample_pr 3 ''x'' ''main'' None # sample_stack) = {3, 10, 11, 12}" by code_simp
  with partition_components [of "sample_pr 3 ''x'' ''main'' None # sample_stack"] show ?thesis by metis
qed

end
