(* ===== verification/Stack_Order.thy ===== *)
theory Stack_Order
  imports Stack_Properties
begin

text \<open>
  The order a stack is merged in: chains of a parent function, the cycle check and the merge
  loop over them, and the planner's specification as an equivalence.
\<close>

section \<open>Chains\<close>

definition chain :: "(i32 \<Rightarrow> i32 option) \<Rightarrow> i32 list \<Rightarrow> bool" where
  "chain P os \<longleftrightarrow> os \<noteq> [] \<and> distinct os \<and> P (os ! 0) = None
     \<and> (\<forall>i. Suc i < length os \<longrightarrow> P (os ! Suc i) = Some (os ! i))"

lemma chain_root: "P r = None \<Longrightarrow> chain P [r]"
  by (simp add: chain_def)

lemma chain_snoc:
  assumes "chain P os" "P c = Some (last os)"
  shows "chain P (os @ [c])"
proof -
  have "c \<notin> set os"
  proof
    assume "c \<in> set os"
    then obtain i where i: "i < length os" "c = os ! i" by (metis in_set_conv_nth)
    show False
    proof (cases i)
      case 0
      with assms i show ?thesis by (simp add: chain_def)
    next
      case (Suc k)
      with assms i have "os ! k = os ! (length os - 1)"
        by (auto simp: chain_def last_conv_nth)
      with assms(1) i Suc show ?thesis by (simp add: chain_def nth_eq_iff_index_eq)
    qed
  qed
  with assms show ?thesis
    by (auto simp: chain_def nth_append last_conv_nth less_Suc_eq)
      (metis One_nat_def Suc_lessI diff_Suc_1 length_greater_0_conv)+
qed

lemma chain_index:
  assumes "n \<in> set os"
  obtains i where "i < length os" "n = os ! i"
  using assms by (metis in_set_conv_nth)

lemma chain_pred:
  assumes "chain P os" "n \<in> set os" "P n = Some q"
  obtains i where "Suc i < length os" "n = os ! Suc i" "q = os ! i"
proof -
  obtain j where j: "j < length os" "n = os ! j" using assms(2) by (metis in_set_conv_nth)
  with assms obtain i where "j = Suc i" by (cases j) (auto simp: chain_def)
  with j assms that show ?thesis by (auto simp: chain_def)
qed

lemma chain_same_start:
  assumes "chain P os" "chain P os'" "os ! 0 = os' ! 0" "set os = set os'"
  shows "os = os'"
proof (rule nth_equalityI)
  show len: "length os = length os'"
    using assms distinct_card [of os] distinct_card [of os'] by (simp add: chain_def)
  show "os ! i = os' ! i" if "i < length os" for i
    using that
  proof (induction i)
    case (Suc i)
    then have "P (os' ! Suc i) = Some (os ! i)" using assms(2) len by (simp add: chain_def)
    moreover have "os' ! Suc i \<in> set os" using assms(4) len Suc.prems by simp
    ultimately obtain k where k: "Suc k < length os" "os' ! Suc i = os ! Suc k" "os ! i = os ! k"
      using chain_pred [OF assms(1)] by metis
    then have "k = i" using assms(1) Suc.prems by (simp add: chain_def nth_eq_iff_index_eq)
    with k show ?case by simp
  qed (use assms in simp)
qed

section \<open>The cycle check\<close>

inductive grounded :: "(i32 \<Rightarrow> i32 option) \<Rightarrow> i32 \<Rightarrow> bool" for P where
  root: "P n = None \<Longrightarrow> grounded P n"
| above: "P n = Some q \<Longrightarrow> grounded P q \<Longrightarrow> grounded P n"

lemma climb_grounded: "climb parents path positions n = Ok () \<Longrightarrow> grounded (parent_of parents) n"
proof (induction parents path positions n rule: climb.induct)
  case (1 parents path positions n)
  then show ?case
    by (subst (asm) (2) climb.simps) (auto split: option.splits intro: grounded.intros)
qed

lemma climb_chain:
  assumes "chain (parent_of parents) os" "i < length os" "bt_inv positions"
    and "\<forall>k \<in> set (bt_keys positions). \<exists>j. i < j \<and> j < length os \<and> k = os ! j"
  shows "climb parents path positions (os ! i) = Ok ()"
  using assms(2-)
proof (induction i arbitrary: path positions)
  case 0
  have "os ! 0 \<notin> set (bt_keys positions)"
    using assms(1) 0 by (auto simp: chain_def nth_eq_iff_index_eq)
  then have "bt_get positions (os ! 0) = None" by (simp add: bt_keys_dom)
  with assms(1) show ?case by (subst climb.simps) (simp add: chain_def)
next
  case (Suc i)
  have "os ! Suc i \<notin> set (bt_keys positions)"
    using assms(1) Suc.prems by (auto simp: chain_def nth_eq_iff_index_eq)
  then have "bt_get positions (os ! Suc i) = None" by (simp add: bt_keys_dom)
  moreover have "parent_of parents (os ! Suc i) = Some (os ! i)"
    using assms(1) Suc.prems(1) by (simp add: chain_def)
  moreover have "climb parents (path @ [os ! Suc i])
      (bt_insert (os ! Suc i) (length path) positions) (os ! i) = Ok ()"
  proof (rule Suc.IH)
    have "\<exists>j. i < j \<and> j < length os \<and> k = os ! j" if "k \<in> set (bt_keys positions)" for k
      using that Suc.prems(3) Suc_lessD by blast
    then show "\<forall>k \<in> set (bt_keys (bt_insert (os ! Suc i) (length path) positions)).
        \<exists>j. i < j \<and> j < length os \<and> k = os ! j"
      using Suc.prems(1) by (auto simp: bt_keys_insert)
  qed (use Suc.prems in \<open>auto simp: bt_inv_insert\<close>)
  ultimately show ?case by (subst climb.simps) simp
qed

section \<open>Children and the merge loop\<close>

lemma children_of_get:
  "get_or_default (children_of parents) q = map fst (filter (\<lambda>e. snd e = Some q) parents)
   \<and> bt_inv (children_of parents)"
proof -
  have "get_or_default (fold add_child es m) q
        = get_or_default m q @ map fst (filter (\<lambda>e. snd e = Some q) es)
      \<and> bt_inv (fold add_child es m)" if "bt_inv m" for es m
    using that
  proof (induction es arbitrary: m)
    case (Cons e es)
    then have "bt_inv (add_child e m)" by (auto simp: add_child_def split: option.split)
    from Cons.IH [OF this] Cons.prems show ?case
      by (auto simp: add_child_def split: option.split)
  qed simp
  from this [of "[]" parents] show ?thesis by (simp add: children_of_def get_or_default_def)
qed

lemma no_siblings:
  "find (\<lambda>vs. length vs > 1) (bt_values (children_of parents)) = None \<longleftrightarrow>
     (\<forall>q. length (get_or_default (children_of parents) q) \<le> 1)"
proof -
  have inv: "bt_inv (children_of parents)" using children_of_get by blast
  show ?thesis
    by (auto simp: find_None_iff bt_values_get [OF inv] get_or_default_def not_less split: option.splits)
qed

lemma merge_chain_returns:
  assumes "\<And>q c. c \<in> set (get_or_default children q) \<Longrightarrow> c \<in> K \<and> P c = Some q"
    and "finite K" "chain P (order @ [n])" "set (order @ [n]) \<subseteq> K"
  shows "\<exists>os. merge_chain children order n = Some os \<and> chain P os \<and> set os \<subseteq> K
     \<and> os ! 0 = (order @ [n]) ! 0 \<and> get_or_default children (last os) = []"
  using assms(3,4)
proof (induction "card K - length order" arbitrary: order n rule: less_induct)
  case less
  show ?case
  proof (cases "get_or_default children n")
    case Nil
    then show ?thesis using less.prems by (subst merge_chain.simps) auto
  next
    case (Cons c cs)
    have c: "c \<in> K" "P c = Some n" using assms(1) [of c n] Cons by auto
    have next_chain: "chain P ((order @ [n]) @ [c])" by (rule chain_snoc) (use less.prems c in simp_all)
    have "card (set (order @ [n])) \<le> card K" by (rule card_mono [OF assms(2) less.prems(2)])
    moreover have "card (set (order @ [n])) = length (order @ [n])"
      using less.prems(1) by (intro distinct_card) (simp add: chain_def)
    ultimately have "card K - length (order @ [n]) < card K - length order" by simp
    from less.hyps [OF this next_chain] c less.prems show ?thesis
      by (subst merge_chain.simps) (auto simp: Cons nth_append)
  qed
qed

lemma chain_covers:
  assumes "chain P os" "\<And>n. n \<in> K \<Longrightarrow> grounded P n" "\<And>n q. n \<in> K \<Longrightarrow> P n = Some q \<Longrightarrow> q \<in> K"
    and "\<And>n. n \<in> K \<Longrightarrow> P n = None \<Longrightarrow> n = os ! 0"
    and "\<And>n m q. n \<in> K \<Longrightarrow> m \<in> K \<Longrightarrow> P n = Some q \<Longrightarrow> P m = Some q \<Longrightarrow> n = m"
    and "\<And>n. n \<in> K \<Longrightarrow> P n \<noteq> Some (last os)" "set os \<subseteq> K"
  shows "set os = K"
proof -
  have "n \<in> set os" if "grounded P n" "n \<in> K" for n
    using that
  proof (induction rule: grounded.induct)
    case (root n)
    then have "n = os ! 0" by (intro assms(4))
    with assms(1) show ?case by (simp add: chain_def)
  next
    case (above n q)
    then have "q \<in> set os" using assms(3) by blast
    then obtain i where i: "i < length os" "q = os ! i" by (metis in_set_conv_nth)
    have "Suc i < length os"
    proof (rule ccontr)
      assume "\<not> Suc i < length os"
      then have "i = length os - 1" using i by simp
      with i above assms(1,6) show False by (simp add: chain_def last_conv_nth)
    qed
    moreover from this have "P (os ! Suc i) = Some q" using assms(1) i by (simp add: chain_def)
    moreover have "os ! Suc i \<in> K" using assms(7) calculation(1) by auto
    ultimately show ?case using assms(5) above by (metis nth_mem)
  qed
  with assms(2,7) show ?thesis by blast
qed

section \<open>What the planner reads of its input\<close>

definition base_parents :: "stack_pull_request list \<Rightarrow> stack_pull_request \<Rightarrow> i32 list" where
  "base_parents prs p = map spr_number (filter (\<lambda>q. head_branch q = base_branch p) prs)"

definition declared_parent :: "stack_pull_request list \<Rightarrow> stack_pull_request \<Rightarrow> i32 option" where
  "declared_parent prs p = (case explicit_parent p of
       Some e \<Rightarrow> Some e
     | None \<Rightarrow> (case base_parents prs p of [] \<Rightarrow> None | i # _ \<Rightarrow> Some i))"

definition unambiguous :: "stack_pull_request list \<Rightarrow> stack_pull_request \<Rightarrow> bool" where
  "unambiguous prs p \<longleftrightarrow> length (base_parents prs p) \<le> 1
     \<and> (case explicit_parent p of
           None \<Rightarrow> True
         | Some e \<Rightarrow> e \<in> spr_number ` set prs \<and> (\<forall>i \<in> set (base_parents prs p). i = e))"

definition needed_updates :: "stack_pull_request list \<Rightarrow> stack_pull_request \<Rightarrow> base_update list" where
  "needed_updates prs p = (case explicit_parent p of
       None \<Rightarrow> []
     | Some e \<Rightarrow> map (\<lambda>q. \<lparr>bu_pull_request = spr_number p, from_branch = base_branch p,
                              to_branch = head_branch q\<rparr>)
         (filter (\<lambda>q. spr_number q = e \<and> base_branch p \<noteq> head_branch q) prs))"

lemma index_prs_Ok:
  "index_prs ps bn bh = Ok r \<longleftrightarrow> bt_inv bn \<longrightarrow>
     distinct (map spr_number ps) \<and> (\<forall>p \<in> set ps. bt_get bn (spr_number p) = None)
     \<and> r = (fold (\<lambda>p. bt_insert (spr_number p) p) ps bn,
            fold (\<lambda>p. entry_push (head_branch p) (spr_number p)) ps bh)"
  if "bt_inv bn"
  using that by (induction ps arbitrary: bn bh) (auto simp: bt_inv_insert image_iff)

lemma index_prs_iff:
  "index_prs prs [] [] = Ok r \<longleftrightarrow>
     distinct (map spr_number prs) \<and> r = (index_by_number prs, index_by_head prs)"
  by (simp add: index_prs_Ok index_by_number_def index_by_head_def)

lemma index_by_head_get: "get_or_default (index_by_head prs) h = map spr_number (filter (\<lambda>q. head_branch q = h) prs)"
proof -
  have "bt_inv m \<Longrightarrow> get_or_default (fold (\<lambda>p. entry_push (head_branch p) (spr_number p)) ps m) h =
      get_or_default m h @ map spr_number (filter (\<lambda>q. head_branch q = h) ps)" for m ps
    by (induction ps arbitrary: m) (auto simp: entry_push_inv)
  from this [of "[]" prs] show ?thesis by (simp add: index_by_head_def get_or_default_def)
qed

lemma index_get_iff:
  assumes "distinct (map spr_number prs)"
  shows "bt_get (index_by_number prs) n = Some p \<longleftrightarrow> p \<in> set prs \<and> spr_number p = n"
proof
  show "bt_get (index_by_number prs) n = Some p \<Longrightarrow> p \<in> set prs \<and> spr_number p = n"
    using index_get by blast
  assume p: "p \<in> set prs \<and> spr_number p = n"
  then have "bt_get (index_by_number prs) n \<noteq> None" unfolding index_get_defined by auto
  then obtain q where q: "bt_get (index_by_number prs) n = Some q" by blast
  with index_get have "q \<in> set prs" "spr_number q = n" by blast+
  with p assms have "q = p" by (auto simp: distinct_map dest: inj_onD)
  with q show "bt_get (index_by_number prs) n = Some p" by simp
qed

definition by_number_list :: "stack_pull_request list \<Rightarrow> (i32, stack_pull_request) btree_map" where
  "by_number_list prs = map (\<lambda>p. (spr_number p, p)) (sort_key spr_number prs)"

lemma bt_get_iff: "bt_inv m \<Longrightarrow> bt_get m k = Some v \<longleftrightarrow> (k, v) \<in> set m"
  by (simp add: bt_get_def bt_inv_strict map_of_eq_Some_iff)

lemma index_as_list:
  assumes "distinct (map spr_number prs)"
  shows "index_by_number prs = by_number_list prs"
proof (rule bt_ext)
  have "sorted (map spr_number (sort_key spr_number prs))" by simp
  moreover have "distinct (map spr_number (sort_key spr_number prs))"
    using assms by (metis distinct_map distinct_sort set_sort)
  ultimately show inv: "bt_inv (by_number_list prs)"
    by (simp add: by_number_list_def bt_inv_strict comp_def)
  show "bt_get (index_by_number prs) k = bt_get (by_number_list prs) k" for k
    using index_get_iff [OF assms, of k] bt_get_iff [OF inv, of k]
    by (intro option.expand) (auto simp: by_number_list_def image_iff
        simp flip: not_None_eq intro: option.expand, (metis option.exhaust_sel)+)
qed simp

lemma rebuild_map:
  "bt_inv xs \<Longrightarrow> fold (\<lambda>e. bt_insert (fst e) (g e)) xs [] = map (\<lambda>e. (fst e, g e)) xs"
proof (rule bt_ext)
  assume inv: "bt_inv xs"
  show "bt_inv (fold (\<lambda>e. bt_insert (fst e) (g e)) xs [])" by (rule btm.inv_inserts) simp
  show inv2: "bt_inv (map (\<lambda>e. (fst e, g e)) xs)" using inv by (simp add: bt_inv_def comp_def)
  show "bt_get (fold (\<lambda>e. bt_insert (fst e) (g e)) xs []) k = bt_get (map (\<lambda>e. (fst e, g e)) xs) k" for k
  proof -
    have "distinct (map fst xs)" using inv by (simp add: bt_inv_strict)
    then have "find (\<lambda>e. fst e = k) (rev xs) = find (\<lambda>e. fst e = k) xs"
    proof (induction xs)
      case (Cons e es)
      have app: "find Q (ys @ [y]) = (case find Q ys of None \<Rightarrow> if Q y then Some y else None
          | Some z \<Rightarrow> Some z)" for Q and y :: "'a \<times> 'b" and ys
        by (induction ys) auto
      have "find (\<lambda>e. fst e = k) es = None" if "fst e = k"
        using Cons.prems that unfolding find_None_iff by (auto simp: image_iff)
      with Cons show ?case by (auto simp: app split: option.splits)
    qed simp
    moreover have "map_of (map (\<lambda>e. (fst e, g e)) ys) k = map_option g (find (\<lambda>e. fst e = k) ys)" for ys
      by (induction ys) auto
    ultimately show ?thesis
      by (subst btm.get_inserts) (auto simp: bt_get_def split: option.splits)
  qed
qed

lemma resolve_parent_Ok:
  assumes "distinct (map spr_number prs)" "p \<in> set prs"
  shows "resolve_parent (index_by_number prs) (index_by_head prs) (spr_number p, p) = Ok r \<longleftrightarrow>
     unambiguous prs p \<and> r = (declared_parent prs p, needed_updates prs p)"
proof (cases "explicit_parent p")
  case None
  then show ?thesis
    by (auto simp: resolve_parent_def Let_def index_by_head_get unambiguous_def declared_parent_def
        needed_updates_def base_parents_def)
next
  case (Some e)
  have one: "filter (\<lambda>q. spr_number q = e \<and> g q) prs = (if g pp then [pp] else [])"
    if "pp \<in> set prs" "spr_number pp = e" for pp g
    using assms(1) that
  proof (induction prs)
    case (Cons x xs)
    have "filter (\<lambda>q. spr_number q = e \<and> g q) xs = []" if "spr_number x = e"
      using Cons.prems(1) that by (auto simp: image_iff filter_empty_conv)
    with Cons show ?case by auto
  qed simp
  show ?thesis
  proof (cases "bt_get (index_by_number prs) e")
    case None
    then have "e \<notin> spr_number ` set prs" using index_get_defined by blast
    with None Some show ?thesis
      by (auto simp: resolve_parent_def Let_def unambiguous_def)
  next
    case (Some pp)
    then have pp: "pp \<in> set prs" "spr_number pp = e" using index_get_iff [OF assms(1)] by auto
    show ?thesis
      using \<open>explicit_parent p = Some e\<close> Some pp one [OF pp]
      by (cases "base_parents prs p")
        (auto simp: resolve_parent_def Let_def index_by_head_get unambiguous_def declared_parent_def
          needed_updates_def base_parents_def and_then_Ok)
  qed
qed

lemma resolve_parents_Ok:
  "resolve_parents prs = Ok (bn, parents, updates) \<longleftrightarrow>
     prs \<noteq> [] \<and> distinct (map spr_number prs) \<and> (\<forall>p \<in> set prs. unambiguous prs p)
     \<and> bn = index_by_number prs
     \<and> parents = map (\<lambda>p. (spr_number p, declared_parent prs p)) (sort_key spr_number prs)
     \<and> updates = concat (map (needed_updates prs) (sort_key spr_number prs))"
proof (cases "distinct (map spr_number prs)")
  case True
  let ?ps = "sort_key spr_number prs"
  have inv: "bt_inv (by_number_list prs)" using index_as_list [OF True] index_inv [of prs] by simp
  have each: "list_all2 (\<lambda>e r. resolve_parent (index_by_number prs) (index_by_head prs) e = Inr r)
      (map (\<lambda>p. (spr_number p, p)) qs) rs \<longleftrightarrow>
      (\<forall>p \<in> set qs. unambiguous prs p) \<and> rs = map (\<lambda>p. (declared_parent prs p, needed_updates prs p)) qs"
    if "set qs \<subseteq> set prs" for qs rs
    using that
    by (induction qs arbitrary: rs) (auto simp: list_all2_Cons1 resolve_parent_Ok [OF True])
  have "fold (\<lambda>(n, r). bt_insert n (fst r)) (zip (bt_keys (by_number_list prs))
      (map (\<lambda>p. (declared_parent prs p, needed_updates prs p)) ?ps)) [] =
      fold (\<lambda>e. bt_insert (fst e) (declared_parent prs (snd e))) (by_number_list prs) []"
    by (simp add: by_number_list_def bt_keys_def zip_map_map fold_map comp_def zip_same_conv_map)
  also have "\<dots> = map (\<lambda>p. (spr_number p, declared_parent prs p)) ?ps"
    by (subst rebuild_map [OF inv]) (simp add: by_number_list_def)
  finally have parents: "fold (\<lambda>(n, r). bt_insert n (fst r)) (zip (bt_keys (by_number_list prs))
      (map (\<lambda>p. (declared_parent prs p, needed_updates prs p)) ?ps)) [] =
      map (\<lambda>p. (spr_number p, declared_parent prs p)) ?ps" .
  have keys: "bt_keys (by_number_list prs) = sorted_set (map spr_number prs)"
    using index_as_list [OF True] index_keys [of prs] by simp
  have "map_results f (index_by_number prs) = map_results f (by_number_list prs)"
    for f :: "_ \<Rightarrow> (stack_error, i32 option \<times> base_update list) result"
    by (simp add: index_as_list [OF True])
  then have results: "map_results (resolve_parent (index_by_number prs) (index_by_head prs))
      (index_by_number prs) = Ok rs \<longleftrightarrow>
      (\<forall>p \<in> set prs. unambiguous prs p)
        \<and> rs = map (\<lambda>p. (declared_parent prs p, needed_updates prs p)) ?ps" for rs
    using each [of ?ps rs] by (simp add: map_results_Ok by_number_list_def)
  show ?thesis
    using True parents [unfolded keys]
    by (auto simp: resolve_parents_def and_then_Ok index_prs_iff results comp_def)
qed (auto simp: resolve_parents_def and_then_Ok index_prs_iff)

section \<open>The planner and its specification\<close>

text \<open>A linear order of the pull requests along their parents, base-most first.\<close>

definition linear_order_of :: "stack_pull_request list \<Rightarrow> i32 list \<Rightarrow> bool" where
  "linear_order_of prs os \<longleftrightarrow> distinct os \<and> set os = spr_number ` set prs
     \<and> (\<forall>i < length os. \<exists>p \<in> set prs. spr_number p = os ! i
          \<and> declared_parent prs p = (if i = 0 then None else Some (os ! (i - 1))))"

definition planned :: "stack_pull_request list \<Rightarrow> (i32, i32 option) btree_map \<Rightarrow> bool" where
  "planned prs parents \<longleftrightarrow> prs \<noteq> [] \<and> distinct (map spr_number prs) \<and> (\<forall>p \<in> set prs. unambiguous prs p)
     \<and> parents = map (\<lambda>p. (spr_number p, declared_parent prs p)) (sort_key spr_number prs)"

lemma planned_inv: "planned prs parents \<Longrightarrow> bt_inv parents"
  by (auto simp: planned_def bt_inv_strict comp_def) (metis distinct_map distinct_sort set_sort)

lemma planned_keys: "planned prs parents \<Longrightarrow> set (bt_keys parents) = spr_number ` set prs"
  by (auto simp: planned_def bt_keys_def image_iff)

lemma planned_get:
  assumes "planned prs parents"
  shows "(n, r) \<in> set parents \<longleftrightarrow> (\<exists>p \<in> set prs. spr_number p = n \<and> declared_parent prs p = r)"
  using assms by (auto simp: planned_def)

lemma planned_parent:
  assumes "planned prs parents" "p \<in> set prs"
  shows "parent_of parents (spr_number p) = declared_parent prs p"
proof -
  have "(spr_number p, declared_parent prs p) \<in> set parents" using assms by (auto simp: planned_get)
  then have "bt_get parents (spr_number p) = Some (declared_parent prs p)"
    using bt_get_iff [OF planned_inv [OF assms(1)]] by blast
  then show ?thesis by (simp add: parent_of_def)
qed

lemma planned_entry:
  assumes "planned prs parents"
  shows "(n, r) \<in> set parents \<longleftrightarrow> n \<in> spr_number ` set prs \<and> parent_of parents n = r"
  unfolding planned_get [OF assms] using planned_parent [OF assms] by auto

lemma declared_parent_known:
  "unambiguous prs p \<Longrightarrow> declared_parent prs p = Some q \<Longrightarrow> q \<in> spr_number ` set prs"
proof -
  assume "unambiguous prs p" "declared_parent prs p = Some q"
  moreover have "set (base_parents prs p) \<subseteq> spr_number ` set prs" by (auto simp: base_parents_def)
  ultimately show ?thesis
    by (auto simp: declared_parent_def unambiguous_def split: option.splits list.splits)
qed

lemma planned_parent_known:
  assumes "planned prs parents" "n \<in> spr_number ` set prs" "parent_of parents n = Some q"
  shows "q \<in> spr_number ` set prs"
  using assms planned_parent [OF assms(1)] declared_parent_known [of prs]
  by (auto simp: planned_def)

lemma planned_roots:
  assumes "planned prs parents"
  shows "distinct (map fst (filter (\<lambda>e. snd e = None) parents))"
    and "set (map fst (filter (\<lambda>e. snd e = None) parents)) =
         {n \<in> spr_number ` set prs. parent_of parents n = None}"
  using planned_inv [OF assms] planned_entry [OF assms]
  by (auto simp: bt_inv_strict distinct_map_filter image_iff)

lemma planned_children:
  assumes "planned prs parents"
  shows "distinct (get_or_default (children_of parents) q)"
    and "set (get_or_default (children_of parents) q) =
         {n \<in> spr_number ` set prs. parent_of parents n = Some q}"
  using planned_inv [OF assms] planned_entry [OF assms]
  by (auto simp: bt_inv_strict distinct_map_filter image_iff children_of_get)

lemma linear_order_chain:
  assumes "planned prs parents"
  shows "linear_order_of prs os \<longleftrightarrow> chain (parent_of parents) os \<and> set os = spr_number ` set prs"
proof -
  have ne: "set os = spr_number ` set prs \<Longrightarrow> os \<noteq> []" using assms by (auto simp: planned_def)
  have idx: "(\<forall>i < length os. parent_of parents (os ! i) = (if i = 0 then None else Some (os ! (i - 1)))) \<longleftrightarrow>
      parent_of parents (os ! 0) = None
        \<and> (\<forall>i. Suc i < length os \<longrightarrow> parent_of parents (os ! Suc i) = Some (os ! i))" if "os \<noteq> []"
    using that by (cases os) (simp_all add: All_less_Suc2 del: nth_Cons_Suc)
  have "(\<exists>p \<in> set prs. spr_number p = os ! i \<and> declared_parent prs p = r) \<longleftrightarrow>
      parent_of parents (os ! i) = r" if "i < length os" "set os = spr_number ` set prs" for i r
  proof -
    have "os ! i \<in> spr_number ` set prs" using nth_mem [OF that(1)] that(2) by simp
    then show ?thesis using planned_parent [OF assms] by fastforce
  qed
  then show ?thesis using ne idx by (auto simp: linear_order_of_def chain_def)
qed

lemma order_stack_returns:
  assumes "planned prs parents"
  shows "\<exists>r. order_stack bn wanted parents ups = Some r
     \<and> (\<forall>pl. r = Ok pl \<longrightarrow> chain (parent_of parents) (merge_order pl)
          \<and> set (merge_order pl) \<subseteq> spr_number ` set prs
          \<and> length (merge_order pl) = wanted \<and> required_base_updates pl = ups)"
proof (cases "length (map fst (filter (\<lambda>e. snd e = None) parents)) = 1")
  case False
  then show ?thesis by (simp add: order_stack_def Let_def)
next
  case one: True
  then obtain r where r: "map fst (filter (\<lambda>e. snd e = None) parents) = [r]"
    by (metis One_nat_def length_0_conv length_Suc_conv)
  then have root: "r \<in> spr_number ` set prs" "parent_of parents r = None"
    using planned_roots(2) [OF assms] by auto
  obtain os where os: "merge_chain (children_of parents) [] r = Some os"
    "chain (parent_of parents) os" "set os \<subseteq> spr_number ` set prs"
    using merge_chain_returns [of "children_of parents" "spr_number ` set prs" "parent_of parents" "[]" r]
      chain_root [of "parent_of parents" r] root planned_children(2) [OF assms] by auto
  show ?thesis using os r
    by (auto simp: order_stack_def Let_def split: option.split)
qed

lemma distinct_single: "set xs = {x} \<Longrightarrow> distinct xs \<Longrightarrow> xs = [x]"
  by (cases xs; cases "tl xs") auto

lemma order_stack_chain:
  assumes "planned prs parents" "chain (parent_of parents) os" "set os = spr_number ` set prs"
  shows "reject_cycles parents = Ok ()"
    and "order_stack bn (length prs) parents ups = Some (Ok \<lparr>merge_order = os, required_base_updates = ups\<rparr>)"
proof -
  let ?P = "parent_of parents" and ?K = "spr_number ` set prs"
  have "climb parents [] [] n = Ok ()" if known: "n \<in> ?K" for n
  proof -
    obtain i where "i < length os" "n = os ! i" using chain_index [OF known [folded assms(3)]] .
    with climb_chain [OF assms(2), of i "[]" "[]"] show ?thesis by (simp add: bt_keys_def)
  qed
  then show "reject_cycles parents = Ok ()"
    by (simp add: reject_cycles_def for_each_Ok planned_keys [OF assms(1)])
  have nodes: "n = os ! 0" if known: "n \<in> ?K" and top: "?P n = None" for n
  proof -
    obtain i where i: "i < length os" "n = os ! i"
      using chain_index [OF known [folded assms(3)]] .
    with top assms(2) show ?thesis by (cases i) (auto simp: chain_def)
  qed
  have inj: "n = m" if known: "n \<in> ?K" "m \<in> ?K" "?P n = Some q" "?P m = Some q" for n m q
  proof -
    obtain i where i: "Suc i < length os" "n = os ! Suc i" "q = os ! i"
      using chain_pred [OF assms(2) known(1) [folded assms(3)] known(3)] .
    obtain k where k: "Suc k < length os" "m = os ! Suc k" "q = os ! k"
      using chain_pred [OF assms(2) known(2) [folded assms(3)] known(4)] .
    have "i = k" using i k assms(2) by (simp add: chain_def nth_eq_iff_index_eq)
    with i k show ?thesis by simp
  qed
  have "os ! 0 \<in> set os" "?P (os ! 0) = None" using assms(2) by (simp_all add: chain_def)
  then have os0: "os ! 0 \<in> ?K" "?P (os ! 0) = None" unfolding assms(3) .
  let ?roots = "map fst (filter (\<lambda>e. snd e = None) parents)"
  have "set ?roots = {os ! 0}" unfolding planned_roots(2) [OF assms(1)] using nodes os0 by blast
  then have roots: "?roots = [os ! 0]"
    using planned_roots(1) [OF assms(1)] by (rule distinct_single)
  have small: "length (get_or_default (children_of parents) q) \<le> 1" for q
  proof -
    have "card {n \<in> ?K. ?P n = Some q} \<le> 1"
      using inj by (auto simp: card_le_Suc0_iff_eq)
    then show ?thesis
      using distinct_card [OF planned_children(1) [OF assms(1)]] planned_children(2) [OF assms(1)]
      by metis
  qed
  have "(\<And>q c. c \<in> set (get_or_default (children_of parents) q) \<Longrightarrow> c \<in> ?K \<and> ?P c = Some q)"
    using planned_children(2) [OF assms(1)] by auto
  from merge_chain_returns [of "children_of parents" ?K ?P "[]" "os ! 0", OF this] os0
  obtain os' where os': "merge_chain (children_of parents) [] (os ! 0) = Some os'" "chain ?P os'"
    "set os' \<subseteq> ?K" "os' ! 0 = os ! 0" "get_or_default (children_of parents) (last os') = []"
    by (auto intro: chain_root)
  have grounded: "grounded ?P n" if "n \<in> ?K" for n
    using \<open>\<And>n. n \<in> ?K \<Longrightarrow> climb parents [] [] n = Ok ()\<close> climb_grounded that by blast
  have "set os' = ?K"
    using os'(2) grounded planned_parent_known [OF assms(1)] _ inj _ os'(3)
  proof (rule chain_covers)
    show "n = os' ! 0" if "n \<in> ?K" "?P n = None" for n using nodes [OF that] os'(4) by simp
    show "?P n \<noteq> Some (last os')" if "n \<in> ?K" for n
      using planned_children(2) [OF assms(1), of "last os'"] os'(5) that by auto
  qed
  then have "os' = os" using chain_same_start [OF os'(2) assms(2) os'(4)] assms(3) by simp
  moreover have "length os = length prs"
  proof -
    have "length os = card ?K" using assms(2,3) distinct_card [of os] by (simp add: chain_def)
    also have "\<dots> = length prs"
      using assms(1) distinct_card [of "map spr_number prs"] by (simp add: planned_def)
    finally show ?thesis .
  qed
  ultimately show "order_stack bn (length prs) parents ups =
      Some (Ok \<lparr>merge_order = os, required_base_updates = ups\<rparr>)"
    using roots small os'(1) no_siblings [of parents]
    by (simp add: order_stack_def Let_def)
qed

lemma order_stack_sound:
  assumes "planned prs parents" "reject_cycles parents = Ok ()"
    and "order_stack bn (length prs) parents ups = Some (Ok pl)"
  shows "linear_order_of prs (merge_order pl) \<and> required_base_updates pl = ups"
proof -
  have pl: "chain (parent_of parents) (merge_order pl)" "set (merge_order pl) \<subseteq> spr_number ` set prs"
    "length (merge_order pl) = length prs" "required_base_updates pl = ups"
    using order_stack_returns [OF assms(1), of bn "length prs" ups] assms(3) by auto
  have "card (set (merge_order pl)) = length prs"
    using pl(1,3) distinct_card by (fastforce simp: chain_def)
  also have "length prs = card (spr_number ` set prs)"
    using assms(1) distinct_card [of "map spr_number prs"] by (simp add: planned_def)
  finally have "set (merge_order pl) = spr_number ` set prs"
    using pl(2) by (simp add: card_subset_eq)
  with pl linear_order_chain [OF assms(1)] show ?thesis by blast
qed

section \<open>Properties of the planner\<close>

text \<open>
  C14: the planner always answers: the merge loop, which has no bound of its own, ends on
  every list of pull requests, because the chain it follows never meets a number twice.
\<close>

theorem plan_stack_returns: "\<exists>r. plan_stack prs = Some r"
proof (cases "resolve_parents prs")
  case (Inr x)
  obtain bn parents ups where x: "x = (bn, parents, ups)" by (cases x)
  with Inr have "planned prs parents" by (simp add: resolve_parents_Ok planned_def)
  then obtain r where "order_stack bn (length prs) parents ups = Some r"
    using order_stack_returns by blast
  with Inr x show ?thesis by (cases "reject_cycles parents") (auto simp: plan_stack_def)
qed (simp add: plan_stack_def)

text \<open>
  C4: the planner accepts exactly the linear stacks. It returns a plan if and only if there
  are pull requests, their numbers are distinct, no parent declaration is missing, ambiguous
  or contradicted by the base branch, and the plan's order is the one order along the
  parents, base-most first; its base updates are then exactly the bases that differ from the
  head of an explicitly declared parent.
\<close>

theorem plan_stack_correct:
  "plan_stack prs = Some (Ok pl) \<longleftrightarrow>
     prs \<noteq> [] \<and> distinct (map spr_number prs) \<and> (\<forall>p \<in> set prs. unambiguous prs p)
     \<and> linear_order_of prs (merge_order pl)
     \<and> required_base_updates pl = concat (map (needed_updates prs) (sort_key spr_number prs))"
  (is "?L \<longleftrightarrow> ?R")
proof
  assume L: ?L
  then obtain bn parents ups where r: "resolve_parents prs = Ok (bn, parents, ups)"
    "reject_cycles parents = Ok ()" "order_stack bn (length prs) parents ups = Some (Ok pl)"
    by (auto simp: plan_stack_def and_then_def split: sum.splits prod.splits)
  then have "planned prs parents" by (simp add: resolve_parents_Ok planned_def)
  from order_stack_sound [OF this r(2,3)] r(1) show ?R by (simp add: resolve_parents_Ok)
next
  assume R: ?R
  let ?parents = "map (\<lambda>p. (spr_number p, declared_parent prs p)) (sort_key spr_number prs)"
  have planned: "planned prs ?parents" using R by (simp add: planned_def)
  then have "chain (parent_of ?parents) (merge_order pl)" "set (merge_order pl) = spr_number ` set prs"
    using R linear_order_chain by blast+
  note ok = order_stack_chain [OF planned this]
  have "resolve_parents prs = Ok (index_by_number prs, ?parents, required_base_updates pl)"
    using R by (simp add: resolve_parents_Ok)
  then show ?L using ok(1) ok(2) [of "index_by_number prs" "required_base_updates pl"]
    by (simp add: plan_stack_def)
qed

section \<open>Concrete plans\<close>

theorem plan_stack_correct_witness:
  "plan_stack sample_stack = Some (Ok \<lparr>merge_order = [10, 11, 12], required_base_updates =
     [\<lparr>bu_pull_request = 11, from_branch = ''main'', to_branch = ''a''\<rparr>]\<rparr>)"
proof -
  have "sample_stack \<noteq> [] \<and> distinct (map spr_number sample_stack)
     \<and> (\<forall>p \<in> set sample_stack. unambiguous sample_stack p)" by code_simp
  moreover have "linear_order_of sample_stack [10, 11, 12]" by code_simp
  moreover have "[\<lparr>bu_pull_request = 11, from_branch = ''main'', to_branch = ''a''\<rparr>] =
      concat (map (needed_updates sample_stack) (sort_key spr_number sample_stack))" by code_simp
  ultimately show ?thesis by (simp add: plan_stack_correct)
qed

end
