(* ===== verification/Ci.thy ===== *)
theory Ci
  imports Policy Json
begin

text \<open>
  Continuous-integration repair, \<open>src/ci.rs\<close>: redaction of evidence, failure
  classification, the admission and the structural check of patches, worktree plans, and the
  bounded, sandboxed execution of validation commands. A process is started by a parameter
  \<open>spawn\<close> over an arbitrary world, which also tells how the process ended.
\<close>

datatype ci_error =
  ApprovalRequired
  | NoValidationCommands
  | EmptyCommand
  | UnsafeCommand
  | InvalidWorktree string
  | InvalidBranch string
  | InputTooLarge
  | OutputTooLarge
  | Spawn string
  | Wait string
  | ReadOutput string
  | TimedOut
  | MissingPipe
  | WriteInput string
  | NoPatches
  | TooManyPatches
  | PathNotAllowed string
  | InvalidPatch string

abbreviation max_ci_log_bytes :: nat where "max_ci_log_bytes \<equiv> 131072"
abbreviation max_command_output_bytes :: nat where "max_command_output_bytes \<equiv> 262144"
abbreviation max_ci_patch_bytes :: nat where "max_ci_patch_bytes \<equiv> 131072"
abbreviation max_ci_patches :: nat where "max_ci_patches \<equiv> 32"

definition is_repairable_check_conclusion :: "string \<Rightarrow> bool" where
  "is_repairable_check_conclusion conclusion \<longleftrightarrow> conclusion \<in>
     {''action_required'', ''cancelled'', ''failure'', ''startup_failure'', ''stale'', ''timed_out''}"

section \<open>Redaction\<close>

definition redacted :: string where
  "redacted = ''[REDACTED]''"

text \<open>\<open>str::find(char::is_whitespace)\<close>, as a byte index.\<close>

definition find_whitespace :: "string \<Rightarrow> nat option" where
  "find_whitespace s =
     (if list_ex is_whitespace (chars s)
      then Some (length (concat (takeWhile (\<lambda>u. \<not> is_whitespace u) (chars s)))) else None)"

definition token_end :: "string \<Rightarrow> nat \<Rightarrow> nat" where
  "token_end value start = (case find_whitespace (drop start value) of
       Some offset \<Rightarrow> start + offset | None \<Rightarrow> length value)"

text \<open>The loop has no bound of its own; it would not end for a marker that starts with white space.\<close>

partial_function (option) redact_token_marker :: "string \<Rightarrow> string \<Rightarrow> nat \<Rightarrow> string option" where
  [code]: "redact_token_marker marker value search_from =
     (case find_sub marker (drop search_from value) of
        None \<Rightarrow> Some value
      | Some relative \<Rightarrow>
          redact_token_marker marker
            (take (search_from + relative) value @ redacted
               @ drop (token_end value (search_from + relative)) value)
            (search_from + relative + length redacted))"

definition token_markers :: "string list" where
  "token_markers = [''ghp_'', ''github_pat_'', ''ghs_'', ''gho_'', ''ghu_'', ''ghr_'', ''sk-proj-'',
     ''AKIA'', ''npm_'', ''eyJ'']"

fun redact_markers :: "string list \<Rightarrow> string \<Rightarrow> string option" where
  "redact_markers [] line = Some line"
| "redact_markers (m # ms) line = Option.bind (redact_token_marker m line 0) (redact_markers ms)"

definition assignment_markers :: "string list" where
  "assignment_markers = [''authorization: bearer'', ''password='', ''token='', ''secret='', ''private_key='']"

definition find_separator :: "string \<Rightarrow> nat" where
  "find_separator line = length (takeWhile (\<lambda>c. c \<noteq> CHR ''='' \<and> c \<noteq> CHR '':'') line)"

definition redact_assignment :: "string \<Rightarrow> string" where
  "redact_assignment line =
     (if list_ex (\<lambda>m. contains_sub m (to_ascii_lowercase line)) assignment_markers
      then take (Suc (min (find_separator line) (length line - 1))) line @ redacted
      else line)"

definition begins_pem :: "string \<Rightarrow> bool" where
  "begins_pem line = contains_sub ''-----begin '' (to_ascii_lowercase line)"

definition ends_pem :: "string \<Rightarrow> bool" where
  "ends_pem line = contains_sub ''-----end '' (to_ascii_lowercase line)"

fun redact_lines :: "bool \<Rightarrow> string list \<Rightarrow> string list option" where
  "redact_lines in_pem [] = Some []"
| "redact_lines in_pem (l # ls) =
     (if in_pem \<or> begins_pem l then map_option ((#) redacted) (redact_lines (\<not> ends_pem l) ls)
      else Option.bind (redact_markers token_markers l) (\<lambda>line.
           map_option ((#) (redact_assignment line)) (redact_lines False ls)))"

definition redact_ci_text :: "string \<Rightarrow> string option" where
  "redact_ci_text value = map_option (join [LF]) (redact_lines False (lines value))"

fun boundary_at_most :: "string \<Rightarrow> nat \<Rightarrow> nat" where
  "boundary_at_most value 0 = 0"
| "boundary_at_most value (Suc n) =
     (if is_char_boundary value (Suc n) then Suc n else boundary_at_most value n)"

definition truncate_utf8 :: "string \<Rightarrow> nat \<Rightarrow> string" where
  "truncate_utf8 value maximum =
     (if length value \<le> maximum then value else take (boundary_at_most value maximum) value)"

text \<open>The evidence envelope; the JSON printer is a parameter that may fail.\<close>

definition prepare_ci_evidence ::
  "(json \<Rightarrow> ('e, string) result) \<Rightarrow> json \<Rightarrow> json \<Rightarrow> ('e, string) result option" where
  "prepare_ci_evidence to_string_pretty job_plan check_outputs =
     (case to_string_pretty (jobj [(''job_plan'', job_plan), (''check_outputs'', check_outputs)]) of
        Inl e \<Rightarrow> Some (Err e)
      | Inr serialized \<Rightarrow> map_option
          (\<lambda>text. Ok (truncate_utf8 text (min max_ci_log_bytes (48 * 1024)))) (redact_ci_text serialized))"

section \<open>Failures and repair plans\<close>

datatype ci_failure_kind = FTest | FLint | FBuild | FDependency | FInfrastructure | FUnknown

record ci_failure_input =
  cfi_repository_id :: i64
  cfi_pull_request_number :: i32
  cfi_head_sha :: string
  cfi_workflow_name :: string
  cfi_job_name :: string
  cfi_check_name :: string
  cfi_details_url :: "string option"
  cfi_log_excerpt :: string

record ci_failure =
  failure_input :: ci_failure_input
  failure_kind :: ci_failure_kind

definition bounded_text :: "string \<Rightarrow> nat \<Rightarrow> (ci_error, string) result" where
  "bounded_text value maximum =
     (if length value > maximum \<or> contains_any [NUL, CR] value then Err InputTooLarge else Ok value)"

definition classify_failure :: "string \<Rightarrow> string \<Rightarrow> string \<Rightarrow> string \<Rightarrow> ci_failure_kind" where
  "classify_failure workflow job_text check log =
     (let haystack = to_ascii_lowercase (workflow @ '' '' @ job_text @ '' '' @ check @ '' '' @ log);
          has = (\<lambda>w. contains_sub w haystack)
      in if has ''dependabot'' \<or> has ''dependency'' then FDependency
         else if has ''clippy'' \<or> has ''lint'' \<or> has ''format'' then FLint
         else if has ''test'' \<or> has ''spec'' then FTest
         else if has ''build'' \<or> has ''compile'' then FBuild
         else if has ''runner'' \<or> has ''timeout'' \<or> has ''network'' then FInfrastructure
         else FUnknown)"

definition new_ci_failure :: "ci_failure_input \<Rightarrow> (ci_error, ci_failure) result" where
  "new_ci_failure input =
     and_then (bounded_text (cfi_log_excerpt input) max_ci_log_bytes) (\<lambda>log.
     and_then (bounded_text (cfi_check_name input) 256) (\<lambda>check.
     and_then (bounded_text (cfi_job_name input) 256) (\<lambda>job_text.
     and_then (bounded_text (cfi_workflow_name input) 256) (\<lambda>workflow.
     and_then (bounded_text (cfi_head_sha input) 128) (\<lambda>_.
     Ok \<lparr>failure_input = input, failure_kind = classify_failure workflow job_text check log\<rparr>)))))"

datatype ci_mutation_admission = NoMutation | AwaitApproval | Admitted

definition admit_ci_mutation :: "nat \<Rightarrow> bool \<Rightarrow> bool \<Rightarrow> (ci_error, ci_mutation_admission) result" where
  "admit_ci_mutation patch_count requires_approval plan_approved =
     (if patch_count = 0 then Ok NoMutation
      else if \<not> requires_approval then Err ApprovalRequired
      else if \<not> plan_approved then Ok AwaitApproval
      else Ok Admitted)"

section \<open>Patches\<close>

record ci_patch =
  patch_path :: string
  patch_unified_diff :: string

definition validate_repository_path :: "string \<Rightarrow> (ci_error, unit) result" where
  "validate_repository_path path =
     reject_if (path = [] \<or> contains_any [BACKSLASH, NUL, CR, LF] path \<or> is_absolute path
        \<or> \<not> normal_only path) (InvalidPatch path)"

definition header_count :: "string \<Rightarrow> ci_patch \<Rightarrow> nat" where
  "header_count header p = length (filter (\<lambda>line. line = header) (lines (patch_unified_diff p)))"

definition validate_patch :: "string list \<Rightarrow> ci_patch \<Rightarrow> (ci_error, unit) result" where
  "validate_patch allowed_paths p =
     and_then (validate_repository_path (patch_path p)) (\<lambda>_.
     and_then (reject_if (patch_path p \<notin> set allowed_paths) (PathNotAllowed (patch_path p))) (\<lambda>_.
     and_then (reject_if (patch_unified_diff p = [] \<or> length (patch_unified_diff p) > max_ci_patch_bytes
        \<or> contains_any [NUL, CR] (patch_unified_diff p)) (InvalidPatch (patch_path p))) (\<lambda>_.
     reject_if (header_count (''--- a/'' @ patch_path p) p \<noteq> 1
        \<or> header_count (''+++ b/'' @ patch_path p) p \<noteq> 1
        \<or> length (filter (\<lambda>line. starts_with ''--- '' line \<or> starts_with ''+++ '' line)
             (lines (patch_unified_diff p))) \<noteq> 2
        \<or> \<not> list_ex (starts_with ''@@'') (lines (patch_unified_diff p)))
       (InvalidPatch (patch_path p)))))"

definition validate_patch_set :: "ci_patch list \<Rightarrow> string list \<Rightarrow> (ci_error, unit) result" where
  "validate_patch_set patches allowed_paths =
     and_then (reject_if (patches = []) NoPatches) (\<lambda>_.
     and_then (reject_if (length patches > max_ci_patches) TooManyPatches) (\<lambda>_.
     for_each (validate_patch allowed_paths) patches))"

section \<open>Worktrees\<close>

record worktree_plan =
  wt_root :: string
  wt_branch :: string
  wt_head_sha :: string

definition validate_branch :: "string \<Rightarrow> (ci_error, unit) result" where
  "validate_branch branch =
     reject_if (branch = [] \<or> starts_with ''-'' branch \<or> contains_any [NUL, CR, LF, CHR '' ''] branch
        \<or> contains_sub ''..'' branch) (InvalidBranch branch)"

definition new_worktree_plan :: "string \<Rightarrow> string \<Rightarrow> string \<Rightarrow> (ci_error, worktree_plan) result" where
  "new_worktree_plan root branch head_sha =
     and_then (reject_if (trim root = [] \<or> trim head_sha = [])
       (InvalidWorktree ''root and head_sha are required'')) (\<lambda>_.
     and_then (validate_branch branch) (\<lambda>_.
     Ok \<lparr>wt_root = root, wt_branch = branch, wt_head_sha = head_sha\<rparr>))"

definition validate_relative_destination :: "string \<Rightarrow> (ci_error, unit) result" where
  "validate_relative_destination path =
     reject_if (path = [] \<or> is_absolute path \<or> \<not> normal_only path) (InvalidWorktree path)"

definition git_worktree_add_argv :: "worktree_plan \<Rightarrow> string \<Rightarrow> (ci_error, string list) result" where
  "git_worktree_add_argv w destination =
     and_then (validate_relative_destination destination) (\<lambda>_.
     Ok [''git'', ''worktree'', ''add'', ''--detach'', destination, wt_head_sha w])"

record ci_repair_plan =
  repair_failure :: ci_failure
  repair_worktree :: worktree_plan
  repair_commands :: "validation_command list"
  requires_approval :: bool

definition new_ci_repair_plan ::
  "ci_failure \<Rightarrow> worktree_plan \<Rightarrow> validation_command list \<Rightarrow> (ci_error, ci_repair_plan) result" where
  "new_ci_repair_plan failure worktree commands =
     (if commands = [] then Err NoValidationCommands
      else Ok \<lparr>repair_failure = failure, repair_worktree = worktree, repair_commands = commands,
               requires_approval = True\<rparr>)"

section \<open>Bounded execution\<close>

record command_line =
  cl_argv :: "string list"
  cl_cwd :: string
  cl_env :: "(string, string) btree_map"
  cl_input :: "string option"

text \<open>How a started process ends: its pipes, its exit and whether it did so in time.\<close>

record process_run =
  pr_in_time :: bool
  pr_pipes :: bool
  pr_write :: "(string, unit) result"
  pr_wait :: "(string, bool) result"
  pr_stdout :: "(string, string) result"
  pr_stderr :: "(string, string) result"

type_synonym 'w spawner = "command_line \<Rightarrow> 'w \<Rightarrow> (string, process_run) result \<times> 'w"

record command_result =
  cr_argv :: "string list"
  cr_success :: bool
  cr_stdout :: string
  cr_stderr :: string

definition read_limited :: "(string, string) result \<Rightarrow> (ci_error, string) result" where
  "read_limited reader =
     and_then (map_err ReadOutput reader) (\<lambda>bytes.
     if length bytes > max_command_output_bytes then Err OutputTooLarge else Ok bytes)"

definition command_env :: "string option \<Rightarrow> (string \<times> string) list \<Rightarrow> (string, string) btree_map" where
  "command_env path environment =
     fold (\<lambda>e. bt_insert (fst e) (snd e))
       ([(''CI'', ''1''), (''GIT_TERMINAL_PROMPT'', ''0''), (''GIT_CONFIG_NOSYSTEM'', ''1''),
         (''PATH'', case path of Some p \<Rightarrow> p | None \<Rightarrow> ''/usr/bin:/bin'')] @ environment) []"

definition finish_process ::
  "(string \<Rightarrow> string) \<Rightarrow> string list \<Rightarrow> process_run \<Rightarrow> (ci_error, command_result) result" where
  "finish_process lossy command p =
     and_then (reject_if (\<not> pr_pipes p) MissingPipe) (\<lambda>_.
     and_then (reject_if (\<not> pr_in_time p) TimedOut) (\<lambda>_.
     and_then (map_err WriteInput (pr_write p)) (\<lambda>_.
     and_then (map_err Wait (pr_wait p)) (\<lambda>success.
     and_then (read_limited (pr_stdout p)) (\<lambda>out.
     and_then (read_limited (pr_stderr p)) (\<lambda>err.
     Ok \<lparr>cr_argv = command, cr_success = success, cr_stdout = lossy out, cr_stderr = lossy err\<rparr>))))))"

definition run_bounded_argv_with_optional_input ::
  "string option \<Rightarrow> (string \<Rightarrow> string) \<Rightarrow> 'w spawner \<Rightarrow> string \<Rightarrow> string list \<Rightarrow> (string \<times> string) list
     \<Rightarrow> string option \<Rightarrow> 'w \<Rightarrow> (ci_error, command_result) result \<times> 'w" where
  "run_bounded_argv_with_optional_input path lossy spawn worktree command environment input w =
     (if command = [] then (Err EmptyCommand, w)
      else if list_ex (contains_any [NUL, CR, LF]) command then (Err UnsafeCommand, w)
      else case spawn \<lparr>cl_argv = command, cl_cwd = worktree, cl_env = command_env path environment,
                       cl_input = input\<rparr> w of
          (Inl e, w') \<Rightarrow> (Err (Spawn e), w')
        | (Inr p, w') \<Rightarrow> (finish_process lossy command p, w'))"

definition run_bounded_argv ::
  "string option \<Rightarrow> (string \<Rightarrow> string) \<Rightarrow> 'w spawner \<Rightarrow> string \<Rightarrow> string list \<Rightarrow> (string \<times> string) list
     \<Rightarrow> 'w \<Rightarrow> (ci_error, command_result) result \<times> 'w" where
  "run_bounded_argv path lossy spawn worktree command environment w =
     run_bounded_argv_with_optional_input path lossy spawn worktree command environment None w"

definition run_bounded_argv_with_input ::
  "string option \<Rightarrow> (string \<Rightarrow> string) \<Rightarrow> 'w spawner \<Rightarrow> string \<Rightarrow> string list \<Rightarrow> (string \<times> string) list
     \<Rightarrow> string \<Rightarrow> 'w \<Rightarrow> (ci_error, command_result) result \<times> 'w" where
  "run_bounded_argv_with_input path lossy spawn worktree command environment input w =
     run_bounded_argv_with_optional_input path lossy spawn worktree command environment (Some input) w"

definition sandbox_prefix :: "string \<Rightarrow> string list" where
  "sandbox_prefix worktree =
     [''/usr/bin/bwrap'', ''--die-with-parent'', ''--unshare-all'', ''--new-session'',
      ''--tmpfs'', ''/'', ''--dir'', ''/usr'', ''--ro-bind'', ''/usr'', ''/usr'',
      ''--symlink'', ''usr/bin'', ''/bin'', ''--symlink'', ''usr/sbin'', ''/sbin'',
      ''--dir'', ''/lib'', ''--ro-bind'', ''/lib'', ''/lib'', ''--dir'', ''/lib64'',
      ''--ro-bind'', ''/lib64'', ''/lib64'', ''--dir'', ''/etc'', ''--ro-bind'', ''/etc'', ''/etc'',
      ''--dev'', ''/dev'', ''--proc'', ''/proc'', ''--tmpfs'', ''/tmp'', ''--dir'', ''/tmp/home'',
      ''--dir'', ''/workspace'', ''--bind'', worktree, ''/workspace'', ''--chdir'', ''/workspace'',
      ''--setenv'', ''CI'', ''1'', ''--setenv'', ''HOME'', ''/tmp/home'',
      ''--setenv'', ''TMPDIR'', ''/tmp'', ''--setenv'', ''PATH'',
      ''/usr/local/sbin:/usr/local/bin:/usr/sbin:/usr/bin:/sbin:/bin'',
      ''--setenv'', ''GIT_TERMINAL_PROMPT'', ''0'', ''--setenv'', ''GIT_CONFIG_NOSYSTEM'', ''1'',
      ''--unshare-net'', ''--'']"

definition validation_sandbox_argv :: "string \<Rightarrow> string list \<Rightarrow> (ci_error, string list) result" where
  "validation_sandbox_argv worktree command =
     (if \<not> is_absolute worktree \<or> worktree = [] \<or> contains_any [NUL, CR, LF] worktree
      then Err (InvalidWorktree worktree)
      else case command of
          [] \<Rightarrow> Err EmptyCommand
        | program # arguments \<Rightarrow>
            if list_ex (contains_any [NUL, CR, LF]) command then Err UnsafeCommand
            else Ok (sandbox_prefix worktree @ [program] @ arguments))"

text \<open>The two loops over validation commands stop at the first failing command.\<close>

fun run_each ::
  "(validation_command \<Rightarrow> 'w \<Rightarrow> (ci_error, command_result) result \<times> 'w) \<Rightarrow> validation_command list
     \<Rightarrow> command_result list \<Rightarrow> 'w \<Rightarrow> (ci_error, command_result list) result \<times> 'w" where
  "run_each run [] results w = (Ok results, w)"
| "run_each run (c # cs) results w =
     (case run c w of
        (Inl e, w') \<Rightarrow> (Err e, w')
      | (Inr r, w') \<Rightarrow>
          if cr_success r then run_each run cs (results @ [r]) w' else (Ok (results @ [r]), w'))"

definition run_validation_commands ::
  "string option \<Rightarrow> (string \<Rightarrow> string) \<Rightarrow> 'w spawner \<Rightarrow> string \<Rightarrow> validation_command list
     \<Rightarrow> 'w \<Rightarrow> (ci_error, command_result list) result \<times> 'w" where
  "run_validation_commands path lossy spawn worktree commands w =
     (if commands = [] then (Err NoValidationCommands, w)
      else run_each (\<lambda>c. run_bounded_argv path lossy spawn worktree (argv c) []) commands [] w)"

definition run_sandboxed_command ::
  "string option \<Rightarrow> (string \<Rightarrow> string) \<Rightarrow> 'w spawner \<Rightarrow> string \<Rightarrow> validation_command
     \<Rightarrow> 'w \<Rightarrow> (ci_error, command_result) result \<times> 'w" where
  "run_sandboxed_command path lossy spawn worktree c w =
     (case validation_sandbox_argv worktree (argv c) of
        Inl e \<Rightarrow> (Err e, w)
      | Inr sandbox_argv \<Rightarrow>
          (case run_bounded_argv path lossy spawn ''/'' sandbox_argv [] w of
             (Inl e, w') \<Rightarrow> (Err e, w')
           | (Inr r, w') \<Rightarrow> (Ok (r\<lparr>cr_argv := argv c\<rparr>), w')))"

definition run_validation_commands_sandboxed ::
  "string option \<Rightarrow> (string \<Rightarrow> string) \<Rightarrow> 'w spawner \<Rightarrow> string \<Rightarrow> validation_command list
     \<Rightarrow> 'w \<Rightarrow> (ci_error, command_result list) result \<times> 'w" where
  "run_validation_commands_sandboxed path lossy spawn worktree commands w =
     (if commands = [] then (Err NoValidationCommands, w)
      else run_each (run_sandboxed_command path lossy spawn worktree) commands [] w)"

section \<open>The checks as gates\<close>

interpretation patch_path: path_gate "\<lambda>p. validate_repository_path p = Ok ()"
  by unfold_locales (auto simp: validate_repository_path_def)

interpretation worktree_path: path_gate "\<lambda>p. validate_relative_destination p = Ok ()"
  by unfold_locales (auto simp: validate_relative_destination_def)

interpretation worktree_branch: branch_gate "\<lambda>b. validate_branch b = Ok ()"
  by unfold_locales (auto simp: validate_branch_def)

end
