(* ===== verification/Ci_Properties.thy ===== *)
theory Ci_Properties
  imports Ci
begin

text \<open>
  What leaves and enters the repair of a check: redacted evidence has no credential marker
  left, accepted patches stay inside the allowed paths, and validation commands run only
  inside the sandbox and in a scrubbed environment.
\<close>

section \<open>Redaction\<close>

lemma contains_bracket:
  assumes "CHR ''['' \<notin> set q" "contains_sub q (a @ CHR ''['' # b)"
  shows "contains_sub q a \<or> contains_sub q b"
proof -
  obtain x y where "a @ CHR ''['' # b = x @ q @ y" using assms(2) by (auto simp: contains_sub_iff)
  then consider u where "a = x @ q @ u" | u where "b = u @ q @ y"
    using assms(1) by (auto simp: append_eq_append_conv2 append_eq_Cons_conv Cons_eq_append_conv)
  then show ?thesis by cases (auto simp: contains_sub_iff)
qed

lemma contains_bracket_end:
  assumes "CHR '']'' \<notin> set q" "contains_sub q (a @ CHR '']'' # b)"
  shows "contains_sub q a \<or> contains_sub q b"
proof -
  obtain x y where "a @ CHR '']'' # b = x @ q @ y" using assms(2) by (auto simp: contains_sub_iff)
  then consider u where "a = x @ q @ u" | u where "b = u @ q @ y"
    using assms(1) by (auto simp: append_eq_append_conv2 append_eq_Cons_conv Cons_eq_append_conv)
  then show ?thesis by cases (auto simp: contains_sub_iff)
qed

text \<open>Patterns that the replacement text can neither contain nor complete.\<close>

definition outside :: "(char \<Rightarrow> char) \<Rightarrow> string \<Rightarrow> bool" where
  "outside f q \<longleftrightarrow> CHR ''['' \<notin> set q \<and> CHR '']'' \<notin> set q \<and> q \<noteq> []
     \<and> f CHR ''['' = CHR ''['' \<and> f CHR '']'' = CHR '']'' \<and> \<not> contains_sub q (map f ''REDACTED'')"

lemma contains_redacted:
  assumes "outside f q" "contains_sub q (map f (a @ redacted @ b))"
  shows "contains_sub q (map f a) \<or> contains_sub q (map f b)"
proof -
  have red: "map f (a @ redacted @ b) =
      map f a @ CHR ''['' # (map f ''REDACTED'' @ CHR '']'' # map f b)"
    using assms(1) by (simp add: redacted_def outside_def)
  from contains_bracket [of q "map f a", OF _ assms(2) [unfolded red]] assms(1)
  have "contains_sub q (map f a) \<or> contains_sub q (map f ''REDACTED'' @ CHR '']'' # map f b)"
    by (simp add: outside_def)
  with contains_bracket_end [of q "map f ''REDACTED''" "map f b"] assms(1) show ?thesis
    unfolding outside_def by blast
qed

definition plain_marker :: "string \<Rightarrow> bool" where
  "plain_marker m \<longleftrightarrow> outside (\<lambda>c. c) m \<and> byte (hd m) < 128 \<and> \<not> is_whitespace [hd m]"

lemma find_whitespace_marker:
  assumes "plain_marker m" "find_whitespace (m @ s) = Some i"
  shows "0 < i"
proof -
  obtain c cs where m: "m = c # cs" "byte c < 128" "\<not> is_whitespace [c]"
    using assms(1) by (cases m) (auto simp: plain_marker_def outside_def)
  then show ?thesis using assms(2) by (auto simp: find_whitespace_def split: if_splits)
qed

text \<open>One marker: the loop ends and what it returns is free of the marker.\<close>

lemma redact_token_marker_step:
  assumes "plain_marker m"
  shows "\<exists>r. redact_token_marker m (pre @ s) (length pre) = Some (pre @ r) \<and> \<not> contains_sub m r
     \<and> (\<forall>f q. outside f q \<longrightarrow> contains_sub q (map f r) \<longrightarrow> contains_sub q (map f s))"
proof (induction "length s" arbitrary: pre s rule: less_induct)
  case less
  have m0: "m \<noteq> []" using assms by (simp add: plain_marker_def outside_def)
  show ?case
  proof (cases "find_sub m s")
    case None
    then have "redact_token_marker m (pre @ s) (length pre) = Some (pre @ s)"
      by (subst redact_token_marker.simps) simp
    with None show ?thesis by (auto simp: find_sub_None)
  next
    case (Some i)
    note split = find_sub_Some [OF Some]
    let ?a = "take i s" and ?t = "drop i s"
    have t: "?t = m @ drop (i + length m) s" using split by (metis add_diff_cancel_left' append_eq_conv_conj
          append_take_drop_id drop_drop add.commute)
    define rest where "rest = drop (token_end (pre @ s) (length pre + i)) (pre @ s)"
    obtain k where k: "rest = drop k ?t" "0 < k"
    proof (cases "find_whitespace ?t")
      case None
      with that [of "length ?t"] t m0 show ?thesis by (simp add: rest_def token_end_def)
    next
      case (Some j)
      from find_whitespace_marker [OF assms, of "drop (i + length m) s" j] Some t have "0 < j" by simp
      with that [of j] Some show ?thesis by (simp add: rest_def token_end_def drop_append add.commute)
    qed
    have "length rest < length s" using k split m0 by (cases s) auto
    from less.hyps [OF this, of "pre @ ?a @ redacted"] obtain r where
      r: "redact_token_marker m ((pre @ ?a @ redacted) @ rest) (length (pre @ ?a @ redacted)) =
            Some ((pre @ ?a @ redacted) @ r)"
      "\<not> contains_sub m r"
      "\<forall>f q. outside f q \<longrightarrow> contains_sub q (map f r) \<longrightarrow> contains_sub q (map f rest)" by blast
    have run: "redact_token_marker m (pre @ s) (length pre) = Some (pre @ (?a @ redacted @ r))"
      using r(1) Some split
      by (subst redact_token_marker.simps) (simp add: rest_def min_absorb2 add.assoc)
    have first: "\<not> contains_sub m ?a"
    proof
      assume "contains_sub m ?a"
      then obtain x y where xy: "?a = x @ m @ y" by (auto simp: contains_sub_iff)
      have "length x < i" using arg_cong [OF xy, of length] m0 split by (cases m) auto
      moreover have "s = x @ m @ y @ ?t" using xy by (metis append_assoc append_take_drop_id)
      then have "drop (length x) s = m @ y @ ?t" by (metis append_eq_conv_conj)
      then have "starts_with m (drop (length x) s)" by (simp add: starts_with_iff)
      ultimately show False using find_sub_first [OF Some] by blast
    qed
    have no_m: "\<not> contains_sub m (?a @ redacted @ r)"
    proof
      assume "contains_sub m (?a @ redacted @ r)"
      then have "contains_sub m (map (\<lambda>c. c) (?a @ redacted @ r))" by simp
      with contains_redacted [of "\<lambda>c. c" m ?a r] assms first r(2) show False
        by (simp add: plain_marker_def)
    qed
    have "contains_sub q (map f s)" if q: "outside f q" "contains_sub q (map f (?a @ redacted @ r))" for f q
    proof -
      have s: "map f s = map f ?a @ map f ?t" by (metis append_take_drop_id map_append)
      have rest: "map f rest = drop k (map f ?t)" by (simp add: k drop_map)
      from contains_redacted [OF q] r(3) q(1)
      have "contains_sub q (map f ?a) \<or> contains_sub q (map f rest)" by blast
      then show ?thesis
      proof
        assume "contains_sub q (map f ?a)"
        then show ?thesis using contains_sub_mono [of q "map f ?a" "[]" "map f ?t"] s by simp
      next
        assume "contains_sub q (map f rest)"
        then show ?thesis
          using contains_sub_mono [of q "map f rest" "map f ?a @ take k (map f ?t)" "[]"] s rest
          by (metis append_assoc append_Nil2 append_take_drop_id)
      qed
    qed
    with run no_m show ?thesis by blast
  qed
qed

lemma redact_markers_clean:
  assumes "\<forall>m \<in> set ms. plain_marker m"
  shows "\<exists>r. redact_markers ms s = Some r \<and> (\<forall>m \<in> set ms. \<not> contains_sub m r)
     \<and> (\<forall>f q. outside f q \<longrightarrow> contains_sub q (map f r) \<longrightarrow> contains_sub q (map f s))"
  using assms
proof (induction ms arbitrary: s)
  case (Cons m ms)
  from redact_token_marker_step [of m "[]" s] Cons.prems obtain s1 where
    s1: "redact_token_marker m s 0 = Some s1" "\<not> contains_sub m s1"
    "\<forall>f q. outside f q \<longrightarrow> contains_sub q (map f s1) \<longrightarrow> contains_sub q (map f s)" by auto
  from Cons.IH [of s1] Cons.prems obtain r where
    r: "redact_markers ms s1 = Some r" "\<forall>m \<in> set ms. \<not> contains_sub m r"
    "\<forall>f q. outside f q \<longrightarrow> contains_sub q (map f r) \<longrightarrow> contains_sub q (map f s1)" by auto
  have "\<not> contains_sub m r"
  proof
    assume "contains_sub m r"
    then have "contains_sub m (map (\<lambda>c. c) r)" by simp
    moreover have "outside (\<lambda>c. c) m" using Cons.prems by (simp add: plain_marker_def)
    ultimately have "contains_sub m (map (\<lambda>c. c) s1)" using r(3) by blast
    with s1(2) show False by simp
  qed
  with s1 r show ?case by auto
qed simp

lemma token_markers_plain: "\<forall>m \<in> set token_markers. plain_marker m"
  by code_simp

section \<open>Lines\<close>

definition clean_line :: "string \<Rightarrow> bool" where
  "clean_line l \<longleftrightarrow> (\<forall>m \<in> set token_markers. \<not> contains_sub m l) \<and> \<not> begins_pem l
     \<and> (list_ex (\<lambda>m. contains_sub m (to_ascii_lowercase l)) assignment_markers \<longrightarrow>
          find_separator l < length l \<and> drop (Suc (find_separator l)) l = redacted)"

lemma outside_pem: "outside ascii_lower ''-----begin ''"
  by code_simp

lemma clean_redacted: "clean_line redacted"
  by code_simp

lemma lower_fixed:
  assumes "byte d < 65"
  shows "ascii_lower c = d \<longleftrightarrow> c = d"
proof (cases "is_ascii_upper c")
  case True
  then have "byte (ascii_lower c) = byte c + 32"
    by (simp add: ascii_lower_def byte_def is_ascii_upper_def)
  then show ?thesis using True assms by (auto simp: is_ascii_upper_def)
qed (simp add: ascii_lower_def)

lemma lower_separator:
  "ascii_lower c = CHR ''='' \<longleftrightarrow> c = CHR ''=''" "ascii_lower c = CHR '':'' \<longleftrightarrow> c = CHR '':''"
  by (rule lower_fixed; simp add: byte_def)+

lemma takeWhile_shorter: "length (takeWhile P l) < length l \<longleftrightarrow> (\<exists>c \<in> set l. \<not> P c)"
  by (induction l) auto

lemma assignment_separator:
  assumes "list_ex (\<lambda>m. contains_sub m (to_ascii_lowercase l)) assignment_markers"
  shows "find_separator l < length l"
proof -
  from assms obtain m where m: "m \<in> set assignment_markers" "contains_sub m (to_ascii_lowercase l)"
    by (auto simp: list_ex_iff)
  have "\<forall>m \<in> set assignment_markers. CHR ''='' \<in> set m \<or> CHR '':'' \<in> set m" by code_simp
  with m(1) contains_sub_set [OF m(2)]
  have "CHR ''='' \<in> set (to_ascii_lowercase l) \<or> CHR '':'' \<in> set (to_ascii_lowercase l)" by blast
  then obtain c where c: "c \<in> set l" "c = CHR ''='' \<or> c = CHR '':''"
    unfolding to_ascii_lowercase_def set_map image_iff by (metis lower_separator)
  then show ?thesis unfolding find_separator_def takeWhile_shorter by blast
qed

lemma takeWhile_to: "\<not> P c \<Longrightarrow> \<forall>x \<in> set xs. P x \<Longrightarrow> takeWhile P (xs @ c # ys) = xs"
  by (induction xs) auto

lemma redact_assignment_cut:
  assumes "find_separator l < length l"
  defines "r \<equiv> take (Suc (min (find_separator l) (length l - 1))) l @ redacted"
  shows "find_separator r < length r \<and> drop (Suc (find_separator r)) r = redacted"
proof -
  let ?P = "\<lambda>c. c \<noteq> CHR ''='' \<and> c \<noteq> CHR '':''"
  let ?n = "find_separator l"
  have r: "r = take ?n l @ [l ! ?n] @ redacted"
    using assms(1) by (simp add: r_def take_Suc_conv_app_nth)
  have "\<not> ?P (l ! ?n)" using nth_length_takeWhile [of ?P l] assms(1) by (simp add: find_separator_def)
  moreover have "take ?n l = takeWhile ?P l"
    unfolding find_separator_def by (rule takeWhile_eq_take [symmetric])
  from this have "\<forall>c \<in> set (take ?n l). ?P c" by (auto dest: set_takeWhileD)
  ultimately have "takeWhile ?P (take ?n l @ (l ! ?n) # redacted) = take ?n l"
    by (rule takeWhile_to)
  then have "find_separator r = length (take ?n l)" unfolding find_separator_def r by simp
  then have "find_separator r = ?n" using assms(1) by simp
  moreover have "length r = ?n + Suc (length redacted)" unfolding r using assms(1) by simp
  moreover have "drop (Suc ?n) r = redacted" unfolding r using assms(1) by simp
  ultimately show ?thesis by simp
qed

lemma redact_assignment_clean:
  assumes "\<forall>m \<in> set token_markers. \<not> contains_sub m l" "\<not> begins_pem l"
  shows "clean_line (redact_assignment l)"
proof (cases "list_ex (\<lambda>m. contains_sub m (to_ascii_lowercase l)) assignment_markers")
  case True
  let ?t = "take (Suc (min (find_separator l) (length l - 1))) l"
  have eq: "redact_assignment l = ?t @ redacted @ []" using True by (simp add: redact_assignment_def)
  have sub: "contains_sub q (map f l)" if "outside f q" "contains_sub q (map f (?t @ redacted @ []))" for f q
  proof -
    from contains_redacted [OF that] that(1) have "contains_sub q (map f ?t)"
      by (auto simp: outside_def)
    then show ?thesis using contains_sub_mono [of q "map f ?t" "[]"]
      by (metis append_Nil append_take_drop_id map_append)
  qed
  have "\<not> contains_sub m (?t @ redacted @ [])" if "m \<in> set token_markers" for m
    using sub [of "\<lambda>c. c" m] assms(1) that token_markers_plain by (auto simp: plain_marker_def)
  moreover have "\<not> begins_pem (?t @ redacted @ [])"
    using sub [OF outside_pem] assms(2) unfolding begins_pem_def to_ascii_lowercase_def by blast
  moreover have "find_separator (?t @ redacted) < length (?t @ redacted)
      \<and> drop (Suc (find_separator (?t @ redacted))) (?t @ redacted) = redacted"
    using redact_assignment_cut [OF assignment_separator [OF True]] .
  ultimately show ?thesis unfolding eq clean_line_def by simp
next
  case False
  then have "redact_assignment l = l" by (simp add: redact_assignment_def)
  with False assms show ?thesis by (simp add: clean_line_def)
qed

lemma redact_lines_clean:
  "\<exists>ls'. redact_lines in_pem ls = Some ls' \<and> length ls' = length ls \<and> (\<forall>l \<in> set ls'. clean_line l)"
proof (induction ls arbitrary: in_pem)
  case (Cons l ls)
  show ?case
  proof (cases "in_pem \<or> begins_pem l")
    case True
    with Cons.IH [of "\<not> ends_pem l"] clean_redacted show ?thesis by auto
  next
    case False
    from redact_markers_clean [OF token_markers_plain, of l] obtain r where
      r: "redact_markers token_markers l = Some r" "\<forall>m \<in> set token_markers. \<not> contains_sub m r"
      "\<forall>f q. outside f q \<longrightarrow> contains_sub q (map f r) \<longrightarrow> contains_sub q (map f l)" by blast
    have "\<not> begins_pem r"
      using r(3) outside_pem False unfolding begins_pem_def to_ascii_lowercase_def by blast
    from redact_assignment_clean [OF r(2) this] Cons.IH [of False] False r(1) show ?thesis by auto
  qed
qed simp

text \<open>A pattern without a line feed occurs in joined lines only inside one of them.\<close>

lemma contains_join:
  assumes "LF \<notin> set q" "q \<noteq> []" "contains_sub q (join [LF] ls)"
  shows "\<exists>l \<in> set ls. contains_sub q l"
  using assms(3)
proof (induction ls)
  case (Cons x xs)
  show ?case
  proof (cases xs)
    case (Cons y ys)
    from Cons.prems obtain a b where "x @ LF # join [LF] xs = a @ q @ b"
      by (auto simp: contains_sub_iff Cons)
    then consider u where "x = a @ q @ u" | u where "join [LF] xs = u @ q @ b"
      using assms(1) by (auto simp: append_eq_append_conv2 append_eq_Cons_conv Cons_eq_append_conv)
    then show ?thesis
    proof cases
      case 1
      then have "contains_sub q x" by (auto simp: contains_sub_iff)
      then show ?thesis by simp
    next
      case 2
      then have "contains_sub q (join [LF] xs)" by (auto simp: contains_sub_iff)
      with Cons.IH show ?thesis by auto
    qed
  qed (use Cons.prems in simp)
qed (use assms(2) in simp)

lemma redact_ci_text_clean:
  "\<exists>ls. redact_lines False (lines v) = Some ls \<and> redact_ci_text v = Some (join [LF] ls)
     \<and> length ls = length (lines v) \<and> (\<forall>l \<in> set ls. clean_line l)
     \<and> (\<forall>m \<in> set token_markers. \<not> contains_sub m (join [LF] ls))"
proof -
  obtain ls where ls: "redact_lines False (lines v) = Some ls" "length ls = length (lines v)"
    "\<forall>l \<in> set ls. clean_line l" using redact_lines_clean by blast
  have m0: "\<forall>m \<in> set token_markers. LF \<notin> set m \<and> m \<noteq> []" by code_simp
  have "\<not> contains_sub m (join [LF] ls)" if m: "m \<in> set token_markers" for m
  proof
    assume "contains_sub m (join [LF] ls)"
    with contains_join [of m ls] m0 m obtain l where "l \<in> set ls" "contains_sub m l" by blast
    with ls(3) m show False by (simp add: clean_line_def)
  qed
  with ls show ?thesis by (simp add: redact_ci_text_def)
qed

lemma truncate_prefix: "\<exists>k. truncate_utf8 v n = take k v \<and> (length v \<le> n \<or> k \<le> n)"
proof -
  have "boundary_at_most v n \<le> n" for n by (induction n) (auto intro: le_SucI)
  then show ?thesis by (auto simp: truncate_utf8_def intro: exI [of _ "length v"])
qed

section \<open>Execution\<close>

text \<open>A world that records every started command line.\<close>

definition logging :: "(command_line \<Rightarrow> (string, process_run) result) \<Rightarrow> command_line list spawner" where
  "logging answer cl started = (answer cl, started @ [cl])"

definition confined :: "string option \<Rightarrow> string \<Rightarrow> validation_command list \<Rightarrow> command_line \<Rightarrow> bool" where
  "confined path worktree commands cl \<longleftrightarrow>
     (\<exists>c \<in> set commands. cl_argv cl = sandbox_prefix worktree @ argv c)
     \<and> cl_cwd cl = ''/'' \<and> cl_env cl = command_env path [] \<and> cl_input cl = None"

lemma sandboxed_command_log:
  "\<exists>new. snd (run_sandboxed_command path lossy (logging answer) worktree c started) = started @ new
     \<and> (\<forall>cl \<in> set new. confined path worktree [c] cl)
     \<and> (\<forall>r. fst (run_sandboxed_command path lossy (logging answer) worktree c started) = Ok r \<longrightarrow>
          length new = 1 \<and> cr_argv r = argv c)"
  by (auto simp: run_sandboxed_command_def validation_sandbox_argv_def run_bounded_argv_def
      run_bounded_argv_with_optional_input_def logging_def confined_def
      split: sum.splits list.splits prod.splits if_splits)

lemma run_each_log:
  assumes "run_each (run_sandboxed_command path lossy (logging answer) worktree) cs results started = (out, final)"
  shows "\<exists>new. final = started @ new \<and> (\<forall>cl \<in> set new. confined path worktree cs cl)
     \<and> (\<forall>rs. out = Ok rs \<longrightarrow> (\<exists>more. rs = results @ more \<and> length new = length more
          \<and> map cr_argv more = map argv (take (length more) cs)
          \<and> (\<forall>r \<in> set (butlast more). cr_success r)
          \<and> (more = [] \<longleftrightarrow> cs = [])
          \<and> (length more < length cs \<longrightarrow> \<not> cr_success (last more))))"
  using assms
proof (induction cs arbitrary: results started)
  case (Cons c cs)
  let ?run = "run_sandboxed_command path lossy (logging answer) worktree"
  obtain o1 w1 where step: "?run c started = (o1, w1)" by fastforce
  with sandboxed_command_log [of path lossy answer worktree c started] obtain n1 where
    n1: "w1 = started @ n1" "\<forall>cl \<in> set n1. confined path worktree [c] cl"
    "\<forall>r. o1 = Ok r \<longrightarrow> length n1 = 1 \<and> cr_argv r = argv c" by auto
  have conf: "\<forall>cl \<in> set n1. confined path worktree (c # cs) cl" using n1(2) by (auto simp: confined_def)
  show ?case
  proof (cases o1)
    case (Inl e)
    with Cons.prems step n1(1) conf show ?thesis by auto
  next
    case (Inr r)
    show ?thesis
    proof (cases "cr_success r")
      case False
      with Cons.prems step Inr n1 conf show ?thesis by auto
    next
      case True
      with Cons.prems step Inr have "run_each ?run cs (results @ [r]) w1 = (out, final)" by simp
      from Cons.IH [OF this] obtain n2 where
        n2: "final = w1 @ n2" "\<forall>cl \<in> set n2. confined path worktree cs cl"
        "\<forall>rs. out = Ok rs \<longrightarrow> (\<exists>more. rs = (results @ [r]) @ more \<and> length n2 = length more
          \<and> map cr_argv more = map argv (take (length more) cs)
          \<and> (\<forall>r \<in> set (butlast more). cr_success r) \<and> (more = [] \<longleftrightarrow> cs = [])
          \<and> (length more < length cs \<longrightarrow> \<not> cr_success (last more)))" by blast
      have "\<forall>cl \<in> set (n1 @ n2). confined path worktree (c # cs) cl"
        using conf n2(2) by (auto simp: confined_def)
      moreover have "\<exists>more. rs = results @ more \<and> length (n1 @ n2) = length more
          \<and> map cr_argv more = map argv (take (length more) (c # cs))
          \<and> (\<forall>r \<in> set (butlast more). cr_success r) \<and> (more = [] \<longleftrightarrow> c # cs = [])
          \<and> (length more < length (c # cs) \<longrightarrow> \<not> cr_success (last more))" if "out = Ok rs" for rs
      proof -
        from n2(3) that obtain more where "rs = (results @ [r]) @ more" "length n2 = length more"
          "map cr_argv more = map argv (take (length more) cs)"
          "\<forall>r \<in> set (butlast more). cr_success r" "more = [] \<longleftrightarrow> cs = []"
          "length more < length cs \<longrightarrow> \<not> cr_success (last more)" by blast
        with n1(3) Inr True show ?thesis by (intro exI [of _ "r # more"]) auto
      qed
      ultimately show ?thesis using n1(1) n2(1) by (intro exI [of _ "n1 @ n2"]) auto
    qed
  qed
qed auto

section \<open>Properties\<close>

text \<open>
  C5: redaction always ends, keeps the number of lines, and leaves no credential marker in
  the whole text; no line opens a PEM block, and a line that still names a password, token,
  secret, key or bearer header has nothing but \<open>[REDACTED]\<close> after its first separator.
\<close>

theorem redaction_complete:
  "\<exists>ls. redact_lines False (lines v) = Some ls \<and> redact_ci_text v = Some (join [LF] ls)
     \<and> length ls = length (lines v)
     \<and> list_all clean_line ls
     \<and> list_all (\<lambda>m. \<not> contains_sub m (join [LF] ls)) token_markers"
  using redact_ci_text_clean [of v] by (auto simp: list_all_iff)

text \<open>
  C13: the evidence that crosses to the provider is at most 48 KiB long and has no credential
  marker, whatever the plan, the check outputs and the JSON printer's text are.
\<close>

theorem evidence_bounded_and_redacted:
  "\<exists>r. prepare_ci_evidence to_string_pretty job_plan check_outputs = Some r
     \<and> (case r of Inl _ \<Rightarrow> True | Inr text \<Rightarrow> length text \<le> 49152
          \<and> list_all (\<lambda>m. \<not> contains_sub m text) token_markers)"
proof (cases "to_string_pretty (jobj [(''job_plan'', job_plan), (''check_outputs'', check_outputs)])")
  case (Inr serialized)
  obtain t where t: "redact_ci_text serialized = Some t" "\<forall>m \<in> set token_markers. \<not> contains_sub m t"
    using redact_ci_text_clean [of serialized] by auto
  obtain k where k: "truncate_utf8 t 49152 = take k t" "length t \<le> 49152 \<or> k \<le> 49152"
    using truncate_prefix [of t 49152] by blast
  have "\<not> contains_sub m (take k t)" if "m \<in> set token_markers" for m
    using t(2) that contains_sub_mono [of m "take k t" "[]" "drop k t"] by auto
  with k Inr t(1) show ?thesis by (auto simp: prepare_ci_evidence_def list_all_iff)
qed (simp add: prepare_ci_evidence_def)

text \<open>
  An accepted patch set has between 1 and 32 patches; each names an allowed path that
  stays below the directory it is applied in, and its diff carries exactly the two file
  headers of that path, so it cannot touch another file by its headers.
\<close>

theorem patch_set_confined:
  assumes "validate_patch_set patches allowed = Ok ()" "p \<in> set patches"
  shows "length patches \<le> max_ci_patches \<and> patch_path p \<in> set allowed
       \<and> (\<exists>names. names \<noteq> [] \<and> resolve dir (path_components (patch_path p)) = dir @ names)
       \<and> length (patch_unified_diff p) \<le> max_ci_patch_bytes
       \<and> (\<forall>line \<in> set (lines (patch_unified_diff p)).
            starts_with ''--- '' line \<or> starts_with ''+++ '' line \<longrightarrow>
            line = ''--- a/'' @ patch_path p \<or> line = ''+++ b/'' @ patch_path p)"
proof -
  from assms have ok: "validate_patch allowed p = Ok ()" "length patches \<le> max_ci_patches"
    by (auto simp: validate_patch_set_def and_then_Ok for_each_Ok)
  let ?ls = "lines (patch_unified_diff p)"
  let ?h = "\<lambda>line. starts_with ''--- '' line \<or> starts_with ''+++ '' line"
  let ?a = "''--- a/'' @ patch_path p" and ?b = "''+++ b/'' @ patch_path p"
  from ok(1) have v: "validate_repository_path (patch_path p) = Ok ()" "patch_path p \<in> set allowed"
    "length (patch_unified_diff p) \<le> max_ci_patch_bytes"
    "length (filter (\<lambda>line. line = ?a) ?ls) = 1" "length (filter (\<lambda>line. line = ?b) ?ls) = 1"
    "length (filter ?h ?ls) = 2"
    by (auto simp: validate_patch_def and_then_Ok header_count_def)
  have "length (filter ?h xs) = length (filter (\<lambda>l. l = ?a) xs) + length (filter (\<lambda>l. l = ?b) xs)
      + length (filter (\<lambda>l. ?h l \<and> l \<noteq> ?a \<and> l \<noteq> ?b) xs)" for xs
    by (induction xs) (auto simp: starts_with_def)
  from this [of ?ls] v(4-6) have "filter (\<lambda>l. ?h l \<and> l \<noteq> ?a \<and> l \<noteq> ?b) ?ls = []" by simp
  then have "\<forall>line \<in> set ?ls. ?h line \<longrightarrow> line = ?a \<or> line = ?b" by (auto simp: filter_empty_conv)
  with ok(2) v(2,3) patch_path.accepts_below [OF v(1)] show ?thesis by blast
qed

text \<open>
  Repository code runs only inside the sandbox. Every process that sandboxed validation
  starts is the fixed command of a configured validation behind the bubblewrap prefix, in
  \<open>/\<close>, with the scrubbed environment and no input; the results follow the configured order
  and the run stops at the first command that fails.
\<close>

theorem validation_runs_sandboxed:
  assumes "run_validation_commands_sandboxed path lossy (logging answer) worktree commands [] = (out, started)"
  shows "(\<forall>cl \<in> set started. confined path worktree commands cl)
       \<and> (\<forall>rs. out = Ok rs \<longrightarrow> length started = length rs \<and> rs \<noteq> []
            \<and> map cr_argv rs = map argv (take (length rs) commands)
            \<and> (\<forall>r \<in> set (butlast rs). cr_success r)
            \<and> (length rs < length commands \<longrightarrow> \<not> cr_success (last rs)))"
proof (cases "commands = []")
  case False
  with assms have "run_each (run_sandboxed_command path lossy (logging answer) worktree) commands [] [] =
      (out, started)" by (simp add: run_validation_commands_sandboxed_def)
  from run_each_log [OF this] False show ?thesis by auto
qed (use assms in \<open>auto simp: run_validation_commands_sandboxed_def\<close>)

section \<open>Concrete repairs\<close>

definition sample_patch :: ci_patch where
  "sample_patch = \<lparr>patch_path = ''src/lib.rs'', patch_unified_diff =
     join [LF] [''--- a/src/lib.rs'', ''+++ b/src/lib.rs'', ''@@ -1 +1 @@'', ''-a'', ''+b'', '''']\<rparr>"

lemma sample_patch_short: "length (patch_unified_diff sample_patch) \<le> 100"
  by code_simp

theorem patch_set_confined_witness:
  "patch_path sample_patch \<in> set [''src/lib.rs'']
   \<and> (\<exists>names. names \<noteq> [] \<and> resolve [''work''] (path_components (patch_path sample_patch)) = [''work''] @ names)"
proof -
  have "validate_repository_path (patch_path sample_patch) = Ok ()" by code_simp
  moreover have "patch_path sample_patch \<in> set [''src/lib.rs'']" by code_simp
  moreover have "patch_unified_diff sample_patch \<noteq> []
      \<and> \<not> contains_any [NUL, CR] (patch_unified_diff sample_patch)" by code_simp
  moreover have "header_count (''--- a/'' @ patch_path sample_patch) sample_patch = 1
      \<and> header_count (''+++ b/'' @ patch_path sample_patch) sample_patch = 1
      \<and> length (filter (\<lambda>line. starts_with ''--- '' line \<or> starts_with ''+++ '' line)
             (lines (patch_unified_diff sample_patch))) = 2
      \<and> list_ex (starts_with ''@@'') (lines (patch_unified_diff sample_patch))" by code_simp
  ultimately have "validate_patch [''src/lib.rs''] sample_patch = Ok ()"
    using sample_patch_short by (simp add: validate_patch_def)
  then have "validate_patch_set [sample_patch] [''src/lib.rs''] = Ok ()"
    by (simp add: validate_patch_set_def)
  from patch_set_confined [OF this, of sample_patch "[''work'']"] show ?thesis by (metis list.set_intros(1))
qed

definition sample_answer :: "command_line \<Rightarrow> (string, process_run) result" where
  "sample_answer cl = Ok \<lparr>pr_in_time = True, pr_pipes = True, pr_write = Ok (), pr_wait = Ok True,
     pr_stdout = Ok [], pr_stderr = Ok []\<rparr>"

theorem validation_runs_sandboxed_witness:
  "list_all (confined None ''/w'' (validation_commands default_policy))
     (snd (run_validation_commands_sandboxed None id (logging sample_answer) ''/w''
       (validation_commands default_policy) []))"
proof -
  let ?run = "run_validation_commands_sandboxed None id (logging sample_answer) ''/w''
       (validation_commands default_policy) []"
  have "?run = (fst ?run, snd ?run)" by simp
  from validation_runs_sandboxed [OF this] show ?thesis by (simp add: list_all_iff)
qed

end
