(* ===== verification/File_System.thy ===== *)
theory File_System
  imports Rust_Text
begin

text \<open>
  The part of \<open>std::fs\<close> that the components use, over an abstract file system: a map from
  absolute paths, as lists of names below the root, to directories, files and symbolic links.
  \<open>canonicalize\<close> follows links with the bound after which the system reports a loop.
\<close>

datatype node = Directory | Text string | Binary | Symlink string

datatype io_error =
  NotFound | NotADirectory | IsADirectory | FilesystemLoop | InvalidData | AlreadyExists

type_synonym file_system = "string list \<Rightarrow> node option"

definition lookup_node :: "file_system \<Rightarrow> string list \<Rightarrow> node option" where
  "lookup_node fs p = (if p = [] then Some Directory else fs p)"

abbreviation max_links :: nat where "max_links \<equiv> 40"

function canon :: "nat \<Rightarrow> file_system \<Rightarrow> string list \<Rightarrow> component list \<Rightarrow> (io_error, string list) result" where
  "canon links fs dir [] = Ok dir"
| "canon links fs dir (RootDir # cs) = canon links fs [] cs"
| "canon links fs dir (CurDir # cs) = canon links fs dir cs"
| "canon links fs dir (ParentDir # cs) = canon links fs (butlast dir) cs"
| "canon links fs dir (Normal x # cs) = (case lookup_node fs (dir @ [x]) of
       None \<Rightarrow> Err NotFound
     | Some Directory \<Rightarrow> canon links fs (dir @ [x]) cs
     | Some (Symlink target) \<Rightarrow>
         if links = 0 then Err FilesystemLoop
         else canon (links - 1) fs dir (path_components target @ cs)
     | Some _ \<Rightarrow> if cs = [] then Ok (dir @ [x]) else Err NotADirectory)"
  by pat_completeness auto
termination
  by (relation "measures [\<lambda>(links, fs, dir, cs). links, \<lambda>(links, fs, dir, cs). length cs]") auto

definition canonicalize :: "file_system \<Rightarrow> string list \<Rightarrow> string \<Rightarrow> (io_error, string list) result" where
  "canonicalize fs cwd path =
     (if path = [] then Err NotFound else canon max_links fs cwd (path_components path))"

text \<open>The calls on a path that is already absolute, given by its names.\<close>

definition canon_names :: "file_system \<Rightarrow> string list \<Rightarrow> (io_error, string list) result" where
  "canon_names fs names = canon max_links fs [] (map Normal names)"

definition symlink_metadata :: "file_system \<Rightarrow> string list \<Rightarrow> (io_error, node) result" where
  "symlink_metadata fs names =
     (if names = [] then Ok Directory
      else and_then (canon_names fs (butlast names)) (\<lambda>parent.
           and_then (reject_if (lookup_node fs parent \<noteq> Some Directory) NotADirectory) (\<lambda>_.
           ok_or NotFound (lookup_node fs (parent @ [last names])))))"

definition metadata :: "file_system \<Rightarrow> string list \<Rightarrow> (io_error, node) result" where
  "metadata fs names =
     and_then (canon_names fs names) (\<lambda>p. ok_or NotFound (lookup_node fs p))"

definition read_to_string :: "file_system \<Rightarrow> string list \<Rightarrow> (io_error, string) result" where
  "read_to_string fs names =
     and_then (metadata fs names) (\<lambda>n. case n of
         Text s \<Rightarrow> Ok s
       | Directory \<Rightarrow> Err IsADirectory
       | _ \<Rightarrow> Err InvalidData)"

definition write_node :: "file_system \<Rightarrow> string list \<Rightarrow> node \<Rightarrow> (io_error, file_system) result" where
  "write_node fs names n =
     (case canon_names fs names of
        Inr p \<Rightarrow> if lookup_node fs p = Some Directory then Err IsADirectory
                 else Ok (fs(p \<mapsto> n))
      | Inl NotFound \<Rightarrow>
          and_then (reject_if (names = []) NotFound) (\<lambda>_.
          and_then (canon_names fs (butlast names)) (\<lambda>parent.
          and_then (reject_if (lookup_node fs parent \<noteq> Some Directory) NotADirectory) (\<lambda>_.
          and_then (reject_if (lookup_node fs (parent @ [last names]) \<noteq> None) NotFound) (\<lambda>_.
          Ok (fs(parent @ [last names] \<mapsto> n))))))
      | Inl e \<Rightarrow> Err e)"

definition write_file :: "file_system \<Rightarrow> string list \<Rightarrow> string \<Rightarrow> (io_error, file_system) result" where
  "write_file fs names content = write_node fs names (Text content)"

fun is_symlink :: "node \<Rightarrow> bool" where
  "is_symlink (Symlink _) = True"
| "is_symlink _ = False"

fun is_file :: "node \<Rightarrow> bool" where
  "is_file (Text _) = True"
| "is_file Binary = True"
| "is_file _ = False"

text \<open>The entry that a call without following the last link works on.\<close>

definition entry_of :: "file_system \<Rightarrow> string list \<Rightarrow> (io_error, string list) result" where
  "entry_of fs names =
     and_then (canon_names fs (butlast names)) (\<lambda>parent.
     and_then (reject_if (lookup_node fs parent \<noteq> Some Directory) NotADirectory) (\<lambda>_.
     Ok (parent @ [last names])))"

definition create_dir :: "file_system \<Rightarrow> string list \<Rightarrow> (io_error, file_system) result" where
  "create_dir fs names =
     (if names = [] then Err AlreadyExists
      else and_then (entry_of fs names) (\<lambda>p.
           and_then (reject_if (lookup_node fs p \<noteq> None) AlreadyExists) (\<lambda>_. Ok (fs(p \<mapsto> Directory)))))"

definition is_dir :: "file_system \<Rightarrow> string list \<Rightarrow> bool" where
  "is_dir fs names \<longleftrightarrow> metadata fs names = Ok Directory"

function create_dir_all :: "file_system \<Rightarrow> string list \<Rightarrow> (io_error, unit) result \<times> file_system" where
  "create_dir_all fs names =
     (case create_dir fs names of
        Inr fs' \<Rightarrow> (Ok (), fs')
      | Inl e \<Rightarrow>
          if e = NotFound \<and> names \<noteq> [] then
            (case create_dir_all fs (butlast names) of
               (Inl e', fs') \<Rightarrow> (Err e', fs')
             | (Inr _, fs') \<Rightarrow>
                 (case create_dir fs' names of
                    Inr fs'' \<Rightarrow> (Ok (), fs'')
                  | Inl e' \<Rightarrow> (if is_dir fs' names then Ok () else Err e', fs')))
          else (if is_dir fs names then Ok () else Err e, fs))"
  by pat_completeness auto
termination by (relation "measure (\<lambda>(fs, names). length names)") auto

declare create_dir_all.simps [simp del]

definition remove_file :: "file_system \<Rightarrow> string list \<Rightarrow> (io_error, file_system) result" where
  "remove_file fs names =
     (if names = [] then Err IsADirectory
      else and_then (entry_of fs names) (\<lambda>p.
           case lookup_node fs p of
             None \<Rightarrow> Err NotFound
           | Some Directory \<Rightarrow> Err IsADirectory
           | Some _ \<Rightarrow> Ok (fs(p := None))))"

definition copy_file :: "file_system \<Rightarrow> string list \<Rightarrow> string list \<Rightarrow> (io_error, file_system) result" where
  "copy_file fs source target =
     and_then (metadata fs source) (\<lambda>n. if is_file n then write_node fs target n else Err InvalidData)"

definition remove_dir_all :: "file_system \<Rightarrow> string list \<Rightarrow> file_system" where
  "remove_dir_all fs names = (\<lambda>p. if take (length names) p = names then None else fs p)"

text \<open>\<open>Path::join\<close>, and the names of a path that is absolute and has no dots.\<close>

definition path_join :: "string \<Rightarrow> string \<Rightarrow> string" where
  "path_join base rest =
     (if is_absolute rest then rest
      else if base = [] \<or> ends_with ''/'' base then base @ rest else base @ ''/'' @ rest)"

definition path_names :: "string \<Rightarrow> string list" where
  "path_names p = List.map_filter (\<lambda>c. case c of Normal x \<Rightarrow> Some x | _ \<Rightarrow> None) (path_components p)"

text \<open>A path all of whose proper prefixes are directories and which is no link itself.\<close>

definition plain_path :: "file_system \<Rightarrow> string list \<Rightarrow> bool" where
  "plain_path fs names \<longleftrightarrow> (\<forall>k < length names. lookup_node fs (take k names) = Some Directory)
     \<and> (\<exists>n. lookup_node fs names = Some n \<and> (\<forall>t. n \<noteq> Symlink t))"

lemma canon_directories:
  "(\<forall>k \<le> length names. lookup_node fs (dir @ take k names) = Some Directory) \<Longrightarrow>
     canon links fs dir (map Normal names @ cs) = canon links fs (dir @ names) cs"
proof (induction names arbitrary: dir)
  case (Cons x names)
  have "lookup_node fs (dir @ [x]) = Some Directory"
    using Cons.prems [rule_format, of 1] by simp
  moreover have "\<forall>k \<le> length names. lookup_node fs ((dir @ [x]) @ take k names) = Some Directory"
    using Cons.prems [rule_format, of "Suc _"] by simp
  ultimately show ?case using Cons.IH [of "dir @ [x]"] by simp
qed simp

lemma canon_plain:
  assumes "plain_path fs names"
  shows "canon_names fs names = Ok names"
proof (cases names rule: rev_cases)
  case Nil
  then show ?thesis by (simp add: canon_names_def)
next
  case (snoc xs x)
  have "\<forall>k \<le> length xs. lookup_node fs ([] @ take k xs) = Some Directory"
    using assms by (auto simp: plain_path_def snoc less_Suc_eq_le)
  from canon_directories [OF this, of max_links "[Normal x]"] assms show ?thesis
    by (auto simp: canon_names_def snoc plain_path_def split: node.split)
qed

text \<open>What \<open>canonicalize\<close> returns has directories on its way and is no link.\<close>

lemma canon_result_plain:
  "canon links fs dir cs = Ok p \<Longrightarrow> dir = [] \<or> plain_path fs dir \<and> lookup_node fs dir = Some Directory \<Longrightarrow>
     plain_path fs p"
proof (induction links fs dir cs rule: canon.induct)
  case (1 links fs dir)
  then show ?case by (auto simp: plain_path_def lookup_node_def)
next
  case (4 links fs dir cs)
  have "butlast dir = [] \<or> plain_path fs (butlast dir) \<and> lookup_node fs (butlast dir) = Some Directory"
    if "dir \<noteq> []"
  proof -
    have "lookup_node fs (take (length dir - 1) dir) = Some Directory"
      using 4(3) that by (auto simp: plain_path_def)
    moreover have "take k (butlast dir) = take k dir" if "k < length (butlast dir)" for k
      using that by (simp add: butlast_conv_take)
    ultimately show ?thesis using 4(3) that by (auto simp: plain_path_def butlast_conv_take)
  qed
  with 4 show ?case by (cases "dir = []") auto
next
  case (5 links fs dir x cs)
  have ext: "plain_path fs (dir @ [x])" if "lookup_node fs (dir @ [x]) = Some n" "\<forall>t. n \<noteq> Symlink t" for n
    using 5(4) that by (auto simp: plain_path_def less_Suc_eq lookup_node_def)
  from 5 ext show ?case by (auto split: option.splits node.splits if_splits)
qed auto

end
