(* ===== verification/Feedback_Repair.thy ===== *)
theory Feedback_Repair
  imports Gates File_System
begin

text \<open>
  Deterministic repair of automation suggestions, \<open>src/feedback.rs\<close>: extraction of the
  suggestion, the unified patch format and its exact application, inline replacements, the
  symlink-rejecting target check, and the single write with its readback. Other processes may
  change the files between preparation and application; that is the argument \<open>interfere\<close>.
\<close>

abbreviation max_patch_bytes :: nat where "max_patch_bytes \<equiv> 262144"

record feedback =
  actor_login :: string
  actor_type :: string
  is_automation :: bool
  body :: string
  fb_path :: "string option"
  start_line :: "nat option"
  line :: "nat option"

datatype repair_decision = Preview | Apply

datatype repair_disposition = HumanFeedback | RejectedActor | Previewed | Applied

datatype feedback_reply_target = ReviewThread | PullRequestConversation

datatype feedback_comment_target = OnReviewComment i64 | OnConversation i64

datatype feedback_target_error = Unsupported | InvalidId

definition positive_id :: "string \<Rightarrow> (feedback_target_error, i64) result" where
  "positive_id s = (case parse_i64 s of
       Some i \<Rightarrow> if i > 0 then Ok i else Err InvalidId
     | None \<Rightarrow> Err InvalidId)"

definition parse_feedback_comment_target :: "string \<Rightarrow> (feedback_target_error, feedback_comment_target) result" where
  "parse_feedback_comment_target feedback_id =
     (case strip_prefix ''review-comment:'' feedback_id of
        Some i \<Rightarrow> and_then (positive_id i) (\<lambda>n. Ok (OnReviewComment n))
      | None \<Rightarrow> (case strip_prefix ''issue-comment:'' feedback_id of
          Some i \<Rightarrow> and_then (positive_id i) (\<lambda>n. Ok (OnConversation n))
        | None \<Rightarrow> (case strip_prefix ''review:'' feedback_id of
            Some i \<Rightarrow> and_then (positive_id i) (\<lambda>n. Ok (OnConversation n))
          | None \<Rightarrow> Err Unsupported)))"

section \<open>Replies\<close>

datatype feedback_reply =
  AppliedReply feedback_reply_target string string
  | RejectedReply feedback_reply_target

definition safe_reply_fragment :: "string \<Rightarrow> string" where
  "safe_reply_fragment value =
     (let fragment = concat (take 128 (filter (\<lambda>u. u \<notin> {[BACKTICK], [CR], [LF]}) (chars value)))
      in if fragment = [] then ''(unavailable)'' else fragment)"

definition applied_text :: "string \<Rightarrow> string \<Rightarrow> string" where
  "applied_text path commit =
     ''PiTools applied this approved automation suggestion to '' @ [BACKTICK]
     @ safe_reply_fragment path @ [BACKTICK] @ '' and pushed commit '' @ [BACKTICK]
     @ safe_reply_fragment commit @ [BACKTICK] @ '' after configured validation passed. ''"

fun render_feedback_reply :: "feedback_reply \<Rightarrow> string" where
  "render_feedback_reply (AppliedReply ReviewThread path commit) =
     applied_text path commit @ ''The review thread is being resolved.''"
| "render_feedback_reply (AppliedReply PullRequestConversation path commit) =
     applied_text path commit
     @ ''This PR-level outcome comment records the result; no review thread is available to resolve.''"
| "render_feedback_reply (RejectedReply ReviewThread) =
     ''PiTools rejected this automation suggestion after deterministic validation failed. No branch change was accepted. The review thread is being resolved; human follow-up remains required.''"
| "render_feedback_reply (RejectedReply PullRequestConversation) =
     ''PiTools rejected this automation suggestion after deterministic validation failed. No branch change was accepted. This PR-level outcome comment records the result; no review thread is available to resolve. Human follow-up remains required.''"

section \<open>Suggestions\<close>

datatype feedback_error =
  MalformedSuggestion string
  | MalformedPatch string
  | InvalidPath string
  | StalePatch string
  | Io io_error

definition fence :: string where
  "fence = [BACKTICK, BACKTICK, BACKTICK]"

definition suggestion_marker :: string where
  "suggestion_marker = fence @ ''suggestion'' @ [LF]"

definition extract_exact_suggestion :: "string \<Rightarrow> (feedback_error, string) result" where
  "extract_exact_suggestion text =
     and_then (reject_if (length text > max_patch_bytes \<or> CR \<in> set text)
       (MalformedSuggestion ''unsupported size or line endings'')) (\<lambda>_.
     let text' = (case strip_suffix [LF] text of None \<Rightarrow> text | Some t \<Rightarrow> t)
     in and_then (ok_or (MalformedSuggestion
            ''expected exactly one suggestion fence and no surrounding text'')
            (Option.bind (strip_prefix suggestion_marker text') (strip_suffix (LF # fence))))
          (\<lambda>suggestion.
        and_then (reject_if (suggestion = [] \<or> contains_sub fence suggestion)
          (MalformedSuggestion ''empty or ambiguous suggestion fence'')) (\<lambda>_. Ok suggestion)))"

definition extract_inline_suggestion :: "string \<Rightarrow> (feedback_error, string) result" where
  "extract_inline_suggestion text =
     and_then (reject_if (length text > max_patch_bytes \<or> CR \<in> set text)
       (MalformedSuggestion ''unsupported size or line endings'')) (\<lambda>_.
     and_then (reject_if (count_sub suggestion_marker text \<noteq> 1)
       (MalformedSuggestion ''expected exactly one suggestion fence'')) (\<lambda>_.
     let content_start = the (find_sub suggestion_marker text) + length suggestion_marker
     in and_then (ok_or (MalformedSuggestion ''unterminated suggestion fence'')
            (find_sub (LF # fence) (drop content_start text))) (\<lambda>offset.
        let suggestion = take offset (drop content_start text)
        in and_then (reject_if (contains_sub fence suggestion)
             (MalformedSuggestion ''suggestion contains a nested code fence'')) (\<lambda>_. Ok suggestion))))"

definition split_source :: "string \<Rightarrow> string list" where
  "split_source original =
     (let source = (case strip_suffix [LF] original of None \<Rightarrow> original | Some t \<Rightarrow> t)
      in if source = [] then [] else split_char LF source)"

definition apply_inline_suggestion ::
  "string \<Rightarrow> nat \<Rightarrow> nat \<Rightarrow> string \<Rightarrow> (feedback_error, string) result" where
  "apply_inline_suggestion original first last_line suggestion =
     and_then (reject_if (CR \<in> set original \<or> CR \<in> set suggestion)
       (StalePatch ''line-ending normalization is not supported'')) (\<lambda>_.
     let ls = split_source original; start = first - 1
     in and_then (reject_if (last_line > length ls \<or> start \<ge> last_line)
          (StalePatch ''review line range is outside the current file'')) (\<lambda>_.
        let replacement = (if suggestion = [] then [] else split_char LF suggestion);
            ls' = take start ls @ replacement @ drop last_line ls
        in Ok (join [LF] ls' @ (if ends_with [LF] original \<and> ls' \<noteq> [] then [LF] else []))))"

section \<open>Unified patches\<close>

datatype hunk_line = Context string | Remove string | Add string

record hunk =
  old_start :: nat
  old_count :: nat
  new_count :: nat
  hunk_lines :: "hunk_line list"

record parsed_patch =
  pp_path :: string
  pp_hunks :: "hunk list"

definition validate_relative_path :: "string \<Rightarrow> (feedback_error, unit) result" where
  "validate_relative_path value =
     and_then (reject_if (value = [] \<or> BACKSLASH \<in> set value \<or> NUL \<in> set value) (InvalidPath value)) (\<lambda>_.
     and_then (reject_if (is_absolute value \<or> \<not> normal_only value) (InvalidPath value)) (\<lambda>_.
     reject_if (join ''/'' (map component_text (path_components value)) \<noteq> value) (InvalidPath value)))"

definition parse_count :: "string \<Rightarrow> string \<Rightarrow> (feedback_error, nat) result" where
  "parse_count reason s = ok_or (MalformedPatch reason) (parse_u64 s)"

definition parse_range :: "string \<Rightarrow> (feedback_error, nat \<times> nat) result" where
  "parse_range field =
     (let (start, count) = (case split_once '','' field of Some p \<Rightarrow> p | None \<Rightarrow> (field, ''1''))
      in and_then (parse_count ''invalid hunk start'' start) (\<lambda>s.
         and_then (parse_count ''invalid hunk count'' count) (\<lambda>c. Ok (s, c))))"

definition parse_hunk_header :: "string \<Rightarrow> (feedback_error, nat \<times> nat \<times> nat) result" where
  "parse_hunk_header header =
     and_then (ok_or (MalformedPatch ''invalid hunk header'') (strip_prefix ''@@ '' header)) (\<lambda>rest.
     and_then (ok_or (MalformedPatch ''unterminated hunk header'') (split_once '' @@'' rest)) (\<lambda>(ranges, _).
     let pieces = split_char CHR '' '' ranges
     in and_then (ok_or (MalformedPatch ''missing old hunk range'')
            (strip_prefix ''-'' (hd pieces))) (\<lambda>old.
        and_then (ok_or (MalformedPatch ''missing new hunk range'')
            (case tl pieces of [] \<Rightarrow> None | p # _ \<Rightarrow> strip_prefix ''+'' p)) (\<lambda>new.
        and_then (reject_if (length pieces > 2) (MalformedPatch ''unexpected hunk range fields'')) (\<lambda>_.
        and_then (parse_range old) (\<lambda>(start, old_n).
        and_then (parse_range new) (\<lambda>(_, new_n).
        and_then (reject_if (start = 0 \<and> old_n \<noteq> 0)
            (MalformedPatch ''old line numbers are one-based'')) (\<lambda>_.
        Ok (start, old_n, new_n)))))))))"

definition parse_hunk_line :: "string \<Rightarrow> (feedback_error, hunk_line) result" where
  "parse_hunk_line l = (case l of
       [] \<Rightarrow> Err (MalformedPatch ''hunk line lacks a valid prefix'')
     | c # cs \<Rightarrow>
         if c = CHR '' '' then Ok (Context cs)
         else if c = CHR ''-'' then Ok (Remove cs)
         else if c = CHR ''+'' then Ok (Add cs)
         else Err (MalformedPatch ''hunk line lacks a valid prefix''))"

fun old_side :: "hunk_line list \<Rightarrow> string list" where
  "old_side [] = []"
| "old_side (Context s # ls) = s # old_side ls"
| "old_side (Remove s # ls) = s # old_side ls"
| "old_side (Add _ # ls) = old_side ls"

fun new_side :: "hunk_line list \<Rightarrow> string list" where
  "new_side [] = []"
| "new_side (Context s # ls) = s # new_side ls"
| "new_side (Remove _ # ls) = new_side ls"
| "new_side (Add s # ls) = s # new_side ls"

function parse_hunks :: "string list \<Rightarrow> (feedback_error, hunk list) result" where
  "parse_hunks [] = Ok []"
| "parse_hunks (header # rest) =
     and_then (reject_if (header = []) (MalformedPatch ''unexpected blank line between hunks'')) (\<lambda>_.
     and_then (parse_hunk_header header) (\<lambda>(start, old_n, new_n).
     let body_lines = takeWhile (\<lambda>l. \<not> starts_with ''@@'' l) rest
     in and_then (map_results parse_hunk_line body_lines) (\<lambda>ls.
        and_then (reject_if (length (old_side ls) \<noteq> old_n \<or> length (new_side ls) \<noteq> new_n)
          (MalformedPatch ''hunk header line counts do not match its body'')) (\<lambda>_.
        and_then (parse_hunks (dropWhile (\<lambda>l. \<not> starts_with ''@@'' l) rest)) (\<lambda>hs.
        Ok (\<lparr>old_start = start, old_count = old_n, new_count = new_n, hunk_lines = ls\<rparr> # hs))))))"
  by pat_completeness auto
termination
  by (relation "measure length") (auto simp: le_imp_less_Suc length_dropWhile_le)

definition parse_unified_patch :: "string \<Rightarrow> (feedback_error, parsed_patch) result" where
  "parse_unified_patch source =
     (let ls = split_char LF source
      in and_then (ok_or (MalformedPatch ''missing old-file header'') (strip_prefix ''--- a/'' (hd ls))) (\<lambda>old_path.
         and_then (ok_or (MalformedPatch ''missing new-file header'')
             (case tl ls of [] \<Rightarrow> None | l # _ \<Rightarrow> strip_prefix ''+++ b/'' l)) (\<lambda>new_path.
         and_then (reject_if (old_path \<noteq> new_path) (MalformedPatch ''old and new paths must match'')) (\<lambda>_.
         and_then (validate_relative_path old_path) (\<lambda>_.
         and_then (parse_hunks (drop 2 ls)) (\<lambda>hs.
         and_then (reject_if (hs = []) (MalformedPatch ''patch has no hunks'')) (\<lambda>_.
         Ok \<lparr>pp_path = old_path, pp_hunks = hs\<rparr>)))))))"

definition require_exact_line :: "string list \<Rightarrow> nat \<Rightarrow> string \<Rightarrow> (feedback_error, unit) result" where
  "require_exact_line source i expected =
     reject_if (\<not> (i < length source \<and> source ! i = expected))
       (StalePatch (''source line '' @ show_nat (i + 1) @ '' does not match the hunk''))"

fun apply_lines :: "string list \<Rightarrow> hunk_line list \<Rightarrow> nat \<Rightarrow> nat \<Rightarrow> string list
    \<Rightarrow> (feedback_error, nat \<times> nat \<times> string list) result" where
  "apply_lines source [] i produced acc = Ok (i, produced, acc)"
| "apply_lines source (Context e # ls) i produced acc =
     and_then (require_exact_line source i e) (\<lambda>_.
     apply_lines source ls (i + 1) (produced + 1) (acc @ [e]))"
| "apply_lines source (Remove e # ls) i produced acc =
     and_then (require_exact_line source i e) (\<lambda>_. apply_lines source ls (i + 1) produced acc)"
| "apply_lines source (Add v # ls) i produced acc =
     apply_lines source ls i (produced + 1) (acc @ [v])"

definition hunk_position :: "hunk \<Rightarrow> nat" where
  "hunk_position h = (if old_count h = 0 then old_start h else old_start h - 1)"

fun apply_each :: "string list \<Rightarrow> hunk list \<Rightarrow> nat \<Rightarrow> string list
    \<Rightarrow> (feedback_error, nat \<times> string list) result" where
  "apply_each source [] cursor acc = Ok (cursor, acc)"
| "apply_each source (h # hs) cursor acc =
     (let start = hunk_position h
      in and_then (reject_if (start < cursor \<or> start > length source)
             (StalePatch ''hunks overlap or address lines outside the file'')) (\<lambda>_.
         and_then (apply_lines source (hunk_lines h) start 0
             (acc @ take (start - cursor) (drop cursor source))) (\<lambda>(i, produced, acc').
         and_then (reject_if (produced \<noteq> new_count h)
             (MalformedPatch ''new hunk count changed during application'')) (\<lambda>_.
         apply_each source hs i acc'))))"

definition apply_hunks :: "string \<Rightarrow> hunk list \<Rightarrow> (feedback_error, string) result" where
  "apply_hunks original hs =
     (let source = split_char LF original
      in and_then (apply_each source hs 0 []) (\<lambda>(cursor, acc).
         Ok (join [LF] (acc @ drop cursor source))))"

section \<open>The repair of a file\<close>

record repair_outcome =
  disposition :: repair_disposition
  outcome_path :: "string option"
  resolution_eligible :: bool

record prepared_repair =
  prep_path :: string
  prep_original :: string
  prep_repaired :: string

fun check_components :: "file_system \<Rightarrow> string \<Rightarrow> string list \<Rightarrow> string list
    \<Rightarrow> (feedback_error, string list) result" where
  "check_components fs relative target [] = Ok target"
| "check_components fs relative target (x # xs) =
     and_then (map_err Io (symlink_metadata fs (target @ [x]))) (\<lambda>n.
     and_then (reject_if (is_symlink n) (InvalidPath relative)) (\<lambda>_.
     check_components fs relative (target @ [x]) xs))"

definition checked_target ::
  "file_system \<Rightarrow> string list \<Rightarrow> string \<Rightarrow> string \<Rightarrow> (feedback_error, string list) result" where
  "checked_target fs cwd repository_root relative =
     and_then (validate_relative_path relative) (\<lambda>_.
     and_then (map_err Io (canonicalize fs cwd repository_root)) (\<lambda>root.
     and_then (check_components fs relative root (map component_text (path_components relative))) (\<lambda>target.
     and_then (map_err Io (metadata fs target)) (\<lambda>n.
     and_then (reject_if (\<not> is_file n) (InvalidPath relative)) (\<lambda>_.
     and_then (map_err Io (canon_names fs target)) (\<lambda>canonical.
     and_then (reject_if (take (length root) canonical \<noteq> root \<or> canonical \<noteq> target) (InvalidPath relative)) (\<lambda>_.
     Ok target)))))))"

definition prepare_repair ::
  "file_system \<Rightarrow> string list \<Rightarrow> string \<Rightarrow> feedback \<Rightarrow> (feedback_error, prepared_repair) result" where
  "prepare_repair fs cwd root f =
     (case (case extract_exact_suggestion (body f) of
          Inr s \<Rightarrow> if starts_with ''--- a/'' s then Some s else None | Inl _ \<Rightarrow> None) of
        Some suggestion \<Rightarrow>
          and_then (parse_unified_patch suggestion) (\<lambda>patch.
          and_then (checked_target fs cwd root (pp_path patch)) (\<lambda>target.
          and_then (map_err Io (read_to_string fs target)) (\<lambda>original.
          and_then (apply_hunks original (pp_hunks patch)) (\<lambda>repaired.
          Ok \<lparr>prep_path = pp_path patch, prep_original = original, prep_repaired = repaired\<rparr>))))
      | None \<Rightarrow>
          and_then (extract_inline_suggestion (body f)) (\<lambda>suggestion.
          and_then (ok_or (MalformedSuggestion ''review path is missing'') (fb_path f)) (\<lambda>path.
          and_then (ok_or (MalformedSuggestion ''review line is missing'') (line f)) (\<lambda>l.
          let first = (case start_line f of None \<Rightarrow> l | Some s \<Rightarrow> s)
          in and_then (reject_if (l = 0 \<or> first = 0 \<or> first > l)
               (MalformedSuggestion ''review line range is invalid'')) (\<lambda>_.
             and_then (checked_target fs cwd root path) (\<lambda>target.
             and_then (map_err Io (read_to_string fs target)) (\<lambda>original.
             and_then (apply_inline_suggestion original first l suggestion) (\<lambda>repaired.
             Ok \<lparr>prep_path = path, prep_original = original, prep_repaired = repaired\<rparr>))))))))"

definition non_mutating :: "repair_disposition \<Rightarrow> repair_outcome" where
  "non_mutating d = \<lparr>disposition = d, outcome_path = None, resolution_eligible = False\<rparr>"

text \<open>The files after the call are returned with its outcome, also when it fails.\<close>

definition apply_prepared ::
  "file_system \<Rightarrow> string list \<Rightarrow> string \<Rightarrow> prepared_repair
     \<Rightarrow> (feedback_error, repair_outcome) result \<times> file_system" where
  "apply_prepared fs cwd root p =
     (case and_then (checked_target fs cwd root (prep_path p)) (\<lambda>target.
           and_then (map_err Io (read_to_string fs target)) (\<lambda>current.
           and_then (reject_if (current \<noteq> prep_original p)
             (StalePatch ''target changed after validation'')) (\<lambda>_.
           and_then (map_err Io (write_file fs target (prep_repaired p))) (\<lambda>fs'. Ok (target, fs'))))) of
        Inl e \<Rightarrow> (Err e, fs)
      | Inr (target, fs') \<Rightarrow>
          (and_then (map_err Io (read_to_string fs' target)) (\<lambda>readback.
           and_then (reject_if (readback \<noteq> prep_repaired p)
             (StalePatch ''target readback differs from the validated repair'')) (\<lambda>_.
           Ok \<lparr>disposition = Applied, outcome_path = Some (prep_path p), resolution_eligible = True\<rparr>)), fs'))"

definition repair_feedback ::
  "(file_system \<Rightarrow> file_system) \<Rightarrow> file_system \<Rightarrow> string list \<Rightarrow> string \<Rightarrow> string list \<Rightarrow> feedback
     \<Rightarrow> repair_decision \<Rightarrow> (feedback_error, repair_outcome) result \<times> file_system" where
  "repair_feedback interfere fs cwd root allowlist f decision =
     (if \<not> is_automation f \<or> actor_type f \<noteq> ''Bot'' then (Ok (non_mutating HumanFeedback), fs)
      else if \<not> list_ex (\<lambda>actor. actor = actor_login f) allowlist
      then (Ok (non_mutating RejectedActor), fs)
      else case prepare_repair fs cwd root f of
          Inl e \<Rightarrow> (Err e, fs)
        | Inr p \<Rightarrow> (case decision of
              Preview \<Rightarrow> (Ok \<lparr>disposition = Previewed, outcome_path = Some (prep_path p),
                             resolution_eligible = False\<rparr>, fs)
            | Apply \<Rightarrow> apply_prepared (interfere fs) cwd root p))"

section \<open>The path check as a gate\<close>

interpretation feedback_path: path_gate "\<lambda>p. validate_relative_path p = Ok ()"
  by unfold_locales (auto simp: validate_relative_path_def and_then_Ok)

end
