(* ===== verification/Feedback_Properties.thy ===== *)
theory Feedback_Properties
  imports Feedback_Repair
begin

text \<open>
  A repair is exact and confined: hunks apply only where the file has the lines they name, a
  repair changes one regular file below the repository root that no link leads to, and only
  for an allowed automation actor.
\<close>

section \<open>Exact application of hunks\<close>

text \<open>
  \<open>patches pos src hs out\<close>: from line \<open>pos\<close> on, \<open>src\<close> is the kept lines and the old sides of
  the hunks at their declared positions, and \<open>out\<close> is the same with the new sides.
\<close>

inductive patches :: "nat \<Rightarrow> string list \<Rightarrow> hunk list \<Rightarrow> string list \<Rightarrow> bool" where
  patches_none: "patches pos src [] src"
| patches_hunk: "hunk_position h = pos + length keep \<Longrightarrow> new_count h = length (new_side (hunk_lines h)) \<Longrightarrow>
    patches (pos + length keep + length (old_side (hunk_lines h))) src hs out \<Longrightarrow>
    patches pos (keep @ old_side (hunk_lines h) @ src) (h # hs) (keep @ new_side (hunk_lines h) @ out)"

inductive_cases patches_ConsE: "patches pos src (h # hs) out"

inductive_simps patches_Nil: "patches pos src [] out"

lemma require_exact_line_Ok:
  "require_exact_line source i e = Ok u \<longleftrightarrow> i < length source \<and> source ! i = e"
  by (simp add: require_exact_line_def)

lemma apply_lines_Ok:
  assumes "i \<le> length source"
  shows "apply_lines source ls i produced acc = Ok r \<longleftrightarrow>
     take (length (old_side ls)) (drop i source) = old_side ls
     \<and> r = (i + length (old_side ls), produced + length (new_side ls), acc @ new_side ls)"
  using assms
proof (induction source ls i produced acc rule: apply_lines.induct)
  case (2 source e ls i produced acc)
  then show ?case
    by (cases "i < length source")
      (auto simp: and_then_Ok require_exact_line_Ok Cons_nth_drop_Suc [symmetric])
next
  case (3 source e ls i produced acc)
  then show ?case
    by (cases "i < length source")
      (auto simp: and_then_Ok require_exact_line_Ok Cons_nth_drop_Suc [symmetric])
qed auto

lemma take_drop_old:
  "take (length xs) (drop i source) = xs \<Longrightarrow> i \<le> length source \<Longrightarrow> i + length xs \<le> length source"
  by (metis add_le_imp_le_diff le_diff_conv2 length_drop length_take min.cobounded1 add.commute)

lemma apply_each_Cons:
  "apply_each source (h # hs) cursor acc = Ok r \<longleftrightarrow>
     cursor \<le> hunk_position h \<and> hunk_position h \<le> length source
     \<and> take (length (old_side (hunk_lines h))) (drop (hunk_position h) source) = old_side (hunk_lines h)
     \<and> new_count h = length (new_side (hunk_lines h))
     \<and> apply_each source hs (hunk_position h + length (old_side (hunk_lines h)))
          (acc @ take (hunk_position h - cursor) (drop cursor source) @ new_side (hunk_lines h)) = Ok r"
  by (cases "hunk_position h \<le> length source") (auto simp: Let_def and_then_Ok apply_lines_Ok)

lemma apply_each_sound:
  assumes "apply_each source hs cursor acc = Ok (c, acc')" "cursor \<le> length source"
  shows "\<exists>out. patches cursor (drop cursor source) hs out \<and> acc' @ drop c source = acc @ out"
  using assms
proof (induction hs arbitrary: cursor acc)
  case Nil
  then show ?case by (auto intro: patches_none)
next
  case (Cons h hs)
  let ?start = "hunk_position h" and ?old = "old_side (hunk_lines h)" and ?new = "new_side (hunk_lines h)"
  let ?keep = "take (?start - cursor) (drop cursor source)"
  from Cons.prems(1) have start: "cursor \<le> ?start" "?start \<le> length source"
    and lines: "take (length ?old) (drop ?start source) = ?old" "new_count h = length ?new"
      "apply_each source hs (?start + length ?old) (acc @ ?keep @ ?new) = Ok (c, acc')"
    unfolding apply_each_Cons by blast+
  have le: "?start + length ?old \<le> length source" by (rule take_drop_old [OF lines(1) start(2)])
  from Cons.IH [OF lines(3) le] obtain out where
    out: "patches (?start + length ?old) (drop (?start + length ?old) source) hs out"
    "acc' @ drop c source = (acc @ ?keep @ ?new) @ out" by blast
  have keep: "length ?keep = ?start - cursor" using start by simp
  have src: "drop cursor source = ?keep @ ?old @ drop (?start + length ?old) source"
  proof -
    have "drop (?start - cursor) (drop cursor source) = drop ?start source" using start by simp
    moreover have "drop (length ?old) (drop ?start source) = drop (?start + length ?old) source"
      by (simp add: add.commute)
    ultimately show ?thesis using lines(1) by (metis append_take_drop_id)
  qed
  have "patches cursor (?keep @ ?old @ drop (?start + length ?old) source) (h # hs) (?keep @ ?new @ out)"
    by (rule patches_hunk) (use keep start lines(2) out(1) in simp_all)
  with src out(2) show ?case by (metis append.assoc)
qed

lemma apply_each_complete:
  assumes "patches cursor (drop cursor source) hs out" "cursor \<le> length source"
  shows "\<exists>c acc'. apply_each source hs cursor acc = Ok (c, acc') \<and> acc' @ drop c source = acc @ out"
  using assms
proof (induction hs arbitrary: cursor out acc)
  case Nil
  then show ?case by (simp add: patches_Nil)
next
  case (Cons h hs)
  let ?start = "hunk_position h" and ?old = "old_side (hunk_lines h)" and ?new = "new_side (hunk_lines h)"
  from Cons.prems(1) obtain keep src out' where p: "drop cursor source = keep @ ?old @ src"
    "out = keep @ ?new @ out'" "?start = cursor + length keep" "new_count h = length ?new"
    "patches (cursor + length keep + length ?old) src hs out'"
    by (auto elim: patches_ConsE)
  have len: "length source = cursor + length keep + length ?old + length src"
    using arg_cong [OF p(1), of length] Cons.prems(2) by simp
  have keep: "take (?start - cursor) (drop cursor source) = keep" using p(1,3) by simp
  have at: "drop ?start source = ?old @ src"
  proof -
    have "drop ?start source = drop (length keep) (drop cursor source)" by (simp add: p(3) add.commute)
    then show ?thesis by (simp add: p(1))
  qed
  have rest: "drop (?start + length ?old) source = src"
  proof -
    have "drop (?start + length ?old) source = drop (length ?old) (drop ?start source)"
      by (simp add: add.commute)
    then show ?thesis by (simp add: at)
  qed
  have "patches (?start + length ?old) (drop (?start + length ?old) source) hs out'"
    unfolding rest unfolding p(3) by (rule p(5))
  moreover have "?start + length ?old \<le> length source" using len p(3) by simp
  ultimately obtain c acc' where
    "apply_each source hs (?start + length ?old) (acc @ keep @ ?new) = Ok (c, acc')"
    "acc' @ drop c source = (acc @ keep @ ?new) @ out'"
    using Cons.IH by blast
  moreover have "take (length ?old) (drop ?start source) = ?old" by (simp add: at)
  ultimately have "apply_each source (h # hs) cursor acc = Ok (c, acc')"
    unfolding apply_each_Cons keep using len p(3,4) by simp
  with \<open>acc' @ drop c source = _\<close> p(2) show ?case by simp
qed

section \<open>Files\<close>

lemma check_components_target: "check_components fs r target xs = Ok t \<Longrightarrow> t = target @ xs"
  by (induction fs r target xs rule: check_components.induct) (auto simp: and_then_Ok)

lemma checked_target_Ok:
  assumes "checked_target fs cwd root relative = Ok target"
  shows "validate_relative_path relative = Ok () \<and> plain_path fs target \<and> canon_names fs target = Ok target
     \<and> (\<exists>dir. canonicalize fs cwd root = Ok dir
          \<and> target = dir @ map component_text (path_components relative))"
proof -
  from assms obtain dir where d: "canonicalize fs cwd root = Ok dir"
    "check_components fs relative dir (map component_text (path_components relative)) = Ok target"
    "validate_relative_path relative = Ok ()" "canon_names fs target = Ok target"
    by (auto simp: checked_target_def and_then_Ok)
  have "plain_path fs target"
    using d(4) canon_result_plain [of max_links fs "[]" "map Normal target" target]
    by (simp add: canon_names_def)
  with d check_components_target [OF d(2)] show ?thesis by blast
qed

lemma read_plain:
  "canon_names fs p = Ok p \<Longrightarrow> read_to_string fs p = Ok s \<longleftrightarrow> lookup_node fs p = Some (Text s)"
proof (cases "lookup_node fs p")
  case (Some n)
  then show "canon_names fs p = Ok p \<Longrightarrow> ?thesis"
    by (cases n) (auto simp: read_to_string_def metadata_def)
qed (auto simp: read_to_string_def metadata_def)

lemma apply_prepared_cases:
  assumes "apply_prepared fs cwd root p = (r, fs')"
  shows "(fs' = fs \<and> (\<forall>out. r \<noteq> Ok out))
     \<or> (\<exists>dir names. canonicalize fs cwd root = Ok dir \<and> validate_relative_path (prep_path p) = Ok ()
          \<and> names = dir @ map component_text (path_components (prep_path p)) \<and> plain_path fs names
          \<and> fs names = Some (Text (prep_original p)) \<and> fs' = fs(names \<mapsto> Text (prep_repaired p))
          \<and> (\<forall>out. r = Ok out \<longrightarrow> disposition out = Applied))"
proof (cases "and_then (checked_target fs cwd root (prep_path p)) (\<lambda>target.
           and_then (map_err Io (read_to_string fs target)) (\<lambda>current.
           and_then (reject_if (current \<noteq> prep_original p)
             (StalePatch ''target changed after validation'')) (\<lambda>_.
           and_then (map_err Io (write_file fs target (prep_repaired p))) (\<lambda>fs'. Ok (target, fs')))))")
  case (Inl e)
  with assms show ?thesis by (auto simp: apply_prepared_def)
next
  case (Inr x)
  obtain target fs1 where x: "x = (target, fs1)" by (cases x)
  with Inr have t: "checked_target fs cwd root (prep_path p) = Ok target"
    "read_to_string fs target = Ok (prep_original p)"
    "write_file fs target (prep_repaired p) = Ok fs1"
    by (auto simp: and_then_Ok)
  note T = checked_target_Ok [OF t(1)]
  have node: "lookup_node fs target = Some (Text (prep_original p))"
    using t(2) T read_plain by blast
  then have ne: "target \<noteq> []" by (auto simp: lookup_node_def)
  have "fs1 = fs(target \<mapsto> Text (prep_repaired p))"
    using t(3) T node by (simp add: write_file_def write_node_def)
  moreover have "fs target = Some (Text (prep_original p))" using node ne by (simp add: lookup_node_def)
  moreover have "fs' = fs1" "\<forall>out. r = Ok out \<longrightarrow> disposition out = Applied"
    using assms Inr x by (auto simp: apply_prepared_def and_then_Ok)
  ultimately show ?thesis using T by blast
qed

section \<open>Properties\<close>

text \<open>
  C17: hunks apply exactly. Application succeeds if and only if the file's lines are the kept
  lines interleaved with the old sides of the hunks at their declared positions; the result
  is then the kept lines interleaved with the new sides, and nothing else is touched.
\<close>

theorem apply_hunks_exact:
  "apply_hunks original hs = Ok repaired \<longleftrightarrow>
     (\<exists>out. patches 0 (split_char LF original) hs out \<and> repaired = join [LF] out)"
proof
  assume "apply_hunks original hs = Ok repaired"
  then obtain c acc where "apply_each (split_char LF original) hs 0 [] = Ok (c, acc)"
    "repaired = join [LF] (acc @ drop c (split_char LF original))"
    by (auto simp: apply_hunks_def Let_def and_then_Ok)
  with apply_each_sound [OF this(1)] show "\<exists>out. patches 0 (split_char LF original) hs out
      \<and> repaired = join [LF] out" by auto
next
  assume "\<exists>out. patches 0 (split_char LF original) hs out \<and> repaired = join [LF] out"
  then obtain out where out: "patches 0 (split_char LF original) hs out" "repaired = join [LF] out" by blast
  with apply_each_complete [of 0 "split_char LF original" hs out "[]"]
  show "apply_hunks original hs = Ok repaired" by (auto simp: apply_hunks_def Let_def and_then_Ok)
qed

text \<open>
  C16: a repair is confined. Whatever other processes do between preparation and application,
  the call changes at most one file: the regular file that the suggestion names below the
  canonical repository root, reached through no symbolic link, which still has the content
  that was validated; and it does so only for an allowed automation actor whose repair was
  prepared and is to be applied.
\<close>

theorem repair_confined:
  assumes "repair_feedback interfere fs cwd root allowlist f decision = (r, fs')"
  shows "fs' = fs \<or> fs' = interfere fs
     \<or> (\<exists>p dir names. decision = Apply \<and> is_automation f \<and> actor_type f = ''Bot'' \<and> actor_login f \<in> set allowlist
          \<and> prepare_repair fs cwd root f = Ok p
          \<and> canonicalize (interfere fs) cwd root = Ok dir
          \<and> names = dir @ map component_text (path_components (prep_path p))
          \<and> list_all is_normal (path_components (prep_path p))
          \<and> plain_path (interfere fs) names
          \<and> interfere fs names = Some (Text (prep_original p))
          \<and> fs' = (interfere fs)(names \<mapsto> Text (prep_repaired p)))"
proof (cases "is_automation f \<and> actor_type f = ''Bot'' \<and> actor_login f \<in> set allowlist \<and> decision = Apply
    \<and> is_ok (prepare_repair fs cwd root f)")
  case True
  then obtain p where p: "prepare_repair fs cwd root f = Ok p" by (auto simp: is_ok_iff)
  with True assms have "apply_prepared (interfere fs) cwd root p = (r, fs')"
    by (simp add: repair_feedback_def list_ex_iff)
  from apply_prepared_cases [OF this] show ?thesis
  proof (elim disjE exE conjE)
    fix dir names
    assume *: "canonicalize (interfere fs) cwd root = Ok dir" "validate_relative_path (prep_path p) = Ok ()"
      "names = dir @ map component_text (path_components (prep_path p))" "plain_path (interfere fs) names"
      "interfere fs names = Some (Text (prep_original p))"
      "fs' = (interfere fs)(names \<mapsto> Text (prep_repaired p))"
    have "list_all is_normal (path_components (prep_path p))"
      using feedback_path.accepts_normal [OF *(2)] by (simp add: normal_only_def)
    with * True p show ?thesis by blast
  qed blast
next
  case False
  with assms show ?thesis
    by (auto simp: repair_feedback_def list_ex_iff is_ok_iff split: if_splits sum.splits repair_decision.splits)
qed

text \<open>
  Only an applied repair may resolve a review thread: an outcome is eligible if and only
  if it is applied, and then the feedback came from an allowed automation actor and the call
  was asked to apply it.
\<close>

theorem resolution_needs_application:
  assumes "repair_feedback interfere fs cwd root allowlist f decision = (Ok out, fs')"
  shows "(resolution_eligible out \<longleftrightarrow> disposition out = Applied)
     \<and> (disposition out = Applied \<longleftrightarrow> decision = Apply \<and> is_automation f \<and> actor_type f = ''Bot''
          \<and> actor_login f \<in> set allowlist)"
  using assms
  by (auto simp: repair_feedback_def apply_prepared_def and_then_Ok non_mutating_def list_ex_iff
      split: if_splits sum.splits repair_decision.splits prod.splits)

section \<open>A concrete repair\<close>

definition sample_files :: file_system where
  "sample_files p =
     (if p = [''repo''] then Some Directory
      else if p = [''repo'', ''a.txt''] then Some (Text (join [LF] [''one'', ''two'', '''']))
      else None)"

definition sample_feedback :: feedback where
  "sample_feedback = \<lparr>actor_login = ''linter[bot]'', actor_type = ''Bot'', is_automation = True,
     body = suggestion_marker @ ''TWO'' @ [LF] @ fence, fb_path = Some ''a.txt'',
     start_line = None, line = Some 2\<rparr>"

definition sample_prepared :: prepared_repair where
  "sample_prepared = \<lparr>prep_path = ''a.txt'', prep_original = join [LF] [''one'', ''two'', ''''],
     prep_repaired = join [LF] [''one'', ''TWO'', '''']\<rparr>"

lemma sample_prepare: "prepare_repair sample_files [] ''/repo'' sample_feedback = Ok sample_prepared"
proof -
  let ?b = "body sample_feedback"
  have size: "length ?b \<le> max_patch_bytes"
  proof -
    have "length ?b \<le> 100" by code_simp
    then show ?thesis by simp
  qed
  have ev: "CR \<notin> set ?b" "count_sub suggestion_marker ?b = 1"
    "find_sub suggestion_marker ?b = Some 0"
    "find_sub (LF # fence) (drop (0 + length suggestion_marker) ?b) = Some 3"
    "\<not> contains_sub fence (take 3 (drop (0 + length suggestion_marker) ?b))"
    "take 3 (drop (0 + length suggestion_marker) ?b) = ''TWO''"
    "Option.bind (strip_prefix suggestion_marker ?b) (strip_suffix (LF # fence)) = Some ''TWO''"
    "strip_suffix [LF] ?b = None" "\<not> contains_sub fence ''TWO''" "\<not> starts_with ''--- a/'' ''TWO''"
    by code_simp+
  have exact: "extract_exact_suggestion ?b = Ok ''TWO''"
    using size ev by (simp add: extract_exact_suggestion_def Let_def)
  have inline: "extract_inline_suggestion ?b = Ok ''TWO''"
    using size ev by (simp add: extract_inline_suggestion_def Let_def)
  have fields: "fb_path sample_feedback = Some ''a.txt''" "line sample_feedback = Some 2"
    "start_line sample_feedback = None" by (simp_all add: sample_feedback_def)
  have "checked_target sample_files [] ''/repo'' ''a.txt'' = Ok [''repo'', ''a.txt'']"
    "read_to_string sample_files [''repo'', ''a.txt''] = Ok (prep_original sample_prepared)"
    "apply_inline_suggestion (prep_original sample_prepared) 2 2 ''TWO'' = Ok (prep_repaired sample_prepared)"
    by code_simp+
  with exact inline fields ev(10) show ?thesis
    by (simp add: prepare_repair_def Let_def sample_prepared_def)
qed

lemma sample_repair:
  "repair_feedback id sample_files [] ''/repo'' [''linter[bot]''] sample_feedback Apply =
     (Ok \<lparr>disposition = Applied, outcome_path = Some ''a.txt'', resolution_eligible = True\<rparr>,
      sample_files([''repo'', ''a.txt''] \<mapsto> Text (prep_repaired sample_prepared)))"
proof -
  have a: "checked_target sample_files [] ''/repo'' ''a.txt'' = Ok [''repo'', ''a.txt'']"
    "read_to_string sample_files [''repo'', ''a.txt''] = Ok (prep_original sample_prepared)"
    "canon_names sample_files [''repo'', ''a.txt''] = Ok [''repo'', ''a.txt'']"
    "lookup_node sample_files [''repo'', ''a.txt''] \<noteq> Some Directory" by code_simp+
  then have b: "write_file sample_files [''repo'', ''a.txt''] (prep_repaired sample_prepared) =
      Ok (sample_files([''repo'', ''a.txt''] \<mapsto> Text (prep_repaired sample_prepared)))"
    by (simp add: write_file_def write_node_def)
  have c: "read_to_string (sample_files([''repo'', ''a.txt''] \<mapsto> Text (prep_repaired sample_prepared)))
      [''repo'', ''a.txt''] = Ok (prep_repaired sample_prepared)" by code_simp
  have "apply_prepared sample_files [] ''/repo'' sample_prepared =
      (Ok \<lparr>disposition = Applied, outcome_path = Some ''a.txt'', resolution_eligible = True\<rparr>,
       sample_files([''repo'', ''a.txt''] \<mapsto> Text (prep_repaired sample_prepared)))"
    using a b c by (simp add: apply_prepared_def sample_prepared_def)
  moreover have "is_automation sample_feedback" "actor_type sample_feedback = ''Bot''"
    "actor_login sample_feedback = ''linter[bot]''" by (simp_all add: sample_feedback_def)
  ultimately show ?thesis by (simp add: repair_feedback_def sample_prepare)
qed

theorem repair_confined_witness:
  "(let fs' = sample_files([''repo'', ''a.txt''] \<mapsto> Text (prep_repaired sample_prepared))
    in fs' = sample_files \<or> fs' = id sample_files
      \<or> (\<exists>p dir names. prepare_repair sample_files [] ''/repo'' sample_feedback = Ok p
           \<and> canonicalize sample_files [] ''/repo'' = Ok dir
           \<and> names = dir @ map component_text (path_components (prep_path p))
           \<and> fs' = sample_files(names \<mapsto> Text (prep_repaired p))))"
  using repair_confined [OF sample_repair] unfolding Let_def id_apply by blast

theorem resolution_needs_application_witness:
  "actor_login sample_feedback \<in> set [''linter[bot]'']"
  using resolution_needs_application [OF sample_repair] by simp

end
