(* ===== verification/Events.thy ===== *)
theory Events
  imports Models
begin

text \<open>
  GitHub deliveries, \<open>src/github/events.rs\<close>: the envelope built from a payload, the access
  lifecycle it stands for, and the pull request, control, feedback and check records read
  from it. The RFC 3339 parser is a parameter.
\<close>

record feedback_record =
  fr_id :: string
  fr_actor_login :: string
  fr_actor_type :: string
  fr_body :: string
  fr_resolved :: bool
  fr_is_automation :: bool
  fr_path :: "string option"
  fr_start_line :: "nat option"
  fr_line :: "nat option"

record check_record =
  cr_external_id :: string
  cr_name :: string
  cr_app_id :: "i64 option"
  cr_status :: string
  cr_conclusion :: "string option"
  cr_details_url :: "string option"

record delivery_envelope =
  delivery_id :: string
  event_name :: string
  action :: "string option"
  installation_id :: "i64 option"
  env_repository_id :: "i64 option"
  env_pull_request_number :: "i32 option"
  payload :: json
  raw_body :: string

record check_run_control =
  control_check_run_id :: i64
  control_action_text :: string
  control_actor_login :: string

datatype access_lifecycle =
  SuspendInstallation | ResumeInstallation | DeleteInstallation | RemoveRepositories | AddRepositories

datatype event_parse_error = MissingField string | InvalidValue string string

definition str_at :: "string \<Rightarrow> json \<Rightarrow> string option" where
  "str_at p v = Option.bind (pointer p v) as_str"

definition i64_at :: "string \<Rightarrow> json \<Rightarrow> i64 option" where
  "i64_at p v = Option.bind (pointer p v) as_i64"

definition u32_at :: "string \<Rightarrow> json \<Rightarrow> nat option" where
  "u32_at p v = Option.bind (Option.bind (pointer p v) as_u64) (\<lambda>n. if n \<le> u32_max then Some n else None)"

definition get_str :: "string \<Rightarrow> json \<Rightarrow> string option" where
  "get_str k v = Option.bind (jget k v) as_str"

definition get_i64 :: "string \<Rightarrow> json \<Rightarrow> i64 option" where
  "get_i64 k v = Option.bind (jget k v) as_i64"

definition to_i32 :: "i64 \<Rightarrow> i32 option" where
  "to_i32 i = (if i32_min \<le> i \<and> i \<le> i32_max then Some i else None)"

definition number_paths :: "string list" where
  "number_paths = [''/pull_request/number'', ''/issue/number'', ''/check_run/pull_requests/0/number'',
     ''/check_suite/pull_requests/0/number'', ''/workflow_run/pull_requests/0/number'']"

text \<open>A chain of \<open>or_else\<close> over pointers: the first that is present.\<close>

fun first_pointer :: "string list \<Rightarrow> json \<Rightarrow> json option" where
  "first_pointer [] v = None"
| "first_pointer (p # ps) v = or_else (pointer p v) (first_pointer ps v)"

definition from_payload :: "string \<Rightarrow> string \<Rightarrow> json \<Rightarrow> string \<Rightarrow> delivery_envelope" where
  "from_payload did event p raw =
     \<lparr>delivery_id = did, event_name = event,
      action = get_str ''action'' p,
      installation_id = i64_at ''/installation/id'' p,
      env_repository_id = i64_at ''/repository/id'' p,
      env_pull_request_number = Option.bind (Option.bind (first_pointer number_paths p) as_i64) to_i32,
      payload = p, raw_body = raw\<rparr>"

definition supported_events :: "string list" where
  "supported_events = [''installation'', ''installation_repositories'', ''pull_request'',
     ''pull_request_review'', ''pull_request_review_comment'', ''issue_comment'', ''check_run'',
     ''check_suite'', ''workflow_run'', ''status'']"

definition is_supported :: "delivery_envelope \<Rightarrow> bool" where
  "is_supported d \<longleftrightarrow> event_name d \<in> set supported_events"

definition lifecycle_of :: "delivery_envelope \<Rightarrow> access_lifecycle option" where
  "lifecycle_of d =
     (if event_name d = ''installation'' \<and> action d = Some ''suspend'' then Some SuspendInstallation
      else if event_name d = ''installation'' \<and> action d = Some ''unsuspend'' then Some ResumeInstallation
      else if event_name d = ''installation'' \<and> action d = Some ''deleted'' then Some DeleteInstallation
      else if event_name d = ''installation_repositories'' \<and> action d = Some ''removed''
      then Some RemoveRepositories
      else if event_name d = ''installation_repositories'' \<and> action d = Some ''added''
      then Some AddRepositories
      else None)"

definition head_sha_of :: "delivery_envelope \<Rightarrow> string option" where
  "head_sha_of d =
     or_else (get_str ''sha'' (payload d))
       (or_else (str_at ''/workflow_run/head_sha'' (payload d))
         (or_else (str_at ''/check_run/head_sha'' (payload d))
           (str_at ''/check_suite/head_sha'' (payload d))))"

section \<open>Records\<close>

definition required_i64 :: "json \<Rightarrow> string \<Rightarrow> (event_parse_error, i64) result" where
  "required_i64 v field = ok_or (MissingField field) (get_i64 field v)"

definition required_string :: "json \<Rightarrow> string \<Rightarrow> (event_parse_error, string) result" where
  "required_string v field = ok_or (MissingField field) (get_str field v)"

definition required_nested_string :: "json \<Rightarrow> string \<Rightarrow> string \<Rightarrow> (event_parse_error, string) result" where
  "required_nested_string v object field =
     ok_or (MissingField ''pull_request.head/base field'')
       (Option.bind (jget object v) (get_str field))"

definition parse_timestamp ::
  "(string \<Rightarrow> timestamp option) \<Rightarrow> json \<Rightarrow> string \<Rightarrow> (event_parse_error, timestamp) result" where
  "parse_timestamp rfc3339 v field =
     and_then (ok_or (MissingField field) (get_str field v)) (\<lambda>source.
     ok_or (InvalidValue field source) (rfc3339 source))"

definition snapshot_state :: "json \<Rightarrow> bool \<Rightarrow> (event_parse_error, pull_request_state) result" where
  "snapshot_state pr is_merged =
     (if is_merged then Ok Pr_Merged
      else and_then (required_string pr ''state'') (\<lambda>s.
        if s = ''open'' then Ok Pr_Open
        else if s = ''closed'' then Ok Pr_Closed
        else Err (InvalidValue ''pull_request.state'' s)))"

definition bool_or_false :: "string \<Rightarrow> json \<Rightarrow> bool" where
  "bool_or_false k v = (Option.bind (jget k v) as_bool = Some True)"

definition pull_request_snapshot_of ::
  "(string \<Rightarrow> timestamp option) \<Rightarrow> delivery_envelope
     \<Rightarrow> (event_parse_error, pull_request_snapshot option) result" where
  "pull_request_snapshot_of rfc3339 d =
     (if event_name d \<noteq> ''pull_request'' then Ok None
      else
        and_then (ok_or (MissingField ''pull_request'') (jget ''pull_request'' (payload d))) (\<lambda>pr.
        and_then (ok_or (MissingField ''repository.id'') (env_repository_id d)) (\<lambda>repo.
        and_then (required_i64 pr ''id'') (\<lambda>gid.
        and_then (ok_or (MissingField ''pull_request.number'') (env_pull_request_number d)) (\<lambda>n.
        and_then (required_string pr ''title'') (\<lambda>title.
        and_then (ok_or (MissingField ''pull_request.html_url'')
            (Option.bind (or_else (jget ''html_url'' pr) (jget ''url'' pr)) as_str)) (\<lambda>url.
        let is_merged = bool_or_false ''merged'' pr
        in and_then (snapshot_state pr is_merged) (\<lambda>st.
        and_then (ok_or (MissingField ''pull_request.user.login'') (str_at ''/user/login'' pr)) (\<lambda>author.
        and_then (parse_timestamp rfc3339 pr ''updated_at'') (\<lambda>updated.
        and_then (required_nested_string pr ''head'' ''sha'') (\<lambda>head.
        and_then (required_nested_string pr ''base'' ''sha'') (\<lambda>base.
        and_then (required_nested_string pr ''head'' ''ref'') (\<lambda>head_ref.
        and_then (required_nested_string pr ''base'' ''ref'') (\<lambda>base_ref.
        Ok (Some \<lparr>prs_repository_id = repo, prs_github_id = gid, prs_number = n, prs_title = title,
          prs_url = url, prs_state = st, prs_draft = bool_or_false ''draft'' pr, prs_merged = is_merged,
          prs_head_sha = head, prs_base_sha = base, prs_head_branch = head_ref,
          prs_base_branch = base_ref, prs_author_login = author, prs_updated_at = updated\<rparr>)))))))))))))))"

definition check_run_control_of :: "delivery_envelope \<Rightarrow> (event_parse_error, check_run_control option) result" where
  "check_run_control_of d =
     (if event_name d \<noteq> ''check_run'' \<or> action d \<noteq> Some ''requested_action'' then Ok None
      else
        and_then (ok_or (MissingField ''check_run.id'') (i64_at ''/check_run/id'' (payload d))) (\<lambda>i.
        and_then (ok_or (MissingField ''requested_action.identifier'')
            (str_at ''/requested_action/identifier'' (payload d))) (\<lambda>a.
        and_then (ok_or (MissingField ''sender.login'') (str_at ''/sender/login'' (payload d))) (\<lambda>actor.
        Ok (Some \<lparr>control_check_run_id = i, control_action_text = a, control_actor_login = actor\<rparr>)))))"

definition feedback_paths :: "delivery_envelope \<Rightarrow> (string \<times> string \<times> string \<times> string) option" where
  "feedback_paths d =
     (if event_name d = ''issue_comment'' \<and> pointer ''/issue/pull_request'' (payload d) \<noteq> None
      then Some (''issue-comment'', ''/comment/id'', ''/comment/body'', ''/comment/user'')
      else if event_name d = ''pull_request_review''
      then Some (''review'', ''/review/id'', ''/review/body'', ''/review/user'')
      else if event_name d = ''pull_request_review_comment''
      then Some (''review-comment'', ''/comment/id'', ''/comment/body'', ''/comment/user'')
      else None)"

definition feedback_record_of :: "delivery_envelope \<Rightarrow> (event_parse_error, feedback_record option) result" where
  "feedback_record_of d =
     (case feedback_paths d of
        None \<Rightarrow> Ok None
      | Some (prefix, id_path, body_path, actor_path) \<Rightarrow>
          and_then (ok_or (MissingField ''feedback.id'') (i64_at id_path (payload d))) (\<lambda>i.
          let text = (case str_at body_path (payload d) of None \<Rightarrow> [] | Some b \<Rightarrow> b)
          in and_then (ok_or (MissingField ''feedback.user.login'')
               (str_at (actor_path @ ''/login'') (payload d))) (\<lambda>login.
          let kind = (case str_at (actor_path @ ''/type'') (payload d) of None \<Rightarrow> ''User'' | Some t \<Rightarrow> t)
          in Ok (Some \<lparr>fr_id = prefix @ '':'' @ show_int i, fr_actor_login = login, fr_actor_type = kind,
               fr_body = text, fr_resolved = (action d = Some ''dismissed''),
               fr_is_automation = (kind = ''Bot''),
               fr_path = str_at ''/comment/path'' (payload d),
               fr_start_line = u32_at ''/comment/start_line'' (payload d),
               fr_line = u32_at ''/comment/line'' (payload d)\<rparr>))))"

definition check_record_of :: "delivery_envelope \<Rightarrow> (event_parse_error, check_record option) result" where
  "check_record_of d =
     (if event_name d \<noteq> ''check_run'' then Ok None
      else
        and_then (ok_or (MissingField ''check_run'') (jget ''check_run'' (payload d))) (\<lambda>c.
        and_then (ok_or (MissingField ''check_run.id'') (get_i64 ''id'' c)) (\<lambda>i.
        and_then (ok_or (MissingField ''check_run.name'') (get_str ''name'' c)) (\<lambda>n.
        and_then (ok_or (MissingField ''check_run.status'') (get_str ''status'' c)) (\<lambda>st.
        Ok (Some \<lparr>cr_external_id = show_int i, cr_name = n,
          cr_app_id = Option.bind (jget ''app'' c) (get_i64 ''id''), cr_status = st,
          cr_conclusion = get_str ''conclusion'' c, cr_details_url = get_str ''details_url'' c\<rparr>))))))"

end
