(* ===== verification/Github_Types.thy ===== *)
theory Github_Types
  imports Prelude
begin

text \<open>
  The values that \<open>src/github/client.rs\<close> decodes from GitHub's responses and the requests it
  sends, field by field.
\<close>

record comment_author =
  author_login :: string
  author_type :: string

record github_comment =
  gc_id :: i64
  gc_body :: "string option"
  gc_html_url :: "string option"

record check_run_output =
  cro_title :: string
  cro_summary :: string
  cro_text :: "string option"

record check_run_action =
  cra_label :: string
  cra_description :: string
  cra_identifier :: string

record check_run_request =
  crq_name :: string
  crq_head_sha :: string
  crq_status :: string
  crq_conclusion :: "string option"
  crq_details_url :: "string option"
  crq_output :: check_run_output
  crq_actions :: "check_run_action list"

record check_run_update =
  cru_name :: "string option"
  cru_status :: "string option"
  cru_conclusion :: "string option"
  cru_details_url :: "string option"
  cru_output :: "check_run_output option"
  cru_actions :: "check_run_action list"

record check_run =
  crun_id :: i64
  crun_html_url :: "string option"

record pull_request_branch =
  prb_sha :: string
  prb_reference :: "string option"
  prb_repository :: "string option option"

record github_pull_request =
  pr_number :: i32
  pr_draft :: bool
  pr_state :: "string option"
  pr_merged :: "bool option"
  pr_mergeable_state :: "string option"
  pr_mergeable :: "bool option"
  pr_head :: pull_request_branch
  pr_base :: pull_request_branch

record github_open_pull_request =
  opr_id :: i64
  opr_number :: i32
  opr_title :: string
  opr_html_url :: string
  opr_state :: string
  opr_draft :: bool
  opr_merged :: bool
  opr_head :: pull_request_branch
  opr_base :: pull_request_branch
  opr_user :: comment_author
  opr_updated_at :: "timestamp option"

record pull_request_review =
  rv_id :: i64
  rv_body :: "string option"
  rv_state :: string
  rv_submitted_at :: "string option"
  rv_commit_id :: "string option"
  rv_user :: comment_author

record pull_request_comment =
  pc_id :: i64
  pc_body :: "string option"
  pc_user :: comment_author
  pc_path :: "string option"
  pc_start_line :: "nat option"
  pc_line :: "nat option"

record check_run_output_read =
  crr_title :: "string option"
  crr_summary :: "string option"
  crr_text :: "string option"

record github_check_run =
  gcr_id :: i64
  gcr_name :: string
  gcr_status :: string
  gcr_conclusion :: "string option"
  gcr_details_url :: "string option"
  gcr_app :: "i64 option"
  gcr_output :: "check_run_output_read option"

record check_annotation =
  ann_path :: string
  ann_start_line :: "nat option"
  ann_end_line :: "nat option"
  ann_start_column :: "nat option"
  ann_end_column :: "nat option"
  ann_level :: "string option"
  ann_message :: string
  ann_title :: "string option"
  ann_raw_details :: "string option"
  ann_blob_href :: "string option"

record commit_status =
  st_id :: i64
  st_context :: string
  st_state :: string
  st_target_url :: "string option"

record combined_status =
  cst_state :: string
  cst_sha :: string
  cst_statuses :: "commit_status list"

record branch =
  br_name :: string
  br_protected :: bool
  br_commit_sha :: string

record required_status_check =
  rsc_context :: string
  rsc_app_id :: "i64 option"

record required_status_checks =
  rs_strict :: bool
  rs_contexts :: "string list"
  rs_checks :: "required_status_check list"

record required_reviews =
  rr_dismiss_stale :: bool
  rr_code_owners :: bool
  rr_count :: usize
  rr_last_push :: bool

record branch_protection =
  bp_status_checks :: "required_status_checks option"
  bp_reviews :: "required_reviews option"

record pull_request_read_set =
  rd_pull_request :: github_pull_request
  rd_base_branch :: branch
  rd_protection :: branch_protection
  rd_reviews :: "pull_request_review list"
  rd_issue_comments :: "pull_request_comment list"
  rd_review_comments :: "pull_request_comment list"
  rd_check_runs :: "github_check_run list"
  rd_combined_status :: combined_status

end
