(* ===== verification/Reconcile.thy ===== *)
theory Reconcile
  imports Readiness Events Github_Types Feedback_Repair "HOL-Library.Option_ord" "HOL-Library.Product_Lexorder"
begin

text \<open>
  \<open>src/reconcile.rs\<close>: the readiness input, the feedback and the checks that follow from what
  was read of a pull request. Reviews are ordered by time and identifier, a check is the
  latest report under its name with check runs over statuses, and every required check has
  an entry.
\<close>

record reconciled =
  readiness_of :: readiness_input
  feedback_of :: "feedback_record list"
  checks_of :: "check_record list"

section \<open>Checks\<close>

definition commit_status_state :: "string \<Rightarrow> string \<times> string option" where
  "commit_status_state st =
     (if st = ''success'' then (''completed'', Some ''success'')
      else if st = ''failure'' \<or> st = ''error'' then (''completed'', Some ''failure'')
      else if st = ''pending'' then (''in_progress'', None)
      else (''unknown'', None))"

definition check_status_of :: "string \<Rightarrow> check_status" where
  "check_status_of s =
     (if s \<in> {''queued'', ''pending'', ''requested'', ''waiting''} then Queued
      else if s = ''in_progress'' then InProgress
      else if s = ''completed'' then Completed
      else UnknownStatus)"

definition check_conclusion_of :: "string \<Rightarrow> check_conclusion" where
  "check_conclusion_of s =
     (if s = ''success'' then Success
      else if s = ''failure'' then Failure
      else if s = ''cancelled'' then Cancelled
      else if s = ''timed_out'' then TimedOut
      else if s = ''neutral'' then Neutral
      else if s = ''skipped'' then Skipped
      else if s = ''action_required'' then ActionRequired
      else if s = ''stale'' then Stale
      else if s = ''startup_failure'' then StartupFailure
      else UnknownConclusion)"

definition status_record :: "commit_status \<Rightarrow> check_record" where
  "status_record s = \<lparr>cr_external_id = ''status:'' @ show_int (st_id s), cr_name = st_context s,
     cr_app_id = None, cr_status = fst (commit_status_state (st_state s)),
     cr_conclusion = snd (commit_status_state (st_state s)), cr_details_url = st_target_url s\<rparr>"

definition run_record :: "github_check_run \<Rightarrow> check_record" where
  "run_record c = \<lparr>cr_external_id = show_int (gcr_id c), cr_name = gcr_name c, cr_app_id = gcr_app c,
     cr_status = gcr_status c, cr_conclusion = gcr_conclusion c, cr_details_url = gcr_details_url c\<rparr>"

definition check_records :: "pull_request_read_set \<Rightarrow> check_record list" where
  "check_records d =
     (let statuses = sort_key st_id (cst_statuses (rd_combined_status d));
          runs = sort_key gcr_id (rd_check_runs d);
          by_name = fold (\<lambda>s. bt_insert (st_context s) (status_record s)) statuses []
      in bt_values (fold (\<lambda>c. bt_insert (gcr_name c) (run_record c)) runs by_name))"

definition required_check_names :: "pull_request_read_set \<Rightarrow> policy \<Rightarrow> string list" where
  "required_check_names d p =
     sorted_set (policy_required_checks p
       @ (case bp_status_checks (rd_protection d) of
            None \<Rightarrow> [] | Some r \<Rightarrow> rs_contexts r @ map rsc_context (rs_checks r)))"

definition required_check_app_id :: "pull_request_read_set \<Rightarrow> string \<Rightarrow> i64 option" where
  "required_check_app_id d n =
     Option.bind (bp_status_checks (rd_protection d)) (\<lambda>r.
     Option.bind (find (\<lambda>c. rsc_context c = n) (rs_checks r)) rsc_app_id)"

definition snapshot_of_record :: "pull_request_read_set \<Rightarrow> string list \<Rightarrow> check_record \<Rightarrow> check_snapshot" where
  "snapshot_of_record d required_set c = \<lparr>cs_name = cr_name c, cs_app_id = cr_app_id c,
     cs_required_app_id = required_check_app_id d (cr_name c), cs_status = check_status_of (cr_status c),
     cs_conclusion = map_option check_conclusion_of (cr_conclusion c),
     cs_required = (cr_name c \<in> set required_set)\<rparr>"

definition missing_snapshot :: "pull_request_read_set \<Rightarrow> string \<Rightarrow> check_snapshot" where
  "missing_snapshot d n = \<lparr>cs_name = n, cs_app_id = None, cs_required_app_id = required_check_app_id d n,
     cs_status = UnknownStatus, cs_conclusion = None, cs_required = True\<rparr>"

text \<open>\<open>map.entry(k).or_insert(v)\<close>.\<close>

definition or_insert :: "'k::linorder \<Rightarrow> 'v \<Rightarrow> ('k, 'v) btree_map \<Rightarrow> ('k, 'v) btree_map" where
  "or_insert k v m = (if bt_get m k = None then bt_insert k v m else m)"

definition readiness_checks ::
  "pull_request_read_set \<Rightarrow> policy \<Rightarrow> (string, check_snapshot) btree_map" where
  "readiness_checks d p =
     (let names = required_check_names d p;
          reported = fold (\<lambda>c. bt_insert (cr_name c) (snapshot_of_record d names c)) (check_records d) []
      in fold (\<lambda>n. or_insert n (missing_snapshot d n)) names reported)"

section \<open>Reviews\<close>

definition is_decision :: "pull_request_review \<Rightarrow> bool" where
  "is_decision r \<longleftrightarrow> rv_state r \<in> {''APPROVED'', ''CHANGES_REQUESTED'', ''DISMISSED''}"

definition ordered_reviews :: "pull_request_review list \<Rightarrow> pull_request_review list" where
  "ordered_reviews reviews = sort_key (\<lambda>r. (rv_submitted_at r, rv_id r)) reviews"

definition latest_review_reviews ::
  "pull_request_review list \<Rightarrow> (string, pull_request_review) btree_map" where
  "latest_review_reviews reviews =
     fold (\<lambda>r m. if is_decision r then bt_insert (author_login (rv_user r)) r m else m)
       (ordered_reviews reviews) []"

definition latest_review_decisions :: "pull_request_review list \<Rightarrow> (string, string) btree_map" where
  "latest_review_decisions reviews =
     fold (\<lambda>r m. if is_decision r then bt_insert (author_login (rv_user r)) (rv_state r) m else m)
       (ordered_reviews reviews) []"

fun count_approvals :: "string \<Rightarrow> pull_request_review list \<Rightarrow> nat \<times> bool \<Rightarrow> nat \<times> bool" where
  "count_approvals head [] (n, stale) = (n, stale)"
| "count_approvals head (r # rs) (n, stale) =
     (if rv_state r \<noteq> ''APPROVED'' then count_approvals head rs (n, stale)
      else case rv_commit_id r of
          None \<Rightarrow> count_approvals head rs (n + 1, stale)
        | Some commit \<Rightarrow>
            if commit = head then count_approvals head rs (n + 1, stale)
            else count_approvals head rs (n, True))"

definition current_approval_count :: "pull_request_review list \<Rightarrow> string \<Rightarrow> nat \<times> bool" where
  "current_approval_count reviews head =
     count_approvals head (bt_values (latest_review_reviews reviews)) (0, False)"

section \<open>Feedback\<close>

definition nonempty_body :: "string option \<Rightarrow> string option" where
  "nonempty_body b = Option.bind b (\<lambda>t. if trim t = [] then None else Some (trim t))"

definition is_automation_author :: "comment_author \<Rightarrow> policy \<Rightarrow> bool" where
  "is_automation_author a p \<longleftrightarrow>
     author_type a = ''Bot'' \<or> is_configured_automation_actor p (author_login a)"

definition review_record ::
  "(string, string) btree_map \<Rightarrow> policy \<Rightarrow> pull_request_review \<Rightarrow> feedback_record option" where
  "review_record latest p r = map_option (\<lambda>text.
     \<lparr>fr_id = ''review:'' @ show_int (rv_id r), fr_actor_login = author_login (rv_user r),
      fr_actor_type = author_type (rv_user r), fr_body = text,
      fr_resolved = (rv_state r \<in> {''APPROVED'', ''DISMISSED''}
        \<or> bt_get latest (author_login (rv_user r)) \<in> {Some ''APPROVED'', Some ''DISMISSED''}),
      fr_is_automation = is_automation_author (rv_user r) p,
      fr_path = None, fr_start_line = None, fr_line = None\<rparr>) (nonempty_body (rv_body r))"

definition comment_record :: "string \<Rightarrow> policy \<Rightarrow> pull_request_comment \<Rightarrow> feedback_record option" where
  "comment_record prefix p c = map_option (\<lambda>text.
     \<lparr>fr_id = prefix @ '':'' @ show_int (pc_id c), fr_actor_login = author_login (pc_user c),
      fr_actor_type = author_type (pc_user c), fr_body = text, fr_resolved = False,
      fr_is_automation = is_automation_author (pc_user c) p,
      fr_path = pc_path c, fr_start_line = pc_start_line c, fr_line = pc_line c\<rparr>) (nonempty_body (pc_body c))"

text \<open>\<open>dedup_by\<close> on a key: of adjacent equal keys the first stays.\<close>

fun dedup_key :: "('a \<Rightarrow> 'k) \<Rightarrow> 'a list \<Rightarrow> 'a list" where
  "dedup_key f [] = []"
| "dedup_key f [x] = [x]"
| "dedup_key f (x # y # ys) = (if f x = f y then dedup_key f (x # ys) else x # dedup_key f (y # ys))"

definition feedback_records :: "pull_request_read_set \<Rightarrow> policy \<Rightarrow> feedback_record list" where
  "feedback_records d p =
     (let latest = latest_review_decisions (rd_reviews d)
      in dedup_key fr_id (sort_key fr_id
          (List.map_filter (review_record latest p) (rd_reviews d)
           @ List.map_filter (comment_record ''issue-comment'' p) (rd_issue_comments d)
           @ List.map_filter (comment_record ''review-comment'' p) (rd_review_comments d))))"

definition feedback_snapshot_of :: "feedback_record \<Rightarrow> feedback_snapshot" where
  "feedback_snapshot_of r = \<lparr>fs_id = fr_id r, fs_actor_login = fr_actor_login r,
     fs_actor_type = fr_actor_type r, fs_body = fr_body r, fs_resolved = fr_resolved r,
     fs_is_automation = fr_is_automation r\<rparr>"

section \<open>The reconciled pull request\<close>

definition no_reviews_required :: required_reviews where
  "no_reviews_required =
     \<lparr>rr_dismiss_stale = False, rr_code_owners = False, rr_count = 0, rr_last_push = False\<rparr>"

definition reconcile_read_set :: "pull_request_read_set \<Rightarrow> policy \<Rightarrow> reconciled" where
  "reconcile_read_set d p =
     (let fb = feedback_records d p;
          head = prb_sha (pr_head (rd_pull_request d));
          (approvals, stale) = current_approval_count (rd_reviews d) head;
          requirements = (case bp_reviews (rd_protection d) of None \<Rightarrow> no_reviews_required | Some r \<Rightarrow> r);
          latest_push = list_ex (\<lambda>r. rv_state r = ''APPROVED'' \<and> rv_commit_id r = Some head)
            (bt_values (latest_review_reviews (rd_reviews d)))
      in \<lparr>readiness_of =
           \<lparr>mergeable = pr_mergeable (rd_pull_request d),
            branch_is_current =
              (prb_sha (pr_base (rd_pull_request d)) = br_commit_sha (rd_base_branch d)),
            required_checks = bt_values (readiness_checks d p),
            approved = (approvals > 0),
            approval_count = approvals,
            required_approval_count = rr_count requirements,
            stale_approval_present = stale,
            last_push_approval_required = rr_last_push requirements,
            latest_push_approval = (latest_push \<or> approvals > 0),
            code_owner_review_required = rr_code_owners requirements,
            code_owner_review_satisfied = (\<not> rr_code_owners requirements
              \<or> (case pr_mergeable_state (rd_pull_request d) of
                   None \<Rightarrow> False | Some st \<Rightarrow> st \<notin> {''blocked'', ''unknown''})),
            unresolved_feedback = map feedback_snapshot_of (filter (\<lambda>r. \<not> fr_resolved r) fb),
            is_draft = pr_draft (rd_pull_request d)\<rparr>,
          feedback_of = fb,
          checks_of = check_records d\<rparr>)"

end
