(* ===== verification/Reconcile_Properties.thy ===== *)
theory Reconcile_Properties
  imports Reconcile
begin

text \<open>
  From what was read of a pull request to the merge gate: the latest report decides a check,
  the latest decision of a reviewer decides the approval, and a pull request is evaluated as
  ready only if every required check was reported and passed.
\<close>

section \<open>The latest report of a check\<close>

definition last_of :: "('a \<Rightarrow> bool) \<Rightarrow> 'a list \<Rightarrow> 'a option" where
  "last_of P xs = (case filter P xs of [] \<Rightarrow> None | ys \<Rightarrow> Some (last ys))"

definition latest_report :: "pull_request_read_set \<Rightarrow> string \<Rightarrow> check_record option" where
  "latest_report d n =
     or_else (map_option run_record (last_of (\<lambda>c. gcr_name c = n) (sort_key gcr_id (rd_check_runs d))))
       (map_option status_record
          (last_of (\<lambda>s. st_context s = n) (sort_key st_id (cst_statuses (rd_combined_status d)))))"

lemma find_rev: "find P (rev xs) = last_of P xs"
  by (induction xs rule: rev_induct) (auto simp: last_of_def filter_empty_conv find_None_iff split: list.splits)

lemma last_of_Some: "last_of P xs = Some x \<Longrightarrow> x \<in> set xs \<and> P x"
proof -
  assume "last_of P xs = Some x"
  then have "x \<in> set (filter P xs)"
    unfolding last_of_def using last_in_set [of "filter P xs"] by (auto split: list.splits)
  then show ?thesis by simp
qed

definition records_by_name :: "pull_request_read_set \<Rightarrow> (string, check_record) btree_map" where
  "records_by_name d =
     fold (\<lambda>c. bt_insert (gcr_name c) (run_record c)) (sort_key gcr_id (rd_check_runs d))
       (fold (\<lambda>s. bt_insert (st_context s) (status_record s))
          (sort_key st_id (cst_statuses (rd_combined_status d))) [])"

lemma check_records_map: "check_records d = bt_values (records_by_name d)"
  by (simp add: check_records_def records_by_name_def Let_def)

lemma records_by_name_inv: "bt_inv (records_by_name d)"
  unfolding records_by_name_def by (intro btm.inv_inserts) simp

lemma records_by_name_get: "bt_get (records_by_name d) n = latest_report d n"
  unfolding records_by_name_def latest_report_def
  by (subst btm.get_inserts, rule btm.inv_inserts, simp, subst btm.get_inserts, simp)
    (auto simp: find_rev split: option.split)

lemma latest_report_name: "latest_report d n = Some c \<Longrightarrow> cr_name c = n"
  by (auto simp: latest_report_def or_else_def run_record_def status_record_def
      split: option.splits dest!: last_of_Some)

lemma records_by_name_entry: "(n, c) \<in> set (records_by_name d) \<longleftrightarrow> latest_report d n = Some c"
  using records_by_name_inv [of d] records_by_name_get [of d n]
  by (auto simp: bt_get_def bt_inv_strict)

lemma check_records_set: "c \<in> set (check_records d) \<longleftrightarrow> latest_report d (cr_name c) = Some c"
  using latest_report_name [of d _ c]
  by (auto simp: check_records_map bt_values_def records_by_name_entry [symmetric]) force+

lemma check_records_names: "map cr_name (check_records d) = bt_keys (records_by_name d)"
  using latest_report_name by (force simp: check_records_map bt_values_def bt_keys_def records_by_name_entry)

section \<open>The checks of the readiness input\<close>

lemma or_inserts:
  assumes "bt_inv m"
  shows "bt_inv (fold (\<lambda>n. or_insert n (f n)) ns m)
     \<and> bt_get (fold (\<lambda>n. or_insert n (f n)) ns m) k =
         (case bt_get m k of Some x \<Rightarrow> Some x | None \<Rightarrow> if k \<in> set ns then Some (f k) else None)"
  using assms
proof (induction ns arbitrary: m)
  case (Cons n ns)
  have "bt_inv (or_insert n (f n) m)" using Cons.prems by (auto simp: or_insert_def)
  from Cons.IH [OF this] Cons.prems show ?case
    by (auto simp: or_insert_def split: option.splits)
qed (simp split: option.split)

lemma set_required_check_names:
  "set (required_check_names d p) = set (policy_required_checks p)
     \<union> (case bp_status_checks (rd_protection d) of None \<Rightarrow> {}
        | Some r \<Rightarrow> set (rs_contexts r) \<union> rsc_context ` set (rs_checks r))"
  by (auto simp: required_check_names_def split: option.splits)

definition expected_snapshot :: "pull_request_read_set \<Rightarrow> policy \<Rightarrow> string \<Rightarrow> check_snapshot option" where
  "expected_snapshot d p n = (case latest_report d n of
       Some c \<Rightarrow> Some (snapshot_of_record d (required_check_names d p) c)
     | None \<Rightarrow> if n \<in> set (required_check_names d p) then Some (missing_snapshot d n) else None)"

lemma find_name: "find (\<lambda>x. f x = k) (rev xs) = Some x \<Longrightarrow> x \<in> set xs \<and> f x = k"
  by (auto simp: find_rev dest: last_of_Some)

lemma find_append_one:
  "find Q (zs @ [z]) = (case find Q zs of None \<Rightarrow> if Q z then Some z else None | Some w \<Rightarrow> Some w)"
  by (induction zs) auto

lemma find_name_unique:
  "distinct (map f xs) \<Longrightarrow> x \<in> set xs \<Longrightarrow> find (\<lambda>y. f y = f x) (rev xs) = Some x"
proof (induction xs)
  case (Cons y ys)
  show ?case
  proof (cases "x = y")
    case True
    with Cons.prems have "find (\<lambda>z. f z = f x) (rev ys) = None"
      by (auto simp: find_None_iff image_iff)
    with True show ?thesis by (simp add: find_append_one)
  qed (use Cons in \<open>auto simp: find_append_one\<close>)
qed simp

lemma readiness_checks_get:
  "bt_inv (readiness_checks d p) \<and> bt_get (readiness_checks d p) n = expected_snapshot d p n"
proof -
  let ?names = "required_check_names d p"
  let ?reported = "fold (\<lambda>c. bt_insert (cr_name c) (snapshot_of_record d ?names c)) (check_records d) []"
  have inv: "bt_inv ?reported" by (rule btm.inv_inserts) simp
  have "find (\<lambda>c. cr_name c = n) (rev (check_records d)) = latest_report d n"
  proof (cases "latest_report d n")
    case None
    then have "\<forall>c \<in> set (check_records d). cr_name c \<noteq> n" by (auto simp: check_records_set)
    with None show ?thesis by (auto simp: find_None_iff)
  next
    case (Some c)
    then have "c \<in> set (check_records d)" "cr_name c = n"
      using latest_report_name by (auto simp: check_records_set)
    moreover have "distinct (map cr_name (check_records d))"
      using btm.keys_sorted [OF records_by_name_inv] by (simp add: check_records_names)
    ultimately show ?thesis using find_name_unique [of cr_name "check_records d" c] Some by simp
  qed
  then have "bt_get ?reported n = map_option (snapshot_of_record d ?names) (latest_report d n)"
    by (subst btm.get_inserts) (auto split: option.split)
  with or_inserts [OF inv, of "missing_snapshot d" ?names n] show ?thesis
    by (auto simp: readiness_checks_def Let_def expected_snapshot_def split: option.splits)
qed

lemma find_values:
  assumes "bt_inv m" "\<And>k v. bt_get m k = Some v \<Longrightarrow> f v = k"
  shows "find (\<lambda>v. f v = n) (bt_values m) = bt_get m n"
proof -
  have "\<forall>e \<in> set m. f (snd e) = fst e"
    using assms by (auto simp: bt_get_def bt_inv_strict)
  then have "find (\<lambda>v. f v = n) (map snd m) = map_of m n" by (induction m) auto
  then show ?thesis by (simp add: bt_values_def bt_get_def)
qed

lemma deciding_check_reconciled:
  "deciding_check (readiness_of (reconcile_read_set d p)) n = expected_snapshot d p n"
proof -
  have "cs_name v = k" if "bt_get (readiness_checks d p) k = Some v" for k v
    using that latest_report_name [of d k] readiness_checks_get [of d p k]
    by (auto simp: expected_snapshot_def snapshot_of_record_def missing_snapshot_def
        split: option.splits if_splits)
  then have "find (\<lambda>c. cs_name c = n) (bt_values (readiness_checks d p)) = expected_snapshot d p n"
    using find_values [of "readiness_checks d p" cs_name n] readiness_checks_get [of d p] by metis
  then show ?thesis
    by (simp add: deciding_check_def reconcile_read_set_def Let_def split: prod.split)
qed

lemma required_name_reconciled:
  "is_required_name (readiness_of (reconcile_read_set d p)) p n \<longleftrightarrow> n \<in> set (required_check_names d p)"
proof -
  let ?i = "readiness_of (reconcile_read_set d p)"
  have checks: "required_checks ?i = bt_values (readiness_checks d p)"
    by (simp add: reconcile_read_set_def Let_def split: prod.split)
  have inv: "bt_inv (readiness_checks d p)" using readiness_checks_get by blast
  have mem: "c \<in> set (required_checks ?i) \<longleftrightarrow> (\<exists>k. expected_snapshot d p k = Some c)" for c
    using readiness_checks_get [of d p] by (simp add: checks bt_values_get [OF inv])
  have "(\<exists>c \<in> set (required_checks ?i). cs_required c \<and> cs_name c = n) \<longleftrightarrow>
      n \<in> set (required_check_names d p)"
  proof
    assume "\<exists>c \<in> set (required_checks ?i). cs_required c \<and> cs_name c = n"
    then show "n \<in> set (required_check_names d p)"
      by (auto simp: mem expected_snapshot_def snapshot_of_record_def missing_snapshot_def
          split: option.splits if_splits)
  next
    assume "n \<in> set (required_check_names d p)"
    then obtain c where "expected_snapshot d p n = Some c" "cs_required c" "cs_name c = n"
      using latest_report_name [of d n]
      by (cases "latest_report d n")
        (auto simp: expected_snapshot_def snapshot_of_record_def missing_snapshot_def)
    then show "\<exists>c \<in> set (required_checks ?i). cs_required c \<and> cs_name c = n" using mem by blast
  qed
  moreover have "set (policy_required_checks p) \<subseteq> set (required_check_names d p)"
    by (simp add: set_required_check_names)
  ultimately show ?thesis unfolding is_required_name_def by blast
qed

section \<open>Approvals\<close>

definition latest_decision :: "pull_request_review list \<Rightarrow> string \<Rightarrow> pull_request_review option" where
  "latest_decision reviews login =
     last_of (\<lambda>r. is_decision r \<and> author_login (rv_user r) = login) (ordered_reviews reviews)"

lemma fold_filter: "fold (\<lambda>x m. if P x then g x m else m) xs m = fold g (filter P xs) m"
  by (induction xs arbitrary: m) auto

lemma latest_reviews_get:
  "bt_inv (latest_review_reviews reviews)
   \<and> bt_get (latest_review_reviews reviews) login = latest_decision reviews login"
proof -
  let ?g = "\<lambda>r. bt_insert (author_login (rv_user r)) r"
  have fold: "latest_review_reviews reviews = fold ?g (filter is_decision (ordered_reviews reviews)) []"
    unfolding latest_review_reviews_def by (rule fold_filter)
  have "last_of Q (filter P xs) = last_of (\<lambda>r. P r \<and> Q r) xs" for P Q and xs :: "pull_request_review list"
    by (simp add: last_of_def conj_commute)
  then show ?thesis
    unfolding fold latest_decision_def
    by (subst btm.get_inserts) (auto simp: find_rev btm.inv_inserts split: option.split)
qed

definition approves :: "string \<Rightarrow> pull_request_review \<Rightarrow> bool" where
  "approves head r \<longleftrightarrow> rv_state r = ''APPROVED'' \<and> rv_commit_id r \<in> {None, Some head}"

lemma count_approvals_filter:
  "fst (count_approvals head rs acc) = fst acc + length (filter (approves head) rs)"
  by (induction head rs acc rule: count_approvals.induct) (auto simp: approves_def split: option.splits)

lemma approval_logins:
  "fst (current_approval_count reviews head) =
     card {login. \<exists>r. latest_decision reviews login = Some r \<and> approves head r}"
proof -
  let ?m = "latest_review_reviews reviews"
  have inv: "bt_inv ?m" using latest_reviews_get by blast
  let ?es = "filter (\<lambda>e. approves head (snd e)) ?m"
  have "fst (current_approval_count reviews head) = length ?es"
    by (simp add: current_approval_count_def count_approvals_filter bt_values_def filter_map comp_def)
  also have "\<dots> = card (set (map fst ?es))"
    using inv distinct_card [of "map fst ?es"] by (simp add: bt_inv_strict distinct_map_filter)
  also have "set (map fst ?es) = {login. \<exists>r. latest_decision reviews login = Some r \<and> approves head r}"
    using latest_reviews_get [of reviews]
    by (auto simp: bt_entry [OF inv] image_iff)
  finally show ?thesis .
qed

section \<open>Properties\<close>

text \<open>
  C18: a pull request that is evaluated as ready after reconciliation has, for every check
  that the branch protection or the policy requires, a report, and the latest report (check
  runs before commit statuses, by identifier) is completed with success or skipped and comes
  from the required app where one is named.
\<close>

theorem reconciled_ready_checks:
  assumes "ready (evaluate now new_id (readiness_of (reconcile_read_set d p)) p)"
    and "n \<in> set (required_check_names d p)"
  shows "\<exists>c. latest_report d n = Some c \<and> cr_name c = n \<and> cr_status c = ''completed''
       \<and> cr_conclusion c \<in> {Some ''success'', Some ''skipped''}
       \<and> (required_check_app_id d n = None \<or> cr_app_id c = required_check_app_id d n)"
proof -
  let ?i = "readiness_of (reconcile_read_set d p)"
  have "set (reason_codes (evaluate now new_id ?i p)) = {}"
    using assms(1) by (simp add: evaluate_def Let_def)
  then have "\<forall>r. \<not> reason_due ?i p r" unfolding set_reason_codes by blast
  then have "merge_ready ?i p" by (simp only: no_reason_iff)
  then obtain s where s: "expected_snapshot d p n = Some s" "right_app s" "passed s"
    using assms(2) required_name_reconciled deciding_check_reconciled by (auto simp: merge_ready_def)
  obtain c where c: "latest_report d n = Some c"
    "s = snapshot_of_record d (required_check_names d p) c"
    using s(1,3) by (auto simp: expected_snapshot_def passed_def missing_snapshot_def
        split: option.splits if_splits)
  have status: "cr_status c = ''completed''"
    using s(3) c(2) by (auto simp: passed_def snapshot_of_record_def check_status_of_def split: if_splits)
  have conclusion: "cr_conclusion c \<in> {Some ''success'', Some ''skipped''}"
    using s(3) c(2)
    by (auto simp: passed_def snapshot_of_record_def check_conclusion_of_def split: if_splits)
  have "required_check_app_id d n = None \<or> cr_app_id c = required_check_app_id d n"
    using s(2) c latest_report_name [OF c(1)] by (auto simp: right_app_def snapshot_of_record_def)
  with status conclusion c(1) latest_report_name [OF c(1)] show ?thesis by blast
qed

text \<open>
  The approval count is the number of reviewers whose latest decision, by time and then
  identifier, approves the current head or names no commit; a reviewer who later requested
  changes or was dismissed does not count.
\<close>

theorem approvals_are_latest_decisions:
  "approval_count (readiness_of (reconcile_read_set d p)) =
     card {login. \<exists>r. latest_decision (rd_reviews d) login = Some r
             \<and> approves (prb_sha (pr_head (rd_pull_request d))) r}
   \<and> (approved (readiness_of (reconcile_read_set d p)) \<longleftrightarrow>
        0 < approval_count (readiness_of (reconcile_read_set d p)))"
  using approval_logins [of "rd_reviews d" "prb_sha (pr_head (rd_pull_request d))"]
  by (auto simp: reconcile_read_set_def Let_def split: prod.split)

section \<open>A pull request that is ready\<close>

definition sample_author :: comment_author where
  "sample_author = \<lparr>author_login = ''alice'', author_type = ''User''\<rparr>"

definition sample_branch :: "string \<Rightarrow> pull_request_branch" where
  "sample_branch sha = \<lparr>prb_sha = sha, prb_reference = None, prb_repository = None\<rparr>"

definition sample_read_set :: pull_request_read_set where
  "sample_read_set = \<lparr>
     rd_pull_request = \<lparr>pr_number = 7, pr_draft = False, pr_state = Some ''open'', pr_merged = Some False,
       pr_mergeable_state = Some ''clean'', pr_mergeable = Some True,
       pr_head = sample_branch ''h1'', pr_base = sample_branch ''b1''\<rparr>,
     rd_base_branch = \<lparr>br_name = ''main'', br_protected = True, br_commit_sha = ''b1''\<rparr>,
     rd_protection = \<lparr>bp_status_checks = Some \<lparr>rs_strict = True, rs_contexts = [],
         rs_checks = [\<lparr>rsc_context = ''test'', rsc_app_id = Some 15\<rparr>]\<rparr>, bp_reviews = None\<rparr>,
     rd_reviews = [
       \<lparr>rv_id = 1, rv_body = None, rv_state = ''CHANGES_REQUESTED'', rv_submitted_at = Some ''a'',
        rv_commit_id = Some ''h0'', rv_user = sample_author\<rparr>,
       \<lparr>rv_id = 2, rv_body = None, rv_state = ''APPROVED'', rv_submitted_at = Some ''b'',
        rv_commit_id = Some ''h1'', rv_user = sample_author\<rparr>],
     rd_issue_comments = [], rd_review_comments = [],
     rd_check_runs = [
       \<lparr>gcr_id = 5, gcr_name = ''test'', gcr_status = ''completed'', gcr_conclusion = Some ''success'',
        gcr_details_url = None, gcr_app = Some 15, gcr_output = None\<rparr>,
       \<lparr>gcr_id = 4, gcr_name = ''test'', gcr_status = ''completed'', gcr_conclusion = Some ''failure'',
        gcr_details_url = None, gcr_app = Some 15, gcr_output = None\<rparr>],
     rd_combined_status = \<lparr>cst_state = ''success'', cst_sha = ''h1'', cst_statuses = []\<rparr>\<rparr>"

theorem reconciled_ready_checks_witness:
  "ready (evaluate 0 1 (readiness_of (reconcile_read_set sample_read_set default_policy)) default_policy)
   \<and> required_check_app_id sample_read_set ''test'' = Some 15
   \<and> (\<exists>c. latest_report sample_read_set ''test'' = Some c \<and> cr_app_id c = Some 15)"
proof -
  have r: "ready (evaluate 0 1 (readiness_of (reconcile_read_set sample_read_set default_policy)) default_policy)"
    by code_simp
  have n: "''test'' \<in> set (required_check_names sample_read_set default_policy)" by code_simp
  have a: "required_check_app_id sample_read_set ''test'' = Some 15" by code_simp
  from reconciled_ready_checks [OF r n] r a show ?thesis by auto
qed

end
