(* ===== verification/Github_Client.thy ===== *)
theory Github_Client
  imports Http Github_Types Json
begin

text \<open>
  The GitHub client, \<open>src/github/client.rs\<close>: one function per request, with the URL it asks
  for, the headers, the bounds on what is read and the checks on pagination links. The world
  is threaded through \<open>send\<close>; the URL crate and the decoders of response bodies are
  parameters.
\<close>

definition max_pagination_pages :: nat where "max_pagination_pages = 100"
definition max_repository_policy_bytes :: nat where "max_repository_policy_bytes = 256 * 1024"
definition max_actions_log_bytes :: nat where "max_actions_log_bytes = 128 * 1024"
definition max_check_annotation_bytes :: nat where "max_check_annotation_bytes = 256 * 1024"
definition max_check_run_annotations :: nat where "max_check_run_annotations = 100"

datatype github_client_error =
    Gh_Client string | Gh_Request string | Gh_Response string | Gh_Api nat string
  | Gh_UnsafePagination | Gh_PaginationLoop | Gh_PaginationLimit | Gh_RepositoryFileTooLarge
  | Gh_WorkflowLogTooLarge | Gh_WorkflowLogNotUtf8 | Gh_CheckAnnotationsTooLarge

text \<open>The bodies that the client sends; their JSON form is derived. The two queries are constants.\<close>

datatype graph_ql_query = Review_Threads_Query | Resolve_Review_Thread_Mutation

datatype github_body =
    Issue_Comment_Body string
  | Base_Update_Body string
  | Graph_Ql_Body graph_ql_query json
  | Check_Run_Body check_run_request
  | Check_Run_Update_Body check_run_update

record 'w github_client =
  gh_api_base :: url
  gh_token :: string
  gh_join :: "url \<Rightarrow> string \<Rightarrow> (string, url) result"
  gh_parse :: "string \<Rightarrow> url option"
  gh_push_segments :: "url \<Rightarrow> string list \<Rightarrow> url option"
  gh_append_query :: "url \<Rightarrow> string \<Rightarrow> string \<Rightarrow> url"
  gh_send :: "github_body http_request \<Rightarrow> ('w, string, http_response) io"
  gh_body_text :: "http_response \<Rightarrow> string option"

type_synonym ('w, 'a) gh = "('w, github_client_error, 'a) io"
type_synonym 'a decoder = "http_response \<Rightarrow> (string, 'a) result"

section \<open>Job identifiers in details URLs\<close>

fun job_segment :: "string list \<Rightarrow> i64 option" where
  "job_segment [] = None"
| "job_segment (x # xs) =
     (if x = ''job'' then
        (case xs of
           [] \<Rightarrow> None
         | i # _ \<Rightarrow> Option.bind (parse_signed i64_min i64_max i) (\<lambda>n. if n > 0 then Some n else None))
      else job_segment xs)"

definition actions_job_id_from_details_url :: "(string \<Rightarrow> url option) \<Rightarrow> string option \<Rightarrow> i64 option" where
  "actions_job_id_from_details_url parse details =
     Option.bind details (\<lambda>d.
     Option.bind (parse d) (\<lambda>u.
     if url_scheme u \<noteq> ''https'' then None
     else Option.bind (url_segments u) job_segment))"

section \<open>Responses\<close>

definition redact :: "string \<Rightarrow> string \<Rightarrow> string" where
  "redact value tok =
     concat (take 4096 (chars (if tok = [] then value else replace_all tok ''[REDACTED]'' value)))"

definition api_error :: "'w github_client \<Rightarrow> http_response \<Rightarrow> github_client_error" where
  "api_error c r = Gh_Api (rs_status r)
     (redact (case gh_body_text c r of None \<Rightarrow> ''unreadable response'' | Some t \<Rightarrow> t) (gh_token c))"

definition decode_response ::
  "'w github_client \<Rightarrow> 'a decoder \<Rightarrow> http_response \<Rightarrow> (github_client_error, 'a) result" where
  "decode_response c decode r =
     (if \<not> is_success r then Err (api_error c r) else map_err Gh_Response (decode r))"

fun bounded_chunks ::
  "(string \<Rightarrow> github_client_error) \<Rightarrow> nat \<Rightarrow> github_client_error \<Rightarrow> string
     \<Rightarrow> (string, string) result list \<Rightarrow> (github_client_error, string) result" where
  "bounded_chunks fault limit too_large body [] = Ok body"
| "bounded_chunks fault limit too_large body (Inl e # cs) = Err (fault e)"
| "bounded_chunks fault limit too_large body (Inr chunk # cs) =
     (if length body + length chunk > limit then Err too_large
      else bounded_chunks fault limit too_large (body @ chunk) cs)"

definition read_bounded_body ::
  "'w github_client \<Rightarrow> nat \<Rightarrow> github_client_error \<Rightarrow> http_response \<Rightarrow> (github_client_error, string) result" where
  "read_bounded_body c limit too_large r =
     (if \<not> is_success r then Err (api_error c r)
      else if (case rs_content_length r of None \<Rightarrow> False | Some n \<Rightarrow> n > limit) then Err too_large
      else bounded_chunks (\<lambda>e. Gh_Response (redact e (gh_token c))) limit too_large [] (rs_chunks r))"

section \<open>Requests\<close>

definition github_json :: string where
  "github_json = ''application/vnd.github+json''"

definition request ::
  "'w github_client \<Rightarrow> http_method \<Rightarrow> url \<Rightarrow> string \<Rightarrow> github_body option \<Rightarrow> github_body http_request" where
  "request c m u accept body = \<lparr>rq_method = m, rq_url = u, rq_bearer = gh_token c, rq_accept = accept,
     rq_body = body\<rparr>"

definition send_get :: "'w github_client \<Rightarrow> url \<Rightarrow> ('w, http_response) gh" where
  "send_get c u = io_map_err (\<lambda>e. Gh_Request (redact e (gh_token c)))
     (gh_send c (request c GET u github_json None))"

definition join_path :: "'w github_client \<Rightarrow> string \<Rightarrow> (github_client_error, url) result" where
  "join_path c p = map_err Gh_Client (gh_join c (gh_api_base c) p)"

definition get_json :: "'w github_client \<Rightarrow> 'a decoder \<Rightarrow> string \<Rightarrow> ('w, 'a) gh" where
  "get_json c decode p =
     io_then (io_lift (join_path c p)) (\<lambda>u.
     io_then (send_get c u) (\<lambda>r. io_lift (decode_response c decode r)))"

definition post_json :: "'w github_client \<Rightarrow> 'a decoder \<Rightarrow> string \<Rightarrow> github_body \<Rightarrow> ('w, 'a) gh" where
  "post_json c decode p body =
     io_then (io_lift (join_path c p)) (\<lambda>u.
     io_then (io_map_err Gh_Request (gh_send c (request c POST u github_json (Some body)))) (\<lambda>r.
     io_lift (decode_response c decode r)))"

definition patch_json :: "'w github_client \<Rightarrow> 'a decoder \<Rightarrow> string \<Rightarrow> github_body \<Rightarrow> ('w, 'a) gh" where
  "patch_json c decode p body =
     io_then (io_lift (join_path c p)) (\<lambda>u.
     io_then (io_map_err Gh_Request (gh_send c (request c PATCH u github_json (Some body)))) (\<lambda>r.
     io_lift (decode_response c decode r)))"

definition get_bounded_json ::
  "'w github_client \<Rightarrow> (string \<Rightarrow> (string, 'a) result) \<Rightarrow> string \<Rightarrow> nat \<Rightarrow> github_client_error \<Rightarrow> ('w, 'a) gh" where
  "get_bounded_json c decode p limit too_large =
     io_then (io_lift (join_path c p)) (\<lambda>u.
     io_then (send_get c u) (\<lambda>r.
     io_then (io_lift (read_bounded_body c limit too_large r)) (\<lambda>body.
     io_lift (map_err Gh_Response (decode body)))))"

section \<open>Pagination\<close>

definition invalid_link :: github_client_error where
  "invalid_link = Gh_Response ''invalid pagination link header''"

fun next_of_links :: "(string \<Rightarrow> url option) \<Rightarrow> string list \<Rightarrow> (github_client_error, url option) result" where
  "next_of_links parse [] = Ok None"
| "next_of_links parse (l # ls) =
     (case map trim (split_char CHR '';'' l) of
        [] \<Rightarrow> next_of_links parse ls
      | target # params \<Rightarrow>
          if \<not> list_ex (\<lambda>p. p = ''rel='' @ [CHR 0x22] @ ''next'' @ [CHR 0x22]) params
          then next_of_links parse ls
          else (case Option.bind (strip_prefix ''<'' target) (strip_suffix ''>'') of
              None \<Rightarrow> Err invalid_link
            | Some t \<Rightarrow> (case parse t of
                  None \<Rightarrow> Err (Gh_Response ''invalid pagination link URL'')
                | Some u \<Rightarrow> Ok (Some u))))"

text \<open>The values of the \<open>Link\<close> header in turn; \<open>None\<close> stands for a value that is no text.\<close>

fun next_link :: "(string \<Rightarrow> url option) \<Rightarrow> string option list \<Rightarrow> (github_client_error, url option) result" where
  "next_link parse [] = Ok None"
| "next_link parse (None # vs) = Err invalid_link"
| "next_link parse (Some v # vs) =
     and_then (next_of_links parse (split_char CHR '','' v)) (\<lambda>n.
     case n of Some u \<Rightarrow> Ok (Some u) | None \<Rightarrow> next_link parse vs)"

definition is_safe_pagination_url :: "'w github_client \<Rightarrow> url \<Rightarrow> bool" where
  "is_safe_pagination_url c u \<longleftrightarrow> url_scheme u = url_scheme (gh_api_base c)
     \<and> url_host u = url_host (gh_api_base c) \<and> url_port u = url_port (gh_api_base c)
     \<and> url_username u = [] \<and> url_password u = None
     \<and> starts_with (url_path (gh_api_base c)) (url_path u)"

text \<open>The rounds that are left, the URL, the URLs fetched and the items so far.\<close>

fun fetch_pages ::
  "'w github_client \<Rightarrow> 'a list decoder \<Rightarrow> nat \<Rightarrow> url \<Rightarrow> string set \<Rightarrow> 'a list \<Rightarrow> ('w, 'a list) gh" where
  "fetch_pages c decode 0 u visited items = io_lift (Err Gh_PaginationLimit)"
| "fetch_pages c decode (Suc n) u visited items =
     (if url_text u \<in> visited then io_lift (Err Gh_PaginationLoop)
      else
        io_then (send_get c u) (\<lambda>r.
        io_then (io_lift (next_link (gh_parse c) (rs_links r))) (\<lambda>next_url.
        io_then (io_lift (decode_response c decode r)) (\<lambda>page.
        case next_url of
          None \<Rightarrow> io_ok (items @ page)
        | Some candidate \<Rightarrow>
            if \<not> is_safe_pagination_url c candidate then io_lift (Err Gh_UnsafePagination)
            else fetch_pages c decode n candidate (insert (url_text u) visited) (items @ page)))))"

definition get_paginated :: "'w github_client \<Rightarrow> 'a list decoder \<Rightarrow> string \<Rightarrow> ('w, 'a list) gh" where
  "get_paginated c decode p =
     io_then (io_lift (join_path c p)) (\<lambda>u. fetch_pages c decode max_pagination_pages u {} [])"

section \<open>Endpoints\<close>

record 'a graph_ql_response =
  gq_data :: "'a option"
  gq_errors :: "string list option"

record review_thread =
  rvt_id :: string
  rvt_comment_ids :: "i64 list"

text \<open>The decoders derived for the response types.\<close>

record github_decoders =
  dec_pull :: "github_pull_request decoder"
  dec_open_pulls :: "github_open_pull_request list decoder"
  dec_reviews :: "pull_request_review list decoder"
  dec_comments :: "pull_request_comment list decoder"
  dec_check_runs :: "github_check_run list decoder"
  dec_check_run :: "github_check_run decoder"
  dec_annotations :: "string \<Rightarrow> (string, check_annotation list) result"
  dec_combined :: "combined_status decoder"
  dec_branch :: "branch decoder"
  dec_protection :: "branch_protection decoder"
  dec_comment :: "github_comment decoder"
  dec_created_run :: "check_run decoder"
  dec_threads :: "review_thread list graph_ql_response decoder"
  dec_resolved :: "bool option graph_ql_response decoder"

definition repo_path :: "string \<Rightarrow> string \<Rightarrow> string \<Rightarrow> string" where
  "repo_path own repo rest = ''repos/'' @ own @ ''/'' @ repo @ rest"

definition get_pull_request ::
  "'w github_client \<Rightarrow> github_decoders \<Rightarrow> string \<Rightarrow> string \<Rightarrow> i32 \<Rightarrow> ('w, github_pull_request) gh" where
  "get_pull_request c ds own repo n =
     get_json c (dec_pull ds) (repo_path own repo (''/pulls/'' @ show_int n))"

definition list_open_pull_requests ::
  "'w github_client \<Rightarrow> github_decoders \<Rightarrow> string \<Rightarrow> string \<Rightarrow> ('w, github_open_pull_request list) gh" where
  "list_open_pull_requests c ds own repo =
     get_paginated c (dec_open_pulls ds) (repo_path own repo ''/pulls?state=open&per_page=100&page=1'')"

definition list_pull_request_reviews ::
  "'w github_client \<Rightarrow> github_decoders \<Rightarrow> string \<Rightarrow> string \<Rightarrow> i32 \<Rightarrow> ('w, pull_request_review list) gh" where
  "list_pull_request_reviews c ds own repo n =
     get_paginated c (dec_reviews ds)
       (repo_path own repo (''/pulls/'' @ show_int n @ ''/reviews?per_page=100&page=1''))"

definition list_issue_comments ::
  "'w github_client \<Rightarrow> github_decoders \<Rightarrow> string \<Rightarrow> string \<Rightarrow> i32 \<Rightarrow> ('w, pull_request_comment list) gh" where
  "list_issue_comments c ds own repo n =
     get_paginated c (dec_comments ds)
       (repo_path own repo (''/issues/'' @ show_int n @ ''/comments?per_page=100&page=1''))"

definition list_review_comments ::
  "'w github_client \<Rightarrow> github_decoders \<Rightarrow> string \<Rightarrow> string \<Rightarrow> i32 \<Rightarrow> ('w, pull_request_comment list) gh" where
  "list_review_comments c ds own repo n =
     get_paginated c (dec_comments ds)
       (repo_path own repo (''/pulls/'' @ show_int n @ ''/comments?per_page=100&page=1''))"

definition list_check_runs ::
  "'w github_client \<Rightarrow> github_decoders \<Rightarrow> string \<Rightarrow> string \<Rightarrow> string \<Rightarrow> ('w, github_check_run list) gh" where
  "list_check_runs c ds own repo sha =
     get_paginated c (dec_check_runs ds)
       (repo_path own repo (''/commits/'' @ sha @ ''/check-runs?filter=latest&per_page=100&page=1''))"

definition get_check_run ::
  "'w github_client \<Rightarrow> github_decoders \<Rightarrow> string \<Rightarrow> string \<Rightarrow> i64 \<Rightarrow> ('w, github_check_run) gh" where
  "get_check_run c ds own repo i =
     get_json c (dec_check_run ds) (repo_path own repo (''/check-runs/'' @ show_int i))"

definition download_workflow_job_logs ::
  "'w github_client \<Rightarrow> string \<Rightarrow> string \<Rightarrow> i64 \<Rightarrow> ('w, string) gh" where
  "download_workflow_job_logs c own repo i =
     io_then (io_lift (join_path c (repo_path own repo (''/actions/jobs/'' @ show_int i @ ''/logs'')))) (\<lambda>u.
     io_then (send_get c u) (\<lambda>r.
     io_then (io_lift (read_bounded_body c max_actions_log_bytes Gh_WorkflowLogTooLarge r)) (\<lambda>body.
     io_lift (if utf8_valid body then Ok body else Err Gh_WorkflowLogNotUtf8))))"

definition list_check_run_annotations ::
  "'w github_client \<Rightarrow> github_decoders \<Rightarrow> string \<Rightarrow> string \<Rightarrow> i64 \<Rightarrow> ('w, check_annotation list) gh" where
  "list_check_run_annotations c ds own repo i =
     io_then (get_bounded_json c (dec_annotations ds)
        (repo_path own repo (''/check-runs/'' @ show_int i @ ''/annotations?per_page=100&page=1''))
        max_check_annotation_bytes Gh_CheckAnnotationsTooLarge) (\<lambda>anns.
     io_ok (take max_check_run_annotations anns))"

definition get_combined_status ::
  "'w github_client \<Rightarrow> github_decoders \<Rightarrow> string \<Rightarrow> string \<Rightarrow> string \<Rightarrow> ('w, combined_status) gh" where
  "get_combined_status c ds own repo sha =
     get_json c (dec_combined ds) (repo_path own repo (''/commits/'' @ sha @ ''/status''))"

definition get_branch ::
  "'w github_client \<Rightarrow> github_decoders \<Rightarrow> string \<Rightarrow> string \<Rightarrow> string \<Rightarrow> ('w, branch) gh" where
  "get_branch c ds own repo b = get_json c (dec_branch ds) (repo_path own repo (''/branches/'' @ b))"

definition get_branch_protection ::
  "'w github_client \<Rightarrow> github_decoders \<Rightarrow> string \<Rightarrow> string \<Rightarrow> string \<Rightarrow> ('w, branch_protection) gh" where
  "get_branch_protection c ds own repo b =
     io_then (io_lift (join_path c (repo_path own repo (''/branches/'' @ b @ ''/protection'')))) (\<lambda>u.
     io_then (send_get c u) (\<lambda>r. io_lift (decode_response c (dec_protection ds) r)))"

text \<open>
  The body of a file, in the raw media type; a missing file is no error. The message of a body
  that is no UTF-8 is left without its position.
\<close>

definition fetch_raw :: "'w github_client \<Rightarrow> nat \<Rightarrow> url \<Rightarrow> ('w, string option) gh" where
  "fetch_raw c limit u =
     io_then (io_map_err (\<lambda>e. Gh_Request (redact e (gh_token c)))
        (gh_send c (request c GET u ''application/vnd.github.raw+json'' None))) (\<lambda>r.
     if rs_status r = 404 then io_ok None
     else if \<not> is_success r then io_lift (Err (api_error c r))
     else io_lift (and_then (bounded_chunks Gh_Response limit Gh_RepositoryFileTooLarge [] (rs_chunks r)) (\<lambda>body.
       if utf8_valid body then Ok (Some body) else Err (Gh_Response ''invalid utf-8 sequence''))))"

definition get_repository_policy ::
  "'w github_client \<Rightarrow> string \<Rightarrow> string \<Rightarrow> string \<Rightarrow> ('w, string option) gh" where
  "get_repository_policy c own repo reference =
     io_then (io_lift (join_path c (repo_path own repo ''/contents/.pitools.yml''))) (\<lambda>u.
     fetch_raw c max_repository_policy_bytes (gh_append_query c u ''ref'' reference))"

definition validate_repository_file_path :: "string \<Rightarrow> (github_client_error, unit) result" where
  "validate_repository_file_path p =
     reject_if (p = [] \<or> starts_with ''/'' p \<or> contains_any [BACKSLASH, NUL, CR, LF] p
         \<or> list_ex (\<lambda>x. x = '''' \<or> x = ''.'' \<or> x = ''..'') (split_char CHR ''/'' p))
       (Gh_Response ''repository file path is not canonical'')"

definition get_repository_file ::
  "'w github_client \<Rightarrow> string \<Rightarrow> string \<Rightarrow> string \<Rightarrow> string \<Rightarrow> nat \<Rightarrow> ('w, string option) gh" where
  "get_repository_file c own repo p reference limit =
     io_then (io_lift (validate_repository_file_path p)) (\<lambda>_.
     if limit = 0 then io_lift (Err Gh_RepositoryFileTooLarge)
     else
       io_then (io_lift (join_path c (repo_path own repo ''/contents''))) (\<lambda>u.
       io_then (io_lift (ok_or (Gh_Client ''GitHub API URL cannot be a base'')
          (gh_push_segments c u (split_char CHR ''/'' p)))) (\<lambda>u'.
       fetch_raw c limit (gh_append_query c u' ''ref'' reference))))"

definition no_protection :: branch_protection where
  "no_protection = \<lparr>bp_status_checks = None, bp_reviews = None\<rparr>"

definition read_pull_request ::
  "'w github_client \<Rightarrow> github_decoders \<Rightarrow> string \<Rightarrow> string \<Rightarrow> i32 \<Rightarrow> ('w, pull_request_read_set) gh" where
  "read_pull_request c ds own repo n =
     io_then (get_pull_request c ds own repo n) (\<lambda>pr.
     io_then (io_lift (ok_or (Gh_Response ''pull request base ref is missing'') (prb_reference (pr_base pr)))) (\<lambda>base.
     io_then (get_branch c ds own repo base) (\<lambda>b.
     io_then (if br_protected b then get_branch_protection c ds own repo base else io_ok no_protection) (\<lambda>protection.
     io_then (list_pull_request_reviews c ds own repo n) (\<lambda>reviews.
     io_then (list_issue_comments c ds own repo n) (\<lambda>issue_comments.
     io_then (list_review_comments c ds own repo n) (\<lambda>review_comments.
     io_then (list_check_runs c ds own repo (prb_sha (pr_head pr))) (\<lambda>check_runs.
     io_then (get_combined_status c ds own repo (prb_sha (pr_head pr))) (\<lambda>combined.
     io_ok \<lparr>rd_pull_request = pr, rd_base_branch = b, rd_protection = protection, rd_reviews = reviews,
       rd_issue_comments = issue_comments, rd_review_comments = review_comments,
       rd_check_runs = check_runs, rd_combined_status = combined\<rparr>)))))))))"

definition create_issue_comment ::
  "'w github_client \<Rightarrow> github_decoders \<Rightarrow> string \<Rightarrow> string \<Rightarrow> i32 \<Rightarrow> string \<Rightarrow> ('w, github_comment) gh" where
  "create_issue_comment c ds own repo n body =
     post_json c (dec_comment ds) (repo_path own repo (''/issues/'' @ show_int n @ ''/comments''))
       (Issue_Comment_Body body)"

definition update_issue_comment ::
  "'w github_client \<Rightarrow> github_decoders \<Rightarrow> string \<Rightarrow> string \<Rightarrow> i64 \<Rightarrow> string \<Rightarrow> ('w, github_comment) gh" where
  "update_issue_comment c ds own repo i body =
     patch_json c (dec_comment ds) (repo_path own repo (''/issues/comments/'' @ show_int i))
       (Issue_Comment_Body body)"

definition reply_to_review_comment ::
  "'w github_client \<Rightarrow> github_decoders \<Rightarrow> string \<Rightarrow> string \<Rightarrow> i32 \<Rightarrow> i64 \<Rightarrow> string \<Rightarrow> ('w, github_comment) gh" where
  "reply_to_review_comment c ds own repo n i body =
     post_json c (dec_comment ds)
       (repo_path own repo (''/pulls/'' @ show_int n @ ''/comments/'' @ show_int i @ ''/replies''))
       (Issue_Comment_Body body)"

definition update_pull_request_base ::
  "'w github_client \<Rightarrow> github_decoders \<Rightarrow> string \<Rightarrow> string \<Rightarrow> i32 \<Rightarrow> string \<Rightarrow> ('w, github_pull_request) gh" where
  "update_pull_request_base c ds own repo n base =
     (if base = [] \<or> contains_any [NUL, CR, LF] base
      then io_lift (Err (Gh_Response ''pull request base branch is invalid''))
      else patch_json c (dec_pull ds) (repo_path own repo (''/pulls/'' @ show_int n)) (Base_Update_Body base))"

definition into_data :: "'a graph_ql_response \<Rightarrow> (github_client_error, 'a option) result" where
  "into_data r = (case gq_errors r of
       Some (e # es) \<Rightarrow> Err (Gh_Response (join ''; '' (e # es)))
     | _ \<Rightarrow> Ok (gq_data r))"

definition review_thread_id_for_comment ::
  "'w github_client \<Rightarrow> github_decoders \<Rightarrow> string \<Rightarrow> string \<Rightarrow> i32 \<Rightarrow> i64 \<Rightarrow> ('w, string option) gh" where
  "review_thread_id_for_comment c ds own repo n i =
     io_then (post_json c (dec_threads ds) ''graphql'' (Graph_Ql_Body Review_Threads_Query
        (jobj [(''owner'', JStr own), (''repository'', JStr repo), (''number'', jint n)]))) (\<lambda>r.
     io_lift (and_then (into_data r) (\<lambda>d.
       Ok (Option.bind d (\<lambda>threads.
         map_option rvt_id (find (\<lambda>t. list_ex (\<lambda>k. k = i) (rvt_comment_ids t)) threads))))))"

definition resolve_review_thread ::
  "'w github_client \<Rightarrow> github_decoders \<Rightarrow> string \<Rightarrow> ('w, unit) gh" where
  "resolve_review_thread c ds thread =
     io_then (post_json c (dec_resolved ds) ''graphql''
        (Graph_Ql_Body Resolve_Review_Thread_Mutation (jobj [(''threadId'', JStr thread)]))) (\<lambda>r.
     io_lift (and_then (into_data r) (\<lambda>d.
       and_then (ok_or (Gh_Response ''GitHub did not resolve the review thread'')
         (Option.bind d (\<lambda>t. t))) (\<lambda>is_resolved.
       if is_resolved then Ok ()
       else Err (Gh_Response ''GitHub returned an unresolved review thread'')))))"

definition create_check_run ::
  "'w github_client \<Rightarrow> github_decoders \<Rightarrow> string \<Rightarrow> string \<Rightarrow> check_run_request \<Rightarrow> ('w, check_run) gh" where
  "create_check_run c ds own repo r =
     post_json c (dec_created_run ds) (repo_path own repo ''/check-runs'') (Check_Run_Body r)"

definition update_check_run ::
  "'w github_client \<Rightarrow> github_decoders \<Rightarrow> string \<Rightarrow> string \<Rightarrow> i64 \<Rightarrow> check_run_update \<Rightarrow> ('w, check_run) gh" where
  "update_check_run c ds own repo i r =
     patch_json c (dec_created_run ds) (repo_path own repo (''/check-runs/'' @ show_int i))
       (Check_Run_Update_Body r)"

end
