(* ===== verification/Client_Properties.thy ===== *)
theory Client_Properties
  imports Github_Client
begin

text \<open>
  What the GitHub client sends and what its errors tell: pagination stays on the configured
  API and ends, and the token is in no message.
\<close>

section \<open>A client that records its requests\<close>

definition recording :: "'w github_client \<Rightarrow> (github_body http_request list \<times> 'w) github_client" where
  "recording c = \<lparr>gh_api_base = gh_api_base c, gh_token = gh_token c, gh_join = gh_join c,
     gh_parse = gh_parse c, gh_push_segments = gh_push_segments c, gh_append_query = gh_append_query c,
     gh_send = (\<lambda>rq (sent, w). case gh_send c rq w of (r, w') \<Rightarrow> (r, (sent @ [rq], w'))),
     gh_body_text = gh_body_text c\<rparr>"

lemma recording_simps [simp]:
  "gh_api_base (recording c) = gh_api_base c" "gh_token (recording c) = gh_token c"
  "gh_join (recording c) = gh_join c" "gh_parse (recording c) = gh_parse c"
  "request (recording c) = request c"
  by (simp_all add: recording_def request_def fun_eq_iff)

lemma recording_decode [simp]: "decode_response (recording c) d r = decode_response c d r"
  by (simp add: decode_response_def api_error_def recording_def)

lemma recording_safe [simp]: "is_safe_pagination_url (recording c) u = is_safe_pagination_url c u"
  by (simp add: is_safe_pagination_url_def)

lemma recording_get:
  "send_get (recording c) u (sent, w)
     = (case send_get c u w of (r, w') \<Rightarrow> (r, (sent @ [request c GET u github_json None], w')))"
  by (simp add: send_get_def io_map_err_def) (simp add: recording_def split: prod.split)

definition page_request :: "'w github_client \<Rightarrow> github_body http_request \<Rightarrow> bool" where
  "page_request c rq \<longleftrightarrow> rq_method rq = GET \<and> rq_bearer rq = gh_token c \<and> rq_body rq = None"

definition pages_ok :: "'w github_client \<Rightarrow> nat \<Rightarrow> url \<Rightarrow> string set \<Rightarrow> github_body http_request list \<Rightarrow> bool" where
  "pages_ok c n u visited sent \<longleftrightarrow> length sent \<le> n \<and> distinct (map (url_text \<circ> rq_url) sent)
     \<and> (url_text \<circ> rq_url) ` set sent \<inter> visited = {} \<and> list_all (page_request c) sent
     \<and> (case sent of [] \<Rightarrow> True | rq # rest \<Rightarrow> rq_url rq = u
          \<and> list_all (\<lambda>q. is_safe_pagination_url c (rq_url q)) rest)"

lemma pages_ok_Nil [simp]: "pages_ok c n u visited []"
  by (simp add: pages_ok_def)

lemma pages_ok_Cons:
  assumes "url_text u \<notin> visited" "pages_ok c n v (insert (url_text u) visited) sent"
    and "sent \<noteq> [] \<longrightarrow> is_safe_pagination_url c v"
  shows "pages_ok c (Suc n) u visited (request c GET u github_json None # sent)"
  using assms by (cases sent) (auto simp: pages_ok_def request_def page_request_def)

text \<open>What a fetched page leads to: the end of the run, or the next URL and the items so far.\<close>

definition page_outcome :: "'w github_client \<Rightarrow> 'a list decoder \<Rightarrow> 'a list \<Rightarrow> http_response
    \<Rightarrow> (github_client_error, 'a list) result + url \<times> 'a list" where
  "page_outcome c decode items r =
     (case next_link (gh_parse c) (rs_links r) of
        Inl e \<Rightarrow> Inl (Inl e)
      | Inr nx \<Rightarrow>
          (case decode_response c decode r of
             Inl e \<Rightarrow> Inl (Inl e)
           | Inr page \<Rightarrow>
               (case nx of
                  None \<Rightarrow> Inl (Inr (items @ page))
                | Some v \<Rightarrow> if is_safe_pagination_url c v then Inr (v, items @ page)
                    else Inl (Inl Gh_UnsafePagination))))"

lemma recording_outcome [simp]: "page_outcome (recording c) decode items r = page_outcome c decode items r"
  by (simp add: page_outcome_def cong: sum.case_cong option.case_cong)

lemma fetch_pages_Suc:
  "fetch_pages c decode (Suc n) u visited items w =
     (if url_text u \<in> visited then (Inl Gh_PaginationLoop, w)
      else case send_get c u w of
          (Inl e, w') \<Rightarrow> (Inl e, w')
        | (Inr r, w') \<Rightarrow>
            (case page_outcome c decode items r of
               Inl result \<Rightarrow> (result, w')
             | Inr (v, items') \<Rightarrow> fetch_pages c decode n v (insert (url_text u) visited) items' w'))"
  by (auto simp: page_outcome_def io_then_def split: prod.splits sum.splits option.splits)

lemma page_outcome_safe: "page_outcome c decode items r = Inr (v, items') \<Longrightarrow> is_safe_pagination_url c v"
  by (auto simp: page_outcome_def split: sum.splits option.splits if_splits)

text \<open>Recording changes nothing of a run, and the requests of a run are those of \<open>pages_ok\<close>.\<close>

lemma fetch_pages_sent:
  "\<exists>r w' qs. fetch_pages c decode n u visited items w = (r, w')
     \<and> fetch_pages (recording c) decode n u visited items (sent, w) = (r, (sent @ qs, w'))
     \<and> pages_ok c n u visited qs"
proof (induction n arbitrary: u visited items sent w)
  case 0
  show ?case by (intro exI [of _ "[]"] exI conjI) (simp_all, simp)
next
  case (Suc n)
  note fetch_pages.simps(2) [simp del] and fetch_pages_Suc [simp]
  let ?rq = "request c GET u github_json None"
  let ?seen = "insert (url_text u) visited"
  show ?case
  proof (cases "url_text u \<in> visited")
    case True
    then show ?thesis by (intro exI [of _ "[]"] exI conjI) (simp_all, simp)
  next
    case new: False
    obtain r w1 where plain: "send_get c u w = (r, w1)" by fastforce
    then have get: "send_get (recording c) u (sent, w) = (r, (sent @ [?rq], w1))"
      by (simp add: recording_get)
    have one: "pages_ok c (Suc n) u visited [?rq]" using new pages_ok_Cons [of u visited c n u "[]"] by simp
    consider e where "r = Inl e" | rs result where "r = Inr rs" "page_outcome c decode items rs = Inl result"
      | rs v items' where "r = Inr rs" "page_outcome c decode items rs = Inr (v, items')"
      by (metis old.prod.exhaust sum.exhaust)
    then show ?thesis
    proof cases
      case (3 rs v items')
      obtain r' w' qs where rest: "fetch_pages c decode n v ?seen items' w1 = (r', w')"
        "fetch_pages (recording c) decode n v ?seen items' (sent @ [?rq], w1)
           = (r', ((sent @ [?rq]) @ qs, w'))" "pages_ok c n v ?seen qs"
        using Suc.IH by blast
      have "pages_ok c (Suc n) u visited (?rq # qs)"
        using pages_ok_Cons [OF new rest(3)] page_outcome_safe [OF 3(2)] by simp
      with new plain get 3 rest show ?thesis
        by (intro exI [of _ r'] exI [of _ w'] exI [of _ "?rq # qs"]) simp
    next
      case (1 e)
      with new plain get one show ?thesis
        by (intro exI [of _ "Inl e"] exI [of _ w1] exI [of _ "[?rq]"]) simp
    next
      case (2 rs result)
      with new plain get one show ?thesis
        by (intro exI [of _ result] exI [of _ w1] exI [of _ "[?rq]"]) simp
    qed
  qed
qed

section \<open>Redaction of the token\<close>

lemma contains_sub_around:
  assumes "contains_sub p (a @ d # b)" "d \<notin> set p"
  shows "contains_sub p a \<or> contains_sub p b"
proof -
  obtain x y where xy: "a @ d # b = x @ p @ y" using assms(1) by (auto simp: contains_sub_iff)
  then consider us where "a = x @ us" "us @ d # b = p @ y" | us where "x = a @ us" "us @ p @ y = d # b"
    by (auto simp: append_eq_append_conv2)
  then show ?thesis
  proof cases
    case (1 us)
    then consider vs where "us = p @ vs" | vs where "p = us @ vs" "vs @ y = d # b"
      by (auto simp: append_eq_append_conv2)
    then show ?thesis
    proof cases
      case (2 vs)
      with assms(2) have "vs = []" by (cases vs) auto
      with 1 2 have "a = x @ p @ []" by simp
      then show ?thesis using contains_sub_iff by blast
    qed (use 1 in \<open>auto simp: contains_sub_iff\<close>)
  next
    case (2 us)
    then show ?thesis
    proof (cases us)
      case Nil
      with 2(2) assms(2) have "p = []" by (cases p) auto
      then have "a = [] @ p @ a" by simp
      then show ?thesis using contains_sub_iff by blast
    next
      case (Cons x xs)
      with 2(2) have "b = xs @ p @ y" by simp
      then show ?thesis using contains_sub_iff by blast
    qed
  qed
qed

lemma not_before_first:
  assumes "find_sub p s = Some i" "p \<noteq> []"
  shows "\<not> contains_sub p (take i s)"
proof
  assume "contains_sub p (take i s)"
  then obtain a b where ab: "take i s = a @ p @ b" by (auto simp: contains_sub_iff)
  then have "length (a @ p @ b) \<le> i" by (metis length_take min.cobounded2)
  then have less: "length a < i" using assms(2) by (cases p) auto
  have "s = a @ p @ b @ drop i s" using ab append_take_drop_id [of i s] by simp
  then have "starts_with p (drop (length a) s)" by (metis append_eq_conv_conj starts_with_append)
  with find_sub_first [OF assms(1) less] show False by simp
qed

lemma replace_all_hides:
  assumes "p \<noteq> []" "CHR ''['' \<notin> set p" "CHR '']'' \<notin> set p" "\<not> contains_sub p ''REDACTED''"
  shows "\<not> contains_sub p (replace_all p ''[REDACTED]'' s)"
using assms proof (induction p "''[REDACTED]''" s rule: replace_all.induct)
  case (1 p s)
  show ?case
  proof (cases "find_sub p s")
    case None
    then have "replace_all p ''[REDACTED]'' s = s" by (simp add: replace_all.simps [of p _ s])
    then show ?thesis using None by (simp add: find_sub_None)
  next
    case (Some i)
    let ?t = "replace_all p ''[REDACTED]'' (drop (i + length p) s)"
    have "replace_all p ''[REDACTED]'' s = take i s @ CHR ''['' # (''REDACTED'' @ CHR '']'' # ?t)"
      using 1(2) Some by (simp add: replace_all.simps [of p _ s])
    then show ?thesis
      using 1 Some contains_sub_around [of p _ _] not_before_first [OF Some 1(2)] by metis
  qed
qed

lemma chars_prefix: "\<exists>t. s = concat (take n (chars s)) @ t"
proof -
  have "concat (take n (chars s)) @ concat (drop n (chars s)) = s"
    by (metis append_take_drop_id concat_append concat_chars)
  then show ?thesis by metis
qed

text \<open>
  C23: Every paginated read, run on a client that records its requests and changes nothing of the
  outcome, sends at most 100 requests: all are GET requests with the client's token and without a
  body, to pairwise different URLs; the first goes to the path asked for under the API base, and
  every later one to a URL with the scheme, host, port and path prefix of that base, so a hostile
  Link header cannot send the token elsewhere or keep the client busy.
\<close>
theorem pagination_confined:
  "let (r, sent, w') = get_paginated (recording c) decode p ([], w) in
     get_paginated c decode p w = (r, w')
     \<and> length sent \<le> 100 \<and> distinct (map (url_text \<circ> rq_url) sent)
     \<and> list_all (\<lambda>rq. rq_method rq = GET \<and> rq_bearer rq = gh_token c \<and> rq_body rq = None) sent
     \<and> (case sent of [] \<Rightarrow> True
        | first # later \<Rightarrow> gh_join c (gh_api_base c) p = Inr (rq_url first)
            \<and> list_all (\<lambda>rq. is_safe_pagination_url c (rq_url rq)) later)"
proof (cases "gh_join c (gh_api_base c) p")
  case (Inl e)
  then show ?thesis by (simp add: get_paginated_def join_path_def)
next
  case (Inr u)
  obtain r w' qs where run: "fetch_pages c decode max_pagination_pages u {} [] w = (r, w')"
    "fetch_pages (recording c) decode max_pagination_pages u {} [] ([], w) = (r, ([] @ qs, w'))"
    "pages_ok c max_pagination_pages u {} qs"
    using fetch_pages_sent [of c decode max_pagination_pages u "{}" "[]" w "[]"] by (elim exE conjE)
  then show ?thesis using Inr
    by (auto simp: get_paginated_def join_path_def pages_ok_def page_request_def max_pagination_pages_def
        list_all_iff split: list.splits)
qed

section \<open>What errors tell\<close>

lemma redact_hides:
  assumes "p \<noteq> []" "CHR ''['' \<notin> set p" "CHR '']'' \<notin> set p" "\<not> contains_sub p ''REDACTED''"
  shows "\<not> contains_sub p (redact s p)"
proof -
  let ?t = "replace_all p ''[REDACTED]'' s"
  obtain t where "?t = redact s p @ t" using chars_prefix [of ?t 4096] assms(1) by (auto simp: redact_def)
  moreover have "\<not> contains_sub p ?t" by (rule replace_all_hides [OF assms])
  ultimately show ?thesis by (metis append.assoc contains_sub_iff)
qed

definition hides :: "string \<Rightarrow> (github_client_error, 'a) result \<Rightarrow> bool" where
  "hides tok r \<longleftrightarrow> (case r of Inl (Gh_Api n t) \<Rightarrow> \<not> contains_sub tok t
     | Inl (Gh_Request t) \<Rightarrow> \<not> contains_sub tok t | _ \<Rightarrow> True)"

definition redactable :: "string \<Rightarrow> bool" where
  "redactable p \<longleftrightarrow> p \<noteq> [] \<and> CHR ''['' \<notin> set p \<and> CHR '']'' \<notin> set p \<and> \<not> contains_sub p ''REDACTED''"

lemma redact_redactable: "redactable tok \<Longrightarrow> \<not> contains_sub tok (redact s tok)"
  by (auto simp: redactable_def redact_hides)

lemma hides_simps [simp]:
  "hides tok (Inr x)" "hides tok (Inl (Gh_Api n t)) = (\<not> contains_sub tok t)"
  "hides tok (Inl (Gh_Request t)) = (\<not> contains_sub tok t)" "hides tok (Inl (Gh_Response t))"
  "hides tok (Inl (Gh_Client t))" "hides tok (Inl Gh_UnsafePagination)" "hides tok (Inl Gh_PaginationLoop)"
  "hides tok (Inl Gh_PaginationLimit)" "hides tok (Inl Gh_RepositoryFileTooLarge)"
  "hides tok (Inl Gh_WorkflowLogTooLarge)" "hides tok (Inl Gh_WorkflowLogNotUtf8)"
  "hides tok (Inl Gh_CheckAnnotationsTooLarge)"
  by (simp_all add: hides_def)

lemma hides_then:
  assumes "hides tok (fst (m w))" "\<And>x w'. hides tok (fst (f x w'))"
  shows "hides tok (fst (io_then m f w))"
proof (cases "m w")
  case (Pair r w')
  then show ?thesis
  proof (cases r)
    case (Inl e)
    with Pair assms(1) show ?thesis by (simp add: io_then_def) (simp add: hides_def)
  qed (use assms(2) in \<open>simp add: io_then_def\<close>)
qed

lemma hides_join: "hides tok (join_path c p)"
  by (cases "gh_join c (gh_api_base c) p") (simp_all add: join_path_def)

lemma hides_gh_response: "hides tok (map_err Gh_Response r)"
  by (cases r) simp_all

lemma hides_send:
  "redactable tok \<Longrightarrow> hides tok (fst (io_map_err (\<lambda>e. Gh_Request (redact e tok)) m w))"
proof (cases "m w")
  case (Pair r w')
  then show ?thesis if "redactable tok" using redact_redactable [OF that]
    by (cases r) (simp_all add: io_map_err_def)
qed

lemma hides_api_error: "redactable (gh_token c) \<Longrightarrow> hides (gh_token c) (Inl (api_error c r))"
  by (simp add: api_error_def redact_redactable)

lemma hides_decode: "redactable (gh_token c) \<Longrightarrow> hides (gh_token c) (decode_response c d r)"
  by (simp add: decode_response_def hides_api_error hides_gh_response)

lemma hides_chunks:
  "(\<And>e. hides tok (Inl (fault e) :: (github_client_error, string) result)) \<Longrightarrow>
   hides tok (Inl too_large :: (github_client_error, string) result) \<Longrightarrow>
   hides tok (bounded_chunks fault limit too_large body cs)"
  by (induction fault limit too_large body cs rule: bounded_chunks.induct) auto

lemma hides_body:
  "redactable (gh_token c) \<Longrightarrow> hides (gh_token c) (Inl too_large :: (github_client_error, string) result) \<Longrightarrow>
   hides (gh_token c) (read_bounded_body c limit too_large r)"
  by (auto simp: read_bounded_body_def hides_api_error intro: hides_chunks)

lemma hides_next_of_links: "hides tok (next_of_links parse ls)"
  by (induction parse ls rule: next_of_links.induct) (auto simp: invalid_link_def split: list.split option.split)

lemma hides_next_link: "hides tok (next_link parse vs)"
proof (induction parse vs rule: next_link.induct)
  case (3 parse v vs)
  then show ?case using hides_next_of_links [of tok parse "split_char CHR '','' v"]
    by (cases "next_of_links parse (split_char CHR '','' v)") (auto simp: hides_def split: option.split)
qed (simp_all add: invalid_link_def)

lemmas hides_intros = hides_then hides_join hides_send hides_decode hides_body hides_next_link
  hides_api_error hides_gh_response

lemma hides_pages:
  assumes "redactable (gh_token c)"
  shows "hides (gh_token c) (fst (fetch_pages c d n u visited items w))"
proof (induction n arbitrary: u visited items w)
  case (Suc n)
  then show ?case using assms
    by (auto simp: send_get_def intro!: hides_intros split: option.split)
qed simp

lemma hides_raw:
  assumes "redactable (gh_token c)"
  shows "hides (gh_token c) (fst (fetch_raw c limit u w))"
proof -
  have body: "hides (gh_token c) (and_then (bounded_chunks Gh_Response limit Gh_RepositoryFileTooLarge [] cs)
     (\<lambda>b. if utf8_valid b then Ok (Some b) else Err (Gh_Response e)))" for cs e
    using hides_chunks [of "gh_token c" Gh_Response Gh_RepositoryFileTooLarge limit "[]" cs]
    by (cases "bounded_chunks Gh_Response limit Gh_RepositoryFileTooLarge [] cs") (auto simp: hides_def)
  show ?thesis unfolding fetch_raw_def using assms body
    by (auto intro!: hides_intros)
qed

text \<open>
  C24: The installation token is in no error that the client reports of a request that failed or
  that GitHub refused: neither in that of a read, nor of a paginated read, of a policy file, of
  a workflow log or of the annotations. The token is one that the marker \<open>[REDACTED]\<close>
  cannot help to form, as GitHub's are.
\<close>
theorem token_never_in_errors:
  assumes "redactable (gh_token c)"
  shows "hides (gh_token c) (fst (get_json c d p w))
    \<and> hides (gh_token c) (fst (get_paginated c ds p w))
    \<and> hides (gh_token c) (fst (get_repository_policy c own repo reference w))
    \<and> hides (gh_token c) (fst (download_workflow_job_logs c own repo i w))
    \<and> hides (gh_token c) (fst (list_check_run_annotations c decs own repo i w))"
  using assms hides_pages [OF assms] hides_raw [OF assms]
  unfolding get_json_def get_paginated_def get_repository_policy_def download_workflow_job_logs_def
    list_check_run_annotations_def get_bounded_json_def send_get_def
  by (intro conjI hides_intros) (simp_all add: hides_join hides_decode hides_body hides_gh_response)

definition refusing_client :: "unit github_client" where
  "refusing_client =
     (let root = \<lparr>url_text = ''https://api.github.com/'', url_scheme = ''https'', url_host = Some ''api.github.com'',
        url_port = None, url_username = [], url_password = None, url_path = ''/'', url_segments = Some [[]]\<rparr>
      in \<lparr>gh_api_base = root, gh_token = ''ghs_a1'', gh_join = (\<lambda>b p. Inr (root\<lparr>url_path := ''/'' @ p\<rparr>)),
        gh_parse = (\<lambda>_. None), gh_push_segments = (\<lambda>u _. Some u), gh_append_query = (\<lambda>u _ _. u),
        gh_send = (\<lambda>_ w. (Inr \<lparr>rs_status = 403, rs_links = [], rs_content_length = None, rs_chunks = []\<rparr>, w)),
        gh_body_text = (\<lambda>_. Some ''no ghs_a1!'')\<rparr>)"

lemma token_never_in_errors_witness:
  "fst (get_json refusing_client (\<lambda>_. Inr ()) ''user'' ()) = Inl (Gh_Api 403 ''no [REDACTED]!'')
   \<and> hides ''ghs_a1'' (fst (get_json refusing_client (\<lambda>_. Inr ()) ''user'' ()))"
proof
  show "fst (get_json refusing_client (\<lambda>_. Inr ()) ''user'' ()) = Inl (Gh_Api 403 ''no [REDACTED]!'')"
    by code_simp
  have "redactable (gh_token refusing_client)" by code_simp
  note c = token_never_in_errors [OF this, of "\<lambda>_. Inr ()" "''user''" "()", THEN conjunct1]
  have "gh_token refusing_client = ''ghs_a1''" by (simp add: refusing_client_def)
  from c [unfolded this] show "hides ''ghs_a1'' (fst (get_json refusing_client (\<lambda>_. Inr ()) ''user'' ()))" .
qed

end
