(* ===== verification/Tables.thy ===== *)
theory Tables
  imports Prelude
begin

text \<open>
  Tables as lists of rows: \<open>INSERT \<dots> ON CONFLICT (key) DO UPDATE\<close> and \<open>UPDATE \<dots> WHERE\<close>,
  with the facts about keys and lookups that the stores share. An interface for the
  operations on a table that keep its primary key is the locale \<open>row_change\<close>.
\<close>

definition row_at :: "('r \<Rightarrow> 'k) \<Rightarrow> 'k \<Rightarrow> 'r list \<Rightarrow> 'r option" where
  "row_at key k rows = find (\<lambda>r. key r = k) rows"

fun upsert :: "('r \<Rightarrow> 'k) \<Rightarrow> ('r \<Rightarrow> 'r) \<Rightarrow> 'r \<Rightarrow> 'r list \<Rightarrow> 'r list" where
  "upsert key merge new [] = [new]"
| "upsert key merge new (r # rs) =
     (if key r = key new then merge r # rs else r # upsert key merge new rs)"

definition update_where :: "('r \<Rightarrow> bool) \<Rightarrow> ('r \<Rightarrow> 'r) \<Rightarrow> 'r list \<Rightarrow> 'r list" where
  "update_where P f rows = map (\<lambda>r. if P r then f r else r) rows"

definition primary_key :: "('r \<Rightarrow> 'k) \<Rightarrow> 'r list \<Rightarrow> bool" where
  "primary_key key rows \<longleftrightarrow> distinct (map key rows)"

definition foreign_key :: "('r \<Rightarrow> 'k) \<Rightarrow> 'r list \<Rightarrow> ('q \<Rightarrow> 'k) \<Rightarrow> 'q list \<Rightarrow> bool" where
  "foreign_key f rows key targets \<longleftrightarrow> f ` set rows \<subseteq> key ` set targets"

lemma foreign_keyD: "foreign_key f rows key targets \<Longrightarrow> r \<in> set rows \<Longrightarrow> f r \<in> key ` set targets"
  by (auto simp: foreign_key_def)

lemma row_at_Some: "row_at key k rows = Some r \<Longrightarrow> r \<in> set rows \<and> key r = k"
  by (induction rows) (auto simp: row_at_def split: if_splits)

lemma row_at_None: "row_at key k rows = None \<longleftrightarrow> k \<notin> key ` set rows"
  by (auto simp: row_at_def find_None_iff)

lemma row_at_in: "primary_key key rows \<Longrightarrow> r \<in> set rows \<Longrightarrow> row_at key (key r) rows = Some r"
  unfolding primary_key_def row_at_def by (rule find_unique)

lemma row_at_append: "row_at key k (rows @ more) =
    (case row_at key k rows of Some r \<Rightarrow> Some r | None \<Rightarrow> row_at key k more)"
  by (induction rows) (auto simp: row_at_def)

lemma row_at_Nil [simp]: "row_at key k [] = None"
  by (simp add: row_at_def)

lemma row_at_Cons [simp]: "row_at key k (r # rows) = (if key r = k then Some r else row_at key k rows)"
  by (simp add: row_at_def)

section \<open>Changes of a row that keep its key\<close>

locale row_change =
  fixes key :: "'r \<Rightarrow> 'k" and change :: "'r \<Rightarrow> 'r"
  assumes same_key: "key (change r) = key r"
begin

lemma keys_update_where: "map key (update_where P change rows) = map key rows"
  by (simp add: update_where_def same_key)

lemma primary_update_where: "primary_key key (update_where P change rows) \<longleftrightarrow> primary_key key rows"
  by (simp only: primary_key_def keys_update_where)

lemma row_at_update_where:
  "row_at key k (update_where P change rows) =
     map_option (\<lambda>r. if P r then change r else r) (row_at key k rows)"
  by (induction rows) (auto simp: update_where_def same_key)

lemma row_at_update_key:
  "row_at key k (update_where (\<lambda>r. key r = i) change rows) =
     (if k = i then map_option change (row_at key k rows) else row_at key k rows)"
  by (induction rows) (auto simp: update_where_def same_key)

lemma keys_upsert: "key ` set (upsert key change new rows) = insert (key new) (key ` set rows)"
  by (induction rows) (auto simp: same_key)

lemma map_upsert:
  "map key (upsert key change new rows) =
     map key rows @ (if key new \<in> key ` set rows then [] else [key new])"
  by (induction rows) (auto simp: same_key)

lemma primary_upsert: "primary_key key rows \<Longrightarrow> primary_key key (upsert key change new rows)"
  by (auto simp: primary_key_def map_upsert)

lemma row_at_upsert:
  "row_at key k (upsert key change new rows) =
     (if k = key new then Some (case row_at key k rows of Some r \<Rightarrow> change r | None \<Rightarrow> new)
      else row_at key k rows)"
  by (induction rows) (auto simp: same_key)

lemma upsert_idempotent:
  assumes "change new = new" "\<And>r. change (change r) = change r"
  shows "upsert key change new (upsert key change new rows) = upsert key change new rows"
  by (induction rows) (auto simp: assms same_key)

end

lemma set_update_where: "set (update_where P f rows) = (\<lambda>r. if P r then f r else r) ` set rows"
  by (simp add: update_where_def)

lemma image_update_where: "(\<And>r. g (f r) = g r) \<Longrightarrow> g ` set (update_where P f rows) = g ` set rows"
  unfolding set_update_where image_image by (rule image_cong) auto

lemma map_update_where [simp]: "(\<And>r. g (f r) = g r) \<Longrightarrow> map g (update_where P f rows) = map g rows"
  by (simp add: update_where_def)

lemma primary_key_update [simp]:
  "(\<And>r. key (f r) = key r) \<Longrightarrow> primary_key key (update_where P f rows) = primary_key key rows"
  by (simp add: primary_key_def)

lemma list_all_update_where:
  "list_all Q rows \<Longrightarrow> (\<And>r. P r \<Longrightarrow> Q r \<Longrightarrow> Q (f r)) \<Longrightarrow> list_all Q (update_where P f rows)"
  by (auto simp: list_all_iff update_where_def)

lemma foreign_key_update [simp]:
  "(\<And>r. g (f r) = g r) \<Longrightarrow> foreign_key g (update_where P f rows) key targets = foreign_key g rows key targets"
  "(\<And>r. key (h r) = key r) \<Longrightarrow> foreign_key g rows key (update_where Q h targets) = foreign_key g rows key targets"
  by (simp_all add: foreign_key_def image_update_where)

lemma set_upsert: "r \<in> set (upsert key f new rows) \<Longrightarrow>
    r = new \<or> r \<in> set rows \<or> (\<exists>r' \<in> set rows. key r' = key new \<and> r = f r')"
  by (induction rows) (auto split: if_splits)

lemma find_update_where_other: "(\<And>r. P r \<Longrightarrow> \<not> Q r \<and> \<not> Q (f r)) \<Longrightarrow>
    find Q (update_where P f rows) = find Q rows"
  by (induction rows) (auto simp: update_where_def)

end
