(* ===== verification/Store.thy ===== *)
theory Store
  imports Tables Events Policy Job_Queue
begin

text \<open>
  The relational store of \<open>src/repository.rs\<close>: its tables as lists of rows, each statement
  as a function of the store. \<open>NOW()\<close> is an argument, which is constant in a transaction; the
  ids of fresh rows are arguments. A statement that violates a key, a foreign key or a check
  constraint of the migrations is a database error; connection faults are not modelled. The
  jobs table is the one of the job queue; its \<open>repositories\<close> are the keys of the repositories
  table.
\<close>

section \<open>Tables\<close>

record installation_row =
  in_id :: i64
  in_account_login :: string
  in_account_type :: string
  in_suspended_at :: "timestamp option"
  in_updated_at :: timestamp

record repository_row =
  re_id :: i64
  re_installation_id :: i64
  re_owner :: string
  re_name :: string
  re_default_branch :: string
  re_active :: bool
  re_policy_yaml :: string
  re_policy_revision :: string
  re_updated_at :: timestamp

record pull_row =
  pl_repository_id :: i64
  pl_number :: i32
  pl_github_id :: i64
  pl_title :: string
  pl_url :: string
  pl_state :: string
  pl_draft :: bool
  pl_merged :: bool
  pl_head_sha :: string
  pl_base_sha :: string
  pl_head_branch :: string
  pl_base_branch :: string
  pl_author_login :: string
  pl_readiness :: "json option"
  pl_watched :: bool
  pl_updated_at :: timestamp

record delivery_row =
  de_id :: string
  de_event_name :: string
  de_action :: "string option"
  de_installation_id :: "i64 option"
  de_repository_id :: "i64 option"
  de_pull_request_number :: "i32 option"
  de_payload_hash :: string
  de_payload :: json
  de_raw_payload :: "string option"
  de_raw_payload_expires_at :: "timestamp option"
  de_supported :: bool
  de_received_at :: timestamp
  de_processed_at :: "timestamp option"
  de_processing_error :: "string option"

record feedback_row =
  fe_id :: string
  fe_repository_id :: i64
  fe_pull_request_number :: i32
  fe_actor_login :: string
  fe_actor_type :: string
  fe_body :: string
  fe_resolved :: bool
  fe_is_automation :: bool
  fe_updated_at :: timestamp
  fe_repair_state :: string
  fe_repair_applied_at :: "timestamp option"
  fe_resolution_eligible :: bool

record check_row =
  ck_repository_id :: i64
  ck_pull_request_number :: i32
  ck_external_id :: string
  ck_name :: string
  ck_status :: string
  ck_conclusion :: "string option"
  ck_details_url :: "string option"
  ck_updated_at :: timestamp

record control_row =
  ct_id :: uuid
  ct_job_id :: uuid
  ct_request_id :: string
  ct_action :: string
  ct_actor_login :: string
  ct_target_item_id :: "string option"
  ct_decision :: string

record comment_row =
  cm_id :: uuid
  cm_job_id :: uuid
  cm_github_comment_id :: "i64 option"
  cm_kind :: string
  cm_marker :: string
  cm_body_hash :: string
  cm_immutable :: bool

record audit_entry =
  au_repository_id :: "i64 option"
  au_pull_request_number :: "i32 option"
  au_job_id :: "uuid option"
  au_actor_login :: "string option"
  au_event_type :: string
  au_summary :: string
  au_evidence :: json

record audit_row =
  ar_id :: uuid
  ar_entry :: audit_entry
  ar_created_at :: timestamp

record readiness_row =
  rs_id :: uuid
  rs_repository_id :: i64
  rs_pull_request_number :: i32
  rs_ready :: bool
  rs_reason_codes :: json
  rs_evaluated_at :: timestamp

record store =
  installations :: "installation_row list"
  repository_rows :: "repository_row list"
  pull_rows :: "pull_row list"
  delivery_rows :: "delivery_row list"
  feedback_rows :: "feedback_row list"
  check_rows :: "check_row list"
  control_rows :: "control_row list"
  comment_rows :: "comment_row list"
  audit_rows :: "audit_row list"
  readiness_rows :: "readiness_row list"
  queue :: queue_db

datatype repository_error =
    Repo_Database | Repo_Serialization | Repo_Policy_Serialization string | Repo_Event event_parse_error

datatype delivery_outcome = Inserted | Duplicate | Conflict

text \<open>Keys and foreign keys that a statement must respect.\<close>

definition repository_exists :: "i64 \<Rightarrow> store \<Rightarrow> bool" where
  "repository_exists r s \<longleftrightarrow> r \<in> set (map re_id (repository_rows s))"

definition job_exists :: "uuid \<Rightarrow> store \<Rightarrow> bool" where
  "job_exists i s \<longleftrightarrow> i \<in> set (map job_id (jobs (queue s)))"

definition on_queue :: "(queue_db \<Rightarrow> queue_db) \<Rightarrow> store \<Rightarrow> store" where
  "on_queue f s = s\<lparr>queue := f (queue s)\<rparr>"

section \<open>Installations and repositories\<close>

definition merge_installation :: "timestamp \<Rightarrow> string \<Rightarrow> string \<Rightarrow> installation_row \<Rightarrow> installation_row" where
  "merge_installation now login account r =
     r\<lparr>in_account_login := login, in_account_type := account, in_updated_at := now\<rparr>"

definition upsert_installation_from_payload :: "timestamp \<Rightarrow> delivery_envelope \<Rightarrow> store \<Rightarrow> store" where
  "upsert_installation_from_payload now d s =
     (case installation_id d of
        None \<Rightarrow> s
      | Some i \<Rightarrow>
          let login = (case or_else (str_at ''/installation/account/login'' (payload d))
                        (str_at ''/organization/login'' (payload d)) of None \<Rightarrow> ''unknown'' | Some l \<Rightarrow> l);
              account = (case str_at ''/installation/account/type'' (payload d) of None \<Rightarrow> ''Unknown'' | Some t \<Rightarrow> t)
          in s\<lparr>installations := upsert in_id (merge_installation now login account)
               \<lparr>in_id = i, in_account_login = login, in_account_type = account, in_suspended_at = None,
                in_updated_at = now\<rparr> (installations s)\<rparr>)"

definition merge_repository ::
  "timestamp \<Rightarrow> string \<Rightarrow> string \<Rightarrow> string \<Rightarrow> bool \<Rightarrow> repository_row \<Rightarrow> repository_row" where
  "merge_repository now own n branch reactivate r =
     r\<lparr>re_owner := own, re_name := n, re_default_branch := branch,
       re_active := (if reactivate then True else re_active r), re_updated_at := now\<rparr>"

text \<open>
  One row of the loop. The conflict clause keeps the installation of the stored row; the
  unique key on installation, owner and name is checked for the resulting row.
\<close>

definition upsert_repository ::
  "timestamp \<Rightarrow> i64 \<Rightarrow> i64 \<Rightarrow> string \<Rightarrow> string \<Rightarrow> string \<Rightarrow> bool \<Rightarrow> store
     \<Rightarrow> (repository_error, store) result" where
  "upsert_repository now inst i own n branch reactivate s =
     (let new = \<lparr>re_id = i, re_installation_id = inst, re_owner = own, re_name = n,
            re_default_branch = branch, re_active = True, re_policy_yaml = [], re_policy_revision = [],
            re_updated_at = now\<rparr>;
          merge = merge_repository now own n branch reactivate;
          row = (case row_at re_id i (repository_rows s) of None \<Rightarrow> new | Some r \<Rightarrow> merge r);
          clash = list_ex (\<lambda>r. re_id r \<noteq> i \<and> re_installation_id r = re_installation_id row
                     \<and> re_owner r = own \<and> re_name r = n) (repository_rows s)
      in if clash \<or> inst \<notin> set (map in_id (installations s)) then Err Repo_Database
         else Ok (s\<lparr>repository_rows := upsert re_id merge new (repository_rows s),
                    queue := (if repository_exists i s then queue s
                              else (queue s)\<lparr>repositories := repositories (queue s) @ [i]\<rparr>)\<rparr>))"

definition payload_repositories :: "delivery_envelope \<Rightarrow> json list" where
  "payload_repositories d =
     (case jget ''repository'' (payload d) of None \<Rightarrow> [] | Some r \<Rightarrow> [r])
     @ concat (map (\<lambda>key. case Option.bind (jget key (payload d)) as_array of None \<Rightarrow> [] | Some vs \<Rightarrow> vs)
         [''repositories_added'', ''repositories''])"

definition reactivates :: "delivery_envelope \<Rightarrow> bool" where
  "reactivates d \<longleftrightarrow> lifecycle_of d = Some AddRepositories
     \<or> (event_name d = ''installation'' \<and> action d = Some ''created'')"

fun upsert_repositories ::
  "timestamp \<Rightarrow> i64 \<Rightarrow> bool \<Rightarrow> json list \<Rightarrow> store \<Rightarrow> (repository_error, store) result" where
  "upsert_repositories now inst reactivate [] s = Ok s"
| "upsert_repositories now inst reactivate (v # vs) s =
     (case get_i64 ''id'' v of
        None \<Rightarrow> upsert_repositories now inst reactivate vs s
      | Some i \<Rightarrow> and_then
          (upsert_repository now inst i
             (case str_at ''/owner/login'' v of None \<Rightarrow> ''unknown'' | Some x \<Rightarrow> x)
             (case get_str ''name'' v of None \<Rightarrow> ''unknown'' | Some x \<Rightarrow> x)
             (case get_str ''default_branch'' v of None \<Rightarrow> ''main'' | Some x \<Rightarrow> x) reactivate s)
          (upsert_repositories now inst reactivate vs))"

definition upsert_repository_from_payload ::
  "timestamp \<Rightarrow> delivery_envelope \<Rightarrow> store \<Rightarrow> (repository_error, store) result" where
  "upsert_repository_from_payload now d s =
     (case installation_id d of
        None \<Rightarrow> Ok s
      | Some inst \<Rightarrow> upsert_repositories now inst (reactivates d) (payload_repositories d) s)"

section \<open>Access lifecycle\<close>

definition set_suspended :: "timestamp option \<Rightarrow> timestamp \<Rightarrow> i64 \<Rightarrow> store \<Rightarrow> store" where
  "set_suspended v now inst s = s\<lparr>installations := update_where (\<lambda>r. in_id r = inst)
     (\<lambda>r. r\<lparr>in_suspended_at := v, in_updated_at := now\<rparr>) (installations s)\<rparr>"

definition deactivate_where :: "(repository_row \<Rightarrow> bool) \<Rightarrow> timestamp \<Rightarrow> store \<Rightarrow> store" where
  "deactivate_where P now s = s\<lparr>repository_rows := update_where P
     (\<lambda>r. r\<lparr>re_active := False, re_updated_at := now\<rparr>) (repository_rows s)\<rparr>"

definition unwatch_where :: "(pull_row \<Rightarrow> bool) \<Rightarrow> timestamp \<Rightarrow> store \<Rightarrow> store" where
  "unwatch_where P now s = s\<lparr>pull_rows := update_where P
     (\<lambda>r. r\<lparr>pl_watched := False, pl_updated_at := now\<rparr>) (pull_rows s)\<rparr>"

definition repositories_of :: "i64 \<Rightarrow> store \<Rightarrow> i64 list" where
  "repositories_of inst s = map re_id (filter (\<lambda>r. re_installation_id r = inst) (repository_rows s))"

definition cancel_installation :: "timestamp \<Rightarrow> i64 \<Rightarrow> store \<Rightarrow> store" where
  "cancel_installation now inst s =
     (let rs = repositories_of inst s
      in on_queue (cancel_installation_jobs now rs)
           (unwatch_where (\<lambda>p. pl_repository_id p \<in> set rs) now s))"

definition deactivate_repository :: "timestamp \<Rightarrow> i64 \<Rightarrow> store \<Rightarrow> store" where
  "deactivate_repository now r s =
     on_queue (cancel_repository_jobs now r)
       (unwatch_where (\<lambda>p. pl_repository_id p = r) now (deactivate_where (\<lambda>q. re_id q = r) now s))"

definition removed_repository_ids :: "delivery_envelope \<Rightarrow> i64 list" where
  "removed_repository_ids d =
     sorted_set ((case env_repository_id d of None \<Rightarrow> [] | Some r \<Rightarrow> [r])
       @ (case Option.bind (jget ''repositories_removed'' (payload d)) as_array of
            None \<Rightarrow> [] | Some vs \<Rightarrow> List.map_filter (get_i64 ''id'') vs))"

definition apply_access_lifecycle :: "timestamp \<Rightarrow> delivery_envelope \<Rightarrow> store \<Rightarrow> store" where
  "apply_access_lifecycle now d s =
     (case installation_id d of
        None \<Rightarrow> s
      | Some inst \<Rightarrow> (case lifecycle_of d of
            Some SuspendInstallation \<Rightarrow> cancel_installation now inst (set_suspended (Some now) now inst s)
          | Some ResumeInstallation \<Rightarrow> set_suspended None now inst s
          | Some DeleteInstallation \<Rightarrow> cancel_installation now inst
              (deactivate_where (\<lambda>r. re_installation_id r = inst) now (set_suspended (Some now) now inst s))
          | Some RemoveRepositories \<Rightarrow> fold (deactivate_repository now) (removed_repository_ids d) s
          | Some AddRepositories \<Rightarrow> s
          | None \<Rightarrow> s))"

end
