(* ===== verification/Deliveries.thy ===== *)
theory Deliveries
  imports Store
begin

text \<open>
  The writes of \<open>src/repository.rs\<close> that record what GitHub reports: pull requests, feedback,
  checks and readiness, and the processing of a delivery, which is recorded first and then
  applied in one transaction under a lock on its identifier.
\<close>

section \<open>Pull requests\<close>

fun state_text :: "pull_request_state \<Rightarrow> string" where
  "state_text Pr_Open = ''open''"
| "state_text Pr_Closed = ''closed''"
| "state_text Pr_Merged = ''merged''"

definition pull_row_of :: "pull_request_snapshot \<Rightarrow> pull_row" where
  "pull_row_of p = \<lparr>pl_repository_id = prs_repository_id p, pl_number = prs_number p,
     pl_github_id = prs_github_id p, pl_title = prs_title p, pl_url = prs_url p,
     pl_state = state_text (prs_state p), pl_draft = prs_draft p, pl_merged = prs_merged p,
     pl_head_sha = prs_head_sha p, pl_base_sha = prs_base_sha p, pl_head_branch = prs_head_branch p,
     pl_base_branch = prs_base_branch p, pl_author_login = prs_author_login p, pl_readiness = None,
     pl_watched = (prs_state p = Pr_Open), pl_updated_at = prs_updated_at p\<rparr>"

definition pull_key :: "pull_row \<Rightarrow> i64 \<times> i32" where
  "pull_key r = (pl_repository_id r, pl_number r)"

text \<open>\<open>DO UPDATE \<dots> WHERE pull_requests.updated_at <= EXCLUDED.updated_at\<close>.\<close>

definition merge_pull :: "pull_request_snapshot \<Rightarrow> pull_row \<Rightarrow> pull_row" where
  "merge_pull p r =
     (if pull_key r = (prs_repository_id p, prs_number p) \<and> pl_updated_at r \<le> prs_updated_at p
      then (pull_row_of p)\<lparr>pl_readiness := pl_readiness r\<rparr> else r)"

definition upsert_pull_request :: "pull_request_snapshot \<Rightarrow> store \<Rightarrow> (repository_error, store) result" where
  "upsert_pull_request p s =
     (let new = pull_row_of p;
          old = row_at pull_key (pull_key new) (pull_rows s);
          writes = (case old of None \<Rightarrow> True | Some r \<Rightarrow> pl_updated_at r \<le> prs_updated_at p);
          clash = list_ex (\<lambda>r. pull_key r \<noteq> pull_key new \<and> pl_github_id r = prs_github_id p) (pull_rows s)
      in if (writes \<and> clash) \<or> (old = None \<and> \<not> repository_exists (prs_repository_id p) s)
         then Err Repo_Database
         else Ok (s\<lparr>pull_rows := upsert pull_key (merge_pull p) new (pull_rows s)\<rparr>))"

definition save_readiness ::
  "(readiness_reason list \<Rightarrow> json) \<Rightarrow> (readiness_snapshot \<Rightarrow> json) \<Rightarrow> timestamp \<Rightarrow> i64 \<Rightarrow> i32
     \<Rightarrow> readiness_snapshot \<Rightarrow> (store \<Rightarrow> (repository_error, store) result) list" where
  "save_readiness codes_value snapshot_value now r n v =
     [\<lambda>s. if snapshot_id v \<in> set (map rs_id (readiness_rows s)) \<or> \<not> repository_exists r s
          then Err Repo_Database
          else Ok (s\<lparr>readiness_rows := readiness_rows s @ [\<lparr>rs_id = snapshot_id v, rs_repository_id = r,
                 rs_pull_request_number = n, rs_ready = ready v,
                 rs_reason_codes = codes_value (reason_codes v), rs_evaluated_at = evaluated_at v\<rparr>]\<rparr>),
      \<lambda>s. Ok (s\<lparr>pull_rows := update_where (\<lambda>p. pl_repository_id p = r \<and> pl_number p = n)
            (\<lambda>p. p\<lparr>pl_readiness := Some (snapshot_value v), pl_updated_at := now\<rparr>) (pull_rows s)\<rparr>)]"

definition save_policy ::
  "(policy \<Rightarrow> (string, string) result) \<Rightarrow> (policy \<Rightarrow> string) \<Rightarrow> timestamp \<Rightarrow> i64 \<Rightarrow> policy \<Rightarrow> store
     \<Rightarrow> (repository_error, store) result" where
  "save_policy to_yaml policy_revision now r p s =
     and_then (map_err Repo_Policy_Serialization (to_yaml p)) (\<lambda>yaml.
     Ok (s\<lparr>repository_rows := update_where (\<lambda>q. re_id q = r)
        (\<lambda>q. q\<lparr>re_policy_yaml := yaml, re_policy_revision := policy_revision p, re_updated_at := now\<rparr>)
        (repository_rows s)\<rparr>))"

section \<open>Feedback and checks\<close>

definition feedback_row_of :: "timestamp \<Rightarrow> i64 \<Rightarrow> i32 \<Rightarrow> feedback_record \<Rightarrow> feedback_row" where
  "feedback_row_of now r n f = \<lparr>fe_id = fr_id f, fe_repository_id = r, fe_pull_request_number = n,
     fe_actor_login = fr_actor_login f, fe_actor_type = fr_actor_type f, fe_body = fr_body f,
     fe_resolved = fr_resolved f, fe_is_automation = fr_is_automation f, fe_updated_at = now,
     fe_repair_state = ''unreviewed'', fe_repair_applied_at = None, fe_resolution_eligible = False\<rparr>"

definition merge_feedback :: "timestamp \<Rightarrow> feedback_record \<Rightarrow> feedback_row \<Rightarrow> feedback_row" where
  "merge_feedback now f r = r\<lparr>fe_actor_login := fr_actor_login f, fe_actor_type := fr_actor_type f,
     fe_body := fr_body f,
     fe_resolved := (fr_resolved f
        \<or> (fe_repair_state r \<in> {''applied'', ''rejected''} \<and> fe_resolved r)),
     fe_is_automation := fr_is_automation f, fe_updated_at := now\<rparr>"

definition upsert_feedback ::
  "timestamp \<Rightarrow> i64 \<Rightarrow> i32 \<Rightarrow> feedback_record \<Rightarrow> store \<Rightarrow> (repository_error, store) result" where
  "upsert_feedback now r n f s =
     (if row_at fe_id (fr_id f) (feedback_rows s) = None \<and> \<not> repository_exists r s then Err Repo_Database
      else Ok (s\<lparr>feedback_rows := upsert fe_id (merge_feedback now f) (feedback_row_of now r n f)
                  (feedback_rows s)\<rparr>))"

definition mark_feedback_resolved :: "timestamp \<Rightarrow> string \<Rightarrow> store \<Rightarrow> store" where
  "mark_feedback_resolved now i s = s\<lparr>feedback_rows := update_where (\<lambda>r. fe_id r = i)
     (\<lambda>r. r\<lparr>fe_resolved := True, fe_repair_state := ''applied'',
        fe_repair_applied_at := (case fe_repair_applied_at r of None \<Rightarrow> Some now | Some t \<Rightarrow> Some t),
        fe_resolution_eligible := True, fe_updated_at := now\<rparr>) (feedback_rows s)\<rparr>"

definition mark_feedback_rejected :: "timestamp \<Rightarrow> string \<Rightarrow> store \<Rightarrow> store" where
  "mark_feedback_rejected now i s = s\<lparr>feedback_rows := update_where (\<lambda>r. fe_id r = i)
     (\<lambda>r. r\<lparr>fe_resolved := True, fe_repair_state := ''rejected'', fe_resolution_eligible := False,
        fe_updated_at := now\<rparr>) (feedback_rows s)\<rparr>"

definition feedback_resolution_eligible :: "string \<Rightarrow> store \<Rightarrow> bool" where
  "feedback_resolution_eligible i s =
     (case row_at fe_id i (feedback_rows s) of
        None \<Rightarrow> False
      | Some r \<Rightarrow> fe_resolution_eligible r \<or> fe_repair_state r = ''rejected'')"

definition check_key :: "check_row \<Rightarrow> i64 \<times> i32 \<times> string" where
  "check_key r = (ck_repository_id r, ck_pull_request_number r, ck_external_id r)"

definition check_row_of :: "timestamp \<Rightarrow> i64 \<Rightarrow> i32 \<Rightarrow> check_record \<Rightarrow> check_row" where
  "check_row_of now r n c = \<lparr>ck_repository_id = r, ck_pull_request_number = n,
     ck_external_id = cr_external_id c, ck_name = cr_name c, ck_status = cr_status c,
     ck_conclusion = cr_conclusion c, ck_details_url = cr_details_url c, ck_updated_at = now\<rparr>"

definition merge_check :: "timestamp \<Rightarrow> check_record \<Rightarrow> check_row \<Rightarrow> check_row" where
  "merge_check now c r = r\<lparr>ck_name := cr_name c, ck_status := cr_status c,
     ck_conclusion := cr_conclusion c, ck_details_url := cr_details_url c, ck_updated_at := now\<rparr>"

definition upsert_check ::
  "timestamp \<Rightarrow> i64 \<Rightarrow> i32 \<Rightarrow> check_record \<Rightarrow> store \<Rightarrow> (repository_error, store) result" where
  "upsert_check now r n c s =
     (let new = check_row_of now r n c
      in if row_at check_key (check_key new) (check_rows s) = None \<and> \<not> repository_exists r s
         then Err Repo_Database
         else Ok (s\<lparr>check_rows := upsert check_key (merge_check now c) new (check_rows s)\<rparr>))"

text \<open>
  Statements outside a transaction: each commits by itself, and the first failure ends the
  sequence with what was written before it.
\<close>

fun run_statements ::
  "(store \<Rightarrow> (repository_error, store) result) list \<Rightarrow> store \<Rightarrow> (repository_error, unit) result \<times> store" where
  "run_statements [] s = (Ok (), s)"
| "run_statements (f # fs) s = (case f s of Inl e \<Rightarrow> (Err e, s) | Inr s' \<Rightarrow> run_statements fs s')"

definition save_reconciliation ::
  "(readiness_reason list \<Rightarrow> json) \<Rightarrow> (readiness_snapshot \<Rightarrow> json) \<Rightarrow> timestamp
     \<Rightarrow> pull_request_snapshot \<Rightarrow> readiness_snapshot \<Rightarrow> feedback_record list \<Rightarrow> check_record list
     \<Rightarrow> store \<Rightarrow> (repository_error, unit) result \<times> store" where
  "save_reconciliation codes_value snapshot_value now p v fb checks =
     run_statements
       ([upsert_pull_request p]
        @ map (upsert_feedback now (prs_repository_id p) (prs_number p)) fb
        @ map (upsert_check now (prs_repository_id p) (prs_number p)) checks
        @ save_readiness codes_value snapshot_value now (prs_repository_id p) (prs_number p) v)"

text \<open>The same statements on the connection of a transaction.\<close>

definition upsert_pull_request_on :: "pull_request_snapshot \<Rightarrow> store \<Rightarrow> (repository_error, store) result" where
  [simp]: "upsert_pull_request_on = upsert_pull_request"

definition upsert_feedback_on ::
  "timestamp \<Rightarrow> i64 \<Rightarrow> i32 \<Rightarrow> feedback_record \<Rightarrow> store \<Rightarrow> (repository_error, store) result" where
  [simp]: "upsert_feedback_on = upsert_feedback"

definition upsert_check_on ::
  "timestamp \<Rightarrow> i64 \<Rightarrow> i32 \<Rightarrow> check_record \<Rightarrow> store \<Rightarrow> (repository_error, store) result" where
  [simp]: "upsert_check_on = upsert_check"

section \<open>Deliveries\<close>

definition payload_hash :: "(string \<Rightarrow> string) \<Rightarrow> string \<Rightarrow> string" where
  "payload_hash sha256_hex body = ''sha256:'' @ sha256_hex body"

text \<open>Seven days in microseconds.\<close>

definition raw_payload_retention :: int where
  "raw_payload_retention = 7 * 24 * 60 * 60 * 1000000"

definition delivery_row_of :: "(string \<Rightarrow> string) \<Rightarrow> timestamp \<Rightarrow> delivery_envelope \<Rightarrow> delivery_row" where
  "delivery_row_of sha256_hex now d = \<lparr>de_id = delivery_id d, de_event_name = event_name d,
     de_action = action d, de_installation_id = installation_id d,
     de_repository_id = env_repository_id d, de_pull_request_number = env_pull_request_number d,
     de_payload_hash = payload_hash sha256_hex (raw_body d), de_payload = payload d,
     de_raw_payload = Some (raw_body d), de_raw_payload_expires_at = Some (now + raw_payload_retention),
     de_supported = is_supported d, de_received_at = now, de_processed_at = None,
     de_processing_error = None\<rparr>"

definition record_delivery ::
  "(string \<Rightarrow> string) \<Rightarrow> timestamp \<Rightarrow> delivery_envelope \<Rightarrow> store \<Rightarrow> delivery_outcome \<times> store" where
  "record_delivery sha256_hex now d s =
     (case row_at de_id (delivery_id d) (delivery_rows s) of
        None \<Rightarrow> (Inserted, s\<lparr>delivery_rows := delivery_rows s @ [delivery_row_of sha256_hex now d]\<rparr>)
      | Some existing \<Rightarrow>
          (if de_payload_hash existing = payload_hash sha256_hex (raw_body d) then Duplicate else Conflict, s))"

definition for_pull_request ::
  "delivery_envelope \<Rightarrow> 'a option \<Rightarrow> (i64 \<Rightarrow> i32 \<Rightarrow> 'a \<Rightarrow> store \<Rightarrow> (repository_error, store) result)
     \<Rightarrow> store \<Rightarrow> (repository_error, store) result" where
  "for_pull_request d v write s =
     (case (v, env_repository_id d, env_pull_request_number d) of
        (Some x, Some r, Some n) \<Rightarrow> write r n x s
      | _ \<Rightarrow> Ok s)"

definition apply_delivery ::
  "(string \<Rightarrow> timestamp option) \<Rightarrow> timestamp \<Rightarrow> delivery_envelope \<Rightarrow> store \<Rightarrow> (repository_error, store) result" where
  "apply_delivery rfc3339 now d s =
     and_then (upsert_repository_from_payload now d (upsert_installation_from_payload now d s)) (\<lambda>s1.
     and_then (map_err Repo_Event (pull_request_snapshot_of rfc3339 d)) (\<lambda>snapshot.
     and_then (case snapshot of
         None \<Rightarrow> Ok (apply_access_lifecycle now d s1)
       | Some p \<Rightarrow> upsert_pull_request_on p (apply_access_lifecycle now d s1)) (\<lambda>s2.
     and_then (map_err Repo_Event (feedback_record_of d)) (\<lambda>fb.
     and_then (for_pull_request d fb (upsert_feedback_on now) s2) (\<lambda>s3.
     and_then (map_err Repo_Event (check_record_of d)) (\<lambda>check.
     for_pull_request d check (upsert_check_on now) s3))))))"

definition mark_delivery_processed :: "timestamp \<Rightarrow> string \<Rightarrow> string option \<Rightarrow> store \<Rightarrow> store" where
  "mark_delivery_processed now i e s = s\<lparr>delivery_rows := update_where (\<lambda>r. de_id r = i)
     (\<lambda>r. r\<lparr>de_processed_at := (if e = None then Some now else None), de_processing_error := e\<rparr>)
     (delivery_rows s)\<rparr>"

text \<open>The transaction under the advisory lock; on an error it is rolled back.\<close>

definition process_locked ::
  "(string \<Rightarrow> timestamp option) \<Rightarrow> timestamp \<Rightarrow> delivery_envelope \<Rightarrow> store \<Rightarrow> (repository_error, store) result" where
  "process_locked rfc3339 now d s =
     and_then (ok_or Repo_Database (row_at de_id (delivery_id d) (delivery_rows s))) (\<lambda>row.
     if de_processed_at row \<noteq> None then Ok s
     else and_then (apply_delivery rfc3339 now d s) (\<lambda>s'.
          Ok (mark_delivery_processed now (delivery_id d) None s')))"

definition process_delivery ::
  "(string \<Rightarrow> string) \<Rightarrow> (string \<Rightarrow> timestamp option) \<Rightarrow> (repository_error \<Rightarrow> string) \<Rightarrow> timestamp
     \<Rightarrow> delivery_envelope \<Rightarrow> store \<Rightarrow> (repository_error, delivery_outcome) result \<times> store" where
  "process_delivery sha256_hex rfc3339 show_error now d s =
     (let (outcome, s1) = record_delivery sha256_hex now d s
      in if outcome = Conflict then (Ok outcome, s1)
         else case process_locked rfc3339 now d s1 of
             Inr s2 \<Rightarrow> (Ok outcome, s2)
           | Inl e \<Rightarrow> (Err e, mark_delivery_processed now (delivery_id d) (Some (show_error e)) s1))"

definition purge_expired_raw_payloads :: "timestamp \<Rightarrow> store \<Rightarrow> nat \<times> store" where
  "purge_expired_raw_payloads now s =
     (let expired = (\<lambda>r. de_raw_payload r \<noteq> None
            \<and> (case de_raw_payload_expires_at r of None \<Rightarrow> False | Some t \<Rightarrow> t < now))
      in (length (filter expired (delivery_rows s)),
          s\<lparr>delivery_rows := update_where expired (\<lambda>r. r\<lparr>de_raw_payload := None\<rparr>) (delivery_rows s)\<rparr>))"

end
