(* ===== verification/Store_Reads.thy ===== *)
theory Store_Reads
  imports Deliveries
begin

text \<open>
  The reads of \<open>src/repository.rs\<close>, with their joins, orders and limits, and its writes about a
  job: check runs, comments, controls and audit entries. A repository is visible only while it
  is active and its installation is not suspended.
\<close>

section \<open>Contexts\<close>

record repository_context =
  rc_id :: i64
  rc_installation_id :: i64
  rc_owner :: string
  rc_name :: string
  rc_default_branch :: string
  rc_policy_yaml :: string

record pull_request_context =
  pcx_repository_id :: i64
  pcx_number :: i32
  pcx_github_id :: i64
  pcx_title :: string
  pcx_url :: string
  pcx_state :: string
  pcx_draft :: bool
  pcx_merged :: bool
  pcx_head_sha :: string
  pcx_base_sha :: string
  pcx_head_branch :: string
  pcx_base_branch :: string
  pcx_author_login :: string

record control_context =
  cc_job_id :: uuid
  cc_repository_id :: i64
  cc_pull_request_number :: i32
  cc_pr_author :: string
  cc_policy_yaml :: string

record existing_work_handle =
  wh_check_run_id :: i64
  wh_check_run_url :: string
  wh_comment_id :: i64

record pull_request_row =
  prr_repository_id :: i64
  prr_number :: i32
  prr_title :: string
  prr_url :: string
  prr_state :: string
  prr_updated_at :: timestamp

text \<open>\<open>JOIN installations \<dots> WHERE active AND suspended_at IS NULL\<close>.\<close>

definition is_live :: "store \<Rightarrow> repository_row \<Rightarrow> bool" where
  "is_live s r \<longleftrightarrow> re_active r
     \<and> list_ex (\<lambda>i. in_id i = re_installation_id r \<and> in_suspended_at i = None) (installations s)"

definition live_repositories :: "store \<Rightarrow> repository_row list" where
  "live_repositories s = filter (is_live s) (repository_rows s)"

definition context_of :: "repository_row \<Rightarrow> repository_context" where
  "context_of r = \<lparr>rc_id = re_id r, rc_installation_id = re_installation_id r, rc_owner = re_owner r,
     rc_name = re_name r, rc_default_branch = re_default_branch r, rc_policy_yaml = re_policy_yaml r\<rparr>"

definition repository_context_of :: "i64 \<Rightarrow> store \<Rightarrow> repository_context option" where
  "repository_context_of r s = map_option context_of (row_at re_id r (live_repositories s))"

definition active_repository_contexts :: "store \<Rightarrow> repository_context list" where
  "active_repository_contexts s = map context_of (sort_key re_id (live_repositories s))"

definition is_live_pull :: "store \<Rightarrow> pull_row \<Rightarrow> bool" where
  "is_live_pull s p \<longleftrightarrow> pl_watched p \<and> row_at re_id (pl_repository_id p) (live_repositories s) \<noteq> None"

definition open_pull_requests :: "store \<Rightarrow> pull_request_row list" where
  "open_pull_requests s = map (\<lambda>p. \<lparr>prr_repository_id = pl_repository_id p, prr_number = pl_number p,
       prr_title = pl_title p, prr_url = pl_url p, prr_state = pl_state p,
       prr_updated_at = pl_updated_at p\<rparr>)
     (sort_key (\<lambda>p. - pl_updated_at p) (filter (is_live_pull s) (pull_rows s)))"

definition open_pull_requests_for_head :: "i64 \<Rightarrow> string \<Rightarrow> store \<Rightarrow> i32 list" where
  "open_pull_requests_for_head r head s = sort (map pl_number
     (filter (\<lambda>p. pl_repository_id p = r \<and> pl_head_sha p = head \<and> is_live_pull s p) (pull_rows s)))"

definition pull_context :: "pull_row \<Rightarrow> pull_request_context" where
  "pull_context p = \<lparr>pcx_repository_id = pl_repository_id p, pcx_number = pl_number p,
     pcx_github_id = pl_github_id p, pcx_title = pl_title p, pcx_url = pl_url p, pcx_state = pl_state p,
     pcx_draft = pl_draft p, pcx_merged = pl_merged p, pcx_head_sha = pl_head_sha p,
     pcx_base_sha = pl_base_sha p, pcx_head_branch = pl_head_branch p,
     pcx_base_branch = pl_base_branch p, pcx_author_login = pl_author_login p\<rparr>"

definition pull_request_context_of :: "i64 \<Rightarrow> i32 \<Rightarrow> store \<Rightarrow> pull_request_context option" where
  "pull_request_context_of r n s = map_option pull_context (row_at pull_key (r, n) (pull_rows s))"

definition open_pull_request_contexts :: "i64 \<Rightarrow> store \<Rightarrow> pull_request_context list" where
  "open_pull_request_contexts r s = map pull_context (sort_key pl_number
     (filter (\<lambda>p. pl_repository_id p = r \<and> pl_state p = ''open'' \<and> is_live_pull s p) (pull_rows s)))"

text \<open>\<open>control_context\<close>: the newest job of the check run, joined with its pull request.\<close>

definition control_candidates :: "i64 \<Rightarrow> store \<Rightarrow> (job \<times> control_context) list" where
  "control_candidates run s = List.map_filter (\<lambda>j.
     if check_run_id j = Some run then
       (case (row_at pull_key (repository_id j, pull_request_number j) (pull_rows s),
              row_at re_id (repository_id j) (live_repositories s)) of
          (Some p, Some r) \<Rightarrow> Some (j, \<lparr>cc_job_id = job_id j, cc_repository_id = repository_id j,
             cc_pull_request_number = pull_request_number j, cc_pr_author = pl_author_login p,
             cc_policy_yaml = re_policy_yaml r\<rparr>)
        | _ \<Rightarrow> None)
     else None) (jobs (queue s))"

definition control_context_of :: "i64 \<Rightarrow> store \<Rightarrow> control_context option" where
  "control_context_of run s =
     (case sort_key (\<lambda>e. - created_at (fst e)) (control_candidates run s) of
        [] \<Rightarrow> None | e # _ \<Rightarrow> Some (snd e))"

section \<open>History\<close>

record pull_request_detail =
  pd_context :: pull_request_context
  pd_readiness :: "json option"

record job_row =
  jr_id :: uuid
  jr_kind :: string
  jr_state :: job_state
  jr_current_item :: "string option"
  jr_plan :: json
  jr_result :: "json option"
  jr_attempt :: i32
  jr_max_attempts :: i32
  jr_cancel_requested :: bool
  jr_created_at :: timestamp
  jr_updated_at :: timestamp

record event_delivery_row =
  ev_delivery_id :: string
  ev_event_name :: string
  ev_action :: "string option"
  ev_installation_id :: "i64 option"
  ev_repository_id :: "i64 option"
  ev_pull_request_number :: "i32 option"
  ev_payload_hash :: string
  ev_supported :: bool
  ev_received_at :: timestamp
  ev_processed_at :: "timestamp option"
  ev_processing_error :: "string option"

record pull_request_history =
  ph_pull_request :: pull_request_detail
  ph_jobs :: "job_row list"
  ph_audit :: "audit_row list"
  ph_events :: "event_delivery_row list"

definition clamp_limit :: "i64 \<Rightarrow> nat" where
  "clamp_limit n = nat (max 1 (min n 100))"

text \<open>\<open>ORDER BY time DESC, id DESC LIMIT n\<close>.\<close>

definition newest :: "('r \<Rightarrow> timestamp \<times> 'k::linorder) \<Rightarrow> i64 \<Rightarrow> 'r list \<Rightarrow> 'r list" where
  "newest key n rows = take (clamp_limit n) (rev (sort_key key rows))"

definition pull_request_detail_of :: "i64 \<Rightarrow> i32 \<Rightarrow> store \<Rightarrow> pull_request_detail option" where
  "pull_request_detail_of r n s = map_option
     (\<lambda>p. \<lparr>pd_context = pull_context p, pd_readiness = pl_readiness p\<rparr>)
     (row_at pull_key (r, n) (pull_rows s))"

definition job_row_of :: "job \<Rightarrow> job_row" where
  "job_row_of j = \<lparr>jr_id = job_id j, jr_kind = kind j, jr_state = state j,
     jr_current_item = current_item j, jr_plan = plan j, jr_result = job_result j,
     jr_attempt = attempt j, jr_max_attempts = max_attempts j,
     jr_cancel_requested = cancel_requested j, jr_created_at = created_at j,
     jr_updated_at = updated_at j\<rparr>"

definition jobs_for_pull_request :: "i64 \<Rightarrow> i32 \<Rightarrow> i64 \<Rightarrow> store \<Rightarrow> job_row list" where
  "jobs_for_pull_request r n limit s = map job_row_of (newest (\<lambda>j. (created_at j, job_id j)) limit
     (filter (\<lambda>j. repository_id j = r \<and> pull_request_number j = n) (jobs (queue s))))"

definition audit_entries_for_pull_request :: "i64 \<Rightarrow> i32 \<Rightarrow> i64 \<Rightarrow> store \<Rightarrow> audit_row list" where
  "audit_entries_for_pull_request r n limit s = newest (\<lambda>a. (ar_created_at a, ar_id a)) limit
     (filter (\<lambda>a. au_repository_id (ar_entry a) = Some r
        \<and> au_pull_request_number (ar_entry a) = Some n) (audit_rows s))"

definition recent_audit_entries :: "i64 \<Rightarrow> store \<Rightarrow> audit_row list" where
  "recent_audit_entries limit s = newest (\<lambda>a. (ar_created_at a, ar_id a)) limit (audit_rows s)"

definition event_row :: "delivery_row \<Rightarrow> event_delivery_row" where
  "event_row d = \<lparr>ev_delivery_id = de_id d, ev_event_name = de_event_name d, ev_action = de_action d,
     ev_installation_id = de_installation_id d, ev_repository_id = de_repository_id d,
     ev_pull_request_number = de_pull_request_number d, ev_payload_hash = de_payload_hash d,
     ev_supported = de_supported d, ev_received_at = de_received_at d,
     ev_processed_at = de_processed_at d, ev_processing_error = de_processing_error d\<rparr>"

definition events_for_pull_request :: "i64 \<Rightarrow> i32 \<Rightarrow> i64 \<Rightarrow> store \<Rightarrow> event_delivery_row list" where
  "events_for_pull_request r n limit s = map event_row (newest (\<lambda>d. (de_received_at d, de_id d)) limit
     (filter (\<lambda>d. de_repository_id d = Some r \<and> de_pull_request_number d = Some n) (delivery_rows s)))"

definition recent_events :: "i64 \<Rightarrow> store \<Rightarrow> event_delivery_row list" where
  "recent_events limit s = map event_row (newest (\<lambda>d. (de_received_at d, de_id d)) limit (delivery_rows s))"

definition pull_request_history_of :: "i64 \<Rightarrow> i32 \<Rightarrow> i64 \<Rightarrow> store \<Rightarrow> pull_request_history option" where
  "pull_request_history_of r n limit s = map_option (\<lambda>p. \<lparr>ph_pull_request = p,
       ph_jobs = jobs_for_pull_request r n limit s,
       ph_audit = audit_entries_for_pull_request r n limit s,
       ph_events = events_for_pull_request r n limit s\<rparr>)
     (pull_request_detail_of r n s)"

section \<open>Writes about a job\<close>

definition comment_key :: "comment_row \<Rightarrow> uuid \<times> string" where
  "comment_key c = (cm_job_id c, cm_kind c)"

text \<open>What an inserted or updated comment row violates, beside the key it conflicts on.\<close>

definition comment_violates :: "comment_row \<Rightarrow> store \<Rightarrow> bool" where
  "comment_violates c s \<longleftrightarrow>
     list_ex (\<lambda>r. comment_key r \<noteq> comment_key c \<and> cm_job_id r = cm_job_id c \<and> cm_marker r = cm_marker c)
       (comment_rows s)
     \<or> (row_at comment_key (comment_key c) (comment_rows s) = None
        \<and> (\<not> job_exists (cm_job_id c) s \<or> cm_id c \<in> set (map cm_id (comment_rows s))))"

definition upsert_living_comment ::
  "uuid \<Rightarrow> uuid \<Rightarrow> i64 \<Rightarrow> string \<Rightarrow> string \<Rightarrow> store \<Rightarrow> (repository_error, store) result" where
  "upsert_living_comment fresh i comment marker hash s =
     (let new = \<lparr>cm_id = fresh, cm_job_id = i, cm_github_comment_id = Some comment,
            cm_kind = ''work_plan'', cm_marker = marker, cm_body_hash = hash, cm_immutable = False\<rparr>
      in if comment_violates new s then Err Repo_Database
         else Ok (s\<lparr>comment_rows := upsert comment_key
            (\<lambda>c. c\<lparr>cm_github_comment_id := Some comment, cm_marker := marker, cm_body_hash := hash,
               cm_immutable := False\<rparr>) new (comment_rows s)\<rparr>))"

definition insert_final_comment ::
  "uuid \<Rightarrow> uuid \<Rightarrow> i64 \<Rightarrow> string \<Rightarrow> string \<Rightarrow> store \<Rightarrow> (repository_error, bool \<times> store) result" where
  "insert_final_comment fresh i comment marker hash s =
     (let new = \<lparr>cm_id = fresh, cm_job_id = i, cm_github_comment_id = Some comment,
            cm_kind = ''final_summary'', cm_marker = marker, cm_body_hash = hash, cm_immutable = True\<rparr>
      in if row_at comment_key (i, ''final_summary'') (comment_rows s) \<noteq> None then Ok (False, s)
         else if comment_violates new s then Err Repo_Database
         else Ok (True, s\<lparr>comment_rows := comment_rows s @ [new]\<rparr>))"

definition link_check_run ::
  "timestamp \<Rightarrow> uuid \<Rightarrow> i64 \<Rightarrow> string \<Rightarrow> string option \<Rightarrow> store \<Rightarrow> (repository_error, store) result" where
  "link_check_run now i run url item s =
     (case link_job_check_run now i run url item (queue s) of
        Inl _ \<Rightarrow> Err Repo_Database | Inr q \<Rightarrow> Ok (s\<lparr>queue := q\<rparr>))"

definition existing_work_handle_of :: "uuid \<Rightarrow> store \<Rightarrow> existing_work_handle option" where
  "existing_work_handle_of i s =
     Option.bind (find (\<lambda>j. job_id j = i) (jobs (queue s))) (\<lambda>j.
     Option.bind (row_at comment_key (i, ''work_plan'') (comment_rows s)) (\<lambda>c.
     Option.bind (check_run_id j) (\<lambda>run.
     Option.bind (check_run_url j) (\<lambda>url.
     map_option (\<lambda>comment. \<lparr>wh_check_run_id = run, wh_check_run_url = url, wh_comment_id = comment\<rparr>)
       (cm_github_comment_id c)))))"

definition decisions :: "string list" where
  "decisions = [''accepted'', ''rejected-unauthorized'', ''rejected-duplicate'', ''rejected-unknown'',
     ''rejected-context'']"

definition control_key :: "control_row \<Rightarrow> uuid \<times> string" where
  "control_key c = (ct_job_id c, ct_request_id c)"

text \<open>The check constraints come first, then the conflict, then the keys of the new row.\<close>

definition record_job_control ::
  "uuid \<Rightarrow> uuid \<Rightarrow> string \<Rightarrow> string \<Rightarrow> string \<Rightarrow> string option \<Rightarrow> string \<Rightarrow> store
     \<Rightarrow> (repository_error, bool \<times> store) result" where
  "record_job_control fresh i request action_text actor target decision s =
     (if decision \<notin> set decisions
         \<or> (decision = ''accepted''
            \<and> action_text \<notin> {''approve-plan'', ''skip-current-item'', ''cancel-run''})
      then Err Repo_Database
      else if row_at control_key (i, request) (control_rows s) \<noteq> None then Ok (False, s)
      else if fresh \<in> set (map ct_id (control_rows s)) \<or> \<not> job_exists i s then Err Repo_Database
      else Ok (True, s\<lparr>control_rows := control_rows s @ [\<lparr>ct_id = fresh, ct_job_id = i,
             ct_request_id = request, ct_action = action_text, ct_actor_login = actor,
             ct_target_item_id = target, ct_decision = decision\<rparr>]\<rparr>))"

definition record_audit ::
  "uuid \<Rightarrow> timestamp \<Rightarrow> audit_entry \<Rightarrow> store \<Rightarrow> (repository_error, store) result" where
  "record_audit fresh now e s =
     (if fresh \<in> set (map ar_id (audit_rows s)) then Err Repo_Database
      else Ok (s\<lparr>audit_rows := audit_rows s @ [\<lparr>ar_id = fresh, ar_entry = e, ar_created_at = now\<rparr>]\<rparr>))"

end
