(* ===== verification/Workflow.thy ===== *)
theory Workflow
  imports Github_Client Store_Reads Pr_Controls
begin

text \<open>
  The job lifecycle towards GitHub, \<open>src/workflow.rs\<close>: the work plan's Check Run and comment,
  the final summary, and the controls that a Check Run's buttons request. The world is the
  store together with what GitHub holds; \<open>now\<close> and the fresh ids are arguments.
\<close>

datatype workflow_error =
    Wf_Github github_client_error | Wf_Repository repository_error | Wf_Contract contract_error
  | Wf_Policy policy_error | Wf_Event event_parse_error | Wf_Queue queue_error | Wf_Missing_Check_Run_Url

datatype control_disposition =
    NotAControlEvent | UnknownCheckRun | RejectedContext | RejectedUnknown | RejectedUnauthorized
  | DuplicateControl | Applied | InactiveRun

record work_handle =
  hd_job_id :: uuid
  hd_check_run_id :: i64
  hd_check_run_url :: string
  hd_comment_id :: i64

section \<open>Statements as effects\<close>

text \<open>A statement that fails changes nothing; the statements before it stay committed.\<close>

definition statement :: "(store \<Rightarrow> ('e, 'a \<times> store) result) \<Rightarrow> (store, 'e, 'a) io" where
  "statement f s = (case f s of Inl e \<Rightarrow> (Inl e, s) | Inr (x, s') \<Rightarrow> (Inr x, s'))"

definition statement_unit :: "(store \<Rightarrow> ('e, store) result) \<Rightarrow> (store, 'e, unit) io" where
  "statement_unit f s = (case f s of Inl e \<Rightarrow> (Inl e, s) | Inr s' \<Rightarrow> (Inr (), s'))"

definition query :: "(store \<Rightarrow> 'a) \<Rightarrow> (store, 'e, 'a) io" where
  "query f s = (Inr (f s), s)"

definition queue_statement ::
  "(queue_db \<Rightarrow> (queue_error, 'a \<times> queue_db) result) \<Rightarrow> (store, queue_error, 'a) io" where
  "queue_statement f = statement (\<lambda>s. case f (queue s) of
       Inl e \<Rightarrow> Inl e | Inr (x, q) \<Rightarrow> Inr (x, s\<lparr>queue := q\<rparr>))"

definition on_store :: "('e \<Rightarrow> workflow_error) \<Rightarrow> (store, 'e, 'a) io \<Rightarrow> (store \<times> 'w, workflow_error, 'a) io" where
  "on_store wrap m w = (case m (fst w) of (r, s') \<Rightarrow> (map_err wrap r, (s', snd w)))"

definition on_github :: "('w, 'a) gh \<Rightarrow> (store \<times> 'w, workflow_error, 'a) io" where
  "on_github m w = (case m (snd w) of (r, w') \<Rightarrow> (map_err Wf_Github r, (fst w, w')))"

section \<open>The work plan on GitHub\<close>

definition current_item_id :: "plan_item list \<Rightarrow> string option" where
  "current_item_id items = map_option item_id
     (find (\<lambda>i. item_status i = ItemInProgress \<or> item_status i = ItemPending) items)"

definition body_hash :: "(string \<Rightarrow> string) \<Rightarrow> string \<Rightarrow> string" where
  "body_hash sha256_hex body = ''sha256:'' @ sha256_hex body"

definition work_plan_request :: "string \<Rightarrow> check_run_request" where
  "work_plan_request head_sha = \<lparr>crq_name = ''PiTools work plan'', crq_head_sha = head_sha,
     crq_status = ''in_progress'', crq_conclusion = None, crq_details_url = None,
     crq_output = \<lparr>cro_title = ''PiTools is working'',
       cro_summary = ''PiTools is preparing the displayed work plan. Use the requested actions to approve, skip the current item, or cancel the run.'',
       cro_text = None\<rparr>,
     crq_actions =
       [\<lparr>cra_label = ''Approve plan'', cra_description = ''Approve the displayed plan and continue work'',
          cra_identifier = ''approve-plan''\<rparr>,
        \<lparr>cra_label = ''Skip current item'', cra_description = ''Skip this item and continue the plan'',
          cra_identifier = ''skip-current-item''\<rparr>,
        \<lparr>cra_label = ''Cancel run'', cra_description = ''Cancel all remaining work'',
          cra_identifier = ''cancel-run''\<rparr>]\<rparr>"

record 'w work_coordinator =
  wc_github :: "'w github_client"
  wc_decoders :: github_decoders
  wc_sha256_hex :: "string \<Rightarrow> string"

definition save_living_comment ::
  "'w work_coordinator \<Rightarrow> uuid \<Rightarrow> uuid \<Rightarrow> i64 \<Rightarrow> string \<Rightarrow> (store \<times> 'w, workflow_error, unit) io" where
  "save_living_comment k fresh job comment body =
     on_store Wf_Repository (statement_unit
       (upsert_living_comment fresh job comment work_plan_marker (body_hash (wc_sha256_hex k) body)))"

definition update_progress_with_approval ::
  "'w work_coordinator \<Rightarrow> uuid \<Rightarrow> work_handle \<Rightarrow> string \<Rightarrow> string \<Rightarrow> plan_item list \<Rightarrow> string option
     \<Rightarrow> (store \<times> 'w, workflow_error, unit) io" where
  "update_progress_with_approval k fresh h own repo items approval_hash =
     io_then (io_lift (map_err Wf_Contract
       (and_then (new_work_plan_comment (gh_parse (wc_github k)) (hd_check_run_url h) items) (\<lambda>comment.
        and_then (case approval_hash of None \<Rightarrow> Ok comment | Some a \<Rightarrow> with_approval_hash comment a)
          render_work_plan)))) (\<lambda>body.
     io_then (on_github (update_issue_comment (wc_github k) (wc_decoders k) own repo (hd_comment_id h) body)) (\<lambda>_.
     save_living_comment k fresh (hd_job_id h) (hd_comment_id h) body))"

definition update_progress ::
  "'w work_coordinator \<Rightarrow> uuid \<Rightarrow> work_handle \<Rightarrow> string \<Rightarrow> string \<Rightarrow> plan_item list
     \<Rightarrow> (store \<times> 'w, workflow_error, unit) io" where
  "update_progress k fresh h own repo items = update_progress_with_approval k fresh h own repo items None"

definition link_work ::
  "timestamp \<Rightarrow> uuid \<Rightarrow> i64 \<Rightarrow> string \<Rightarrow> plan_item list \<Rightarrow> (store \<times> 'w, workflow_error, unit) io" where
  "link_work now job run url items = on_store Wf_Repository (statement_unit
     (link_check_run now job run url (current_item_id items)))"

definition resume_work ::
  "'w work_coordinator \<Rightarrow> uuid \<Rightarrow> timestamp \<Rightarrow> uuid \<Rightarrow> string \<Rightarrow> string \<Rightarrow> plan_item list \<Rightarrow> existing_work_handle
     \<Rightarrow> (store \<times> 'w, workflow_error, work_handle) io" where
  "resume_work k fresh now job own repo items existing =
     (let h = \<lparr>hd_job_id = job, hd_check_run_id = wh_check_run_id existing,
            hd_check_run_url = wh_check_run_url existing, hd_comment_id = wh_comment_id existing\<rparr>
      in io_then (link_work now job (hd_check_run_id h) (hd_check_run_url h) items) (\<lambda>_.
         io_then (update_progress k fresh h own repo items) (\<lambda>_.
         io_ok h)))"

definition start_fresh ::
  "'w work_coordinator \<Rightarrow> uuid \<Rightarrow> timestamp \<Rightarrow> uuid \<Rightarrow> string \<Rightarrow> string \<Rightarrow> i32 \<Rightarrow> string \<Rightarrow> plan_item list
     \<Rightarrow> (store \<times> 'w, workflow_error, work_handle) io" where
  "start_fresh k fresh now job own repo n head_sha items =
     io_then (on_github (create_check_run (wc_github k) (wc_decoders k) own repo (work_plan_request head_sha))) (\<lambda>run.
     io_then (io_lift (ok_or Wf_Missing_Check_Run_Url (crun_html_url run))) (\<lambda>url.
     io_then (io_lift (map_err Wf_Contract
       (and_then (new_work_plan_comment (gh_parse (wc_github k)) url items) render_work_plan))) (\<lambda>body.
     io_then (on_github (create_issue_comment (wc_github k) (wc_decoders k) own repo n body)) (\<lambda>comment.
     io_then (link_work now job (crun_id run) url items) (\<lambda>_.
     io_then (save_living_comment k fresh job (gc_id comment) body) (\<lambda>_.
     io_ok \<lparr>hd_job_id = job, hd_check_run_id = crun_id run, hd_check_run_url = url,
       hd_comment_id = gc_id comment\<rparr>))))))"

definition start ::
  "'w work_coordinator \<Rightarrow> uuid \<Rightarrow> timestamp \<Rightarrow> uuid \<Rightarrow> string \<Rightarrow> string \<Rightarrow> i32 \<Rightarrow> string \<Rightarrow> plan_item list
     \<Rightarrow> (store \<times> 'w, workflow_error, work_handle) io" where
  "start k fresh now job own repo n head_sha items =
     io_then (on_store Wf_Repository (query (existing_work_handle_of job))) (\<lambda>existing.
     case existing of
       Some x \<Rightarrow> resume_work k fresh now job own repo items x
     | None \<Rightarrow> start_fresh k fresh now job own repo n head_sha items)"

definition finish_update :: "work_handle \<Rightarrow> string \<Rightarrow> bool \<Rightarrow> check_run_update" where
  "finish_update h body succeeded = \<lparr>cru_name = None, cru_status = Some ''completed'',
     cru_conclusion = Some (if succeeded then ''success'' else ''failure''),
     cru_details_url = Some (hd_check_run_url h),
     cru_output = Some \<lparr>cro_title = (if succeeded then ''PiTools work completed''
         else ''PiTools work stopped with blockers''), cro_summary = body, cro_text = None\<rparr>,
     cru_actions = []\<rparr>"

definition first_line :: "string \<Rightarrow> string" where
  "first_line body = (case lines body of [] \<Rightarrow> ''pitools:final-summary'' | l # _ \<Rightarrow> l)"

definition finish ::
  "'w work_coordinator \<Rightarrow> uuid \<Rightarrow> work_handle \<Rightarrow> string \<Rightarrow> string \<Rightarrow> i32 \<Rightarrow> final_summary \<Rightarrow> bool
     \<Rightarrow> (store \<times> 'w, workflow_error, unit) io" where
  "finish k fresh h own repo n summary succeeded =
     io_then (io_lift (map_err Wf_Contract (render_final_summary summary))) (\<lambda>body.
     io_then (on_github (create_issue_comment (wc_github k) (wc_decoders k) own repo n body)) (\<lambda>comment.
     io_then (on_store Wf_Repository (statement (insert_final_comment fresh (hd_job_id h) (gc_id comment)
        (first_line body) (body_hash (wc_sha256_hex k) body)))) (\<lambda>_.
     io_then (on_github (update_check_run (wc_github k) (wc_decoders k) own repo (hd_check_run_id h)
        (finish_update h body succeeded))) (\<lambda>_.
     io_ok ()))))"

section \<open>Controls\<close>

definition control_delivery_matches_context :: "delivery_envelope \<Rightarrow> control_context \<Rightarrow> bool" where
  "control_delivery_matches_context d c \<longleftrightarrow>
     env_repository_id d = Some (cc_repository_id c)
     \<and> env_pull_request_number d = Some (cc_pull_request_number c)"

definition context_policy ::
  "(string \<Rightarrow> (string, policy) result) \<Rightarrow> string \<Rightarrow> (workflow_error, policy) result" where
  "context_policy yaml source =
     (if trim source = [] then Ok default_policy else map_err Wf_Policy (from_yaml yaml source))"

definition record_decision ::
  "uuid \<Rightarrow> control_context \<Rightarrow> delivery_envelope \<Rightarrow> check_run_control \<Rightarrow> string
     \<Rightarrow> (store, workflow_error, bool) io" where
  "record_decision fresh c d control decision =
     io_map_err Wf_Repository (statement (record_job_control fresh (cc_job_id c) (delivery_id d)
       (control_action_text control) (control_actor_login control) None decision))"

text \<open>The identifier of each action and the statement of the queue that carries it out.\<close>

fun action_name :: "control_action \<Rightarrow> string" where
  "action_name ApprovePlan = ''approve-plan''"
| "action_name SkipCurrentItem = ''skip-current-item''"
| "action_name CancelRun = ''cancel-run''"

fun apply_to_queue ::
  "timestamp \<Rightarrow> uuid \<Rightarrow> control_action \<Rightarrow> queue_db \<Rightarrow> (queue_error, bool \<times> queue_db) result" where
  "apply_to_queue now i ApprovePlan q = approve_plan now i q"
| "apply_to_queue now i SkipCurrentItem q = skip_current_item now i q"
| "apply_to_queue now i CancelRun q = Ok (request_cancel now i q)"

definition control_audit :: "control_context \<Rightarrow> check_run_control \<Rightarrow> control_action \<Rightarrow> bool \<Rightarrow> audit_entry" where
  "control_audit c control act changed = \<lparr>au_repository_id = Some (cc_repository_id c),
     au_pull_request_number = Some (cc_pull_request_number c), au_job_id = Some (cc_job_id c),
     au_actor_login = Some (control_actor_login control), au_event_type = ''job_control'',
     au_summary = action_name act @ '' requested'', au_evidence = jobj [(''changed'', JBool changed)]\<rparr>"

definition carry_out ::
  "timestamp \<Rightarrow> uuid \<Rightarrow> control_context \<Rightarrow> check_run_control \<Rightarrow> control_action
     \<Rightarrow> (store, workflow_error, control_disposition) io" where
  "carry_out now fresh c control act =
     io_then (io_map_err Wf_Queue (queue_statement (apply_to_queue now (cc_job_id c) act))) (\<lambda>changed.
     io_then (io_map_err Wf_Repository (statement_unit
        (record_audit fresh now (control_audit c control act changed)))) (\<lambda>_.
     io_ok (if changed then Applied else InactiveRun)))"

definition decide_control ::
  "(string \<Rightarrow> (string, policy) result) \<Rightarrow> timestamp \<Rightarrow> uuid \<Rightarrow> uuid \<Rightarrow> delivery_envelope \<Rightarrow> check_run_control
     \<Rightarrow> control_context \<Rightarrow> (store, workflow_error, control_disposition) io" where
  "decide_control yaml now fresh fresh_audit d control c =
     (if \<not> control_delivery_matches_context d c then
        io_then (record_decision fresh c d control ''rejected-context'') (\<lambda>_. io_ok RejectedContext)
      else
        io_then (io_lift (context_policy yaml (cc_policy_yaml c))) (\<lambda>p.
        case parse_action (control_action_text control) of
          Inl _ \<Rightarrow>
            io_then (record_decision fresh c d control ''rejected-unknown'') (\<lambda>_. io_ok RejectedUnknown)
        | Inr act \<Rightarrow>
            if \<not> is_authorized (control_actor_login control) (cc_pr_author c) (maintainers p) then
              io_then (record_decision fresh c d control ''rejected-unauthorized'') (\<lambda>_.
              io_ok RejectedUnauthorized)
            else
              io_then (record_decision fresh c d control ''accepted'') (\<lambda>inserted.
              if \<not> inserted then io_ok DuplicateControl
              else carry_out now fresh_audit c control act)))"

definition process_check_run_control ::
  "(string \<Rightarrow> (string, policy) result) \<Rightarrow> timestamp \<Rightarrow> uuid \<Rightarrow> uuid \<Rightarrow> delivery_envelope
     \<Rightarrow> (store, workflow_error, control_disposition) io" where
  "process_check_run_control yaml now fresh fresh_audit d =
     io_then (io_lift (map_err Wf_Event (check_run_control_of d))) (\<lambda>requested.
     case requested of
       None \<Rightarrow> io_ok NotAControlEvent
     | Some control \<Rightarrow>
         io_then (query (control_context_of (control_check_run_id control))) (\<lambda>found.
         case found of
           None \<Rightarrow> io_ok UnknownCheckRun
         | Some c \<Rightarrow> decide_control yaml now fresh fresh_audit d control c))"

end
