(* ===== verification/Metrics.thy ===== *)
theory Metrics
  imports Rust_Text "HOL-Library.Word"
begin

text \<open>
  The process counters of \<open>src/metrics.rs\<close> and their Prometheus text. A counter is an
  \<open>AtomicU64\<close>, whose \<open>fetch_add\<close> wraps.
\<close>

record metrics =
  webhook_received :: "64 word"
  webhook_rejected :: "64 word"
  webhook_accepted :: "64 word"
  webhook_duplicate :: "64 word"
  webhook_conflict :: "64 word"

definition no_metrics :: metrics where
  "no_metrics = \<lparr>webhook_received = 0, webhook_rejected = 0, webhook_accepted = 0, webhook_duplicate = 0,
     webhook_conflict = 0\<rparr>"

definition record_webhook_received :: "metrics \<Rightarrow> metrics" where
  "record_webhook_received m = m\<lparr>webhook_received := webhook_received m + 1\<rparr>"

definition record_webhook_rejected :: "metrics \<Rightarrow> metrics" where
  "record_webhook_rejected m = m\<lparr>webhook_rejected := webhook_rejected m + 1\<rparr>"

definition record_webhook_accepted :: "metrics \<Rightarrow> metrics" where
  "record_webhook_accepted m = m\<lparr>webhook_accepted := webhook_accepted m + 1\<rparr>"

definition record_webhook_duplicate :: "metrics \<Rightarrow> metrics" where
  "record_webhook_duplicate m = m\<lparr>webhook_duplicate := webhook_duplicate m + 1\<rparr>"

definition record_webhook_conflict :: "metrics \<Rightarrow> metrics" where
  "record_webhook_conflict m = m\<lparr>webhook_conflict := webhook_conflict m + 1\<rparr>"

definition render_counter :: "string \<times> string \<times> 64 word \<Rightarrow> string" where
  "render_counter = (\<lambda>(counter_name, help, v).
     ''# HELP '' @ counter_name @ '' '' @ help @ [LF]
     @ ''# TYPE '' @ counter_name @ '' counter'' @ [LF]
     @ counter_name @ '' '' @ show_nat (unat v) @ [LF])"

definition render_prometheus :: "metrics \<Rightarrow> string" where
  "render_prometheus m = concat (map render_counter
     [(''pitools_webhook_received_total'', ''Total webhook requests received.'', webhook_received m),
      (''pitools_webhook_rejected_total'', ''Total webhook requests rejected before enqueue.'', webhook_rejected m),
      (''pitools_webhook_accepted_total'', ''Total webhook deliveries accepted.'', webhook_accepted m),
      (''pitools_webhook_duplicate_total'', ''Total duplicate webhook deliveries observed.'', webhook_duplicate m),
      (''pitools_webhook_conflict_total'', ''Total delivery identifier conflicts observed.'', webhook_conflict m)])"

end
