(* ===== verification/Webhook.thy ===== *)
theory Webhook
  imports Workflow Metrics
begin

unbundle bit_operations_syntax

text \<open>
  The webhook receiver, \<open>src/webhook.rs\<close>: the signature check, the delivery's way into the
  store, the control it may carry and the reconciliations it asks for. HMAC-SHA256, SHA-256,
  the JSON and YAML parsers and the error texts are parameters; a header is its text, when it
  has one. \<open>now\<close> and the fresh ids are arguments.
\<close>

datatype webhook_error =
    Wh_Missing_Signature | Wh_Invalid_Signature | Wh_Missing_Delivery_Id | Wh_Invalid_Payload
  | Wh_Payload_Too_Large | Wh_Persistence_Unavailable | Wh_Repository string

fun error_status :: "webhook_error \<Rightarrow> nat" where
  "error_status Wh_Missing_Signature = 401"
| "error_status Wh_Invalid_Signature = 401"
| "error_status Wh_Missing_Delivery_Id = 401"
| "error_status Wh_Invalid_Payload = 400"
| "error_status Wh_Payload_Too_Large = 413"
| "error_status Wh_Persistence_Unavailable = 503"
| "error_status (Wh_Repository e) = 500"

record webhook_env =
  we_hmac_hex :: "string \<Rightarrow> string \<Rightarrow> string"
  we_sha256_hex :: "string \<Rightarrow> string"
  we_parse_json :: "string \<Rightarrow> json option"
  we_rfc3339 :: "string \<Rightarrow> timestamp option"
  we_yaml :: "string \<Rightarrow> (string, policy) result"
  we_printed :: "json \<Rightarrow> string"
  we_show_repository :: "repository_error \<Rightarrow> string"
  we_show_event :: "event_parse_error \<Rightarrow> string"
  we_show_workflow :: "workflow_error \<Rightarrow> string"
  we_show_queue :: "queue_error \<Rightarrow> string"

text \<open>The parts of \<open>AppState\<close> that a request reads, and those that it changes.\<close>

record app_state =
  st_webhook_secret :: string
  st_has_repositories :: bool
  st_has_queue :: bool

record service =
  sv_store :: store
  sv_metrics :: metrics

section \<open>Signatures\<close>

definition byte_word :: "char \<Rightarrow> 8 word" where
  "byte_word c = word_of_nat (byte c)"

fun difference :: "8 word \<Rightarrow> (char \<times> char) list \<Rightarrow> 8 word" where
  "difference acc [] = acc"
| "difference acc ((l, r) # ps) = difference (acc OR (byte_word l XOR byte_word r)) ps"

definition constant_time_equal :: "string \<Rightarrow> string \<Rightarrow> bool" where
  "constant_time_equal l r = (if length l \<noteq> length r then False else difference 0 (zip l r) = 0)"

definition verify_signature :: "(string \<Rightarrow> string \<Rightarrow> string) \<Rightarrow> string \<Rightarrow> string \<Rightarrow> string \<Rightarrow> (webhook_error, unit) result" where
  "verify_signature hmac_hex secret body header =
     and_then (ok_or Wh_Invalid_Signature (strip_prefix ''sha256='' header)) (\<lambda>signature.
     let expected = hmac_hex secret body
     in if length signature \<noteq> length expected \<or> \<not> constant_time_equal signature expected
        then Err Wh_Invalid_Signature else Ok ())"

section \<open>Receiving a delivery\<close>

definition counted :: "(metrics \<Rightarrow> metrics) \<Rightarrow> (service, 'e, unit) io" where
  "counted f w = (Inr (), w\<lparr>sv_metrics := f (sv_metrics w)\<rparr>)"

definition in_store :: "('e \<Rightarrow> webhook_error) \<Rightarrow> (store, 'e, 'a) io \<Rightarrow> (service, webhook_error, 'a) io" where
  "in_store wrap m w = (case m (sv_store w) of (r, s') \<Rightarrow> (map_err wrap r, w\<lparr>sv_store := s'\<rparr>))"

text \<open>An error that counts as a rejection.\<close>

definition or_reject :: "(webhook_error, 'a) result \<Rightarrow> (service, webhook_error, 'a) io" where
  "or_reject r = (case r of
       Inl e \<Rightarrow> io_then (counted record_webhook_rejected) (\<lambda>_. io_lift (Err e))
     | Inr x \<Rightarrow> io_ok x)"

definition non_blank :: "string option \<Rightarrow> string option" where
  "non_blank v = (case v of None \<Rightarrow> None | Some t \<Rightarrow> if trim t = [] then None else Some t)"

definition max_webhook_bytes :: nat where
  "max_webhook_bytes = 2 * 1024 * 1024"

text \<open>The checks before anything is stored, in their order.\<close>

definition admit ::
  "webhook_env \<Rightarrow> app_state \<Rightarrow> (string \<Rightarrow> string option) \<Rightarrow> string \<Rightarrow> (webhook_error, delivery_envelope) result" where
  "admit env st headers body =
     and_then (reject_if (length body > max_webhook_bytes) Wh_Payload_Too_Large) (\<lambda>_.
     and_then (ok_or Wh_Missing_Signature (headers ''x-hub-signature-256'')) (\<lambda>signature.
     and_then (verify_signature (we_hmac_hex env) (st_webhook_secret st) body signature) (\<lambda>_.
     and_then (ok_or Wh_Missing_Delivery_Id (non_blank (headers ''x-github-delivery''))) (\<lambda>did.
     and_then (ok_or Wh_Invalid_Payload (we_parse_json env body)) (\<lambda>p.
     let event = (case non_blank (headers ''x-github-event'') of None \<Rightarrow> ''unknown'' | Some e \<Rightarrow> e)
     in if st_has_repositories st then Ok (from_payload did event p body)
        else Err Wh_Persistence_Unavailable)))))"

definition reconcile_spec :: "delivery_envelope \<Rightarrow> i64 \<Rightarrow> i32 \<Rightarrow> job_spec" where
  "reconcile_spec d r n = \<lparr>spec_repository_id = r, spec_pull_request_number = n, spec_kind = Reconcile,
     spec_plan = jobj [(''source'', JStr ''webhook''), (''event'', JStr (event_name d)),
       (''action'', case action d of None \<Rightarrow> JNull | Some a \<Rightarrow> JStr a)]\<rparr>"

definition reconcile_targets :: "delivery_envelope \<Rightarrow> store \<Rightarrow> (i64 \<times> i32) list" where
  "reconcile_targets d s =
     (case (env_repository_id d, env_pull_request_number d) of
        (Some r, Some n) \<Rightarrow> [(r, n)]
      | (Some r, None) \<Rightarrow> (case head_sha_of d of
            None \<Rightarrow> [] | Some sha \<Rightarrow> map (Pair r) (open_pull_requests_for_head r sha s))
      | (None, _) \<Rightarrow> [])"

fun enqueue_targets ::
  "webhook_env \<Rightarrow> timestamp \<Rightarrow> (nat \<Rightarrow> uuid) \<Rightarrow> delivery_envelope \<Rightarrow> (i64 \<times> i32) list
     \<Rightarrow> (store, queue_error, unit) io" where
  "enqueue_targets env now fresh d [] = io_ok ()"
| "enqueue_targets env now fresh d ((r, n) # ts) =
     io_then (queue_statement (enqueue (we_printed env) now (fresh (length ts)) (reconcile_spec d r n))) (\<lambda>_.
     enqueue_targets env now fresh d ts)"

text \<open>What follows a delivery that is recorded: its control, or reconciliations.\<close>

definition follow_up ::
  "webhook_env \<Rightarrow> timestamp \<Rightarrow> uuid \<Rightarrow> uuid \<Rightarrow> (nat \<Rightarrow> uuid) \<Rightarrow> delivery_envelope
     \<Rightarrow> (service, webhook_error, unit) io" where
  "follow_up env now fresh fresh_audit fresh_jobs d =
     io_then (io_lift (map_err (\<lambda>e. Wh_Repository (we_show_event env e)) (check_run_control_of d))) (\<lambda>control.
     io_then (in_store (\<lambda>e. Wh_Repository (we_show_workflow env e))
        (process_check_run_control (we_yaml env) now fresh fresh_audit d)) (\<lambda>_.
     if control = None \<and> is_supported d then
       io_then (in_store (\<lambda>e. Wh_Repository (we_show_repository env e)) (query (reconcile_targets d))) (\<lambda>targets.
       in_store (\<lambda>e. Wh_Repository (we_show_queue env e)) (enqueue_targets env now fresh_jobs d targets))
     else io_ok ()))"

fun outcome_response :: "delivery_outcome \<Rightarrow> nat \<times> string" where
  "outcome_response Inserted = (202, ''accepted'')"
| "outcome_response Duplicate = (208, ''duplicate'')"
| "outcome_response Conflict = (409, ''delivery conflict'')"

fun record_outcome :: "delivery_outcome \<Rightarrow> metrics \<Rightarrow> metrics" where
  "record_outcome Inserted = record_webhook_accepted"
| "record_outcome Duplicate = record_webhook_duplicate"
| "record_outcome Conflict = record_webhook_conflict"

definition store_delivery ::
  "webhook_env \<Rightarrow> timestamp \<Rightarrow> delivery_envelope \<Rightarrow> (service, webhook_error, delivery_outcome) io" where
  "store_delivery env now d w =
     (case process_delivery (we_sha256_hex env) (we_rfc3339 env) (we_show_repository env) now d (sv_store w) of
        (r, s') \<Rightarrow> or_reject (map_err (\<lambda>e. Wh_Repository (we_show_repository env e)) r) (w\<lparr>sv_store := s'\<rparr>))"

definition receive ::
  "webhook_env \<Rightarrow> app_state \<Rightarrow> timestamp \<Rightarrow> uuid \<Rightarrow> uuid \<Rightarrow> (nat \<Rightarrow> uuid) \<Rightarrow> (string \<Rightarrow> string option) \<Rightarrow> string
     \<Rightarrow> (service, webhook_error, nat \<times> string) io" where
  "receive env st now fresh fresh_audit fresh_jobs headers body =
     io_then (counted record_webhook_received) (\<lambda>_.
     io_then (or_reject (admit env st headers body)) (\<lambda>d.
     io_then (store_delivery env now d) (\<lambda>outcome.
     io_then (if (outcome = Inserted \<or> outcome = Duplicate) \<and> st_has_queue st
        then follow_up env now fresh fresh_audit fresh_jobs d else io_ok ()) (\<lambda>_.
     io_then (counted (record_outcome outcome)) (\<lambda>_.
     io_ok (outcome_response outcome))))))"

end
