(* ===== verification/Store_Properties.thy ===== *)
theory Store_Properties
  imports Store_Reads Queue_Safety
begin

text \<open>
  The store keeps its keys and references through every delivery, a delivery takes effect
  once, revoked access ends the work on a repository, and a settled piece of feedback stays
  settled.
\<close>

section \<open>Row changes that keep the key\<close>

interpretation merge_installation: row_change in_id "merge_installation now login account"
  by unfold_locales (simp add: merge_installation_def)

interpretation suspend_row: row_change in_id "\<lambda>r. r\<lparr>in_suspended_at := v, in_updated_at := now\<rparr>"
  by unfold_locales simp

interpretation merge_repository: row_change re_id "merge_repository now own n branch reactivate"
  by unfold_locales (simp add: merge_repository_def)

interpretation deactivate_row: row_change re_id "\<lambda>r. r\<lparr>re_active := False, re_updated_at := now\<rparr>"
  by unfold_locales simp

interpretation merge_pull: row_change pull_key "merge_pull p"
  by unfold_locales (auto simp: merge_pull_def pull_key_def pull_row_of_def)

interpretation unwatch_row: row_change pull_key "\<lambda>r. r\<lparr>pl_watched := False, pl_updated_at := now\<rparr>"
  by unfold_locales (simp add: pull_key_def)

interpretation readiness_of_row: row_change pull_key "\<lambda>r. r\<lparr>pl_readiness := v, pl_updated_at := now\<rparr>"
  by unfold_locales (simp add: pull_key_def)

interpretation merge_feedback: row_change fe_id "merge_feedback now f"
  by unfold_locales (simp add: merge_feedback_def)

interpretation merge_check: row_change check_key "merge_check now c"
  by unfold_locales (simp add: merge_check_def check_key_def)

interpretation mark_row: row_change de_id "\<lambda>r. r\<lparr>de_processed_at := t, de_processing_error := e\<rparr>"
  by unfold_locales simp

section \<open>The invariant of the store\<close>

definition feedback_ok :: "feedback_row \<Rightarrow> bool" where
  "feedback_ok r \<longleftrightarrow> fe_repair_state r \<in> {''unreviewed'', ''rejected'', ''previewed'', ''applied''}
     \<and> (fe_resolution_eligible r \<longrightarrow> fe_repair_state r = ''applied'' \<and> fe_repair_applied_at r \<noteq> None)"

definition job_repositories :: "queue_db \<Rightarrow> i64 set" where
  "job_repositories q = repository_id ` set (jobs q)"

definition known_repositories :: "queue_db \<Rightarrow> bool" where
  "known_repositories q \<longleftrightarrow> job_repositories q \<subseteq> set (repositories q)"

definition store_inv :: "store \<Rightarrow> bool" where
  "store_inv s \<longleftrightarrow> primary_key in_id (installations s) \<and> primary_key re_id (repository_rows s)
     \<and> primary_key pull_key (pull_rows s) \<and> primary_key de_id (delivery_rows s)
     \<and> primary_key fe_id (feedback_rows s) \<and> primary_key check_key (check_rows s)
     \<and> foreign_key re_installation_id (repository_rows s) in_id (installations s)
     \<and> foreign_key pl_repository_id (pull_rows s) re_id (repository_rows s)
     \<and> repositories (queue s) = map re_id (repository_rows s)
     \<and> known_repositories (queue s)
     \<and> list_all feedback_ok (feedback_rows s) \<and> queue_inv (queue s)"

lemma queue_inv_repositories [simp]: "queue_inv (q\<lparr>repositories := rs\<rparr>) = queue_inv q"
  by (simp add: queue_inv_def)

lemma known_repositories_append [simp]:
  "known_repositories q \<Longrightarrow> known_repositories (q\<lparr>repositories := repositories q @ rs\<rparr>)"
  by (auto simp: known_repositories_def job_repositories_def)

lemma repositories_update [simp]: "repositories (update_jobs P f db) = repositories db"
  by (simp add: update_jobs_def)

lemma upsert_installation_inv:
  "store_inv s \<Longrightarrow> store_inv (upsert_installation_from_payload now d s)"
  unfolding upsert_installation_from_payload_def store_inv_def Let_def
  by (auto simp: merge_installation.primary_upsert merge_installation.keys_upsert foreign_key_def
      split: option.split)

lemma upsert_repository_inv:
  assumes "store_inv s" "upsert_repository now inst i own n branch reactivate s = Ok s'"
  shows "store_inv s'"
proof -
  let ?new = "\<lparr>re_id = i, re_installation_id = inst, re_owner = own, re_name = n,
      re_default_branch = branch, re_active = True, re_policy_yaml = [], re_policy_revision = [],
      re_updated_at = now\<rparr>"
  let ?rows = "upsert re_id (merge_repository now own n branch reactivate) ?new (repository_rows s)"
  have s': "s' = s\<lparr>repository_rows := ?rows,
      queue := (if repository_exists i s then queue s
                else (queue s)\<lparr>repositories := repositories (queue s) @ [i]\<rparr>)\<rparr>"
    and inst: "inst \<in> in_id ` set (installations s)"
    using assms(2) by (auto simp: upsert_repository_def Let_def split: if_splits)
  have "re_installation_id ` set ?rows \<subseteq> insert inst (re_installation_id ` set (repository_rows s))"
    by (auto dest!: set_upsert simp: merge_repository_def)
  then have "foreign_key re_installation_id ?rows in_id (installations s)"
    using assms(1) inst by (auto simp: store_inv_def foreign_key_def)
  moreover have "re_id ` set ?rows = insert i (re_id ` set (repository_rows s))"
    by (simp add: merge_repository.keys_upsert)
  then have "foreign_key pl_repository_id (pull_rows s) re_id ?rows"
    using assms(1) by (auto simp: store_inv_def foreign_key_def)
  moreover have "map re_id ?rows = repositories (queue s')"
    using assms(1) by (simp add: merge_repository.map_upsert s' store_inv_def repository_exists_def)
  moreover have "known_repositories (queue s')"
    using assms(1) known_repositories_append [of "queue s" "[i]"] by (simp add: s' store_inv_def)
  ultimately show ?thesis
    using assms(1) unfolding store_inv_def s' by (auto simp: merge_repository.primary_upsert)
qed

lemma upsert_repositories_inv:
  "store_inv s \<Longrightarrow> upsert_repositories now inst reactivate vs s = Ok s' \<Longrightarrow> store_inv s'"
  by (induction now inst reactivate vs s rule: upsert_repositories.induct)
    (auto simp: and_then_Ok split: option.splits intro: upsert_repository_inv)

lemma on_queue_inv:
  "store_inv s \<Longrightarrow> queue_inv (f (queue s)) \<Longrightarrow> repositories (f (queue s)) = repositories (queue s) \<Longrightarrow>
   job_repositories (f (queue s)) \<subseteq> job_repositories (queue s) \<union> set (repositories (queue s)) \<Longrightarrow>
   store_inv (on_queue f s)"
  unfolding store_inv_def on_queue_def known_repositories_def by auto

lemma job_repositories_update:
  "(\<And>j. repository_id (f j) = repository_id j) \<Longrightarrow>
   job_repositories (update_jobs P f db) = job_repositories db"
  unfolding job_repositories_def jobs_update set_map image_image by (rule image_cong) auto

lemma job_repositories_cancel [simp]:
  "job_repositories (cancel_installation_jobs now rs db) = job_repositories db"
  "job_repositories (cancel_repository_jobs now r db) = job_repositories db"
  by (simp_all add: cancel_installation_jobs_def cancel_repository_jobs_def job_repositories_update
      cancel_job_def release_lease_def)

lemma repositories_cancel [simp]:
  "repositories (cancel_installation_jobs now rs db) = repositories db"
  "repositories (cancel_repository_jobs now r db) = repositories db"
  by (simp_all add: cancel_installation_jobs_def cancel_repository_jobs_def)

lemma queue_inv_of: "store_inv s \<Longrightarrow> queue_inv (queue s)"
  by (simp add: store_inv_def)

lemma set_suspended_inv: "store_inv s \<Longrightarrow> store_inv (set_suspended v now inst s)"
  by (simp add: store_inv_def set_suspended_def suspend_row.primary_update_where)

lemma deactivate_where_inv: "store_inv s \<Longrightarrow> store_inv (deactivate_where P now s)"
  by (simp add: store_inv_def deactivate_where_def deactivate_row.primary_update_where
      deactivate_row.keys_update_where)

lemma unwatch_where_inv: "store_inv s \<Longrightarrow> store_inv (unwatch_where P now s)"
  by (simp add: store_inv_def unwatch_where_def unwatch_row.primary_update_where)

lemma queue_unwatch [simp]: "queue (unwatch_where P now s) = queue s"
  "queue (deactivate_where Q now s) = queue s" "queue (set_suspended v now inst s) = queue s"
  by (simp_all add: unwatch_where_def deactivate_where_def set_suspended_def)

lemma cancel_installation_inv: "store_inv s \<Longrightarrow> store_inv (cancel_installation now inst s)"
  unfolding cancel_installation_def Let_def
  by (intro on_queue_inv unwatch_where_inv)
    (simp_all add: cancel_installation_jobs_inv queue_inv_of)

lemma deactivate_repository_inv: "store_inv s \<Longrightarrow> store_inv (deactivate_repository now r s)"
  unfolding deactivate_repository_def
  by (intro on_queue_inv unwatch_where_inv deactivate_where_inv)
    (simp_all add: cancel_repository_jobs_inv queue_inv_of)

lemma fold_deactivate_inv: "store_inv s \<Longrightarrow> store_inv (fold (deactivate_repository now) rs s)"
  by (induction rs arbitrary: s) (auto intro: deactivate_repository_inv)

lemmas lifecycle_invs = set_suspended_inv deactivate_where_inv cancel_installation_inv fold_deactivate_inv

lemma apply_access_lifecycle_inv: "store_inv s \<Longrightarrow> store_inv (apply_access_lifecycle now d s)"
  unfolding apply_access_lifecycle_def
  by (auto split: option.split access_lifecycle.split intro!: lifecycle_invs)

lemma upsert_pull_request_inv:
  assumes "store_inv s" "upsert_pull_request p s = Ok s'"
  shows "store_inv s'"
proof -
  let ?rows = "upsert pull_key (merge_pull p) (pull_row_of p) (pull_rows s)"
  have s': "s' = s\<lparr>pull_rows := ?rows\<rparr>"
    and known: "row_at pull_key (pull_key (pull_row_of p)) (pull_rows s) \<noteq> None
      \<or> prs_repository_id p \<in> re_id ` set (repository_rows s)"
    using assms(2) by (auto simp: upsert_pull_request_def Let_def repository_exists_def split: if_splits)
  have "prs_repository_id p \<in> re_id ` set (repository_rows s)"
    using known assms(1)
    by (auto simp: store_inv_def foreign_key_def row_at_None pull_key_def pull_row_of_def)
  then have "foreign_key pl_repository_id ?rows re_id (repository_rows s)"
    using assms(1) unfolding store_inv_def foreign_key_def
    by (auto dest!: set_upsert simp: pull_row_of_def merge_pull_def pull_key_def)
  then show ?thesis
    using assms(1) by (simp add: store_inv_def s' merge_pull.primary_upsert)
qed

lemma upsert_feedback_inv:
  assumes "store_inv s" "upsert_feedback now r n f s = Ok s'"
  shows "store_inv s'"
proof -
  let ?rows = "upsert fe_id (merge_feedback now f) (feedback_row_of now r n f) (feedback_rows s)"
  have "list_all feedback_ok ?rows"
    using assms(1) unfolding store_inv_def list_all_iff
    by (auto dest!: set_upsert simp: feedback_row_of_def merge_feedback_def feedback_ok_def)
  with assms show ?thesis
    by (auto simp: upsert_feedback_def store_inv_def merge_feedback.primary_upsert split: if_splits)
qed

lemma upsert_check_inv:
  "store_inv s \<Longrightarrow> upsert_check now r n c s = Ok s' \<Longrightarrow> store_inv s'"
  by (auto simp: upsert_check_def Let_def store_inv_def merge_check.primary_upsert split: if_splits)

lemma mark_delivery_inv: "store_inv s \<Longrightarrow> store_inv (mark_delivery_processed now i e s)"
  by (simp add: store_inv_def mark_delivery_processed_def mark_row.primary_update_where)

lemma record_delivery_inv:
  "store_inv s \<Longrightarrow> record_delivery h now d s = (o1, s') \<Longrightarrow> store_inv s'"
  unfolding record_delivery_def store_inv_def primary_key_def
  by (auto simp: delivery_row_of_def row_at_None split: option.splits)

lemma for_pull_request_cases:
  assumes "for_pull_request d v write s = Ok s'"
  obtains "s' = s" | r n x where "v = Some x" "env_repository_id d = Some r"
    "env_pull_request_number d = Some n" "write r n x s = Ok s'"
  using assms by (auto simp: for_pull_request_def split: option.splits)

text \<open>The transaction of a delivery, statement by statement.\<close>

lemma apply_delivery_cases:
  assumes "apply_delivery rfc3339 now d s = Ok s'"
  obtains s1 snap s2 fb s3 check where
    "upsert_repository_from_payload now d (upsert_installation_from_payload now d s) = Ok s1"
    "pull_request_snapshot_of rfc3339 d = Ok snap"
    "(case snap of None \<Rightarrow> Ok (apply_access_lifecycle now d s1)
       | Some p \<Rightarrow> upsert_pull_request p (apply_access_lifecycle now d s1)) = Ok s2"
    "feedback_record_of d = Ok fb" "for_pull_request d fb (upsert_feedback now) s2 = Ok s3"
    "check_record_of d = Ok check" "for_pull_request d check (upsert_check now) s3 = Ok s'"
  using assms unfolding apply_delivery_def upsert_pull_request_on_def by (auto simp: and_then_Ok)

lemma apply_delivery_inv:
  assumes "store_inv s" "apply_delivery rfc3339 now d s = Ok s'"
  shows "store_inv s'"
  using assms(2)
proof (rule apply_delivery_cases)
  fix s1 snap s2 fb s3 check
  assume 1: "upsert_repository_from_payload now d (upsert_installation_from_payload now d s) = Ok s1"
    and 2: "(case snap of None \<Rightarrow> Ok (apply_access_lifecycle now d s1)
       | Some p \<Rightarrow> upsert_pull_request p (apply_access_lifecycle now d s1)) = Ok s2"
    and 3: "for_pull_request d fb (upsert_feedback now) s2 = Ok s3"
    and 4: "for_pull_request d check (upsert_check now) s3 = Ok s'"
  have "store_inv s1"
    using 1 upsert_installation_inv [OF assms(1)]
    by (auto simp: upsert_repository_from_payload_def split: option.splits intro: upsert_repositories_inv)
  then have "store_inv s2"
    using 2 by (auto split: option.splits intro: upsert_pull_request_inv apply_access_lifecycle_inv)
  then have "store_inv s3"
    using 3 by (auto elim!: for_pull_request_cases intro: upsert_feedback_inv)
  then show ?thesis
    using 4 by (auto elim!: for_pull_request_cases intro: upsert_check_inv)
qed

lemma process_locked_inv:
  "store_inv s \<Longrightarrow> process_locked rfc3339 now d s = Ok s' \<Longrightarrow> store_inv s'"
  by (auto simp: process_locked_def and_then_Ok split: if_splits intro: apply_delivery_inv mark_delivery_inv)

section \<open>Deliveries as an inbox\<close>

text \<open>
  The contract of the delivery table: a set of identifiers, each with the hash of the payload
  that took it first and whether it has taken effect.
\<close>

type_synonym inbox = "string \<Rightarrow> (string \<times> bool) option"

definition inbox_of :: "store \<Rightarrow> inbox" where
  "inbox_of s i = map_option (\<lambda>r. (de_payload_hash r, de_processed_at r \<noteq> None))
     (row_at de_id i (delivery_rows s))"

definition inbox_receive ::
  "bool \<Rightarrow> string \<Rightarrow> string \<Rightarrow> inbox \<Rightarrow> delivery_outcome option \<times> inbox" where
  "inbox_receive applies i h m =
     (case m i of
        None \<Rightarrow> (if applies then Some Inserted else None, m(i \<mapsto> (h, applies)))
      | Some (h', took) \<Rightarrow>
          if h' \<noteq> h then (Some Conflict, m)
          else if took then (Some Duplicate, m)
          else (if applies then Some Duplicate else None, m(i \<mapsto> (h, applies))))"

text \<open>Whether a delivery is the first of its identifier to take effect.\<close>

definition is_due :: "string \<Rightarrow> string \<Rightarrow> inbox \<Rightarrow> bool" where
  "is_due i h m \<longleftrightarrow> m i = None \<or> m i = Some (h, False)"

definition effects :: "store \<Rightarrow> store" where
  "effects s = s\<lparr>delivery_rows := []\<rparr>"

lemma delivery_rows_simps [simp]:
  "delivery_rows (upsert_installation_from_payload now d s) = delivery_rows s"
  "delivery_rows (set_suspended v now inst s) = delivery_rows s"
  "delivery_rows (deactivate_where P now s) = delivery_rows s"
  "delivery_rows (unwatch_where Q now s) = delivery_rows s"
  "delivery_rows (on_queue f s) = delivery_rows s"
  by (simp_all add: upsert_installation_from_payload_def set_suspended_def deactivate_where_def
      unwatch_where_def on_queue_def Let_def split: option.split)

lemma delivery_rows_cancel [simp]:
  "delivery_rows (cancel_installation now inst s) = delivery_rows s"
  "delivery_rows (deactivate_repository now r s) = delivery_rows s"
  by (simp_all add: cancel_installation_def deactivate_repository_def Let_def)

lemma delivery_rows_fold [simp]:
  "delivery_rows (fold (deactivate_repository now) rs s) = delivery_rows s"
  by (induction rs arbitrary: s) simp_all

lemma delivery_rows_lifecycle [simp]: "delivery_rows (apply_access_lifecycle now d s) = delivery_rows s"
  by (simp add: apply_access_lifecycle_def split: option.split access_lifecycle.split)

lemma upsert_repositories_delivery_rows:
  "upsert_repositories now inst reactivate vs s = Ok s' \<Longrightarrow> delivery_rows s' = delivery_rows s"
  by (induction now inst reactivate vs s rule: upsert_repositories.induct)
    (auto simp: and_then_Ok upsert_repository_def Let_def split: option.splits if_splits)

lemma upserts_delivery_rows:
  "upsert_pull_request p s = Ok s' \<Longrightarrow> delivery_rows s' = delivery_rows s"
  "upsert_feedback now r n f s = Ok s' \<Longrightarrow> delivery_rows s' = delivery_rows s"
  "upsert_check now r n c s = Ok s' \<Longrightarrow> delivery_rows s' = delivery_rows s"
  by (auto simp: upsert_pull_request_def upsert_feedback_def upsert_check_def Let_def split: if_splits)

lemma apply_delivery_rows:
  assumes "apply_delivery rfc3339 now d s = Ok s'"
  shows "delivery_rows s' = delivery_rows s"
  using assms
proof (rule apply_delivery_cases)
  fix s1 snap s2 fb s3 check
  assume 1: "upsert_repository_from_payload now d (upsert_installation_from_payload now d s) = Ok s1"
    and 2: "(case snap of None \<Rightarrow> Ok (apply_access_lifecycle now d s1)
       | Some p \<Rightarrow> upsert_pull_request p (apply_access_lifecycle now d s1)) = Ok s2"
    and 3: "for_pull_request d fb (upsert_feedback now) s2 = Ok s3"
    and 4: "for_pull_request d check (upsert_check now) s3 = Ok s'"
  have "delivery_rows s1 = delivery_rows s"
    using 1 upsert_repositories_delivery_rows
    by (fastforce simp: upsert_repository_from_payload_def split: option.splits)
  moreover have "delivery_rows s2 = delivery_rows s1"
    using 2 by (auto split: option.splits dest: upserts_delivery_rows)
  moreover have "delivery_rows s3 = delivery_rows s2"
    using 3 by (rule for_pull_request_cases) (simp_all add: upserts_delivery_rows)
  moreover have "delivery_rows s' = delivery_rows s3"
    using 4 by (rule for_pull_request_cases) (simp_all add: upserts_delivery_rows)
  ultimately show ?thesis by simp
qed

lemma inbox_record:
  "inbox_of (snd (record_delivery h now d s)) =
     (if inbox_of s (delivery_id d) = None
      then (inbox_of s)(delivery_id d \<mapsto> (payload_hash h (raw_body d), False)) else inbox_of s)"
  by (auto simp: inbox_of_def record_delivery_def row_at_append delivery_row_of_def fun_eq_iff
      split: option.splits)

lemma inbox_mark:
  assumes "inbox_of s i \<noteq> None"
  shows "inbox_of (mark_delivery_processed now i e s) =
     (inbox_of s)(i \<mapsto> (fst (the (inbox_of s i)), e = None))"
  using assms by (auto simp: inbox_of_def mark_delivery_processed_def mark_row.row_at_update_key
      fun_eq_iff)

lemma effects_mark [simp]: "effects (mark_delivery_processed now i e s) = effects s"
  by (simp add: effects_def mark_delivery_processed_def)

lemma effects_record: "record_delivery h now d s = (out, s') \<Longrightarrow> effects s' = effects s"
  by (auto simp: effects_def record_delivery_def split: option.splits)

text \<open>
  C19: process_delivery implements an inbox. Its outcome and the identifiers it records are
  those of the inbox, where a failed application leaves the identifier open for a retry and a
  second payload under a known identifier is a conflict; the other tables change only when the
  delivery is due and applies, and then as apply_delivery says.
\<close>

theorem process_delivery_refines_inbox:
  "let i = delivery_id d; hash = payload_hash h (raw_body d);
       applied = apply_delivery rfc3339 now d (snd (record_delivery h now d s));
       (outcome, s') = process_delivery h rfc3339 show_error now d s
   in (case outcome of Inr out \<Rightarrow> Some out | Inl _ \<Rightarrow> None, inbox_of s')
        = inbox_receive (is_ok applied) i hash (inbox_of s)
      \<and> effects s' = (if is_due i hash (inbox_of s)
          then (case applied of Inr s2 \<Rightarrow> effects s2 | Inl _ \<Rightarrow> effects s) else effects s)"
proof -
  let ?i = "delivery_id d" and ?hash = "payload_hash h (raw_body d)"
  obtain out s1 where rec: "record_delivery h now d s = (out, s1)" by fastforce
  note [simp] = rec effects_record [OF rec]
  have box: "inbox_of s1 = (if inbox_of s ?i = None then (inbox_of s)(?i \<mapsto> (?hash, False)) else inbox_of s)"
    using inbox_record [of h now d s] by simp
  have out: "out = (case inbox_of s ?i of None \<Rightarrow> Inserted
      | Some (h', took) \<Rightarrow> if h' = ?hash then Duplicate else Conflict)"
    using rec by (auto simp: record_delivery_def inbox_of_def split: option.splits)
  show ?thesis
  proof (cases "out = Conflict")
    case True
    then show ?thesis
      using out box by (auto simp: process_delivery_def inbox_receive_def is_due_def split: option.splits if_splits)
  next
    case False
    then obtain took where entry: "inbox_of s1 ?i = Some (?hash, took)"
      using out box by (auto split: option.splits if_splits)
    then obtain row where row: "row_at de_id ?i (delivery_rows s1) = Some row"
      "took \<longleftrightarrow> de_processed_at row \<noteq> None"
      by (auto simp: inbox_of_def)
    have due: "is_due ?i ?hash (inbox_of s) \<longleftrightarrow> \<not> took"
      using entry box out False by (auto simp: is_due_def split: option.splits if_splits)
    show ?thesis
    proof (cases "apply_delivery rfc3339 now d s1")
      case (Inl e)
      then show ?thesis
        using False entry row due box out
        by (auto simp: process_delivery_def process_locked_def inbox_mark inbox_receive_def
            split: option.splits if_splits)
    next
      case (Inr s2)
      have same: "inbox_of s2 = inbox_of s1"
        using apply_delivery_rows [OF Inr] by (simp add: inbox_of_def fun_eq_iff)
      then show ?thesis
        using False entry row due box out Inr
        by (auto simp: process_delivery_def process_locked_def inbox_mark inbox_receive_def
            split: option.splits if_splits)
    qed
  qed
qed

end
