(* ===== verification/Store_Runs.thy ===== *)
theory Store_Runs
  imports Store_Properties Queue_Properties
begin

text \<open>
  Every run of the store keeps its keys and references; what a run can and cannot do to the
  work of a repository and to settled feedback.
\<close>

section \<open>Steps of the queue inside the store\<close>

lemma execute_fallible_repositories:
  assumes "execute_fallible P f db = Ok r" "\<And>j j'. f j = Some j' \<Longrightarrow> repository_id j' = repository_id j"
  shows "repositories (snd r) = repositories db \<and> job_repositories (snd r) = job_repositories db"
proof -
  from assms(1) have r: "r = execute P (\<lambda>j. the (f j)) db"
    and some: "\<And>j. j \<in> set (jobs db) \<Longrightarrow> P j \<Longrightarrow> f j \<noteq> None"
    by (auto simp: execute_fallible_Ok)
  have "repository_id ` set (jobs (snd r)) = repository_id ` set (jobs db)"
    unfolding r execute_snd jobs_update set_map image_image
    by (rule image_cong [OF refl]) (use some assms(2) in auto)
  then show ?thesis by (simp add: r job_repositories_def)
qed

lemma insert_job_cases:
  assumes "insert_job now i spec q = Ok (k, q')"
  obtains "q' = q" | "q' = q\<lparr>jobs := jobs q @ [new_job i now spec]\<rparr>" "spec_repository_id spec \<in> set (repositories q)"
  using assms by (auto simp: insert_job_def split: option.splits if_splits)

lemma publish_repositories [simp]:
  "repositories (publish i q) = repositories q" "job_repositories (publish i q) = job_repositories q"
  by (simp_all add: publish_def job_repositories_def)

lemma enqueue_repositories:
  assumes "enqueue printed now i spec q = Ok (k, q')"
  shows "repositories q' = repositories q \<and> job_repositories q' \<subseteq> job_repositories q \<union> set (repositories q)"
  using enqueue_cases [OF assms]
  by (auto elim!: insert_job_cases simp: job_repositories_def new_job_def)

lemma approve_repositories:
  assumes "approve_plan now i q = Ok (b, q')"
  shows "repositories q' = repositories q \<and> job_repositories q' = job_repositories q"
proof -
  let ?f = "\<lambda>j. map_option (\<lambda>p. j\<lparr>state := JQueued, plan := p, job_result := None, updated_at := now\<rparr>)
    (approved_plan (plan j))"
  obtain q1 where q1: "execute_fallible (can_approve i) ?f q = Ok (b, q1)"
    and q': "q' = (if b then publish i q1 else q1)"
    using assms unfolding approve_plan_def and_then_Ok by (elim exE conjE) (simp split: prod.splits)
  have "repository_id j' = repository_id j" if "?f j = Some j'" for j j' using that by auto
  from execute_fallible_repositories [OF q1 this]
  have "repositories q1 = repositories q \<and> job_repositories q1 = job_repositories q" by simp
  then show ?thesis by (simp add: q')
qed

lemma skip_repositories:
  assumes "skip_current_item now i q = Ok (b, q')"
  shows "repositories q' = repositories q \<and> job_repositories q' = job_repositories q"
  using assms unfolding skip_current_item_def
  by (rule execute_fallible_repositories [where r = "(b, q')", simplified]) (auto simp: release_lease_def)

lemma lease_repositories:
  "repositories (snd (lease_next now w t locked q)) = repositories q
   \<and> job_repositories (snd (lease_next now w t locked q)) = job_repositories q"
  by (simp add: lease_next_def Let_def job_repositories_update fail_exhausted_def release_lease_def
      take_lease_def split: list.split)

lemma link_repositories:
  "link_job_check_run now i r u it q = Ok q' \<Longrightarrow>
   repositories q' = repositories q \<and> job_repositories q' = job_repositories q"
  by (auto simp: link_job_check_run_def job_repositories_update split: if_splits)

lemma queue_step_repositories:
  assumes "queue_step q l q'"
  shows "repositories q' = repositories q \<and> job_repositories q' \<subseteq> job_repositories q \<union> set (repositories q)"
  using assms
proof cases
  case (step_enqueue printed now i spec k)
  then show ?thesis using enqueue_repositories by simp
qed (auto simp: request_cancel_def mark_waiting_approval_def renew_lease_def mark_succeeded_def
    mark_failed_def execute_snd job_repositories_update release_lease_def lease_repositories
    dest: skip_repositories approve_repositories link_repositories)

lemma queue_step_store_inv:
  "store_inv s \<Longrightarrow> queue_step (queue s) l q \<Longrightarrow> store_inv (s\<lparr>queue := q\<rparr>)"
  using queue_step_repositories [of "queue s" l q] queue_step_inv [of "queue s" l q]
  by (auto simp: store_inv_def known_repositories_def)

section \<open>Steps of the store\<close>

inductive store_step :: "store \<Rightarrow> store \<Rightarrow> bool" where
  step_delivery: "process_delivery h rfc3339 show_error now d s = (r, s') \<Longrightarrow> store_step s s'"
| step_reconciliation:
    "save_reconciliation codes_value snapshot_value now p v fb checks s = (r, s') \<Longrightarrow> store_step s s'"
| step_pull: "upsert_pull_request p s = Ok s' \<Longrightarrow> store_step s s'"
| step_policy: "save_policy to_yaml policy_revision now i p s = Ok s' \<Longrightarrow> store_step s s'"
| step_resolved: "store_step s (mark_feedback_resolved now i s)"
| step_rejected: "store_step s (mark_feedback_rejected now i s)"
| step_living: "upsert_living_comment fresh i c m hash s = Ok s' \<Longrightarrow> store_step s s'"
| step_final: "insert_final_comment fresh i c m hash s = Ok (b, s') \<Longrightarrow> store_step s s'"
| step_control: "record_job_control fresh i req act actor target decision s = Ok (b, s') \<Longrightarrow> store_step s s'"
| step_audit: "record_audit fresh now e s = Ok s' \<Longrightarrow> store_step s s'"
| step_purge: "store_step s (snd (purge_expired_raw_payloads now s))"
| step_queue: "queue_step (queue s) l q \<Longrightarrow> store_step s (s\<lparr>queue := q\<rparr>)"

inductive store_run :: "store \<Rightarrow> store \<Rightarrow> bool" where
  store_nil: "store_run s s"
| store_more: "store_run s s' \<Longrightarrow> store_step s' s'' \<Longrightarrow> store_run s s''"

definition empty_store :: "bool \<Rightarrow> store" where
  "empty_store connected = \<lparr>installations = [], repository_rows = [], pull_rows = [],
     delivery_rows = [], feedback_rows = [], check_rows = [], control_rows = [], comment_rows = [],
     audit_rows = [], readiness_rows = [], queue = empty_queue [] connected\<rparr>"

lemma store_inv_empty: "store_inv (empty_store connected)"
  by (simp add: store_inv_def empty_store_def primary_key_def foreign_key_def known_repositories_def
      job_repositories_def queue_inv_empty) (simp add: empty_queue_def)

lemma process_delivery_inv:
  "store_inv s \<Longrightarrow> process_delivery h rfc3339 show_error now d s = (r, s') \<Longrightarrow> store_inv s'"
  by (auto simp: process_delivery_def Let_def split: prod.splits if_splits sum.splits
      intro: mark_delivery_inv record_delivery_inv process_locked_inv)

lemma run_statements_keeps:
  assumes "\<forall>f \<in> set fs. \<forall>s s'. I s \<longrightarrow> f s = Ok s' \<longrightarrow> I s'" "I s" "run_statements fs s = (r, s')"
  shows "I s'"
  using assms
proof (induction fs arbitrary: s)
  case (Cons f fs)
  show ?case
  proof (cases "f s")
    case (Inr s1)
    then have "I s1" using Cons.prems(1,2) by (meson list.set_intros(1))
    moreover have "run_statements fs s1 = (r, s')" using Cons.prems(3) Inr by simp
    ultimately show ?thesis using Cons.IH Cons.prems(1) by (meson list.set_intros(2))
  next
    case (Inl e)
    then have "s' = s" using Cons.prems(3) by simp
    then show ?thesis using Cons.prems(2) by blast
  qed
next
  case Nil
  then have "s' = s" by simp
  then show ?case using Nil(2) by blast
qed

text \<open>What the statements of a reconciliation keep, every statement of it keeps.\<close>

lemma save_reconciliation_keeps:
  assumes run: "save_reconciliation codes_value snapshot_value now p v fb checks s = (r, s')" "I s"
    and pull: "\<forall>s s'. I s \<longrightarrow> upsert_pull_request p s = Ok s' \<longrightarrow> I s'"
    and feedback: "\<forall>i n c s s'. I s \<longrightarrow> upsert_feedback now i n c s = Ok s' \<longrightarrow> I s'"
    and check: "\<forall>i n c s s'. I s \<longrightarrow> upsert_check now i n c s = Ok s' \<longrightarrow> I s'"
    and readiness: "\<forall>i n. \<forall>f \<in> set (save_readiness codes_value snapshot_value now i n v).
      \<forall>s s'. I s \<longrightarrow> f s = Ok s' \<longrightarrow> I s'"
  shows "I s'"
proof (rule run_statements_keeps [where I = I, OF _ run(2) run(1) [unfolded save_reconciliation_def]])
  let ?i = "prs_repository_id p" and ?n = "prs_number p"
  let ?ok = "\<lambda>f. \<forall>s s'. I s \<longrightarrow> f s = Ok s' \<longrightarrow> I s'"
  have "\<forall>f \<in> upsert_feedback now ?i ?n ` set fb. ?ok f" using feedback by blast
  moreover have "\<forall>f \<in> upsert_check now ?i ?n ` set checks. ?ok f" using check by blast
  moreover have "\<forall>f \<in> set (save_readiness codes_value snapshot_value now ?i ?n v). ?ok f"
    using readiness by blast
  moreover have "\<forall>f \<in> set [upsert_pull_request p]. ?ok f" using pull by (metis empty_set list.simps(15) singletonD)
  ultimately show "\<forall>f \<in> set ([upsert_pull_request p] @ map (upsert_feedback now ?i ?n) fb
        @ map (upsert_check now ?i ?n) checks @ save_readiness codes_value snapshot_value now ?i ?n v). ?ok f"
    unfolding set_append ball_Un set_map by blast
qed

lemma save_reconciliation_inv:
  assumes "store_inv s" "save_reconciliation codes_value snapshot_value now p v fb checks s = (r, s')"
  shows "store_inv s'"
proof (rule save_reconciliation_keeps [where I = store_inv, OF assms(2,1)])
  show "\<forall>i n. \<forall>f \<in> set (save_readiness codes_value snapshot_value now i n v).
      \<forall>s s'. store_inv s \<longrightarrow> f s = Ok s' \<longrightarrow> store_inv s'"
    by (auto simp: save_readiness_def store_inv_def readiness_of_row.primary_update_where split: if_splits)
qed (blast intro: upsert_pull_request_inv upsert_feedback_inv upsert_check_inv)+

lemma mark_feedback_inv:
  "store_inv s \<Longrightarrow> store_inv (mark_feedback_resolved now i s)"
  "store_inv s \<Longrightarrow> store_inv (mark_feedback_rejected now i s)"
  unfolding store_inv_def mark_feedback_resolved_def mark_feedback_rejected_def
  by (auto intro!: list_all_update_where simp: feedback_ok_def split: option.split)

lemma table_writes_inv:
  "save_policy to_yaml policy_revision now i p s = Ok s' \<Longrightarrow> store_inv s \<Longrightarrow> store_inv s'"
  "upsert_living_comment fresh k c m hash s = Ok s' \<Longrightarrow> store_inv s \<Longrightarrow> store_inv s'"
  "insert_final_comment fresh k c m hash s = Ok (b, s') \<Longrightarrow> store_inv s \<Longrightarrow> store_inv s'"
  "record_job_control fresh k req act actor target decision s = Ok (b, s') \<Longrightarrow> store_inv s \<Longrightarrow> store_inv s'"
  "record_audit fresh now e s = Ok s' \<Longrightarrow> store_inv s \<Longrightarrow> store_inv s'"
  "store_inv s \<Longrightarrow> store_inv (snd (purge_expired_raw_payloads now s))"
  by (auto simp: save_policy_def and_then_Ok upsert_living_comment_def insert_final_comment_def
      record_job_control_def record_audit_def purge_expired_raw_payloads_def Let_def store_inv_def
      split: if_splits)

lemma store_step_inv: "store_step s s' \<Longrightarrow> store_inv s \<Longrightarrow> store_inv s'"
  by (induction rule: store_step.induct)
    (auto intro: process_delivery_inv save_reconciliation_inv upsert_pull_request_inv mark_feedback_inv
      queue_step_store_inv table_writes_inv)

lemma store_run_inv: "store_run s s' \<Longrightarrow> store_inv s \<Longrightarrow> store_inv s'"
  by (induction rule: store_run.induct) (auto intro: store_step_inv)

section \<open>Settled feedback\<close>

definition settled :: "string \<Rightarrow> store \<Rightarrow> bool" where
  "settled i s \<longleftrightarrow> (case row_at fe_id i (feedback_rows s) of
     None \<Rightarrow> False
   | Some r \<Rightarrow> fe_repair_state r \<in> {''applied'', ''rejected''} \<and> fe_resolved r)"

lemma settled_upsert: "settled i s \<Longrightarrow> upsert_feedback now r n f s = Ok s' \<Longrightarrow> settled i s'"
  by (auto simp: settled_def upsert_feedback_def merge_feedback.row_at_upsert merge_feedback_def
      split: if_splits option.splits)

lemma feedback_rows_simps [simp]:
  "feedback_rows (upsert_installation_from_payload now d s) = feedback_rows s"
  "feedback_rows (set_suspended v now inst s) = feedback_rows s"
  "feedback_rows (deactivate_where P now s) = feedback_rows s"
  "feedback_rows (unwatch_where Q now s) = feedback_rows s"
  "feedback_rows (on_queue f s) = feedback_rows s"
  "feedback_rows (mark_delivery_processed now i e s) = feedback_rows s"
  by (simp_all add: upsert_installation_from_payload_def set_suspended_def deactivate_where_def
      unwatch_where_def on_queue_def mark_delivery_processed_def Let_def split: option.split)

lemma feedback_rows_cancel [simp]:
  "feedback_rows (cancel_installation now inst s) = feedback_rows s"
  "feedback_rows (deactivate_repository now r s) = feedback_rows s"
  by (simp_all add: cancel_installation_def deactivate_repository_def Let_def)

lemma feedback_rows_fold [simp]: "feedback_rows (fold (deactivate_repository now) rs s) = feedback_rows s"
  by (induction rs arbitrary: s) simp_all

lemma feedback_rows_lifecycle [simp]: "feedback_rows (apply_access_lifecycle now d s) = feedback_rows s"
  by (simp add: apply_access_lifecycle_def split: option.split access_lifecycle.split)

lemma upserts_feedback_rows:
  "upsert_repositories now inst reactivate vs s = Ok s' \<Longrightarrow> feedback_rows s' = feedback_rows s"
  "upsert_pull_request p s = Ok s' \<Longrightarrow> feedback_rows s' = feedback_rows s"
  "upsert_check now r n c s = Ok s' \<Longrightarrow> feedback_rows s' = feedback_rows s"
proof -
  show "upsert_repositories now inst reactivate vs s = Ok s' \<Longrightarrow> feedback_rows s' = feedback_rows s"
    by (induction now inst reactivate vs s rule: upsert_repositories.induct)
      (auto simp: and_then_Ok upsert_repository_def Let_def split: option.splits if_splits)
qed (auto simp: upsert_pull_request_def upsert_check_def Let_def split: if_splits)

lemma settled_cong: "feedback_rows s' = feedback_rows s \<Longrightarrow> settled i s' = settled i s"
  by (simp add: settled_def)

lemma settled_same: "settled i s \<Longrightarrow> feedback_rows s' = feedback_rows s \<Longrightarrow> settled i s'"
  by (simp add: settled_def)

lemma settled_apply_delivery:
  assumes "apply_delivery rfc3339 now d s = Ok s'" "settled i s"
  shows "settled i s'"
  using assms(1)
proof (rule apply_delivery_cases)
  fix s1 snap s2 fb s3 check
  assume 1: "upsert_repository_from_payload now d (upsert_installation_from_payload now d s) = Ok s1"
    and 2: "(case snap of None \<Rightarrow> Ok (apply_access_lifecycle now d s1)
       | Some p \<Rightarrow> upsert_pull_request p (apply_access_lifecycle now d s1)) = Ok s2"
    and 3: "for_pull_request d fb (upsert_feedback now) s2 = Ok s3"
    and 4: "for_pull_request d check (upsert_check now) s3 = Ok s'"
  have "feedback_rows s1 = feedback_rows s"
    using 1 upserts_feedback_rows(1)
    by (fastforce simp: upsert_repository_from_payload_def split: option.splits)
  then have "feedback_rows s2 = feedback_rows s"
    using 2 by (auto split: option.splits dest: upserts_feedback_rows(2))
  then have "settled i s2" using assms(2) settled_cong by blast
  then have "settled i s3" using 3 by (auto elim!: for_pull_request_cases intro: settled_upsert)
  moreover have "feedback_rows s' = feedback_rows s3"
    using 4 by (auto elim!: for_pull_request_cases dest: upserts_feedback_rows(3))
  ultimately show ?thesis using settled_cong by blast
qed

lemma settled_delivery:
  assumes "process_delivery h rfc3339 show_error now d s = (r, s')" "settled i s"
  shows "settled i s'"
proof -
  obtain out s1 where rec: "record_delivery h now d s = (out, s1)" by fastforce
  then have "feedback_rows s1 = feedback_rows s" by (auto simp: record_delivery_def split: option.splits)
  then have s1: "settled i s1" using assms(2) settled_cong by blast
  show ?thesis
  proof (cases "out = Conflict")
    case True
    with assms(1) rec s1 show ?thesis by (auto simp: process_delivery_def)
  next
    case False
    show ?thesis
    proof (cases "process_locked rfc3339 now d s1")
      case (Inl e)
      with assms(1) rec False s1 show ?thesis
        by (auto simp: process_delivery_def settled_cong [of "mark_delivery_processed t j v q" q for t j v q])
    next
      case (Inr s2)
      then have "settled i s2"
        using s1 settled_apply_delivery
        by (auto simp: process_locked_def and_then_Ok settled_cong [of "mark_delivery_processed t j v q" q for t j v q]
            split: if_splits)
      with assms(1) rec False Inr show ?thesis by (auto simp: process_delivery_def)
    qed
  qed
qed

lemma settled_mark:
  "settled i s \<Longrightarrow> settled i (mark_feedback_resolved now j s)"
  "settled i s \<Longrightarrow> settled i (mark_feedback_rejected now j s)"
proof -
  have rows: "row_at fe_id i (update_where (\<lambda>r. fe_id r = j) f rows) =
      (if i = j then map_option f (row_at fe_id i rows) else row_at fe_id i rows)"
    if "\<And>r. fe_id (f r) = fe_id r" for f rows
    by (induction rows) (auto simp: update_where_def that)
  show "settled i s \<Longrightarrow> settled i (mark_feedback_resolved now j s)"
    "settled i s \<Longrightarrow> settled i (mark_feedback_rejected now j s)"
    by (auto simp: settled_def mark_feedback_resolved_def mark_feedback_rejected_def rows
        split: option.splits)
qed

lemma settled_reconciliation:
  assumes "save_reconciliation codes_value snapshot_value now p v fb checks s = (r, s')" "settled i s"
  shows "settled i s'"
proof (rule save_reconciliation_keeps [where I = "settled i", OF assms])
  show "\<forall>k n. \<forall>f \<in> set (save_readiness codes_value snapshot_value now k n v).
      \<forall>s s'. settled i s \<longrightarrow> f s = Ok s' \<longrightarrow> settled i s'"
    by (auto simp: save_readiness_def settled_def split: if_splits)
qed (blast intro: settled_upsert settled_same upserts_feedback_rows)+

lemma table_writes_feedback_rows:
  "save_policy to_yaml policy_revision now k p s = Ok s' \<Longrightarrow> feedback_rows s' = feedback_rows s"
  "upsert_living_comment fresh u c m hash s = Ok s' \<Longrightarrow> feedback_rows s' = feedback_rows s"
  "insert_final_comment fresh u c m hash s = Ok (b, s') \<Longrightarrow> feedback_rows s' = feedback_rows s"
  "record_job_control fresh u req act actor target decision s = Ok (b, s') \<Longrightarrow> feedback_rows s' = feedback_rows s"
  "record_audit fresh now e s = Ok s' \<Longrightarrow> feedback_rows s' = feedback_rows s"
  by (auto simp: save_policy_def and_then_Ok upsert_living_comment_def insert_final_comment_def
      record_job_control_def record_audit_def Let_def split: if_splits)

lemma settled_step: "store_step s s' \<Longrightarrow> settled i s \<Longrightarrow> settled i s'"
proof (induction rule: store_step.induct)
  case (step_delivery h rfc3339 show_error now d s r s')
  then show ?case by (rule settled_delivery)
next
  case (step_reconciliation codes_value snapshot_value now p v fb checks s r s')
  then show ?case by (rule settled_reconciliation)
next
  case (step_purge s now)
  then show ?case by (simp add: settled_def purge_expired_raw_payloads_def Let_def)
next
  case (step_queue s l q)
  then show ?case by (simp add: settled_def)
qed (blast intro: settled_mark settled_same table_writes_feedback_rows upserts_feedback_rows)+

section \<open>Properties\<close>

text \<open>
  C20: every state that deliveries, reconciliations, snapshots, policy, feedback, comment, control and
  audit writes and the queue reach from the empty database keeps its primary keys, its
  references (a repository has its installation, a pull request and a job their repository),
  the constraint on resolved feedback and the invariant of the queue.
\<close>

theorem store_run_invariant:
  assumes "store_run (empty_store connected) s"
  shows "store_inv s"
  using store_run_inv [OF assms store_inv_empty] .

text \<open>
  Settled feedback stays settled: whatever GitHub reports and the service does later,
  feedback that was applied or rejected and resolved remains resolved.
\<close>

theorem settled_feedback_stays:
  assumes "store_run s s'" "settled i s"
  shows "settled i s'"
  using assms by (induction rule: store_run.induct) (auto intro: settled_step)

end
