(* ===== verification/Access.thy ===== *)
theory Access
  imports Store_Runs
begin

text \<open>
  Access to a repository: after GitHub reports that it was revoked no work on the repository
  is left, and what brings a repository back.
\<close>

section \<open>Stopped repositories\<close>

definition idle :: "i64 \<Rightarrow> queue_db \<Rightarrow> bool" where
  "idle r q \<longleftrightarrow> (\<forall>j \<in> set (jobs q). repository_id j = r \<longrightarrow> \<not> is_active j)"

definition unwatched :: "i64 \<Rightarrow> pull_row list \<Rightarrow> bool" where
  "unwatched r rows \<longleftrightarrow> (\<forall>p \<in> set rows. pl_repository_id p = r \<longrightarrow> \<not> pl_watched p)"

definition closed :: "i64 \<Rightarrow> store \<Rightarrow> bool" where
  "closed r s \<longleftrightarrow> (\<forall>q \<in> set (repository_rows s). re_id q = r \<longrightarrow> \<not> is_live s q)"

definition stopped :: "i64 \<Rightarrow> store \<Rightarrow> bool" where
  "stopped r s \<longleftrightarrow> idle r (queue s) \<and> unwatched r (pull_rows s) \<and> closed r s"

lemma stopped_context: "stopped r s \<Longrightarrow> repository_context_of r s = None"
  by (auto simp: stopped_def closed_def repository_context_of_def row_at_None live_repositories_def)

lemma cancel_job_inactive [simp]: "\<not> is_active (cancel_job now j)" "repository_id (cancel_job now j) = repository_id j"
  by (simp_all add: cancel_job_def is_active_def release_lease_def)

lemma idle_cancel:
  "idle r (cancel_repository_jobs now r' q) \<longleftrightarrow> r = r' \<or> idle r q"
  "idle r (cancel_installation_jobs now rs q) \<longleftrightarrow> r \<in> set rs \<or> idle r q"
  unfolding idle_def cancel_repository_jobs_def cancel_installation_jobs_def jobs_update set_map ball_simps
  by auto

lemma unwatched_update:
  "unwatched r (update_where P (\<lambda>r. r\<lparr>pl_watched := False, pl_updated_at := now\<rparr>) rows) \<longleftrightarrow>
     (\<forall>p \<in> set rows. pl_repository_id p = r \<longrightarrow> P p \<or> \<not> pl_watched p)"
  unfolding unwatched_def set_update_where ball_simps by auto

lemma is_live_simps [simp]:
  "is_live (on_queue f s) q = is_live s q"
  "is_live (unwatch_where P now s) q = is_live s q"
  "is_live (deactivate_where Q now s) q = is_live s q"
  by (simp_all add: is_live_def on_queue_def unwatch_where_def deactivate_where_def)

lemma access_rows_simps [simp]:
  "repository_rows (on_queue f s) = repository_rows s"
  "repository_rows (unwatch_where P now s) = repository_rows s"
  "repository_rows (set_suspended v now inst s) = repository_rows s"
  "pull_rows (on_queue f s) = pull_rows s" "queue (on_queue f s) = f (queue s)"
  "pull_rows (deactivate_where Q now s) = pull_rows s"
  "repositories_of inst (set_suspended v now inst s) = repositories_of inst s"
  by (simp_all add: on_queue_def unwatch_where_def set_suspended_def deactivate_where_def repositories_of_def)

lemma closed_simps [simp]:
  "closed r (on_queue f s) = closed r s" "closed r (unwatch_where P now s) = closed r s"
  by (simp_all add: closed_def)

lemma closed_deactivate:
  "closed r (deactivate_where P now s) \<longleftrightarrow>
     (\<forall>q \<in> set (repository_rows s). re_id q = r \<longrightarrow> P q \<or> \<not> is_live s q)"
  unfolding closed_def is_live_simps
  by (simp add: deactivate_where_def set_update_where) (auto simp: is_live_def)

lemma unwatched_where:
  "unwatched r (pull_rows (unwatch_where P now s)) \<longleftrightarrow>
     (\<forall>p \<in> set (pull_rows s). pl_repository_id p = r \<longrightarrow> P p \<or> \<not> pl_watched p)"
  by (simp add: unwatch_where_def unwatched_update)

lemma deactivate_repository_stops: "stopped r (deactivate_repository now r s)"
  by (simp add: stopped_def deactivate_repository_def idle_cancel closed_deactivate unwatched_where)

lemma deactivate_repository_keeps: "stopped r s \<Longrightarrow> stopped r (deactivate_repository now r' s)"
  by (simp add: stopped_def deactivate_repository_def idle_cancel closed_deactivate unwatched_where)
    (auto simp: closed_def unwatched_def)

lemma fold_deactivate_stops: "r \<in> set rs \<or> stopped r s \<Longrightarrow> stopped r (fold (deactivate_repository now) rs s)"
  by (induction rs arbitrary: s) (auto simp: deactivate_repository_stops deactivate_repository_keeps)

lemma not_live_suspended: "re_installation_id q = inst \<Longrightarrow> \<not> is_live (set_suspended (Some t) now inst s) q"
  by (auto simp: is_live_def set_suspended_def set_update_where list_ex_iff split: if_splits)

lemma cancel_installation_stops:
  assumes "\<And>q. q \<in> set (repository_rows s) \<Longrightarrow> re_installation_id q = inst \<Longrightarrow> \<not> is_live s q"
    and "primary_key re_id (repository_rows s)" "r \<in> set (repositories_of inst s)"
  shows "stopped r (cancel_installation now inst s)"
proof -
  have "re_installation_id q = inst" if "q \<in> set (repository_rows s)" "re_id q = r" for q
    using assms(2,3) that by (auto simp: repositories_of_def primary_key_def distinct_map dest: inj_onD)
  then have "closed r s" using assms(1) by (auto simp: closed_def)
  then show ?thesis
    using assms(3) by (simp add: stopped_def cancel_installation_def Let_def idle_cancel unwatched_where)
qed

lemma repositories_of_cancel [simp]:
  "repositories_of inst (cancel_installation now i s) = repositories_of inst s"
  "repositories_of inst (deactivate_where P now s) = repositories_of inst s"
proof -
  show "repositories_of inst (deactivate_where P now s) = repositories_of inst s"
    by (simp add: repositories_of_def deactivate_where_def update_where_def filter_map comp_def if_distrib)
qed (simp add: cancel_installation_def Let_def repositories_of_def)

section \<open>What a lifecycle delivery does\<close>

lemma lifecycle_events:
  "lifecycle_of d \<noteq> None \<Longrightarrow> event_name d \<in> {''installation'', ''installation_repositories''}"
  by (auto simp: lifecycle_of_def split: if_splits)

lemma installation_events_write_nothing:
  assumes "event_name d \<in> {''installation'', ''installation_repositories''}"
  shows "pull_request_snapshot_of rfc3339 d = Ok None" "feedback_record_of d = Ok None" "check_record_of d = Ok None"
  using assms by (auto simp: pull_request_snapshot_of_def feedback_record_of_def feedback_paths_def check_record_of_def)

lemma apply_installation_event:
  assumes "apply_delivery rfc3339 now d s = Ok s'"
    and "event_name d \<in> {''installation'', ''installation_repositories''}"
  obtains s1 where "upsert_repository_from_payload now d (upsert_installation_from_payload now d s) = Ok s1"
    "s' = apply_access_lifecycle now d s1"
  using assms(1) installation_events_write_nothing [OF assms(2)]
  by (auto simp: apply_delivery_def and_then_Ok for_pull_request_def)

lemma process_delivery_due:
  assumes "process_delivery h rfc3339 show_error now d s = (Ok out, s')"
    and "is_due (delivery_id d) (payload_hash h (raw_body d)) (inbox_of s)"
  obtains s1 s2 where "record_delivery h now d s = (out, s1)" "apply_delivery rfc3339 now d s1 = Ok s2"
    "s' = mark_delivery_processed now (delivery_id d) None s2"
proof -
  obtain out1 s1 where rec: "record_delivery h now d s = (out1, s1)" by fastforce
  have "out1 \<noteq> Conflict"
    using rec assms(2) by (auto simp: record_delivery_def is_due_def inbox_of_def split: option.splits)
  moreover have "row_at de_id (delivery_id d) (delivery_rows s1) = Some row \<Longrightarrow> de_processed_at row = None" for row
    using rec assms(2)
    by (auto simp: record_delivery_def is_due_def inbox_of_def row_at_append delivery_row_of_def split: option.splits)
  ultimately show ?thesis
    using assms(1) rec that
    by (auto simp: process_delivery_def process_locked_def and_then_Ok split: sum.splits if_splits)
qed

lemma stopped_mark [simp]: "stopped r (mark_delivery_processed now i e s) = stopped r s"
  by (simp add: stopped_def closed_def mark_delivery_processed_def is_live_def)

lemma repositories_of_mark [simp]: "repositories_of inst (mark_delivery_processed now i e s) = repositories_of inst s"
  by (simp add: repositories_of_def mark_delivery_processed_def)

lemma lifecycle_stops:
  assumes "store_inv s" "installation_id d = Some inst"
    and "(lifecycle_of d \<in> {Some SuspendInstallation, Some DeleteInstallation}
            \<and> r \<in> set (repositories_of inst (apply_access_lifecycle now d s)))
       \<or> (lifecycle_of d = Some RemoveRepositories \<and> r \<in> set (removed_repository_ids d))"
  shows "stopped r (apply_access_lifecycle now d s)"
  using assms(3)
proof (elim disjE conjE)
  assume l: "lifecycle_of d \<in> {Some SuspendInstallation, Some DeleteInstallation}"
    and r: "r \<in> set (repositories_of inst (apply_access_lifecycle now d s))"
  let ?s1 = "set_suspended (Some now) now inst s"
  let ?s2 = "deactivate_where (\<lambda>r. re_installation_id r = inst) now ?s1"
  have "primary_key re_id (repository_rows ?s1)" "primary_key re_id (repository_rows ?s2)"
    using set_suspended_inv [OF assms(1)] deactivate_where_inv by (auto simp: store_inv_def)
  moreover have "\<not> is_live ?s1 q" "\<not> is_live ?s2 q" if "re_installation_id q = inst" for q
    using not_live_suspended [OF that] by simp_all
  moreover have "apply_access_lifecycle now d s = cancel_installation now inst ?s1
      \<or> apply_access_lifecycle now d s = cancel_installation now inst ?s2"
    using l assms(2) by (auto simp: apply_access_lifecycle_def)
  ultimately show ?thesis using r cancel_installation_stops by (metis repositories_of_cancel(1))
next
  assume "lifecycle_of d = Some RemoveRepositories" "r \<in> set (removed_repository_ids d)"
  then show ?thesis using assms(2) by (simp add: apply_access_lifecycle_def fold_deactivate_stops)
qed

section \<open>Properties\<close>

text \<open>
  C21: revoked access stops the work. Once a delivery that suspends or deletes an installation,
  or removes a repository from it, has taken effect, no job of the repositories concerned is
  queued, running or waiting, none of their pull requests is watched, and the service no
  longer finds a context to work in.
\<close>

theorem revoked_access_stops_work:
  assumes "store_inv s" "process_delivery h rfc3339 show_error now d s = (Ok out, s')"
    and "is_due (delivery_id d) (payload_hash h (raw_body d)) (inbox_of s)"
    and "installation_id d = Some inst"
    and "(lifecycle_of d \<in> {Some SuspendInstallation, Some DeleteInstallation} \<and> r \<in> set (repositories_of inst s'))
       \<or> (lifecycle_of d = Some RemoveRepositories \<and> r \<in> set (removed_repository_ids d))"
  shows "(\<forall>j \<in> set (jobs (queue s')). repository_id j = r \<longrightarrow> \<not> is_active j)
     \<and> (\<forall>p \<in> set (pull_rows s'). pl_repository_id p = r \<longrightarrow> \<not> pl_watched p)
     \<and> repository_context_of r s' = None"
proof -
  obtain s1 s2 where s1: "record_delivery h now d s = (out, s1)" "apply_delivery rfc3339 now d s1 = Ok s2"
    and s': "s' = mark_delivery_processed now (delivery_id d) None s2"
    using assms(2,3) by (rule process_delivery_due)
  have "event_name d \<in> {''installation'', ''installation_repositories''}"
    using assms(5) lifecycle_events by auto
  from s1(2) this obtain s3 where s3:
    "upsert_repository_from_payload now d (upsert_installation_from_payload now d s1) = Ok s3"
    "s2 = apply_access_lifecycle now d s3"
    by (rule apply_installation_event)
  have "store_inv s3"
    using s3(1) upsert_installation_inv [OF record_delivery_inv [OF assms(1) s1(1)]]
    by (auto simp: upsert_repository_from_payload_def split: option.splits intro: upsert_repositories_inv)
  with lifecycle_stops [OF this assms(4)] assms(5) have "stopped r s'"
    by (simp add: s' s3(2))
  then show ?thesis using stopped_context by (auto simp: stopped_def idle_def unwatched_def)
qed

section \<open>Installations that come back under another identifier\<close>

definition owner_of :: "i64 \<Rightarrow> store \<Rightarrow> i64 option" where
  "owner_of r s = map_option re_installation_id (row_at re_id r (repository_rows s))"

definition suspension_of :: "i64 \<Rightarrow> store \<Rightarrow> timestamp option option" where
  "suspension_of i s = map_option in_suspended_at (row_at in_id i (installations s))"

text \<open>A delivery keeps the owner of a known repository and the suspension of other installations.\<close>

definition keeps_access :: "i64 \<Rightarrow> i64 \<Rightarrow> store \<Rightarrow> store \<Rightarrow> bool" where
  "keeps_access r old s s' \<longleftrightarrow> (owner_of r s = Some old \<longrightarrow> owner_of r s' = Some old)
     \<and> suspension_of old s' = suspension_of old s"

lemma keeps_access_refl [simp]: "keeps_access r old s s"
  by (simp add: keeps_access_def)

lemma keeps_access_trans: "keeps_access r old s s' \<Longrightarrow> keeps_access r old s' s'' \<Longrightarrow> keeps_access r old s s''"
  by (simp add: keeps_access_def)

lemma keeps_access_same:
  "repository_rows s' = repository_rows s \<Longrightarrow> installations s' = installations s \<Longrightarrow> keeps_access r old s s'"
  by (simp add: keeps_access_def owner_of_def suspension_of_def)

lemma keeps_access_installation:
  "installation_id d \<noteq> Some old \<Longrightarrow> keeps_access r old s (upsert_installation_from_payload now d s)"
  by (auto simp: keeps_access_def owner_of_def suspension_of_def upsert_installation_from_payload_def
      Let_def merge_installation.row_at_upsert split: option.split)

lemma keeps_access_repository:
  "upsert_repository now inst i own n branch reactivate s = Ok s' \<Longrightarrow> keeps_access r old s s'"
  by (auto simp: upsert_repository_def Let_def keeps_access_def owner_of_def suspension_of_def
      merge_repository.row_at_upsert merge_repository_def split: if_splits)

lemma keeps_access_repositories:
  "upsert_repositories now inst reactivate vs s = Ok s' \<Longrightarrow> keeps_access r old s s'"
  by (induction now inst reactivate vs s rule: upsert_repositories.induct)
    (auto simp: and_then_Ok split: option.splits intro: keeps_access_repository keeps_access_trans)

lemma keeps_access_suspended: "inst \<noteq> old \<Longrightarrow> keeps_access r old s (set_suspended v now inst s)"
  by (simp add: keeps_access_def owner_of_def suspension_of_def set_suspended_def suspend_row.row_at_update_key)

lemma owner_deactivate: "owner_of r (deactivate_where P now s) = owner_of r s"
  unfolding owner_of_def
  by (cases "row_at re_id r (repository_rows s)") (auto simp: deactivate_where_def deactivate_row.row_at_update_where)

lemma keeps_access_deactivate: "keeps_access r old s (deactivate_where P now s)"
  by (simp add: keeps_access_def owner_deactivate) (simp add: suspension_of_def deactivate_where_def)

lemma keeps_access_unwatch: "keeps_access r old s (on_queue f (unwatch_where P now s))"
  by (rule keeps_access_same) (simp_all add: on_queue_def unwatch_where_def)

lemma keeps_access_cancel: "keeps_access r old s (cancel_installation now inst s)"
  unfolding cancel_installation_def Let_def by (rule keeps_access_unwatch)

lemma keeps_access_remove: "keeps_access r old s (deactivate_repository now i s)"
  unfolding deactivate_repository_def by (rule keeps_access_trans [OF keeps_access_deactivate keeps_access_unwatch])

lemma keeps_access_fold: "keeps_access r old s (fold (deactivate_repository now) rs s)"
  by (induction rs arbitrary: s) (auto intro: keeps_access_trans keeps_access_remove)

lemma keeps_access_lifecycle:
  "installation_id d \<noteq> Some old \<Longrightarrow> keeps_access r old s (apply_access_lifecycle now d s)"
  by (auto simp: apply_access_lifecycle_def split: option.split access_lifecycle.split
      intro: keeps_access_suspended keeps_access_fold
        keeps_access_trans [OF keeps_access_suspended keeps_access_cancel]
        keeps_access_trans [OF keeps_access_trans [OF keeps_access_suspended keeps_access_deactivate]
          keeps_access_cancel])

lemma keeps_access_upserts:
  "upsert_pull_request p s = Ok s' \<Longrightarrow> keeps_access r old s s'"
  "upsert_feedback now i n f s = Ok s' \<Longrightarrow> keeps_access r old s s'"
  "upsert_check now i n c s = Ok s' \<Longrightarrow> keeps_access r old s s'"
  by (auto simp: upsert_pull_request_def upsert_feedback_def upsert_check_def Let_def
      split: if_splits intro!: keeps_access_same)

lemma keeps_access_apply:
  assumes "apply_delivery rfc3339 now d s = Ok s'" "installation_id d \<noteq> Some old"
  shows "keeps_access r old s s'"
  using assms(1)
proof (rule apply_delivery_cases)
  fix s1 snap s2 fb s3 check
  assume 1: "upsert_repository_from_payload now d (upsert_installation_from_payload now d s) = Ok s1"
    and 2: "(case snap of None \<Rightarrow> Ok (apply_access_lifecycle now d s1)
       | Some p \<Rightarrow> upsert_pull_request p (apply_access_lifecycle now d s1)) = Ok s2"
    and 3: "for_pull_request d fb (upsert_feedback now) s2 = Ok s3"
    and 4: "for_pull_request d check (upsert_check now) s3 = Ok s'"
  have "keeps_access r old (upsert_installation_from_payload now d s) s1"
    using 1 by (auto simp: upsert_repository_from_payload_def split: option.splits intro: keeps_access_repositories)
  moreover have "keeps_access r old (apply_access_lifecycle now d s1) s2"
    using 2 by (auto split: option.splits intro: keeps_access_upserts)
  moreover have "keeps_access r old s2 s3"
    using 3 by (auto elim!: for_pull_request_cases intro: keeps_access_upserts)
  moreover have "keeps_access r old s3 s'"
    using 4 by (auto elim!: for_pull_request_cases intro: keeps_access_upserts)
  ultimately show ?thesis
    using keeps_access_installation [OF assms(2)] keeps_access_lifecycle [OF assms(2)]
    by (meson keeps_access_trans)
qed

lemma keeps_access_delivery:
  assumes "process_delivery h rfc3339 show_error now d s = (res, s')" "installation_id d \<noteq> Some old"
  shows "keeps_access r old s s'"
proof -
  obtain out s1 where rec: "record_delivery h now d s = (out, s1)" by fastforce
  then have s1: "keeps_access r old s s1"
    by (auto simp: record_delivery_def split: option.splits intro!: keeps_access_same)
  have mark: "keeps_access r old q (mark_delivery_processed t i e q)" for t i e q
    by (rule keeps_access_same) (simp_all add: mark_delivery_processed_def)
  have locked: "keeps_access r old s1 s2" if "process_locked rfc3339 now d s1 = Ok s2" for s2
    using that mark keeps_access_apply [OF _ assms(2)]
    by (auto simp: process_locked_def and_then_Ok split: if_splits intro: keeps_access_trans [OF _ mark])
  from assms(1) rec s1 show ?thesis
    by (auto simp: process_delivery_def split: if_splits sum.splits
        intro: keeps_access_trans [OF s1 mark] keeps_access_trans [OF s1 locked])
qed

text \<open>
  C22: a repository keeps the installation it was first reported under. While that installation
  is suspended or deleted, no delivery of another installation opens the repository again, not
  even the one that reports the app as newly installed on it.
\<close>

theorem reinstalled_repository_stays_closed:
  assumes "store_inv s" "process_delivery h rfc3339 show_error now d s = (res, s')"
    and "owner_of r s = Some old" "suspension_of old s = Some (Some t)" "installation_id d \<noteq> Some old"
  shows "repository_context_of r s' = None"
proof -
  have inv: "store_inv s'" by (rule process_delivery_inv [OF assms(1,2)])
  have "owner_of r s' = Some old" "suspension_of old s' = Some (Some t)"
    using keeps_access_delivery [OF assms(2,5)] assms(3,4) by (auto simp: keeps_access_def)
  then obtain row irow where row: "row_at re_id r (repository_rows s') = Some row" "re_installation_id row = old"
    and irow: "row_at in_id old (installations s') = Some irow" "in_suspended_at irow = Some t"
    by (auto simp: owner_of_def suspension_of_def)
  have pk: "primary_key re_id (repository_rows s')" "primary_key in_id (installations s')"
    using inv by (auto simp: store_inv_def)
  have "q = row" if "q \<in> set (repository_rows s')" "re_id q = r" for q
    using row_at_in [OF pk(1) that(1)] that(2) row(1) by simp
  moreover have "i = irow" if "i \<in> set (installations s')" "in_id i = old" for i
    using row_at_in [OF pk(2) that(1)] that(2) irow(1) by simp
  ultimately have "\<not> is_live s' q" if "q \<in> set (repository_rows s')" "re_id q = r" for q
    using that row(2) irow(2) by (auto simp: is_live_def list_ex_iff)
  then show ?thesis
    by (auto simp: repository_context_of_def row_at_None live_repositories_def)
qed

section \<open>A suspended and reinstalled app\<close>

definition sample_delivery :: "string \<Rightarrow> string \<Rightarrow> i64 \<Rightarrow> delivery_envelope" where
  "sample_delivery i act inst = from_payload i ''installation''
     (jobj [(''action'', JStr act),
        (''installation'', jobj [(''id'', jint inst), (''account'', jobj [(''login'', JStr ''acme'')])]),
        (''repositories'', JArr [jobj [(''id'', jint 7), (''name'', JStr ''app'')]])]) i"

definition deliver :: "delivery_envelope \<Rightarrow> store \<Rightarrow> (repository_error, delivery_outcome) result \<times> store" where
  "deliver d s = process_delivery (\<lambda>b. b) (\<lambda>_. None) (\<lambda>_. ''error'') 100 d s"

definition sample_installed :: store where
  "sample_installed = snd (deliver (sample_delivery ''d1'' ''created'' 1) (empty_store True))"

definition sample_working :: store where
  "sample_working = sample_installed\<lparr>queue := snd (projr (enqueue (\<lambda>_. []) 0 1 sample_spec (queue sample_installed)))\<rparr>"

definition sample_suspended :: store where
  "sample_suspended = snd (deliver (sample_delivery ''d2'' ''suspend'' 1) sample_working)"

lemma sample_working_run: "store_run (empty_store True) sample_working"
proof -
  have "store_run (empty_store True) sample_installed"
    unfolding sample_installed_def deliver_def
    by (rule store_more [OF store_nil step_delivery]) (rule prod.collapse [symmetric])
  moreover have "enqueue (\<lambda>_. []) 0 1 sample_spec (queue sample_installed)
      = Ok (1, queue sample_working)" by code_simp
  then have "queue_step (queue sample_installed) Silent (queue sample_working)" by (rule step_enqueue)
  then have "store_step sample_installed (sample_installed\<lparr>queue := queue sample_working\<rparr>)" by (rule step_queue)
  moreover have "sample_installed\<lparr>queue := queue sample_working\<rparr> = sample_working"
    by (simp add: sample_working_def)
  ultimately show ?thesis by (metis store_more)
qed

theorem store_run_invariant_witness: "store_inv sample_working \<and> repositories (queue sample_working) = [7]"
proof -
  have "repositories (queue sample_working) = [7]" by code_simp
  with store_run_invariant [OF sample_working_run] show ?thesis by simp
qed

lemma sample_suspended_deliver: "deliver (sample_delivery ''d2'' ''suspend'' 1) sample_working = (Ok Inserted, sample_suspended)"
proof -
  have "fst (deliver (sample_delivery ''d2'' ''suspend'' 1) sample_working) = Ok Inserted" by code_simp
  then show ?thesis by (simp add: sample_suspended_def prod_eq_iff)
qed

theorem revoked_access_stops_work_witness:
  "length (jobs (queue sample_suspended)) = 1 \<and> repository_context_of 7 sample_suspended = None
   \<and> repository_context_of 7 sample_working \<noteq> None"
proof -
  have "(\<forall>j \<in> set (jobs (queue sample_suspended)). repository_id j = 7 \<longrightarrow> \<not> is_active j)
     \<and> (\<forall>p \<in> set (pull_rows sample_suspended). pl_repository_id p = 7 \<longrightarrow> \<not> pl_watched p)
     \<and> repository_context_of 7 sample_suspended = None"
  proof (rule revoked_access_stops_work [OF store_run_inv [OF sample_working_run store_inv_empty]
        sample_suspended_deliver [unfolded deliver_def]])
    show "is_due (delivery_id (sample_delivery ''d2'' ''suspend'' 1))
        (payload_hash (\<lambda>b. b) (raw_body (sample_delivery ''d2'' ''suspend'' 1))) (inbox_of sample_working)"
      by code_simp
    show "installation_id (sample_delivery ''d2'' ''suspend'' 1) = Some 1" by code_simp
    show "(lifecycle_of (sample_delivery ''d2'' ''suspend'' 1) \<in> {Some SuspendInstallation, Some DeleteInstallation}
          \<and> 7 \<in> set (repositories_of 1 sample_suspended))
       \<or> (lifecycle_of (sample_delivery ''d2'' ''suspend'' 1) = Some RemoveRepositories
          \<and> 7 \<in> set (removed_repository_ids (sample_delivery ''d2'' ''suspend'' 1)))"
      by code_simp
  qed
  moreover have "length (jobs (queue sample_suspended)) = 1" by code_simp
  moreover have "repository_context_of 7 sample_working \<noteq> None" by code_simp
  ultimately show ?thesis by simp
qed

text \<open>The app is deleted and installed anew: GitHub names the new installation 2.\<close>

theorem reinstalled_repository_stays_closed_witness:
  "fst (deliver (sample_delivery ''d3'' ''created'' 2) sample_suspended) = Ok Inserted
   \<and> repository_context_of 7 (snd (deliver (sample_delivery ''d3'' ''created'' 2) sample_suspended)) = None"
proof -
  let ?d = "sample_delivery ''d3'' ''created'' 2"
  have inv: "store_inv sample_suspended"
    using store_run_inv [OF sample_working_run store_inv_empty] sample_suspended_deliver
    unfolding deliver_def by (rule process_delivery_inv)
  have "owner_of 7 sample_suspended = Some 1" "suspension_of 1 sample_suspended = Some (Some 100)"
    "installation_id ?d \<noteq> Some 1" "fst (deliver ?d sample_suspended) = Ok Inserted"
    by code_simp+
  with reinstalled_repository_stays_closed [OF inv, of "\<lambda>b. b" "\<lambda>_. None" "\<lambda>_. ''error''" 100 ?d
      "fst (deliver ?d sample_suspended)" "snd (deliver ?d sample_suspended)" 7 1 100]
  show ?thesis by (simp add: deliver_def)
qed

section \<open>A comment reported again after it was settled\<close>

definition sample_settled :: store where
  "sample_settled = (empty_store True)\<lparr>feedback_rows := [\<lparr>fe_id = ''issue-comment:5'',
     fe_repository_id = 7, fe_pull_request_number = 3, fe_actor_login = ''bot'', fe_actor_type = ''Bot'',
     fe_body = ''old'', fe_resolved = True, fe_is_automation = True, fe_updated_at = 0,
     fe_repair_state = ''applied'', fe_repair_applied_at = Some 0, fe_resolution_eligible = True\<rparr>]\<rparr>"

definition sample_comment_delivery :: delivery_envelope where
  "sample_comment_delivery = from_payload ''d9'' ''issue_comment''
     (jobj [(''action'', JStr ''edited''), (''repository'', jobj [(''id'', jint 7)]),
        (''issue'', jobj [(''number'', jint 3), (''pull_request'', jobj [])]),
        (''comment'', jobj [(''id'', jint 5), (''body'', JStr ''new''),
           (''user'', jobj [(''login'', JStr ''bot'')])])]) ''raw''"

theorem settled_feedback_stays_witness:
  "map fe_body (feedback_rows (snd (deliver sample_comment_delivery sample_settled))) = [''new'']
   \<and> settled ''issue-comment:5'' (snd (deliver sample_comment_delivery sample_settled))"
proof -
  have "store_run sample_settled (snd (deliver sample_comment_delivery sample_settled))"
    unfolding deliver_def
    by (rule store_more [OF store_nil step_delivery]) (rule prod.collapse [symmetric])
  moreover have "settled ''issue-comment:5'' sample_settled" by code_simp
  ultimately have "settled ''issue-comment:5'' (snd (deliver sample_comment_delivery sample_settled))"
    by (rule settled_feedback_stays)
  moreover have "map fe_body (feedback_rows (snd (deliver sample_comment_delivery sample_settled))) = [''new'']"
    by code_simp
  ultimately show ?thesis by simp
qed

end
