(* ===== verification/Workflow_Properties.thy ===== *)
theory Workflow_Properties
  imports Workflow Store_Runs Access
begin

text \<open>
  What a control that GitHub delivers can do: the workflow as a run of the store, who may
  change a job, and that a delivery acts once.
\<close>

section \<open>The workflow as a run of the store\<close>

lemma store_run_trans: "store_run s' s'' \<Longrightarrow> store_run s s' \<Longrightarrow> store_run s s''"
  by (induction rule: store_run.induct) (auto intro: store_run.intros)

lemma store_step_run: "store_step s s' \<Longrightarrow> store_run s s'"
  by (rule store_more [OF store_nil])

text \<open>An effect that leaves the store as a run does.\<close>

definition runs :: "(store, 'e, 'a) io \<Rightarrow> bool" where
  "runs m \<longleftrightarrow> (\<forall>s. store_run s (snd (m s)))"

lemma runsD: "runs m \<Longrightarrow> m s = (r, s') \<Longrightarrow> store_run s s'"
  by (metis runs_def snd_conv)

lemma runs_then: "runs m \<Longrightarrow> (\<And>x. runs (f x)) \<Longrightarrow> runs (io_then m f)"
  unfolding runs_def io_then_def
  by (auto split: prod.splits sum.splits) (metis snd_conv store_run_trans)+

lemma runs_pure: "runs (io_lift r)" "runs (io_ok x)" "runs (query f)"
  by (simp_all add: runs_def query_def store_nil)

lemma runs_map_err: "runs m \<Longrightarrow> runs (io_map_err g m)"
  by (simp add: runs_def io_map_err_def split: prod.split) (metis snd_conv)

lemma runs_statement: "(\<And>s x s'. f s = Inr (x, s') \<Longrightarrow> store_step s s') \<Longrightarrow> runs (statement f)"
  by (auto simp: runs_def statement_def store_nil intro: store_step_run split: sum.split)

lemma runs_statement_unit: "(\<And>s s'. f s = Inr s' \<Longrightarrow> store_step s s') \<Longrightarrow> runs (statement_unit f)"
  by (auto simp: runs_def statement_unit_def store_nil intro: store_step_run split: sum.split)

lemma runs_queue_statement:
  "(\<And>q x q'. f q = Inr (x, q') \<Longrightarrow> queue_step q Silent q') \<Longrightarrow> runs (queue_statement f)"
  unfolding queue_statement_def
  by (rule runs_statement) (auto intro: step_queue split: sum.splits)

lemma apply_to_queue_step:
  assumes "apply_to_queue now i act q = Inr (b, q')"
  shows "queue_step q Silent q'"
proof (cases act)
  case CancelRun
  with assms have "q' = snd (request_cancel now i q)" by (metis apply_to_queue.simps(3) snd_conv sum.inject(2))
  then show ?thesis by (simp add: step_cancel)
qed (use assms in \<open>auto intro: step_approve step_skip\<close>)

lemmas runs_intros = runs_then runs_pure runs_map_err runs_statement runs_statement_unit
  runs_queue_statement

lemma runs_control: "runs (process_check_run_control yaml now fresh fresh_audit d)"
  unfolding process_check_run_control_def decide_control_def record_decision_def carry_out_def
  by (auto intro!: runs_intros split: option.split sum.split)
    (blast intro: step_control step_audit apply_to_queue_step)+

section \<open>What a control changes\<close>

definition decided :: "uuid \<Rightarrow> string \<Rightarrow> store \<Rightarrow> bool" where
  "decided i req s \<longleftrightarrow> row_at control_key (i, req) (control_rows s) \<noteq> None"

lemma record_decision_cases:
  assumes "record_decision fresh c d control decision s = (r, s')"
  shows "queue s' = queue s"
    and "r = Inr True \<Longrightarrow> \<not> decided (cc_job_id c) (delivery_id d) s \<and> decided (cc_job_id c) (delivery_id d) s'"
  using assms
  by (auto simp: record_decision_def io_map_err_def statement_def record_job_control_def decided_def
      row_at_append control_key_def split: sum.splits if_splits prod.splits)

lemma carry_out_cases:
  assumes "carry_out now fresh c control act s = (r, s')"
  shows "control_rows s' = control_rows s"
    and "queue s' \<noteq> queue s \<Longrightarrow> \<exists>b. apply_to_queue now (cc_job_id c) act (queue s) = Ok (b, queue s')"
  using assms
  by (auto simp: carry_out_def io_then_cases io_map_err_def queue_statement_def statement_def
      statement_unit_def record_audit_def split: sum.splits if_splits prod.splits)

text \<open>The statements that a control reaches when it changes the queue.\<close>

lemma control_effect:
  assumes "process_check_run_control yaml now fresh fresh_audit d s = (r, s')" "queue s' \<noteq> queue s"
  obtains control c p act b where
    "check_run_control_of d = Ok (Some control)"
    "control_context_of (control_check_run_id control) s = Some c"
    "control_delivery_matches_context d c" "context_policy yaml (cc_policy_yaml c) = Ok p"
    "parse_action (control_action_text control) = Ok act"
    "is_authorized (control_actor_login control) (cc_pr_author c) (maintainers p)"
    "\<not> decided (cc_job_id c) (delivery_id d) s" "decided (cc_job_id c) (delivery_id d) s'"
    "apply_to_queue now (cc_job_id c) act (queue s) = Ok (b, queue s')"
proof -
  obtain control where control: "check_run_control_of d = Ok (Some control)"
    using assms by (auto simp: process_check_run_control_def io_then_cases split: option.splits)
  then obtain c where c: "control_context_of (control_check_run_id control) s = Some c"
    and run: "decide_control yaml now fresh fresh_audit d control c s = (r, s')"
    using assms by (auto simp: process_check_run_control_def io_then_cases query_def split: option.splits)
  have matches: "control_delivery_matches_context d c"
    using run assms(2) record_decision_cases(1) by (auto simp: decide_control_def io_then_cases split: if_splits)
  then obtain p where p: "context_policy yaml (cc_policy_yaml c) = Ok p"
    using run assms(2) by (auto simp: decide_control_def io_then_cases)
  obtain act where act: "parse_action (control_action_text control) = Ok act"
    using run assms(2) matches p record_decision_cases(1)
    by (cases "parse_action (control_action_text control)") (auto simp: decide_control_def io_then_cases)
  have auth: "is_authorized (control_actor_login control) (cc_pr_author c) (maintainers p)"
    using run assms(2) matches p act record_decision_cases(1)
    by (auto simp: decide_control_def io_then_cases split: if_splits)
  obtain s1 where rec: "record_decision fresh c d control ''accepted'' s = (Inr True, s1)"
    and out: "carry_out now fresh_audit c control act s1 = (r, s')"
    using run assms(2) matches p act auth record_decision_cases(1)
    by (auto simp: decide_control_def io_then_cases split: if_splits)
  note r1 = record_decision_cases [OF rec] and r2 = carry_out_cases [OF out]
  from r2(2) assms(2) r1(1) obtain b where "apply_to_queue now (cc_job_id c) act (queue s) = Ok (b, queue s')"
    by auto
  moreover have "decided (cc_job_id c) (delivery_id d) s'" using r1(2) r2(1) by (simp add: decided_def)
  ultimately show thesis using that control c matches p act auth r1(2) by blast
qed

lemma find_other_row:
  assumes "\<forall>j \<in> set js. P j \<longrightarrow> job_id j = i \<and> job_id (f j) = i" "k \<noteq> i"
  shows "find (\<lambda>j. job_id j = k) (map (\<lambda>j. if P j then f j else j) js) = find (\<lambda>j. job_id j = k) js"
  using assms by (induction js) auto

lemma execute_fallible_other:
  assumes run: "execute_fallible P f q = Ok (b, q')" and k: "k \<noteq> i"
    and row: "\<And>j j'. P j \<Longrightarrow> f j = Some j' \<Longrightarrow> job_id j = i \<and> job_id j' = i"
  shows "find (\<lambda>j. job_id j = k) (jobs q') = find (\<lambda>j. job_id j = k) (jobs q)"
proof -
  have some: "\<forall>j \<in> set (jobs q). P j \<longrightarrow> f j \<noteq> None"
    and q': "q' = update_jobs P (\<lambda>j. the (f j)) q"
    using run by (simp_all add: execute_fallible_Ok execute_def)
  have "job_id j = i \<and> job_id (the (f j)) = i" if "j \<in> set (jobs q)" "P j" for j
    using some that row [of j "the (f j)"] by simp
  then show ?thesis unfolding q' jobs_update by (intro find_other_row [OF _ k]) simp
qed

lemma apply_to_queue_other:
  assumes "apply_to_queue now i act q = Ok (b, q')" "k \<noteq> i"
  shows "find (\<lambda>j. job_id j = k) (jobs q') = find (\<lambda>j. job_id j = k) (jobs q)"
proof (cases act)
  case ApprovePlan
  with assms(1) obtain q1 where q1: "execute_fallible (can_approve i) (\<lambda>j. map_option
      (\<lambda>p. j\<lparr>state := JQueued, plan := p, job_result := None, updated_at := now\<rparr>) (approved_plan (plan j))) q
      = Ok (b, q1)" "jobs q' = jobs q1"
    by (auto simp: approve_plan_def and_then_Ok split: if_splits)
  have "find (\<lambda>j. job_id j = k) (jobs q1) = find (\<lambda>j. job_id j = k) (jobs q)"
    by (rule execute_fallible_other [OF q1(1) assms(2)]) (auto simp: can_approve_def)
  with q1(2) show ?thesis by simp
next
  case SkipCurrentItem
  with assms(1) have "skip_current_item now i q = Ok (b, q')" by simp
  then show ?thesis unfolding skip_current_item_def
    by (rule execute_fallible_other [OF _ assms(2)]) (auto simp: can_skip_def release_lease_def)
next
  case CancelRun
  then show ?thesis using assms
    by (auto simp: request_cancel_def execute_def release_lease_def intro!: find_other_row [where i = i])
qed

section \<open>Controls are recorded for good\<close>

lemma control_rows_simps [simp]:
  "control_rows (upsert_installation_from_payload now d s) = control_rows s"
  "control_rows (set_suspended v now inst s) = control_rows s"
  "control_rows (deactivate_where P now s) = control_rows s"
  "control_rows (unwatch_where Q now s) = control_rows s"
  "control_rows (on_queue f s) = control_rows s"
  "control_rows (mark_delivery_processed now i e s) = control_rows s"
  "control_rows (mark_feedback_resolved now i s) = control_rows s"
  "control_rows (mark_feedback_rejected now i s) = control_rows s"
  "control_rows (snd (purge_expired_raw_payloads now s)) = control_rows s"
  by (simp_all add: upsert_installation_from_payload_def set_suspended_def deactivate_where_def
      unwatch_where_def on_queue_def mark_delivery_processed_def mark_feedback_resolved_def
      mark_feedback_rejected_def purge_expired_raw_payloads_def Let_def split: option.split)

lemma control_rows_cancel [simp]:
  "control_rows (cancel_installation now inst s) = control_rows s"
  "control_rows (deactivate_repository now r s) = control_rows s"
  by (simp_all add: cancel_installation_def deactivate_repository_def Let_def)

lemma control_rows_fold [simp]: "control_rows (fold (deactivate_repository now) rs s) = control_rows s"
  by (induction rs arbitrary: s) simp_all

lemma control_rows_lifecycle [simp]: "control_rows (apply_access_lifecycle now d s) = control_rows s"
  by (simp add: apply_access_lifecycle_def split: option.split access_lifecycle.split)

lemma upserts_control_rows:
  "upsert_repositories now inst reactivate vs s = Ok s' \<Longrightarrow> control_rows s' = control_rows s"
  "upsert_pull_request p s = Ok s' \<Longrightarrow> control_rows s' = control_rows s"
  "upsert_feedback now r n f s = Ok s' \<Longrightarrow> control_rows s' = control_rows s"
  "upsert_check now r n c s = Ok s' \<Longrightarrow> control_rows s' = control_rows s"
proof -
  show "upsert_repositories now inst reactivate vs s = Ok s' \<Longrightarrow> control_rows s' = control_rows s"
    by (induction now inst reactivate vs s rule: upsert_repositories.induct)
      (auto simp: and_then_Ok upsert_repository_def Let_def split: option.splits if_splits)
qed (auto simp: upsert_pull_request_def upsert_feedback_def upsert_check_def Let_def split: if_splits)

lemma apply_delivery_control_rows:
  assumes "apply_delivery rfc3339 now d s = Ok s'"
  shows "control_rows s' = control_rows s"
  using assms
proof (rule apply_delivery_cases)
  fix s1 snap s2 fb s3 check
  assume 1: "upsert_repository_from_payload now d (upsert_installation_from_payload now d s) = Ok s1"
    and 2: "(case snap of None \<Rightarrow> Ok (apply_access_lifecycle now d s1)
       | Some p \<Rightarrow> upsert_pull_request p (apply_access_lifecycle now d s1)) = Ok s2"
    and 3: "for_pull_request d fb (upsert_feedback now) s2 = Ok s3"
    and 4: "for_pull_request d check (upsert_check now) s3 = Ok s'"
  have "control_rows s1 = control_rows s"
    using 1 upserts_control_rows(1)
    by (fastforce simp: upsert_repository_from_payload_def split: option.splits)
  moreover have "control_rows s2 = control_rows s1"
    using 2 by (auto split: option.splits dest: upserts_control_rows)
  moreover have "control_rows s3 = control_rows s2"
    using 3 by (rule for_pull_request_cases) (simp_all add: upserts_control_rows)
  moreover have "control_rows s' = control_rows s3"
    using 4 by (rule for_pull_request_cases) (simp_all add: upserts_control_rows)
  ultimately show ?thesis by simp
qed

lemma process_delivery_control_rows:
  assumes "process_delivery h rfc3339 show_error now d s = (r, s')"
  shows "control_rows s' = control_rows s"
  using assms
  by (auto simp: process_delivery_def process_locked_def record_delivery_def and_then_Ok Let_def
      split: prod.splits if_splits sum.splits option.splits dest!: apply_delivery_control_rows)

lemma table_writes_control_rows:
  "save_policy to_yaml policy_revision now k p s = Ok s' \<Longrightarrow> control_rows s' = control_rows s"
  "upsert_living_comment fresh u c m hash s = Ok s' \<Longrightarrow> control_rows s' = control_rows s"
  "insert_final_comment fresh u c m hash s = Ok (b, s') \<Longrightarrow> control_rows s' = control_rows s"
  "record_audit fresh now e s = Ok s' \<Longrightarrow> control_rows s' = control_rows s"
  by (auto simp: save_policy_def and_then_Ok upsert_living_comment_def insert_final_comment_def
      record_audit_def Let_def split: if_splits)

lemma decided_same: "decided i req s \<Longrightarrow> control_rows s' = control_rows s \<Longrightarrow> decided i req s'"
  by (simp add: decided_def)

lemma decided_reconciliation:
  assumes "save_reconciliation codes_value snapshot_value now p v fb checks s = (r, s')" "decided i req s"
  shows "decided i req s'"
proof (rule save_reconciliation_keeps [where I = "decided i req", OF assms])
  show "\<forall>k n. \<forall>f \<in> set (save_readiness codes_value snapshot_value now k n v).
      \<forall>s s'. decided i req s \<longrightarrow> f s = Ok s' \<longrightarrow> decided i req s'"
    by (auto simp: save_readiness_def decided_def split: if_splits)
qed (blast intro: decided_same upserts_control_rows)+

lemma decided_control:
  "record_job_control fresh k req act actor target decision s = Ok (b, s') \<Longrightarrow> decided i q s \<Longrightarrow> decided i q s'"
  by (auto simp: record_job_control_def decided_def row_at_append split: if_splits option.splits)

lemma decided_step: "store_step s s' \<Longrightarrow> decided i req s \<Longrightarrow> decided i req s'"
proof (induction rule: store_step.induct)
  case (step_reconciliation codes_value snapshot_value now p v fb checks s r s')
  then show ?case by (rule decided_reconciliation)
next
  case (step_control fresh k q act actor target decision s b s')
  then show ?case by (rule decided_control)
qed (auto intro: decided_same process_delivery_control_rows table_writes_control_rows simp: decided_def
    dest: process_delivery_control_rows table_writes_control_rows upserts_control_rows)

lemma decided_run: "store_run s s' \<Longrightarrow> decided i req s \<Longrightarrow> decided i req s'"
  by (induction rule: store_run.induct) (auto intro: decided_step)

section \<open>Properties\<close>

text \<open>
  C25: A delivery changes the queue only as a control that its sender may issue. It names a check
  run of a known job and the repository and pull request of that job, its action is one of the
  three, its sender is the author of the pull request or a maintainer of the stored policy (of
  the default policy when none is stored), and no control of this delivery was recorded for the
  job before. Then one is recorded, the queue becomes what the statement of that action makes of
  it, and every other job keeps its row.
\<close>
theorem control_needs_authority:
  assumes "process_check_run_control yaml now fresh fresh_audit d s = (r, s')" "queue s' \<noteq> queue s"
  shows "\<exists>control c p act b. check_run_control_of d = Ok (Some control)
     \<and> control_context_of (control_check_run_id control) s = Some c
     \<and> env_repository_id d = Some (cc_repository_id c)
     \<and> env_pull_request_number d = Some (cc_pull_request_number c)
     \<and> context_policy yaml (cc_policy_yaml c) = Ok p
     \<and> is_authorized (control_actor_login control) (cc_pr_author c) (maintainers p)
     \<and> parse_action (control_action_text control) = Ok act
     \<and> apply_to_queue now (cc_job_id c) act (queue s) = Ok (b, queue s')
     \<and> (\<forall>k. k \<noteq> cc_job_id c \<longrightarrow>
          find (\<lambda>j. job_id j = k) (jobs (queue s')) = find (\<lambda>j. job_id j = k) (jobs (queue s)))
     \<and> \<not> decided (cc_job_id c) (delivery_id d) s \<and> decided (cc_job_id c) (delivery_id d) s'"
proof (rule control_effect [OF assms])
  fix control c p act b
  assume e: "check_run_control_of d = Ok (Some control)"
    "control_context_of (control_check_run_id control) s = Some c"
    "control_delivery_matches_context d c" "context_policy yaml (cc_policy_yaml c) = Ok p"
    "parse_action (control_action_text control) = Ok act"
    "is_authorized (control_actor_login control) (cc_pr_author c) (maintainers p)"
    "\<not> decided (cc_job_id c) (delivery_id d) s" "decided (cc_job_id c) (delivery_id d) s'"
    "apply_to_queue now (cc_job_id c) act (queue s) = Ok (b, queue s')"
  show ?thesis using e(3) apply_to_queue_other [OF e(9)]
    by (intro exI [of _ control] exI [of _ c] exI [of _ p] exI [of _ act] exI [of _ b])
      (simp add: e control_delivery_matches_context_def)
qed

text \<open>
  A delivered control acts once. After a delivery changed the queue for a job, whatever the
  store did in between, delivering it again leaves the row of that job as it is then, whichever
  decision the second run comes to.
\<close>
theorem control_acts_once:
  assumes "process_check_run_control yaml now fresh fresh_audit d s = (r, s')" "queue s' \<noteq> queue s"
    and "check_run_control_of d = Ok (Some control)"
    and "control_context_of (control_check_run_id control) s = Some c"
    and "store_run s' t" "process_check_run_control yaml2 now2 fresh2 fresh_audit2 d t = (r2, t')"
  shows "find (\<lambda>j. job_id j = cc_job_id c) (jobs (queue t')) = find (\<lambda>j. job_id j = cc_job_id c) (jobs (queue t))"
proof (cases "queue t' = queue t")
  case False
  have "decided (cc_job_id c) (delivery_id d) s'"
    using control_effect [OF assms(1,2)] assms(3,4) by (metis option.inject sum.inject(2))
  then have before: "decided (cc_job_id c) (delivery_id d) t" using decided_run assms(5) by blast
  obtain c2 :: control_context and act2 b2 where "\<not> decided (cc_job_id c2) (delivery_id d) t"
    "apply_to_queue now2 (cc_job_id c2) act2 (queue t) = Ok (b2, queue t')"
    by (rule control_effect [OF assms(6) False]) (erule (1) that)
  with before apply_to_queue_other show ?thesis by metis
qed simp

section \<open>A run that its author cancels\<close>

definition sample_run_store :: store where
  "sample_run_store = (empty_store True)\<lparr>
     installations := [\<lparr>in_id = 1, in_account_login = ''acme'', in_account_type = ''Organization'',
        in_suspended_at = None, in_updated_at = 0\<rparr>],
     repository_rows := [\<lparr>re_id = 7, re_installation_id = 1, re_owner = ''acme'', re_name = ''app'',
        re_default_branch = ''main'', re_active = True, re_policy_yaml = [], re_policy_revision = [],
        re_updated_at = 0\<rparr>],
     pull_rows := [\<lparr>pl_repository_id = 7, pl_number = 3, pl_github_id = 30, pl_title = ''t'', pl_url = ''u'',
        pl_state = ''open'', pl_draft = False, pl_merged = False, pl_head_sha = ''a'', pl_base_sha = ''b'',
        pl_head_branch = ''f'', pl_base_branch = ''main'', pl_author_login = ''ann'', pl_readiness = None,
        pl_watched = True, pl_updated_at = 0\<rparr>],
     queue := (empty_queue [7] True)\<lparr>jobs := [(new_job 1 0 sample_spec)\<lparr>check_run_id := Some 55,
        check_run_url := Some ''u'', current_item := Some ''ci_repair''\<rparr>]\<rparr>\<rparr>"

definition cancel_delivery :: "string \<Rightarrow> delivery_envelope" where
  "cancel_delivery login = \<lparr>delivery_id = ''d5'', event_name = ''check_run'',
     action = Some ''requested_action'', installation_id = Some 1, env_repository_id = Some 7,
     env_pull_request_number = Some 3,
     payload = jobj [(''check_run'', jobj [(''id'', jint 55)]),
        (''requested_action'', jobj [(''identifier'', JStr ''cancel-run'')]),
        (''sender'', jobj [(''login'', JStr login)])],
     raw_body = ''raw''\<rparr>"

definition control_run :: "string \<Rightarrow> store \<Rightarrow> (workflow_error, control_disposition) result \<times> store" where
  "control_run login = process_check_run_control (\<lambda>_. Inl []) 100 8 9 (cancel_delivery login)"

definition sample_cancelled_store :: store where
  "sample_cancelled_store = snd (control_run ''ann'' sample_run_store)"

lemma control_runs:
  "fst (control_run ''ann'' sample_run_store) = Ok Applied"
  "fst (control_run ''eve'' sample_run_store) = Ok RejectedUnauthorized"
  "map state (jobs (queue sample_cancelled_store)) = [JCancelled]"
  "map state (jobs (queue sample_run_store)) = [JQueued]"
  by code_simp+

lemma control_run_ann:
  "process_check_run_control (\<lambda>_. Inl []) 100 8 9 (cancel_delivery ''ann'') sample_run_store
     = (Ok Applied, sample_cancelled_store)"
  using control_runs(1) by (simp add: sample_cancelled_store_def control_run_def prod_eq_iff)

lemma sample_queue_changes: "queue sample_cancelled_store \<noteq> queue sample_run_store"
proof
  assume "queue sample_cancelled_store = queue sample_run_store"
  then have "map state (jobs (queue sample_cancelled_store)) = map state (jobs (queue sample_run_store))" by simp
  then show False by (simp add: control_runs)
qed

theorem control_needs_authority_witness:
  "\<exists>control c. check_run_control_of (cancel_delivery ''ann'') = Ok (Some control)
     \<and> control_context_of (control_check_run_id control) sample_run_store = Some c
     \<and> decided (cc_job_id c) ''d5'' sample_cancelled_store"
  using control_needs_authority [OF control_run_ann sample_queue_changes]
  by (elim exE conjE) (auto simp: cancel_delivery_def)

theorem control_acts_once_witness:
  "find (\<lambda>j. job_id j = 1) (jobs (queue (snd (control_run ''ann'' sample_cancelled_store))))
     = find (\<lambda>j. job_id j = 1) (jobs (queue sample_cancelled_store))"
proof -
  let ?control = "\<lparr>control_check_run_id = 55, control_action_text = ''cancel-run'', control_actor_login = ''ann''\<rparr>"
  have control: "check_run_control_of (cancel_delivery ''ann'') = Ok (Some ?control)" by code_simp
  have "map_option cc_job_id (control_context_of 55 sample_run_store) = Some 1" by code_simp
  then obtain c where c: "control_context_of (control_check_run_id ?control) sample_run_store = Some c" "cc_job_id c = 1"
    by auto
  have "process_check_run_control (\<lambda>_. Inl []) 100 8 9 (cancel_delivery ''ann'') sample_cancelled_store
      = (fst (control_run ''ann'' sample_cancelled_store), snd (control_run ''ann'' sample_cancelled_store))"
    by (simp add: control_run_def)
  from control_acts_once [OF control_run_ann sample_queue_changes control c(1) store_nil this] c(2)
  show ?thesis by simp
qed

end
