(* ===== verification/Webhook_Properties.thy ===== *)
theory Webhook_Properties
  imports Webhook Workflow_Properties
begin

text \<open>
  The webhook receiver keeps what is not signed out of the store, counts every request, leaves
  the store as a run of its statements does and queues the reconciliation it accepts.
\<close>

section \<open>Comparing signatures\<close>

lemma unat_byte_word [simp]: "unat (byte_word c) = byte c"
  by (simp add: byte_word_def byte_def unsigned_of_nat take_bit_nat_eq_self_iff)

lemma byte_word_eq [simp]: "byte_word a = byte_word b \<longleftrightarrow> a = b"
proof
  assume "byte_word a = byte_word b"
  then have "byte a = byte b" by (metis unat_byte_word)
  then show "a = b" by (simp add: byte_def)
qed simp

lemma xor_eq_0 [simp]: "(a XOR b = (0 :: 'a::len word)) \<longleftrightarrow> a = b"
  by (metis xor.left_neutral xor.right_neutral xor.assoc xor_self_eq)

lemma difference_zero: "difference acc ps = 0 \<longleftrightarrow> acc = 0 \<and> list_all (\<lambda>(l, r). l = r) ps"
  by (induction acc ps rule: difference.induct) (auto simp: or_eq_0_iff)

lemma zip_all_eq: "length l = length r \<Longrightarrow> list_all (\<lambda>(a, b). a = b) (zip l r) \<longleftrightarrow> l = r"
  by (induction l r rule: list_induct2) auto

lemma constant_time_equal_iff: "constant_time_equal l r \<longleftrightarrow> l = r"
  by (auto simp: constant_time_equal_def difference_zero zip_all_eq)

lemma verify_signature_iff:
  "verify_signature hmac secret body header = Ok () \<longleftrightarrow> header = ''sha256='' @ hmac secret body"
  by (auto simp: verify_signature_def constant_time_equal_iff Let_def and_then_Ok strip_prefix_Some
      split: option.splits)

section \<open>The checks before the store\<close>

lemma admit_Ok:
  "admit env st headers body = Ok d \<longleftrightarrow>
     length body \<le> max_webhook_bytes \<and> st_has_repositories st
     \<and> headers ''x-hub-signature-256'' = Some (''sha256='' @ we_hmac_hex env (st_webhook_secret st) body)
     \<and> (\<exists>i p. headers ''x-github-delivery'' = Some i \<and> trim i \<noteq> [] \<and> we_parse_json env body = Some p
          \<and> d = from_payload i (case non_blank (headers ''x-github-event'') of None \<Rightarrow> ''unknown'' | Some e \<Rightarrow> e) p body)"
  by (auto simp: admit_def and_then_Ok verify_signature_iff non_blank_def Let_def reject_if_def
      split: option.splits if_splits)

section \<open>A request as a run of the store\<close>

definition serves :: "(service, 'e, 'a) io \<Rightarrow> bool" where
  "serves m \<longleftrightarrow> (\<forall>w. store_run (sv_store w) (sv_store (snd (m w))))"

lemma serves_then: "serves m \<Longrightarrow> (\<And>x. serves (f x)) \<Longrightarrow> serves (io_then m f)"
  unfolding serves_def io_then_def
  by (auto split: prod.splits sum.splits) (metis snd_conv store_run_trans)+

lemma serves_pure: "serves (io_lift r)" "serves (io_ok x)" "serves (counted f)"
  by (simp_all add: serves_def counted_def store_nil)

lemma serves_or_reject: "serves (or_reject r)"
  by (auto simp: or_reject_def intro!: serves_then serves_pure split: sum.split)

lemma serves_in_store: "runs m \<Longrightarrow> serves (in_store wrap m)"
  by (auto simp: serves_def runs_def in_store_def split: prod.split) (metis snd_conv)

lemma serves_delivery: "serves (store_delivery env now d)"
proof -
  have "store_run (sv_store w) (sv_store (snd (store_delivery env now d w)))" for w
  proof (cases "process_delivery (we_sha256_hex env) (we_rfc3339 env) (we_show_repository env) now d (sv_store w)")
    case (Pair r s')
    then have "store_run (sv_store w) s'" by (rule store_step_run [OF step_delivery])
    with Pair show ?thesis
      by (auto simp: store_delivery_def or_reject_def io_then_def counted_def split: sum.split)
  qed
  then show ?thesis by (simp add: serves_def)
qed

lemma runs_enqueue_targets: "runs (enqueue_targets env now fresh d ts)"
proof (induction ts)
  case (Cons t ts)
  then show ?case by (cases t) (auto intro!: runs_intros intro: step_enqueue simp only: enqueue_targets.simps)
qed (simp only: enqueue_targets.simps runs_pure)

lemma serves_follow_up: "serves (follow_up env now fresh fresh_audit fresh_jobs d)"
  by (auto simp: follow_up_def intro!: serves_then serves_pure serves_in_store runs_control runs_pure
      runs_enqueue_targets)

lemma serves_receive: "serves (receive env st now fresh fresh_audit fresh_jobs headers body)"
  by (auto simp: receive_def intro!: serves_then serves_pure serves_or_reject serves_delivery serves_follow_up)

text \<open>The request in two parts: what is not admitted ends there, the rest is stored.\<close>

lemma receive_refused:
  "admit env st headers body = Inl e \<Longrightarrow>
   receive env st now fresh fresh_audit fresh_jobs headers body w
     = (Inl e, w\<lparr>sv_metrics := record_webhook_rejected (record_webhook_received (sv_metrics w))\<rparr>)"
  by (simp add: receive_def io_then_def counted_def or_reject_def)

lemma receive_admitted:
  "admit env st headers body = Inr d \<Longrightarrow>
   receive env st now fresh fresh_audit fresh_jobs headers body w =
     io_then (store_delivery env now d) (\<lambda>outcome.
     io_then (if (outcome = Inserted \<or> outcome = Duplicate) \<and> st_has_queue st
        then follow_up env now fresh fresh_audit fresh_jobs d else io_ok ()) (\<lambda>_.
     io_then (counted (record_outcome outcome)) (\<lambda>_. io_ok (outcome_response outcome))))
     (w\<lparr>sv_metrics := record_webhook_received (sv_metrics w)\<rparr>)"
  by (simp add: receive_def io_then_def counted_def or_reject_def)

section \<open>Properties\<close>

definition signed :: "webhook_env \<Rightarrow> app_state \<Rightarrow> (string \<Rightarrow> string option) \<Rightarrow> string \<Rightarrow> bool" where
  "signed env st headers body \<longleftrightarrow> length body \<le> 2 * 1024 * 1024
     \<and> headers ''x-hub-signature-256'' = Some (''sha256='' @ we_hmac_hex env (st_webhook_secret st) body)
     \<and> (case headers ''x-github-delivery'' of None \<Rightarrow> False | Some i \<Rightarrow> trim i \<noteq> [])
     \<and> we_parse_json env body \<noteq> None \<and> st_has_repositories st"

lemma admit_signed: "(\<exists>d. admit env st headers body = Ok d) \<longleftrightarrow> signed env st headers body"
  unfolding admit_Ok signed_def max_webhook_bytes_def by (cases "headers ''x-github-delivery''") auto

text \<open>
  C26: Only what GitHub signed reaches the store. A request leaves the store as a run of its
  statements does. When its body is longer than 2 MiB, or lacks the header \<open>sha256=\<close> with exactly
  the HMAC of that body under the webhook secret, or a delivery identifier that is not blank, or is
  no JSON, then nothing is stored, the answer is an error and the request counts as rejected.
\<close>
theorem only_signed_deliveries_stored:
  "let (r, w') = receive env st now fresh fresh_audit fresh_jobs headers body w in
     store_run (sv_store w) (sv_store w')
     \<and> (signed env st headers body
        \<or> (sv_store w' = sv_store w \<and> (\<exists>e. r = Inl e)
           \<and> sv_metrics w' = record_webhook_rejected (record_webhook_received (sv_metrics w))))"
proof (cases "receive env st now fresh fresh_audit fresh_jobs headers body w")
  case (Pair r w')
  then have "store_run (sv_store w) (sv_store w')" using serves_receive unfolding serves_def by (metis snd_conv)
  moreover have "sv_store w' = sv_store w \<and> (\<exists>e. r = Inl e)
      \<and> sv_metrics w' = record_webhook_rejected (record_webhook_received (sv_metrics w))"
    if "\<not> signed env st headers body"
  proof -
    from that obtain e where "admit env st headers body = Inl e" by (metis admit_signed sum.exhaust)
    with Pair show ?thesis by (auto simp: receive_refused)
  qed
  ultimately show ?thesis using Pair by auto
qed

lemma store_delivery_metrics:
  "store_delivery env now d w = (r, w') \<Longrightarrow>
   sv_metrics w' = (case r of Inr x \<Rightarrow> sv_metrics w | Inl e \<Rightarrow> record_webhook_rejected (sv_metrics w))"
  by (auto simp: store_delivery_def or_reject_def io_then_def counted_def split: prod.splits sum.splits)

definition quiet :: "(service, 'e, 'a) io \<Rightarrow> bool" where
  "quiet m \<longleftrightarrow> (\<forall>w. sv_metrics (snd (m w)) = sv_metrics w)"

lemma quiet_then: "quiet m \<Longrightarrow> (\<And>x. quiet (f x)) \<Longrightarrow> quiet (io_then m f)"
  unfolding quiet_def io_then_def by (auto split: prod.splits sum.splits) (metis snd_conv)+

lemma quiet_pure: "quiet (io_lift r)" "quiet (io_ok x)" "quiet (in_store wrap m')"
  by (simp_all add: quiet_def in_store_def split: prod.split)

lemma quiet_follow_up: "quiet (follow_up env now fresh fresh_audit fresh_jobs d)"
  by (auto simp: follow_up_def intro!: quiet_then quiet_pure)

text \<open>
  Every request counts once as received, and every answer is counted by its kind: a response
  202, 208 or 409 as accepted, duplicate or conflict, and an error as rejected, except one that the
  control or the queue reports after the delivery was stored, which no counter shows.
\<close>
theorem every_answer_counted:
  "let (r, w') = receive env st now fresh fresh_audit fresh_jobs headers body w;
       received = record_webhook_received (sv_metrics w)
   in case r of
        Inr response \<Rightarrow> (\<exists>outcome. response = outcome_response outcome
          \<and> sv_metrics w' = record_outcome outcome received)
      | Inl e \<Rightarrow> sv_metrics w' = record_webhook_rejected received
          \<or> (sv_metrics w' = received \<and> (\<exists>d outcome s'. admit env st headers body = Ok d
               \<and> process_delivery (we_sha256_hex env) (we_rfc3339 env) (we_show_repository env) now d
                   (sv_store w) = (Ok outcome, s')))"
proof (cases "admit env st headers body")
  case (Inl e)
  then show ?thesis by (simp add: receive_refused)
next
  case (Inr d)
  let ?w = "w\<lparr>sv_metrics := record_webhook_received (sv_metrics w)\<rparr>"
  obtain r1 w1 where stored: "store_delivery env now d ?w = (r1, w1)" by fastforce
  note m1 = store_delivery_metrics [OF stored]
  show ?thesis
  proof (cases r1)
    case (Inl e)
    with Inr stored m1 show ?thesis by (auto simp: receive_admitted io_then_def)
  next
    case out: (Inr outcome)
    with stored obtain s' where delivered: "process_delivery (we_sha256_hex env) (we_rfc3339 env)
        (we_show_repository env) now d (sv_store w) = (Ok outcome, s')"
      by (auto simp: store_delivery_def or_reject_def io_then_def counted_def split: prod.splits sum.splits)
    let ?m = "if (outcome = Inserted \<or> outcome = Duplicate) \<and> st_has_queue st
        then follow_up env now fresh fresh_audit fresh_jobs d else io_ok ()"
    obtain r2 w2 where follow: "?m w1 = (r2, w2)" by fastforce
    have "quiet ?m" by (simp add: quiet_follow_up quiet_pure)
    with follow out m1 have m2: "sv_metrics w2 = record_webhook_received (sv_metrics w)"
      unfolding quiet_def by (metis snd_conv sum.simps(6) service.select_convs(2) service.surjective service.update_convs(2))
    show ?thesis
      using Inr stored out follow m2 delivered
      by (cases r2) (auto simp: receive_admitted io_then_def counted_def)
  qed
qed

section \<open>An accepted delivery leads to a reconciliation\<close>

definition has_active :: "job_spec \<Rightarrow> queue_db \<Rightarrow> bool" where
  "has_active spec q \<longleftrightarrow> (\<exists>j \<in> set (jobs q). same_key (deduplication_key spec) j \<and> is_active j)"

lemma enqueue_reconcile_active:
  assumes "enqueue printed now i spec q = Ok (k, q')" "spec_kind spec = Reconcile"
  shows "has_active spec q'"
proof -
  have "insert_job now i spec q = Ok (k, q1) \<Longrightarrow> has_active spec (publish k q1)" for q1
    by (auto simp: insert_job_def has_active_def find_Some_iff new_job_def same_key_def deduplication_key_def
        is_active_def split: option.splits if_splits)
  then show ?thesis using assms by (auto simp: enqueue_def Let_def and_then_Ok split: option.splits)
qed

text \<open>
  C27: A delivery that the receiver answers with success and that concerns a pull request leads to
  work: when the queue is configured, the event is one that PiTools supports and carries no
  control, an active reconciliation of that pull request is in the queue at the answer, be the
  delivery new or repeated.
\<close>
theorem accepted_delivery_reconciles:
  assumes "receive env st now fresh fresh_audit fresh_jobs headers body w = (Inr response, w')"
    and "fst response \<noteq> 409" "st_has_queue st"
    and "admit env st headers body = Ok d" "check_run_control_of d = Ok None" "is_supported d"
    and "env_repository_id d = Some r" "env_pull_request_number d = Some n"
  shows "\<exists>j \<in> set (jobs (queue (sv_store w'))). repository_id j = r \<and> pull_request_number j = n
    \<and> kind j = as_database_value Reconcile \<and> is_active j"
proof -
  obtain outcome w1 w2 where "store_delivery env now d (w\<lparr>sv_metrics := record_webhook_received (sv_metrics w)\<rparr>)
      = (Inr outcome, w1)" and resp: "response = outcome_response outcome"
    and follow: "(if (outcome = Inserted \<or> outcome = Duplicate) \<and> st_has_queue st
        then follow_up env now fresh fresh_audit fresh_jobs d else io_ok ()) w1 = (Inr (), w2)"
    and w': "sv_store w' = sv_store w2"
    using assms(1) unfolding receive_admitted [OF assms(4)]
    by (auto simp: io_then_Ok counted_def)
  have "outcome = Inserted \<or> outcome = Duplicate" using resp assms(2) by (cases outcome) auto
  with follow assms(3) have "follow_up env now fresh fresh_audit fresh_jobs d w1 = (Inr (), w2)" by simp
  then obtain s1 s2 :: store and k q where "enqueue (we_printed env) now (fresh_jobs 0) (reconcile_spec d r n) (queue s1) = Ok (k, q)"
    and "sv_store w2 = s2" "queue s2 = q"
    using assms(5-8)
    by (auto simp: follow_up_def io_then_Ok in_store_def query_def reconcile_targets_def
        queue_statement_def statement_def split: prod.splits sum.splits)
  from enqueue_reconcile_active [OF this(1)] this(2,3) w' show ?thesis
    by (auto simp: has_active_def reconcile_spec_def same_key_def deduplication_key_def)
qed

section \<open>A delivery that is accepted\<close>

definition sample_env :: webhook_env where
  "sample_env = \<lparr>we_hmac_hex = (\<lambda>secret body. secret @ body), we_sha256_hex = (\<lambda>b. b),
     we_parse_json = (\<lambda>_. Some (jobj [(''repository'', jobj [(''id'', jint 7)]),
        (''pull_request'', jobj [(''number'', jint 3)])])),
     we_rfc3339 = (\<lambda>_. None), we_yaml = (\<lambda>_. Inl []), we_printed = (\<lambda>_. []),
     we_show_repository = (\<lambda>_. []), we_show_event = (\<lambda>_. []), we_show_workflow = (\<lambda>_. []),
     we_show_queue = (\<lambda>_. [])\<rparr>"

definition sample_headers :: "string \<Rightarrow> string option" where
  "sample_headers h = (if h = ''x-hub-signature-256'' then Some ''sha256=kb''
     else if h = ''x-github-delivery'' then Some ''d7''
     else if h = ''x-github-event'' then Some ''check_suite'' else None)"

definition sample_state :: app_state where
  "sample_state = \<lparr>st_webhook_secret = ''k'', st_has_repositories = True, st_has_queue = True\<rparr>"

definition sample_service :: service where
  "sample_service = \<lparr>sv_store = sample_run_store, sv_metrics = no_metrics\<rparr>"

definition sample_check_suite :: delivery_envelope where
  "sample_check_suite = from_payload ''d7'' ''check_suite'' (the (we_parse_json sample_env ''b'')) ''b''"

definition sample_delivered :: service where
  "sample_delivered = snd (store_delivery sample_env 100 sample_check_suite sample_service)"

definition sample_answer :: "(webhook_error, nat \<times> string) result \<times> service" where
  "sample_answer = receive sample_env sample_state 100 8 9 (\<lambda>k. 10 + k) sample_headers ''b'' sample_service"

lemma sample_admit: "admit sample_env sample_state sample_headers ''b'' = Ok sample_check_suite"
proof -
  have "trim ''d7'' \<noteq> []" "non_blank (sample_headers ''x-github-event'') = Some ''check_suite''" by code_simp+
  then show ?thesis
    by (simp add: admit_Ok max_webhook_bytes_def sample_env_def sample_state_def sample_headers_def
        sample_check_suite_def)
qed

lemma sample_receive:
  "receive sample_env sample_state 100 8 9 (\<lambda>k. 10 + k) sample_headers ''b'' sample_service
     = (Inr (202, ''accepted''), snd sample_answer)"
proof -
  let ?w = "sample_service\<lparr>sv_metrics := record_webhook_received (sv_metrics sample_service)\<rparr>"
  have "fst (store_delivery sample_env 100 sample_check_suite ?w) = Inr Inserted" by code_simp
  moreover have "fst (follow_up sample_env 100 8 9 (\<lambda>k. 10 + k) sample_check_suite
      (snd (store_delivery sample_env 100 sample_check_suite ?w))) = Inr ()" by code_simp
  moreover have "st_has_queue sample_state" by (simp add: sample_state_def)
  ultimately show ?thesis
    by (auto simp: sample_answer_def receive_admitted [OF sample_admit] io_then_def counted_def
        split: prod.splits sum.splits)
qed

theorem accepted_delivery_reconciles_witness:
  "\<exists>j \<in> set (jobs (queue (sv_store (snd sample_answer)))). repository_id j = 7 \<and> pull_request_number j = 3
     \<and> kind j = ''reconcile'' \<and> is_active j"
proof -
  have "check_run_control_of sample_check_suite = Ok None" "is_supported sample_check_suite"
    "env_repository_id sample_check_suite = Some 7" "env_pull_request_number sample_check_suite = Some 3"
    "st_has_queue sample_state" by code_simp+
  with accepted_delivery_reconciles [OF sample_receive _ _ sample_admit, of 7 3] show ?thesis by simp
qed

end
