(* ===== verification/Pi_Boundary.thy ===== *)
theory Pi_Boundary
  imports Ci
begin

text \<open>
  The boundary to the isolated Pi worker, \<open>src/pi.rs\<close>: the bounds on a request, the process or
  NATS round trip, and the checks that bind a result to its request. The JSON codecs, the child
  process and the NATS client are parameters; the confidence is an \<open>f64\<close> by its bits.
\<close>

abbreviation max_pi_output_bytes :: nat where "max_pi_output_bytes \<equiv> 65536"
abbreviation max_pi_input_bytes :: nat where "max_pi_input_bytes \<equiv> 262144"
abbreviation max_pi_snapshot_files :: nat where "max_pi_snapshot_files \<equiv> 16"
abbreviation max_pi_snapshot_file_bytes :: nat where "max_pi_snapshot_file_bytes \<equiv> 16384"
abbreviation max_pi_snapshot_bytes :: nat where "max_pi_snapshot_bytes \<equiv> 49152"

record pi_snapshot_file =
  sf_path :: string
  sf_content :: string

record pi_job_request =
  pq_protocol_version :: string
  pq_job_id :: uuid
  pq_repository :: string
  pq_snapshot_path :: string
  pq_snapshot_files :: "pi_snapshot_file list"
  pq_allowed_paths :: "string list"
  pq_failure_evidence :: "string option"
  pq_policy_revision :: string
  pq_nonce :: string

record pi_job_result =
  px_protocol_version :: string
  px_job_id :: uuid
  px_nonce :: string
  px_diagnosis :: string
  px_confidence :: "64 word"
  px_proposed_files :: "string list"
  px_proposed_patches :: "ci_patch list"
  px_validation_commands :: "string list"
  px_risks :: "string list"
  px_requires_approval :: bool
  px_metadata :: "json option"

datatype pi_error =
    Pi_Empty_Command | Pi_Unsafe_Command | Pi_Input_Too_Large | Pi_Output_Too_Large | Pi_Spawn string
  | Pi_Write string | Pi_Read string | Pi_Wait string | Pi_Timed_Out | Pi_Missing_Pipe | Pi_Empty_Output
  | Pi_Invalid_Result string | Pi_Binding_Mismatch | Pi_Approval_Required | Pi_Path_Not_Allowed
  | Pi_Secret_Like_Output | Pi_Secret_Like_Input | Pi_Invalid_Request | Pi_Invalid_Path string
  | Pi_Worker_Failed string | Pi_Serialization string

section \<open>Secrets\<close>

definition looks_like_jwt :: "string \<Rightarrow> bool" where
  "looks_like_jwt value =
     (case split_char CHR ''.'' value of
        [header, body, signature] \<Rightarrow> starts_with ''eyj'' header \<and> 8 \<le> length header
          \<and> 8 \<le> length body \<and> 8 \<le> length signature
      | _ \<Rightarrow> False)"

definition pi_token_markers :: "string list" where
  "pi_token_markers = [''github_pat_'', ''ghp_'', ''ghs_'', ''gho_'', ''ghu_'', ''ghr_'', ''sk-proj-'',
     ''-----begin private key'', ''bearer '']"

definition pi_assignment_markers :: "string list" where
  "pi_assignment_markers = [''token='', ''token:'', ''password='', ''password:'', ''secret='', ''secret:'',
     ''private_key='', ''private-key='', ''api_key='', ''api-key='']"

definition contains_secret_like :: "string \<Rightarrow> bool" where
  "contains_secret_like value =
     (let normalized = to_ascii_lowercase value
      in list_ex (\<lambda>m. contains_sub m normalized) pi_token_markers
         \<or> contains_sub ''npm_'' normalized \<or> contains_sub ''akia'' normalized
         \<or> list_ex looks_like_jwt (split_whitespace normalized)
         \<or> list_ex (\<lambda>m. contains_sub m normalized) pi_assignment_markers)"

section \<open>Requests\<close>

definition pi_relative_path :: "string \<Rightarrow> (pi_error, unit) result" where
  "pi_relative_path value =
     reject_if (value = [] \<or> is_absolute value \<or> contains_any [BACKSLASH] value \<or> \<not> normal_only value)
       (Pi_Invalid_Path value)"

fun check_snapshot_files ::
  "string list \<Rightarrow> string set \<Rightarrow> nat \<Rightarrow> pi_snapshot_file list \<Rightarrow> (pi_error, unit) result" where
  "check_snapshot_files allowed seen bytes [] = Ok ()"
| "check_snapshot_files allowed seen bytes (f # fs) =
     and_then (pi_relative_path (sf_path f)) (\<lambda>_.
     and_then (reject_if (\<not> list_ex (\<lambda>p. p = sf_path f) allowed \<or> sf_path f \<in> seen) Pi_Path_Not_Allowed) (\<lambda>_.
     and_then (reject_if (length (sf_content f) > max_pi_snapshot_file_bytes) Pi_Input_Too_Large) (\<lambda>_.
     and_then (reject_if (bytes + length (sf_content f) > max_pi_snapshot_bytes) Pi_Input_Too_Large) (\<lambda>_.
     and_then (reject_if (contains_secret_like (sf_content f)) Pi_Secret_Like_Input) (\<lambda>_.
     check_snapshot_files allowed (insert (sf_path f) seen) (bytes + length (sf_content f)) fs)))))"

definition validate_request :: "pi_job_request \<Rightarrow> (pi_error, unit) result" where
  "validate_request q =
     and_then (reject_if (pq_protocol_version q \<noteq> ''pitools.pi/v1'' \<or> trim (pq_repository q) = []
        \<or> trim (pq_snapshot_path q) = [] \<or> trim (pq_policy_revision q) = [] \<or> trim (pq_nonce q) = [])
        Pi_Invalid_Request) (\<lambda>_.
     and_then (pi_relative_path (pq_snapshot_path q)) (\<lambda>_.
     and_then (for_each pi_relative_path (pq_allowed_paths q)) (\<lambda>_.
     and_then (reject_if (length (pq_snapshot_files q) > max_pi_snapshot_files) Pi_Input_Too_Large) (\<lambda>_.
     and_then (check_snapshot_files (pq_allowed_paths q) {} 0 (pq_snapshot_files q)) (\<lambda>_.
     reject_if (case pq_failure_evidence q of None \<Rightarrow> False | Some e \<Rightarrow> contains_secret_like e)
       Pi_Secret_Like_Input)))))"

section \<open>Results\<close>

text \<open>\<open>(0.0..=1.0).contains\<close>: up to the bits of \<open>1.0\<close>, or negative zero.\<close>

definition in_unit_interval :: "64 word \<Rightarrow> bool" where
  "in_unit_interval bits \<longleftrightarrow> bits \<le> 0x3FF0000000000000 \<or> bits = 0x8000000000000000"

record pi_codec =
  pc_encode_request :: "pi_job_request \<Rightarrow> (string, string) result"
  pc_decode_result :: "string \<Rightarrow> (string, pi_job_result) result"
  pc_encode_result :: "pi_job_result \<Rightarrow> (string, string) result"
  pc_show_ci_error :: "ci_error \<Rightarrow> string"
  pc_lossy :: "string \<Rightarrow> string"

definition validate_result ::
  "pi_codec \<Rightarrow> pi_job_request \<Rightarrow> pi_job_result \<Rightarrow> (pi_error, pi_job_result) result" where
  "validate_result codec q r =
     and_then (reject_if (px_protocol_version r \<noteq> pq_protocol_version q \<or> px_job_id r \<noteq> pq_job_id q
        \<or> px_nonce r \<noteq> pq_nonce q \<or> \<not> in_unit_interval (px_confidence r)) Pi_Binding_Mismatch) (\<lambda>_.
     and_then (reject_if (list_ex (\<lambda>p. \<not> list_ex (\<lambda>a. a = p) (pq_allowed_paths q)) (px_proposed_files r))
        Pi_Path_Not_Allowed) (\<lambda>_.
     and_then (reject_if (px_proposed_patches r \<noteq> [] \<and> \<not> px_requires_approval r) Pi_Approval_Required) (\<lambda>_.
     and_then (if px_proposed_patches r = [] then Ok ()
        else map_err (\<lambda>e. Pi_Invalid_Result (pc_show_ci_error codec e))
          (validate_patch_set (px_proposed_patches r) (pq_allowed_paths q))) (\<lambda>_.
     and_then (map_err Pi_Serialization (pc_encode_result codec r)) (\<lambda>serialized.
     and_then (reject_if (contains_secret_like serialized) Pi_Secret_Like_Output) (\<lambda>_.
     Ok r))))))"

definition parse_result :: "pi_codec \<Rightarrow> pi_job_request \<Rightarrow> string \<Rightarrow> (pi_error, pi_job_result) result" where
  "parse_result codec q bytes =
     and_then (map_err Pi_Invalid_Result (pc_decode_result codec bytes)) (validate_result codec q)"

section \<open>The child process\<close>

definition file_name :: "string \<Rightarrow> string option" where
  "file_name p = (case rev (path_components p) of Normal x # _ \<Rightarrow> Some x | _ \<Rightarrow> None)"

definition is_shell_program :: "string \<Rightarrow> bool" where
  "is_shell_program program \<longleftrightarrow> file_name program \<in>
     Some ` {''sh'', ''bash'', ''dash'', ''zsh'', ''fish'', ''cmd'', ''powershell'', ''pwsh''}"

text \<open>A child that was started, as a function of what it reads; only \<open>PATH\<close> is in its environment.\<close>

type_synonym 'w pi_spawner = "string list \<Rightarrow> string \<Rightarrow> 'w \<Rightarrow> (string, string \<Rightarrow> process_run) result \<times> 'w"

record pi_worker =
  pw_command :: "string list"
  pw_path :: "string option"

definition finish_child ::
  "pi_codec \<Rightarrow> pi_job_request \<Rightarrow> (string \<Rightarrow> process_run) \<Rightarrow> (pi_error, pi_job_result) result" where
  "finish_child codec q child =
     and_then (map_err Pi_Serialization (pc_encode_request codec q)) (\<lambda>input.
     and_then (reject_if (length input > max_pi_input_bytes) Pi_Input_Too_Large) (\<lambda>_.
     let p = child (input @ [LF])
     in and_then (reject_if (\<not> pr_pipes p) Pi_Missing_Pipe) (\<lambda>_.
        and_then (map_err Pi_Write (pr_write p)) (\<lambda>_.
        and_then (reject_if (\<not> pr_in_time p) Pi_Timed_Out) (\<lambda>_.
        and_then (map_err Pi_Wait (pr_wait p)) (\<lambda>success.
        and_then (map_err Pi_Read (pr_stdout p)) (\<lambda>output.
        and_then (map_err Pi_Read (pr_stderr p)) (\<lambda>errors.
        and_then (reject_if (length output > max_pi_output_bytes \<or> length errors > max_pi_output_bytes)
           Pi_Output_Too_Large) (\<lambda>_.
        and_then (reject_if (\<not> success) (Pi_Worker_Failed (pc_lossy codec errors))) (\<lambda>_.
        and_then (ok_or Pi_Empty_Output (find (\<lambda>l. l \<noteq> []) (split_char LF output)))
          (parse_result codec q)))))))))))"

definition execute_process ::
  "pi_codec \<Rightarrow> 'w pi_spawner \<Rightarrow> pi_worker \<Rightarrow> pi_job_request \<Rightarrow> 'w \<Rightarrow> (pi_error, pi_job_result) result \<times> 'w" where
  "execute_process codec spawn worker q w =
     (case pw_command worker of
        [] \<Rightarrow> (Err Pi_Empty_Command, w)
      | program # arguments \<Rightarrow>
          (case and_then (validate_request q) (\<lambda>_.
             reject_if (list_ex (contains_any [NUL, CR, LF]) (program # arguments) \<or> is_shell_program program)
               Pi_Unsafe_Command) of
             Inl e \<Rightarrow> (Err e, w)
           | Inr _ \<Rightarrow>
               (case spawn (program # arguments) (case pw_path worker of None \<Rightarrow> ''/usr/bin:/bin'' | Some p \<Rightarrow> p) w of
                  (Inl e, w') \<Rightarrow> (Err (Pi_Spawn e), w')
                | (Inr child, w') \<Rightarrow> (finish_child codec q child, w'))))"

section \<open>The NATS worker\<close>

datatype nats_outcome = Nats_Timed_Out | Nats_Failed string | Nats_Reply string

type_synonym 'w nats_client = "string \<Rightarrow> string \<Rightarrow> 'w \<Rightarrow> nats_outcome \<times> 'w"

definition pi_subject :: string where
  "pi_subject = ''pitools.pi.requests''"

definition execute_nats ::
  "pi_codec \<Rightarrow> 'w nats_client \<Rightarrow> pi_job_request \<Rightarrow> 'w \<Rightarrow> (pi_error, pi_job_result) result \<times> 'w" where
  "execute_nats codec nats q w =
     (case and_then (validate_request q) (\<lambda>_.
          and_then (map_err Pi_Serialization (pc_encode_request codec q)) (\<lambda>bytes.
          and_then (reject_if (length bytes > max_pi_input_bytes) Pi_Input_Too_Large) (\<lambda>_. Ok bytes))) of
        Inl e \<Rightarrow> (Err e, w)
      | Inr bytes \<Rightarrow>
          (case nats pi_subject bytes w of
             (Nats_Timed_Out, w') \<Rightarrow> (Err Pi_Timed_Out, w')
           | (Nats_Failed e, w') \<Rightarrow> (Err (Pi_Worker_Failed e), w')
           | (Nats_Reply reply, w') \<Rightarrow>
               (if length reply > max_pi_output_bytes then Err Pi_Output_Too_Large
                else parse_result codec q reply, w')))"

section \<open>The path check as a gate\<close>

interpretation pi_path: path_gate "\<lambda>p. pi_relative_path p = Ok ()"
  by unfold_locales (auto simp: pi_relative_path_def)

end
