(* ===== verification/Pi_Properties.thy ===== *)
theory Pi_Properties
  imports Pi_Boundary
begin

text \<open>
  What the Pi worker is told and what its answer may say: the request is bounded and free of
  what looks like a secret, and an answer that is accepted is bound to it.
\<close>

lemma check_snapshot_files_Ok:
  assumes "check_snapshot_files allowed seen bytes fs = Ok ()"
  shows "distinct (map sf_path fs) \<and> set (map sf_path fs) \<inter> seen = {} \<and> set (map sf_path fs) \<subseteq> set allowed
    \<and> list_all (\<lambda>f. pi_relative_path (sf_path f) = Ok () \<and> \<not> contains_secret_like (sf_content f)) fs
    \<and> (fs = [] \<or> bytes + sum_list (map (length \<circ> sf_content) fs) \<le> max_pi_snapshot_bytes)"
  using assms
proof (induction allowed seen bytes fs rule: check_snapshot_files.induct)
  case (2 allowed seen bytes f fs)
  then show ?case by (cases "fs = []") (auto simp: and_then_Ok list_ex_iff)
qed simp

lemma validate_request_Ok:
  assumes "validate_request q = Ok ()"
  shows "distinct (map sf_path (pq_snapshot_files q)) \<and> set (map sf_path (pq_snapshot_files q)) \<subseteq> set (pq_allowed_paths q)
    \<and> length (pq_snapshot_files q) \<le> max_pi_snapshot_files
    \<and> sum_list (map (length \<circ> sf_content) (pq_snapshot_files q)) \<le> max_pi_snapshot_bytes
    \<and> list_all (\<lambda>f. \<not> contains_secret_like (sf_content f)) (pq_snapshot_files q)
    \<and> pq_protocol_version q = ''pitools.pi/v1''
    \<and> list_all (\<lambda>e. \<not> contains_secret_like e) (case pq_failure_evidence q of None \<Rightarrow> [] | Some e \<Rightarrow> [e])"
proof -
  have snap: "check_snapshot_files (pq_allowed_paths q) {} 0 (pq_snapshot_files q) = Ok ()"
    and rest: "length (pq_snapshot_files q) \<le> max_pi_snapshot_files"
      "pq_protocol_version q = ''pitools.pi/v1''"
      "list_all (\<lambda>e. \<not> contains_secret_like e) (case pq_failure_evidence q of None \<Rightarrow> [] | Some e \<Rightarrow> [e])"
    using assms by (auto simp: validate_request_def and_then_Ok split: option.splits)
  from check_snapshot_files_Ok [OF snap] rest show ?thesis by (auto simp: list_all_iff)
qed

lemma parse_result_Ok:
  assumes "parse_result codec q bytes = Ok r"
  shows "px_protocol_version r = pq_protocol_version q \<and> px_job_id r = pq_job_id q \<and> px_nonce r = pq_nonce q
    \<and> in_unit_interval (px_confidence r)
    \<and> set (px_proposed_files r) \<subseteq> set (pq_allowed_paths q)
    \<and> (px_proposed_patches r = [] \<or> (px_requires_approval r
         \<and> validate_patch_set (px_proposed_patches r) (pq_allowed_paths q) = Ok ()))
    \<and> (\<exists>text. pc_encode_result codec r = Ok text \<and> \<not> contains_secret_like text)"
  using assms by (auto simp: parse_result_def validate_result_def and_then_Ok list_ex_iff split: if_splits)

lemma execute_accepted:
  assumes "execute_nats codec nats q w = (Inr r, w') \<or> execute_process codec spawn worker q w = (Inr r, w')"
  shows "validate_request q = Ok () \<and> (\<exists>bytes. parse_result codec q bytes = Ok r)
    \<and> (\<exists>sent. pc_encode_request codec q = Ok sent \<and> length sent \<le> max_pi_input_bytes)"
  using assms
proof
  assume "execute_nats codec nats q w = (Inr r, w')"
  then show ?thesis
    by (auto simp: execute_nats_def and_then_Ok split: sum.splits prod.splits nats_outcome.splits if_splits)
next
  assume "execute_process codec spawn worker q w = (Inr r, w')"
  then show ?thesis
    by (auto simp: execute_process_def finish_child_def Let_def and_then_Ok
        split: list.splits sum.splits prod.splits)
qed

text \<open>
  C28: an answer that either Pi transport returns is bound to its request: it repeats its protocol,
  job and nonce, states a confidence between 0 and 1, proposes files of the allowed paths only,
  proposes patches only with the demand for approval and only such as the patch gate admits for these
  paths, and its JSON as a whole does not look like a secret. The request that led to it speaks
  \<open>pitools.pi/v1\<close>, was sent in at most 256 KiB of JSON and named every snapshot file once and within
  the allowed paths, at most 16 files and 48 KiB; neither a file nor the evidence of the failure
  looked like a secret.
\<close>

theorem pi_answer_bound:
  assumes "execute_nats codec nats q w = (Inr r, w') \<or> execute_process codec spawn worker q w = (Inr r, w')"
  shows "px_protocol_version r = pq_protocol_version q \<and> px_job_id r = pq_job_id q \<and> px_nonce r = pq_nonce q
    \<and> in_unit_interval (px_confidence r)
    \<and> set (px_proposed_files r) \<subseteq> set (pq_allowed_paths q)
    \<and> (px_proposed_patches r = [] \<or> (px_requires_approval r
         \<and> validate_patch_set (px_proposed_patches r) (pq_allowed_paths q) = Ok ()))
    \<and> (\<exists>text. pc_encode_result codec r = Ok text \<and> \<not> contains_secret_like text)
    \<and> pq_protocol_version q = ''pitools.pi/v1''
    \<and> (\<exists>sent. pc_encode_request codec q = Ok sent \<and> length sent \<le> 256 * 1024)
    \<and> distinct (map sf_path (pq_snapshot_files q)) \<and> set (map sf_path (pq_snapshot_files q)) \<subseteq> set (pq_allowed_paths q)
    \<and> length (pq_snapshot_files q) \<le> 16
    \<and> sum_list (map (length \<circ> sf_content) (pq_snapshot_files q)) \<le> 48 * 1024
    \<and> list_all (\<lambda>f. \<not> contains_secret_like (sf_content f)) (pq_snapshot_files q)
    \<and> (case pq_failure_evidence q of None \<Rightarrow> True | Some e \<Rightarrow> \<not> contains_secret_like e)"
proof -
  obtain bytes sent where ok: "validate_request q = Ok ()" "parse_result codec q bytes = Ok r"
    and sent: "pc_encode_request codec q = Ok sent" "length sent \<le> max_pi_input_bytes"
    using execute_accepted [OF assms] by blast
  from validate_request_Ok [OF ok(1)] parse_result_Ok [OF ok(2)] sent show ?thesis
    by (simp split: option.splits)
qed

section \<open>A token that the result check does not see\<close>

definition sample_jwt :: string where
  "sample_jwt = ''eyJhbGciOiJIUzI1NiJ9.eyJzdWIiOiIxIn0.signature''"

definition sample_request :: pi_job_request where
  "sample_request = \<lparr>pq_protocol_version = ''pitools.pi/v1'', pq_job_id = 1, pq_repository = ''acme/app'',
     pq_snapshot_path = ''snapshot.json'', pq_snapshot_files = [], pq_allowed_paths = [''a.rs''],
     pq_failure_evidence = None, pq_policy_revision = ''r'', pq_nonce = ''n''\<rparr>"

definition sample_result :: pi_job_result where
  "sample_result = \<lparr>px_protocol_version = ''pitools.pi/v1'', px_job_id = 1, px_nonce = ''n'',
     px_diagnosis = sample_jwt, px_confidence = 0, px_proposed_files = [''a.rs''], px_proposed_patches = [],
     px_validation_commands = [], px_risks = [], px_requires_approval = True, px_metadata = None\<rparr>"

definition sample_codec :: pi_codec where
  "sample_codec = \<lparr>pc_encode_request = (\<lambda>_. Inr ''{}''), pc_decode_result = (\<lambda>_. Inr sample_result),
     pc_encode_result = (\<lambda>r. Inr (''{'' @ [CHR 0x22] @ ''diagnosis'' @ [CHR 0x22] @ '':'' @ [CHR 0x22]
        @ px_diagnosis r @ [CHR 0x22] @ ''}'')),
     pc_show_ci_error = (\<lambda>_. []), pc_lossy = (\<lambda>s. s)\<rparr>"

text \<open>
  A token alone is found, and a request that contains it is refused. In the compact JSON of a
  result it follows a quotation mark and no white space, so that it is not found there.
\<close>

lemma jwt_in_result_accepted:
  "contains_secret_like sample_jwt \<and> parse_result sample_codec sample_request ''{}'' = Ok sample_result
   \<and> px_diagnosis sample_result = sample_jwt"
proof -
  have "contains_secret_like sample_jwt" by code_simp
  moreover have "validate_result sample_codec sample_request sample_result = Ok sample_result" by code_simp
  ultimately show ?thesis by (simp add: parse_result_def sample_codec_def) (simp add: sample_result_def)
qed

theorem pi_answer_bound_witness:
  "px_job_id sample_result = pq_job_id sample_request \<and> set (px_proposed_files sample_result) \<subseteq> set (pq_allowed_paths sample_request)"
proof -
  have "validate_request sample_request = Ok ()" by code_simp
  moreover have "pc_encode_request sample_codec sample_request = Inr ''{}''" by (simp add: sample_codec_def)
  moreover have "parse_result sample_codec sample_request ''{}'' = Ok sample_result"
    using jwt_in_result_accepted by blast
  ultimately have "execute_nats sample_codec (\<lambda>_ _ w. (Nats_Reply ''{}'', w)) sample_request () = (Inr sample_result, ())"
    by (simp add: execute_nats_def)
  from pi_answer_bound [OF disjI1, OF this] show ?thesis by blast
qed

end
