(* ===== verification/Github_Auth.thy ===== *)
theory Github_Auth
  imports Http Json
begin

text \<open>
  The App's own authentication, \<open>src/github/auth.rs\<close>: its JSON Web Token, the probe of the
  App's identity and installations, and the installation tokens. RSA, the token encoder, the
  URL crate, the response decoders and \<open>send\<close> are parameters; \<open>now\<close> is the clock in
  nanoseconds since the epoch.
\<close>

definition max_app_installation_pages :: nat where
  "max_app_installation_pages = 100"

datatype github_auth_error =
    Au_Invalid_Private_Key string | Au_Client string | Au_Clock | Au_Jwt string | Au_Request string
  | Au_Response string | Au_Api nat string | Au_App_Identity_Mismatch nat nat
  | Au_App_Installation_Pagination_Limit nat

record installation_token_scope =
  ts_permissions :: "(string, string) btree_map"
  ts_repositories :: "string list"

definition no_scope :: installation_token_scope where
  "no_scope = \<lparr>ts_permissions = [], ts_repositories = []\<rparr>"

definition scope_is_empty :: "installation_token_scope \<Rightarrow> bool" where
  "scope_is_empty s \<longleftrightarrow> ts_permissions s = [] \<and> ts_repositories s = []"

record app_claims =
  cl_iat :: nat
  cl_exp :: nat
  cl_iss :: string

record installation_token =
  tk_token :: string
  tk_expires_at :: string
  tk_permissions :: json
  tk_repository_selection :: "string option"

record app_identity =
  ai_id :: nat
  ai_name :: string

text \<open>The account of an installation and its login, either of which may be missing.\<close>

record app_installation =
  ap_account :: "string option option"

record github_app_status =
  gs_app_id :: nat
  gs_app_name :: string
  gs_installation_count :: nat
  gs_installation_accounts :: "string list"

record 'w github_app_auth =
  ga_app_id :: nat
  ga_private_key_pem :: string
  ga_api_base :: url
  ga_check_pem :: "string \<Rightarrow> (string, unit) result"
  ga_encode :: "app_claims \<Rightarrow> string \<Rightarrow> (string, string) result"
  ga_join :: "url \<Rightarrow> string \<Rightarrow> (string, url) result"
  ga_send :: "installation_token_scope http_request \<Rightarrow> ('w, string, http_response) io"
  ga_body_text :: "http_response \<Rightarrow> string option"
  ga_identity :: "http_response \<Rightarrow> (string, app_identity) result"
  ga_installations :: "http_response \<Rightarrow> (string, app_installation list) result"
  ga_token :: "http_response \<Rightarrow> (string, installation_token) result"

type_synonym ('w, 'a) auth_io = "('w, github_auth_error, 'a) io"

section \<open>The App's token\<close>

definition app_jwt :: "'w github_app_auth \<Rightarrow> int \<Rightarrow> (github_auth_error, string) result" where
  "app_jwt a now =
     (if now < 0 then Err Au_Clock
      else
        let issued_at = nat (now div 1000000000) - 60
        in and_then (map_err Au_Invalid_Private_Key (ga_check_pem a (ga_private_key_pem a))) (\<lambda>_.
           map_err Au_Jwt (ga_encode a \<lparr>cl_iat = issued_at, cl_exp = issued_at + 540,
             cl_iss = show_nat (ga_app_id a)\<rparr> (ga_private_key_pem a))))"

section \<open>Requests of the App\<close>

definition auth_request ::
  "http_method \<Rightarrow> url \<Rightarrow> string \<Rightarrow> installation_token_scope option \<Rightarrow> installation_token_scope http_request" where
  "auth_request m u jwt body = \<lparr>rq_method = m, rq_url = u, rq_bearer = jwt,
     rq_accept = ''application/vnd.github+json'', rq_body = body\<rparr>"

definition auth_api_error :: "'w github_app_auth \<Rightarrow> http_response \<Rightarrow> github_auth_error" where
  "auth_api_error a r = Au_Api (rs_status r)
     (case ga_body_text a r of None \<Rightarrow> ''unreadable response'' | Some t \<Rightarrow> t)"

definition app_get_with_headers ::
  "'w github_app_auth \<Rightarrow> (http_response \<Rightarrow> (string, 'a) result) \<Rightarrow> string \<Rightarrow> string
     \<Rightarrow> ('w, 'a \<times> string option list) auth_io" where
  "app_get_with_headers a decode p jwt =
     io_then (io_lift (map_err Au_Client (ga_join a (ga_api_base a) p))) (\<lambda>u.
     io_then (io_map_err Au_Request (ga_send a (auth_request GET u jwt None))) (\<lambda>r.
     if \<not> is_success r then io_lift (Err (auth_api_error a r))
     else io_lift (and_then (map_err Au_Response (decode r)) (\<lambda>v. Ok (v, rs_links r)))))"

definition app_get ::
  "'w github_app_auth \<Rightarrow> (http_response \<Rightarrow> (string, 'a) result) \<Rightarrow> string \<Rightarrow> string \<Rightarrow> ('w, 'a) auth_io" where
  "app_get a decode p jwt = io_then (app_get_with_headers a decode p jwt) (\<lambda>(v, _). io_ok v)"

fun trim_quotes :: "string \<Rightarrow> string" where
  "trim_quotes s = rev (dropWhile (\<lambda>c. c = CHR 0x22) (rev (dropWhile (\<lambda>c. c = CHR 0x22) s)))"

definition is_next_parameter :: "string \<Rightarrow> bool" where
  "is_next_parameter p \<longleftrightarrow>
     (case strip_prefix ''rel='' (trim p) of None \<Rightarrow> False | Some v \<Rightarrow> trim_quotes v = ''next'')"

text \<open>The first \<open>Link\<close> header, when it is text.\<close>

definition has_next_page :: "string option list \<Rightarrow> bool" where
  "has_next_page links =
     (case links of
        Some l # _ \<Rightarrow> list_ex (\<lambda>e. list_ex is_next_parameter (tl (split_char CHR '';'' e))) (split_char CHR '','' l)
      | _ \<Rightarrow> False)"

definition installations_path :: "nat \<Rightarrow> string" where
  "installations_path page = ''app/installations?per_page=100&page='' @ show_nat page"

text \<open>The pages that may still follow this one, this page and the installations before it.\<close>

fun installation_pages ::
  "'w github_app_auth \<Rightarrow> string \<Rightarrow> nat \<Rightarrow> nat \<Rightarrow> app_installation list \<Rightarrow> ('w, app_installation list) auth_io" where
  "installation_pages a jwt left page acc =
     io_then (app_get_with_headers a (ga_installations a) (installations_path page) jwt) (\<lambda>(found, links).
     if \<not> has_next_page links then io_ok (acc @ found)
     else case left of
         0 \<Rightarrow> io_lift (Err (Au_App_Installation_Pagination_Limit max_app_installation_pages))
       | Suc k \<Rightarrow> installation_pages a jwt k (page + 1) (acc @ found))"

declare installation_pages.simps [simp del]

definition app_installations :: "'w github_app_auth \<Rightarrow> string \<Rightarrow> ('w, app_installation list) auth_io" where
  "app_installations a jwt = installation_pages a jwt (max_app_installation_pages - 1) 1 []"

definition app_status_with_jwt :: "'w github_app_auth \<Rightarrow> string \<Rightarrow> ('w, github_app_status) auth_io" where
  "app_status_with_jwt a jwt =
     io_then (app_get a (ga_identity a) ''app'' jwt) (\<lambda>identity.
     if ai_id identity \<noteq> ga_app_id a
     then io_lift (Err (Au_App_Identity_Mismatch (ga_app_id a) (ai_id identity)))
     else
       io_then (app_installations a jwt) (\<lambda>found.
       io_ok \<lparr>gs_app_id = ai_id identity, gs_app_name = ai_name identity,
         gs_installation_count = length found,
         gs_installation_accounts = sort (List.map_filter (\<lambda>i. Option.bind (ap_account i) (\<lambda>l. l)) found)\<rparr>))"

definition app_status :: "'w github_app_auth \<Rightarrow> int \<Rightarrow> ('w, github_app_status) auth_io" where
  "app_status a now = io_then (io_lift (app_jwt a now)) (app_status_with_jwt a)"

definition new_app_status :: "nat \<Rightarrow> string \<Rightarrow> string list \<Rightarrow> github_app_status" where
  "new_app_status i n accounts = \<lparr>gs_app_id = i, gs_app_name = n, gs_installation_count = length accounts,
     gs_installation_accounts = accounts\<rparr>"

definition render_app_status :: "github_app_status \<Rightarrow> string" where
  "render_app_status s =
     ''github_app_id='' @ show_nat (gs_app_id s) @ '' github_app_name='' @ gs_app_name s
     @ '' installations='' @ show_nat (gs_installation_count s) @ '' installation_accounts=''
     @ (if gs_installation_accounts s = [] then ''none'' else join '','' (gs_installation_accounts s))"

section \<open>Installation tokens\<close>

definition installation_token_with_scope ::
  "'w github_app_auth \<Rightarrow> int \<Rightarrow> i64 \<Rightarrow> installation_token_scope \<Rightarrow> ('w, installation_token) auth_io" where
  "installation_token_with_scope a now inst scope =
     io_then (io_lift (app_jwt a now)) (\<lambda>jwt.
     io_then (io_lift (map_err Au_Client (ga_join a (ga_api_base a)
        (''app/installations/'' @ show_int inst @ ''/access_tokens'')))) (\<lambda>u.
     io_then (io_map_err Au_Request (ga_send a (auth_request POST u jwt
        (if scope_is_empty scope then None else Some scope)))) (\<lambda>r.
     if rs_status r \<noteq> 201 then io_lift (Err (auth_api_error a r))
     else io_lift (map_err Au_Response (ga_token a r)))))"

definition installation_token_of :: "'w github_app_auth \<Rightarrow> int \<Rightarrow> i64 \<Rightarrow> ('w, installation_token) auth_io" where
  "installation_token_of a now inst = installation_token_with_scope a now inst no_scope"

section \<open>What the token claims\<close>

text \<open>
  The token is valid for nine minutes, below GitHub's ten, and dated back by one for a clock that
  runs ahead.
\<close>

lemma app_jwt_claims:
  assumes "app_jwt a now = Ok jwt"
  obtains iat where "ga_encode a \<lparr>cl_iat = iat, cl_exp = iat + 540, cl_iss = show_nat (ga_app_id a)\<rparr>
      (ga_private_key_pem a) = Ok jwt"
    and "iat = nat (now div 1000000000) - 60"
  using assms by (auto simp: app_jwt_def Let_def and_then_Ok split: if_splits)

lemma app_status_identity:
  "app_status a now w = (Inr st, w') \<Longrightarrow> gs_app_id st = ga_app_id a \<and> sorted (gs_installation_accounts st)"
  by (auto simp: app_status_def app_status_with_jwt_def io_then_Ok split: if_splits)

end
