(* ===== verification/Workspace.thy ===== *)
theory Workspace
  imports Feedback_Repair Ci Http
begin

text \<open>
  The ephemeral workspace of a repair, \<open>src/workspace.rs\<close>: the clone, the application of a
  suggestion or of typed patches, validation on a snapshot, the checks before a push, and the
  rebase. Processes run through the bounded runner of \<open>src/ci.rs\<close> in a world that also answers
  whether the job's lease is held; files are those of the abstract file system.
\<close>

datatype workspace_error =
    Ws_Io io_error | Ws_Invalid_Input string | Ws_Command_Failed "string list" string
  | Ws_Command ci_error | Ws_Validation_Failed "string list" string | Ws_Dirty_Workspace
  | Ws_Unexpected_Staged_Paths "string list" "string list" | Ws_Unexpected_Workspace_Changes string
  | Ws_Repair_Not_Applied | Ws_Feedback feedback_error | Ws_Ci_Patch ci_error | Ws_Lease_Check string
  | Ws_Lease_Lost | Ws_Remote_Head_Changed string string string | Ws_Rebase_Conflict string string string
  | Ws_Rebase_Requires_Force_Push string string

record lease_guard =
  lg_job_id :: uuid
  lg_worker_id :: string
  lg_lease_token :: uuid

record workspace =
  wsp_root :: string
  wsp_repository_root :: string
  wsp_askpass :: string
  wsp_remote_url :: string
  wsp_username :: string
  wsp_password :: string

record repair_commit =
  rcm_commit :: string
  rcm_path :: string

record ci_repair_commit =
  crc_commit :: string
  crc_paths :: "string list"

record rebase_commit =
  rbc_before :: string
  rbc_after :: string
  rbc_target_branch :: string
  rbc_force_pushed :: bool

text \<open>
  The system around a workspace: processes, the queue's answer about a lease, the files, the
  process environment and how a UUID is printed.
\<close>

record 'w workspace_env =
  wk_spawn :: "'w spawner"
  wk_path :: "string option"
  wk_lossy :: "string \<Rightarrow> string"
  wk_assert_lease :: "uuid \<Rightarrow> string \<Rightarrow> uuid \<Rightarrow> ('w, string, bool) io"
  wk_files :: "'w \<Rightarrow> file_system"
  wk_put_files :: "file_system \<Rightarrow> 'w \<Rightarrow> 'w"
  wk_interfere :: "file_system \<Rightarrow> file_system"
  wk_cwd :: "string list"
  wk_temp_dir :: string
  wk_current_exe :: "(io_error, string) result"
  wk_show_uuid :: "uuid \<Rightarrow> string"

type_synonym ('w, 'a) ws_io = "('w, workspace_error, 'a) io"

section \<open>Validation of inputs\<close>

definition workspace_relative_path :: "string \<Rightarrow> (workspace_error, unit) result" where
  "workspace_relative_path value =
     reject_if (value = [] \<or> contains_any [BACKSLASH, NUL, CR, LF] value \<or> is_absolute value
        \<or> \<not> normal_only value)
       (Ws_Invalid_Input (''invalid repository-relative path: '' @ value))"

definition validate_segment :: "string \<Rightarrow> string \<Rightarrow> (workspace_error, unit) result" where
  "validate_segment value field =
     reject_if (value = [] \<or> value = ''.'' \<or> value = ''..''
        \<or> contains_any [CHR ''/'', BACKSLASH, NUL, CR, LF] value)
       (Ws_Invalid_Input (''invalid '' @ field))"

definition workspace_branch :: "string \<Rightarrow> (workspace_error, unit) result" where
  "workspace_branch value =
     reject_if (value = [] \<or> length value > 255 \<or> value = ''.'' \<or> value = ''..''
        \<or> starts_with ''-'' value \<or> starts_with ''/'' value \<or> ends_with ''/'' value \<or> ends_with ''.'' value
        \<or> value = ''@'' \<or> contains_sub ''//'' value \<or> contains_sub [CHR ''@'', CHR ''{''] value
        \<or> contains_any [NUL, CR, LF, CHR '' '', CHR ''~'', CHR ''^'', CHR '':'', CHR ''?'', CHR ''*'', CHR ''['', BACKSLASH] value
        \<or> contains_sub ''..'' value \<or> list_ex (\<lambda>b. byte b < 32 \<or> byte b = 127) value
        \<or> list_ex (\<lambda>c. c = [] \<or> c = ''.'' \<or> c = ''..'') (split_char CHR ''/'' value))
       (Ws_Invalid_Input ''invalid branch'')"

definition validate_sha :: "string \<Rightarrow> (workspace_error, unit) result" where
  "validate_sha value =
     reject_if (length value < 7 \<or> length value > 64 \<or> \<not> list_all is_ascii_hexdigit value)
       (Ws_Invalid_Input ''invalid commit SHA'')"

section \<open>Command lines and messages\<close>

definition rebase_push_argv :: "string \<Rightarrow> string \<Rightarrow> bool \<Rightarrow> (workspace_error, string list) result" where
  "rebase_push_argv branch expected force_with_lease =
     and_then (workspace_branch branch) (\<lambda>_.
     and_then (validate_sha expected) (\<lambda>_.
     Ok ([''git'', ''push'']
         @ (if force_with_lease then [''--force-with-lease=refs/heads/'' @ branch @ '':'' @ expected] else [])
         @ [''origin'', ''HEAD:refs/heads/'' @ branch])))"

definition remote_head_argv :: "string \<Rightarrow> (workspace_error, string list) result" where
  "remote_head_argv branch =
     and_then (workspace_branch branch) (\<lambda>_.
     Ok [''git'', ''ls-remote'', ''origin'', ''refs/heads/'' @ branch])"

definition audit_commit_message :: "string \<Rightarrow> string \<Rightarrow> string \<Rightarrow> string \<Rightarrow> string" where
  "audit_commit_message subject job repair_kind expected =
     subject @ [LF, LF] @ ''PiTools-Job: '' @ job @ [LF] @ ''PiTools-Repair: '' @ repair_kind @ [LF]
     @ ''PiTools-Head: '' @ expected"

definition validate_staged_paths :: "string list \<Rightarrow> string \<Rightarrow> (workspace_error, unit) result" where
  "validate_staged_paths expected observed =
     and_then (for_each workspace_relative_path expected) (\<lambda>_.
     let e = sorted_set expected; ob = sorted_set (filter (\<lambda>p. p \<noteq> []) (lines observed))
     in if e = ob then Ok () else Err (Ws_Unexpected_Staged_Paths e ob))"

definition validate_staged_diff_summary :: "string \<Rightarrow> (workspace_error, unit) result" where
  "validate_staged_diff_summary summary =
     reject_if (list_ex (\<lambda>l. contains_sub ''mode change'' l \<or> starts_with ''rename '' l \<or> starts_with ''copy '' l)
         (lines (to_ascii_lowercase summary)))
       (Ws_Unexpected_Workspace_Changes (trim summary))"

definition commit_argv :: "string \<Rightarrow> string list" where
  "commit_argv message = [''git'', ''-c'', ''core.hooksPath=/dev/null'', ''-c'', ''user.name=PiTools[bot]'',
     ''-c'', ''user.email=pitools[bot]@users.noreply.github.com'', ''commit'', ''--no-verify'', ''-m'', message]"

definition push_argv :: "workspace \<Rightarrow> string \<Rightarrow> string list" where
  "push_argv ws branch = [''git'', ''-c'', ''core.hooksPath=/dev/null'', ''-c'',
     ''remote.origin.url='' @ wsp_remote_url ws, ''push'', ''--no-verify'', ''origin'', ''HEAD:refs/heads/'' @ branch]"

section \<open>Running commands\<close>

text \<open>\<open>str::replace\<close>, which puts the replacement around every character for an empty pattern.\<close>

definition replace_str :: "string \<Rightarrow> string \<Rightarrow> string \<Rightarrow> string" where
  "replace_str p r s = (if p = [] then r @ concat (map (\<lambda>c. c @ r) (chars s)) else replace_all p r s)"

definition git_environment :: "workspace \<Rightarrow> (string \<times> string) list" where
  "git_environment ws =
     [(''GIT_ASKPASS'', wsp_askpass ws), (''GIT_TERMINAL_PROMPT'', ''0''), (''GIT_CONFIG_NOSYSTEM'', ''1''),
      (''GIT_CONFIG_GLOBAL'', ''/dev/null''), (''GIT_CONFIG_SYSTEM'', ''/dev/null''), (''GIT_ATTR_NOSYSTEM'', ''1''),
      (''PITOOLS_GIT_ASKPASS'', ''1''), (''PITOOLS_GIT_USERNAME'', wsp_username ws),
      (''PITOOLS_GIT_PASSWORD'', wsp_password ws)]"

definition run_result ::
  "'w workspace_env \<Rightarrow> workspace \<Rightarrow> string \<Rightarrow> string list \<Rightarrow> ('w, command_result) ws_io" where
  "run_result env ws worktree command =
     io_then (io_map_err Ws_Command (run_bounded_argv (wk_path env) (wk_lossy env) (wk_spawn env) worktree
        command (git_environment ws))) (\<lambda>r.
     io_ok (r\<lparr>cr_stderr := replace_str (wsp_password ws) ''[REDACTED]'' (cr_stderr r)\<rparr>))"

definition succeed :: "string list \<Rightarrow> command_result \<Rightarrow> (workspace_error, command_result) result" where
  "succeed command r = (if cr_success r then Ok r else Err (Ws_Command_Failed command (cr_stderr r)))"

definition run_in ::
  "'w workspace_env \<Rightarrow> workspace \<Rightarrow> string \<Rightarrow> string list \<Rightarrow> ('w, command_result) ws_io" where
  "run_in env ws worktree command =
     io_then (run_result env ws worktree command) (\<lambda>r. io_lift (succeed command r))"

definition run_repo :: "'w workspace_env \<Rightarrow> workspace \<Rightarrow> string list \<Rightarrow> ('w, command_result) ws_io" where
  "run_repo env ws command = run_in env ws (wsp_repository_root ws) command"

definition ensure_lease :: "'w workspace_env \<Rightarrow> lease_guard \<Rightarrow> ('w, unit) ws_io" where
  "ensure_lease env lease =
     io_then (io_map_err Ws_Lease_Check
       (wk_assert_lease env (lg_job_id lease) (lg_worker_id lease) (lg_lease_token lease))) (\<lambda>held.
     io_lift (if held then Ok () else Err Ws_Lease_Lost))"

definition run_patch_command ::
  "'w workspace_env \<Rightarrow> workspace \<Rightarrow> lease_guard \<Rightarrow> string list \<Rightarrow> string \<Rightarrow> ('w, unit) ws_io" where
  "run_patch_command env ws lease command input =
     io_then (io_map_err Ws_Command (run_bounded_argv_with_input (wk_path env) (wk_lossy env) (wk_spawn env)
        (wsp_repository_root ws) command [] input)) (\<lambda>r.
     io_then (ensure_lease env lease) (\<lambda>_.
     io_lift (if cr_success r then Ok () else Err (Ws_Command_Failed command (cr_stderr r)))))"

definition observed_head :: "string \<Rightarrow> string" where
  "observed_head out = (case split_whitespace out of [] \<Rightarrow> [] | h # _ \<Rightarrow> h)"

definition check_head :: "string \<Rightarrow> string \<Rightarrow> command_result \<Rightarrow> (workspace_error, unit) result" where
  "check_head branch expected r =
     (let observed = observed_head (cr_stdout r)
      in if observed \<noteq> expected
         then Err (Ws_Remote_Head_Changed branch expected (if observed = [] then ''missing'' else observed))
         else Ok ())"

definition ensure_remote_head ::
  "'w workspace_env \<Rightarrow> workspace \<Rightarrow> string \<Rightarrow> string \<Rightarrow> ('w, unit) ws_io" where
  "ensure_remote_head env ws branch expected =
     io_then (io_lift (validate_sha expected)) (\<lambda>_.
     io_then (io_lift (remote_head_argv branch)) (\<lambda>command.
     io_then (run_repo env ws command) (\<lambda>r.
     io_lift (check_head branch expected r))))"

definition ensure_clean :: "'w workspace_env \<Rightarrow> workspace \<Rightarrow> ('w, unit) ws_io" where
  "ensure_clean env ws =
     io_then (run_repo env ws [''git'', ''status'', ''--porcelain=v1'', ''--untracked-files=all'']) (\<lambda>r.
     io_lift (reject_if (trim (cr_stdout r) \<noteq> []) Ws_Dirty_Workspace))"

definition no_output :: "command_result \<Rightarrow> (workspace_error, unit) result" where
  "no_output r = reject_if (trim (cr_stdout r) \<noteq> []) (Ws_Unexpected_Workspace_Changes (trim (cr_stdout r)))"

definition ensure_staged_paths :: "'w workspace_env \<Rightarrow> workspace \<Rightarrow> string list \<Rightarrow> ('w, unit) ws_io" where
  "ensure_staged_paths env ws expected =
     io_then (run_repo env ws [''git'', ''diff'', ''--cached'', ''--name-only'', ''--'']) (\<lambda>staged.
     io_then (io_lift (validate_staged_paths expected (cr_stdout staged))) (\<lambda>_.
     io_then (run_repo env ws [''git'', ''diff'', ''--cached'', ''--summary'', ''--'']) (\<lambda>summary.
     io_then (io_lift (validate_staged_diff_summary (cr_stdout summary))) (\<lambda>_.
     io_then (run_repo env ws [''git'', ''diff'', ''--name-only'', ''--'']) (\<lambda>unstaged.
     io_then (io_lift (no_output unstaged)) (\<lambda>_.
     io_then (run_repo env ws [''git'', ''ls-files'', ''--others'', ''--exclude-standard'']) (\<lambda>untracked.
     io_lift (no_output untracked))))))))"

section \<open>Files\<close>

definition on_files ::
  "'w workspace_env \<Rightarrow> (file_system \<Rightarrow> (io_error, file_system) result) \<Rightarrow> ('w, unit) ws_io" where
  "on_files env f w =
     (case f (wk_files env w) of
        Inl e \<Rightarrow> (Err (Ws_Io e), w)
      | Inr fs \<Rightarrow> (Ok (), wk_put_files env fs w))"

definition create_dirs :: "'w workspace_env \<Rightarrow> string list \<Rightarrow> ('w, unit) ws_io" where
  "create_dirs env names w =
     (case create_dir_all (wk_files env w) names of
        (r, fs) \<Rightarrow> (map_err Ws_Io r, wk_put_files env fs w))"

definition remove_if_present :: "string list \<Rightarrow> file_system \<Rightarrow> (io_error, file_system) result" where
  "remove_if_present names fs =
     (case remove_file fs names of Inl NotFound \<Rightarrow> Ok fs | r \<Rightarrow> r)"

definition copy_changed_path :: "'w workspace_env \<Rightarrow> string \<Rightarrow> string \<Rightarrow> string \<Rightarrow> ('w, unit) ws_io" where
  "copy_changed_path env source_root destination_root path =
     io_then (io_lift (workspace_relative_path path)) (\<lambda>_ w.
     let source = path_names (path_join source_root path);
         destination = path_names (path_join destination_root path)
     in case symlink_metadata (wk_files env w) source of
          Inr n \<Rightarrow>
            if is_symlink n
            then (Err (Ws_Invalid_Input (''symlink repair path is not supported: '' @ path)), w)
            else if is_file n
            then io_then (create_dirs env (butlast destination)) (\<lambda>_.
                 on_files env (\<lambda>fs. copy_file fs source destination)) w
            else (Err (Ws_Invalid_Input (''repair path is not a regular file: '' @ path)), w)
        | Inl NotFound \<Rightarrow> on_files env (remove_if_present destination) w
        | Inl e \<Rightarrow> (Err (Ws_Io e), w))"

fun copy_changed_paths :: "'w workspace_env \<Rightarrow> string \<Rightarrow> string \<Rightarrow> string list \<Rightarrow> ('w, unit) ws_io" where
  "copy_changed_paths env source_root destination_root [] = io_ok ()"
| "copy_changed_paths env source_root destination_root (p # ps) =
     io_then (copy_changed_path env source_root destination_root p) (\<lambda>_.
     copy_changed_paths env source_root destination_root ps)"

definition prepare_validation_snapshot ::
  "'w workspace_env \<Rightarrow> workspace \<Rightarrow> string list \<Rightarrow> ('w, string) ws_io" where
  "prepare_validation_snapshot env ws changed =
     (let validation_root = path_join (wsp_root ws) ''validation'';
          archive = path_join (wsp_root ws) ''source.tar''
      in io_then (on_files env (\<lambda>fs. create_dir fs (path_names validation_root))) (\<lambda>_.
         io_then (run_repo env ws [''git'', ''-c'', ''core.hooksPath=/dev/null'', ''archive'', ''--format=tar'',
            ''--output'', archive, ''HEAD'']) (\<lambda>_.
         io_then (run_repo env ws [''tar'', ''-xf'', archive, ''-C'', validation_root]) (\<lambda>_.
         io_then (on_files env (\<lambda>fs. remove_file fs (path_names archive))) (\<lambda>_.
         io_then (copy_changed_paths env (wsp_repository_root ws) validation_root changed) (\<lambda>_.
         io_ok validation_root))))))"

section \<open>Cloning\<close>

definition clone_url :: "string \<Rightarrow> string \<Rightarrow> string" where
  "clone_url own repo = ''https://github.com/'' @ own @ ''/'' @ repo @ ''.git''"

text \<open>When the workspace goes out of scope.\<close>

definition drop_workspace :: "'w workspace_env \<Rightarrow> workspace \<Rightarrow> 'w \<Rightarrow> 'w" where
  "drop_workspace env ws w = wk_put_files env (remove_dir_all (wk_files env w) (path_names (wsp_root ws))) w"

definition or_drop :: "'w workspace_env \<Rightarrow> workspace \<Rightarrow> ('w, 'a) ws_io \<Rightarrow> ('w, 'a) ws_io" where
  "or_drop env ws m w = (case m w of
       (Inl e, w') \<Rightarrow> (Inl e, drop_workspace env ws w')
     | (Inr x, w') \<Rightarrow> (Inr x, w'))"

definition clone_branch ::
  "'w workspace_env \<Rightarrow> uuid \<Rightarrow> string \<Rightarrow> string \<Rightarrow> string \<Rightarrow> string \<Rightarrow> string \<Rightarrow> ('w, workspace) ws_io" where
  "clone_branch env fresh own repo branch head_sha token =
     io_then (io_lift (validate_segment own ''owner'')) (\<lambda>_.
     io_then (io_lift (validate_segment repo ''repository'')) (\<lambda>_.
     io_then (io_lift (workspace_branch branch)) (\<lambda>_.
     io_then (io_lift (validate_sha head_sha)) (\<lambda>_.
     let root = path_join (wk_temp_dir env) (''pitools-work-'' @ wk_show_uuid env fresh)
     in io_then (on_files env (\<lambda>fs. create_dir fs (path_names root))) (\<lambda>_.
        io_then (io_lift (map_err Ws_Io (wk_current_exe env))) (\<lambda>askpass.
        let ws = \<lparr>wsp_root = root, wsp_repository_root = path_join root ''repo'', wsp_askpass = askpass,
               wsp_remote_url = clone_url own repo, wsp_username = ''x-access-token'', wsp_password = token\<rparr>
        in or_drop env ws
             (io_then (run_in env ws root [''git'', ''clone'', ''--no-checkout'', ''--filter=blob:none'',
                ''--single-branch'', ''--branch'', branch, clone_url own repo, wsp_repository_root ws]) (\<lambda>_.
              io_then (run_repo env ws [''git'', ''fetch'', ''--no-tags'', ''origin'', head_sha]) (\<lambda>_.
              io_then (run_repo env ws [''git'', ''checkout'', ''--detach'', head_sha]) (\<lambda>_.
              io_then (ensure_clean env ws) (\<lambda>_.
              io_ok ws)))))))))))"

section \<open>Validation, commit and push\<close>

definition all_succeeded :: "command_result list \<Rightarrow> (workspace_error, unit) result" where
  "all_succeeded results =
     (case find (\<lambda>r. \<not> cr_success r) results of
        Some failed \<Rightarrow> Err (Ws_Validation_Failed (cr_argv failed) (cr_stderr failed))
      | None \<Rightarrow> Ok ())"

definition validate_snapshot ::
  "'w workspace_env \<Rightarrow> workspace \<Rightarrow> string list \<Rightarrow> validation_command list \<Rightarrow> ('w, unit) ws_io" where
  "validate_snapshot env ws changed commands =
     io_then (prepare_validation_snapshot env ws changed) (\<lambda>validation_root.
     io_then (io_map_err Ws_Command (run_validation_commands_sandboxed (wk_path env) (wk_lossy env) (wk_spawn env)
        validation_root commands)) (\<lambda>results.
     io_lift (all_succeeded results)))"

text \<open>What both repairs do with the changes that they staged, up to the new commit.\<close>

definition publish_staged ::
  "'w workspace_env \<Rightarrow> workspace \<Rightarrow> lease_guard \<Rightarrow> string list \<Rightarrow> string \<Rightarrow> string \<Rightarrow> string \<Rightarrow> string
     \<Rightarrow> validation_command list \<Rightarrow> ('w, string) ws_io" where
  "publish_staged env ws lease paths subject repair_kind branch expected commands =
     io_then (validate_snapshot env ws paths commands) (\<lambda>_.
     io_then (ensure_staged_paths env ws paths) (\<lambda>_.
     io_then (ensure_lease env lease) (\<lambda>_.
     io_then (ensure_lease env lease) (\<lambda>_.
     io_then (ensure_remote_head env ws branch expected) (\<lambda>_.
     io_then (run_repo env ws (commit_argv (audit_commit_message subject
        (wk_show_uuid env (lg_job_id lease)) repair_kind expected))) (\<lambda>_.
     io_then (ensure_lease env lease) (\<lambda>_.
     io_then (run_repo env ws (push_argv ws branch)) (\<lambda>_.
     io_then (run_repo env ws [''git'', ''rev-parse'', ''HEAD'']) (\<lambda>head.
     io_ok (trim (cr_stdout head)))))))))))"

section \<open>Repairs\<close>

definition repair_files ::
  "'w workspace_env \<Rightarrow> workspace \<Rightarrow> string list \<Rightarrow> feedback \<Rightarrow> ('w, repair_outcome) ws_io" where
  "repair_files env ws allowlist f w =
     (case repair_feedback (wk_interfere env) (wk_files env w) (wk_cwd env) (wsp_repository_root ws) allowlist f Apply of
        (r, fs) \<Rightarrow> (map_err Ws_Feedback r, wk_put_files env fs w))"

definition apply_feedback ::
  "'w workspace_env \<Rightarrow> workspace \<Rightarrow> lease_guard \<Rightarrow> string list \<Rightarrow> feedback \<Rightarrow> string \<Rightarrow> string
     \<Rightarrow> validation_command list \<Rightarrow> ('w, repair_commit) ws_io" where
  "apply_feedback env ws lease allowlist f branch expected commands =
     io_then (ensure_clean env ws) (\<lambda>_.
     io_then (ensure_lease env lease) (\<lambda>_.
     io_then (repair_files env ws allowlist f) (\<lambda>outcome.
     io_then (io_lift (reject_if (\<not> resolution_eligible outcome) Ws_Repair_Not_Applied)) (\<lambda>_.
     io_then (io_lift (ok_or Ws_Repair_Not_Applied (outcome_path outcome))) (\<lambda>path.
     io_then (ensure_lease env lease) (\<lambda>_.
     io_then (run_repo env ws [''git'', ''add'', ''--'', path]) (\<lambda>_.
     io_then (publish_staged env ws lease [path] ''fix: apply automated review suggestion'' ''feedback''
        branch expected commands) (\<lambda>commit.
     io_ok \<lparr>rcm_commit = commit, rcm_path = path\<rparr>))))))))"

fun apply_patches :: "'w workspace_env \<Rightarrow> workspace \<Rightarrow> lease_guard \<Rightarrow> ci_patch list \<Rightarrow> ('w, unit) ws_io" where
  "apply_patches env ws lease [] = io_ok ()"
| "apply_patches env ws lease (p # ps) =
     io_then (ensure_lease env lease) (\<lambda>_.
     io_then (run_patch_command env ws lease
        [''git'', ''apply'', ''--check'', ''--whitespace=error'', ''--recount'', ''-''] (patch_unified_diff p)) (\<lambda>_.
     io_then (ensure_lease env lease) (\<lambda>_.
     io_then (run_patch_command env ws lease
        [''git'', ''apply'', ''--whitespace=error'', ''--recount'', ''-''] (patch_unified_diff p)) (\<lambda>_.
     apply_patches env ws lease ps))))"

definition apply_ci_repair ::
  "'w workspace_env \<Rightarrow> workspace \<Rightarrow> lease_guard \<Rightarrow> ci_patch list \<Rightarrow> string list \<Rightarrow> string \<Rightarrow> string
     \<Rightarrow> validation_command list \<Rightarrow> ('w, ci_repair_commit) ws_io" where
  "apply_ci_repair env ws lease patches allowed branch expected commands =
     (let paths = map patch_path patches
      in io_then (io_lift (map_err Ws_Ci_Patch (validate_patch_set patches allowed))) (\<lambda>_.
         io_then (ensure_clean env ws) (\<lambda>_.
         io_then (apply_patches env ws lease patches) (\<lambda>_.
         io_then (ensure_lease env lease) (\<lambda>_.
         io_then (run_repo env ws ([''git'', ''add'', ''--''] @ paths)) (\<lambda>_.
         io_then (publish_staged env ws lease paths ''fix: repair failed CI check'' ''ci'' branch expected commands)
           (\<lambda>commit.
         io_ok \<lparr>crc_commit = commit, crc_paths = paths\<rparr>)))))))"

section \<open>Rebasing\<close>

definition remote_branch :: "string \<Rightarrow> string" where
  "remote_branch b = ''refs/remotes/origin/'' @ b"

definition abort_rebase :: "'w workspace_env \<Rightarrow> workspace \<Rightarrow> ('w, unit) ws_io" where
  "abort_rebase env ws w =
     (Ok (), snd (run_result env ws (wsp_repository_root ws)
        [''git'', ''-c'', ''core.hooksPath=/dev/null'', ''rebase'', ''--abort''] w))"

definition rebase_or_abort ::
  "'w workspace_env \<Rightarrow> workspace \<Rightarrow> string \<Rightarrow> string \<Rightarrow> ('w, unit) ws_io" where
  "rebase_or_abort env ws branch target =
     io_then (run_result env ws (wsp_repository_root ws)
        [''git'', ''-c'', ''core.hooksPath=/dev/null'', ''rebase'', remote_branch target]) (\<lambda>r.
     if cr_success r then io_ok ()
     else io_then (abort_rebase env ws) (\<lambda>_. io_lift (Err (Ws_Rebase_Conflict branch target (cr_stderr r)))))"

definition check_rebase_input :: "string \<Rightarrow> string \<Rightarrow> string \<Rightarrow> (workspace_error, unit) result" where
  "check_rebase_input branch target expected =
     and_then (workspace_branch branch) (\<lambda>_.
     and_then (workspace_branch target) (\<lambda>_.
     and_then (validate_sha expected) (\<lambda>_.
     reject_if (branch = target) (Ws_Invalid_Input ''rebase branch and target branch must differ''))))"

definition publish_rebase ::
  "'w workspace_env \<Rightarrow> workspace \<Rightarrow> lease_guard \<Rightarrow> string \<Rightarrow> string \<Rightarrow> string \<Rightarrow> bool \<Rightarrow> validation_command list \<Rightarrow> string
     \<Rightarrow> ('w, rebase_commit) ws_io" where
  "publish_rebase env ws lease branch target expected allow_force commands after =
     io_then (validate_snapshot env ws [] commands) (\<lambda>_.
     io_then (run_result env ws (wsp_repository_root ws)
        [''git'', ''merge-base'', ''--is-ancestor'', expected, after]) (\<lambda>ancestor.
     if \<not> cr_success ancestor \<and> \<not> allow_force
     then io_lift (Err (Ws_Rebase_Requires_Force_Push branch target))
     else
       let forced = (\<not> cr_success ancestor)
       in io_then (ensure_lease env lease) (\<lambda>_.
          io_then (io_lift (rebase_push_argv branch expected forced)) (\<lambda>command.
          io_then (run_repo env ws command) (\<lambda>_.
          io_ok \<lparr>rbc_before = expected, rbc_after = after, rbc_target_branch = target,
            rbc_force_pushed = forced\<rparr>)))))"

definition rebase_onto ::
  "'w workspace_env \<Rightarrow> workspace \<Rightarrow> lease_guard \<Rightarrow> string \<Rightarrow> string \<Rightarrow> string \<Rightarrow> bool \<Rightarrow> validation_command list
     \<Rightarrow> ('w, rebase_commit) ws_io" where
  "rebase_onto env ws lease branch target expected allow_force commands =
     io_then (io_lift (check_rebase_input branch target expected)) (\<lambda>_.
     io_then (ensure_clean env ws) (\<lambda>_.
     io_then (ensure_lease env lease) (\<lambda>_.
     io_then (run_repo env ws [''git'', ''ls-remote'', ''origin'', ''refs/heads/'' @ branch]) (\<lambda>remote.
     io_then (io_lift (check_head branch expected remote)) (\<lambda>_.
     io_then (ensure_lease env lease) (\<lambda>_.
     io_then (run_repo env ws [''git'', ''fetch'', ''--no-tags'', ''origin'',
        ''refs/heads/'' @ target @ '':'' @ remote_branch target]) (\<lambda>_.
     io_then (ensure_lease env lease) (\<lambda>_.
     io_then (run_repo env ws [''git'', ''config'', ''user.name'', ''PiTools[bot]'']) (\<lambda>_.
     io_then (ensure_lease env lease) (\<lambda>_.
     io_then (run_repo env ws [''git'', ''config'', ''user.email'', ''pitools[bot]@users.noreply.github.com'']) (\<lambda>_.
     io_then (rebase_or_abort env ws branch target) (\<lambda>_.
     io_then (ensure_lease env lease) (\<lambda>_.
     io_then (run_repo env ws [''git'', ''rev-parse'', ''HEAD'']) (\<lambda>head.
     let after = trim (cr_stdout head)
     in if after = expected
        then io_ok \<lparr>rbc_before = expected, rbc_after = after, rbc_target_branch = target, rbc_force_pushed = False\<rparr>
        else publish_rebase env ws lease branch target expected allow_force commands after))))))))))))))"

section \<open>The checks as gates\<close>

interpretation workspace_path: path_gate "\<lambda>p. workspace_relative_path p = Ok ()"
  by unfold_locales (auto simp: workspace_relative_path_def)

interpretation workspace_branch: branch_gate "\<lambda>b. workspace_branch b = Ok ()"
  by unfold_locales (auto simp: workspace_branch_def contains_any_iff)

end
