(* ===== verification/Workspace_Properties.thy ===== *)
theory Workspace_Properties
  imports Workspace
begin

text \<open>
  What the workspace does to the remote. An environment that records every process with its end
  and every answer about the lease shows what has happened before each push, and what is pushed.
\<close>

section \<open>A recording environment\<close>

datatype ws_event = Ran "string list" "(string, process_run) result" | Lease_Answer bool

type_synonym 'w recorded = "ws_event list \<times> 'w"

definition recorded_env :: "'w workspace_env \<Rightarrow> 'w recorded workspace_env" where
  "recorded_env env = \<lparr>
     wk_spawn = (\<lambda>c (tr, w). case wk_spawn env c w of (r, w') \<Rightarrow> (r, (tr @ [Ran (cl_argv c) r], w'))),
     wk_path = wk_path env, wk_lossy = wk_lossy env,
     wk_assert_lease = (\<lambda>i n t (tr, w). case wk_assert_lease env i n t w of
        (r, w') \<Rightarrow> (r, (tr @ [Lease_Answer (r = Inr True)], w'))),
     wk_files = (\<lambda>(tr, w). wk_files env w),
     wk_put_files = (\<lambda>fs (tr, w). (tr, wk_put_files env fs w)),
     wk_interfere = wk_interfere env, wk_cwd = wk_cwd env, wk_temp_dir = wk_temp_dir env,
     wk_current_exe = wk_current_exe env, wk_show_uuid = wk_show_uuid env\<rparr>"

text \<open>The subcommand of a \<open>git\<close> command line, after its options \<open>-c\<close>.\<close>

fun subcommand :: "string list \<Rightarrow> string option" where
  "subcommand (a # b # rest) = (if a = ''-c'' then subcommand rest else Some a)"
| "subcommand [a] = Some a"
| "subcommand [] = None"

definition is_push :: "string list \<Rightarrow> bool" where
  "is_push command \<longleftrightarrow> (case command of
     [] \<Rightarrow> False | program # rest \<Rightarrow> program = ''git'' \<and> subcommand rest = Some ''push'')"

text \<open>
  \<open>guarded P tr es\<close>: each push among the events \<open>es\<close> satisfies \<open>P\<close> with all that was recorded
  before it, starting from \<open>tr\<close>.
\<close>

type_synonym push_condition = "ws_event list \<Rightarrow> string list \<Rightarrow> bool"

fun guarded :: "push_condition \<Rightarrow> ws_event list \<Rightarrow> ws_event list \<Rightarrow> bool" where
  "guarded P tr [] = True"
| "guarded P tr (Ran c r # es) = ((is_push c \<longrightarrow> P tr c) \<and> guarded P (tr @ [Ran c r]) es)"
| "guarded P tr (Lease_Answer b # es) = guarded P (tr @ [Lease_Answer b]) es"

lemma guarded_append [simp]:
  "guarded P tr (xs @ ys) \<longleftrightarrow> guarded P tr xs \<and> guarded P (tr @ xs) ys"
  by (induction P tr xs rule: guarded.induct) auto

lemma guarded_iff:
  "guarded P tr es \<longleftrightarrow>
     (\<forall>before c r after. es = before @ Ran c r # after \<longrightarrow> is_push c \<longrightarrow> P (tr @ before) c)"
proof
  assume "guarded P tr es"
  then show "\<forall>before c r after. es = before @ Ran c r # after \<longrightarrow> is_push c \<longrightarrow> P (tr @ before) c" by auto
next
  assume "\<forall>before c r after. es = before @ Ran c r # after \<longrightarrow> is_push c \<longrightarrow> P (tr @ before) c"
  then show "guarded P tr es"
  proof (induction P tr es rule: guarded.induct)
    case (2 P tr c r es)
    have "guarded P (tr @ [Ran c r]) es"
    proof (rule 2(1), intro allI impI)
      fix before c' r' after assume "es = before @ Ran c' r' # after" "is_push c'"
      then show "P ((tr @ [Ran c r]) @ before) c'"
        using 2(2) [rule_format, of "Ran c r # before" c' r' after] by simp
    qed
    moreover have "is_push c \<longrightarrow> P tr c" using 2(2) [rule_format, of "[]" c r es] by simp
    ultimately show ?case by simp
  next
    case (3 P tr b es)
    show ?case
    proof (simp, rule 3(1), intro allI impI)
      fix before c' r' after assume "es = before @ Ran c' r' # after" "is_push c'"
      then show "P ((tr @ [Lease_Answer b]) @ before) c'"
        using 3(2) [rule_format, of "Lease_Answer b # before" c' r' after] by simp
    qed
  qed simp
qed

section \<open>Effects between assertions on the record\<close>

text \<open>
  \<open>confined P A m B\<close>: from a record satisfying \<open>A\<close>, the effect only appends events that are guarded
  by \<open>P\<close>, and when it succeeds with \<open>x\<close> the record satisfies \<open>B x\<close>.
\<close>

definition confined ::
  "push_condition \<Rightarrow> (ws_event list \<Rightarrow> bool) \<Rightarrow> ('w recorded, 'e, 'a) io \<Rightarrow> ('a \<Rightarrow> ws_event list \<Rightarrow> bool) \<Rightarrow> bool" where
  "confined P A m B \<longleftrightarrow> (\<forall>tr w. A tr \<longrightarrow>
     (\<exists>es. fst (snd (m (tr, w))) = tr @ es \<and> guarded P tr es \<and> (\<forall>x. fst (m (tr, w)) = Inr x \<longrightarrow> B x (tr @ es))))"

lemma confined_then:
  assumes m: "confined P A m B" and f: "\<And>x. confined P (B x) (f x) C"
  shows "confined P A (io_then m f) C"
  unfolding confined_def
proof (intro allI impI)
  fix tr w assume "A tr"
  then obtain es where es: "fst (snd (m (tr, w))) = tr @ es" "guarded P tr es"
    "\<forall>x. fst (m (tr, w)) = Inr x \<longrightarrow> B x (tr @ es)"
    using m unfolding confined_def by blast
  obtain r tr1 w1 where run: "m (tr, w) = (r, (tr1, w1))" by (metis prod.exhaust)
  show "\<exists>es. fst (snd (io_then m f (tr, w))) = tr @ es \<and> guarded P tr es
      \<and> (\<forall>x. fst (io_then m f (tr, w)) = Inr x \<longrightarrow> C x (tr @ es))"
  proof (cases r)
    case (Inl e)
    then show ?thesis using run es by (auto simp: io_then_def)
  next
    case (Inr x)
    then have "B x tr1" and tr1: "tr1 = tr @ es" using es run by auto
    then obtain fs where "fst (snd (f x (tr1, w1))) = tr1 @ fs" "guarded P tr1 fs"
      "\<forall>y. fst (f x (tr1, w1)) = Inr y \<longrightarrow> C y (tr1 @ fs)"
      using f [of x] unfolding confined_def by blast
    then show ?thesis using run es(2) tr1 Inr by (auto simp: io_then_def intro!: exI [of _ "es @ fs"])
  qed
qed

lemma confined_weaken:
  assumes "confined P A' m B'" "\<And>tr. A tr \<Longrightarrow> A' tr" "\<And>x tr. B' x tr \<Longrightarrow> B x tr"
  shows "confined P A m B"
  using assms unfolding confined_def by meson

lemma confined_pre: "confined P A' m B \<Longrightarrow> (\<And>tr. A tr \<Longrightarrow> A' tr) \<Longrightarrow> confined P A m B"
  unfolding confined_def by meson

lemma confined_lift: "(\<And>x tr. r = Inr x \<Longrightarrow> A tr \<Longrightarrow> B x tr) \<Longrightarrow> confined P A (io_lift r) B"
  by (auto simp: confined_def)

lemma confined_ok: "(\<And>tr. A tr \<Longrightarrow> B x tr) \<Longrightarrow> confined P A (io_ok x) B"
  by (auto simp: confined_def)

lemma confined_fail: "confined P A (io_lift (Inl e)) B"
  by (auto simp: confined_def)

lemma confined_map_err: "confined P A m B \<Longrightarrow> confined P A (io_map_err g m) B"
  unfolding confined_def io_map_err_def by (simp add: case_prod_beta)

section \<open>Commands and the lease\<close>

text \<open>A command that ended well with an output, and what stays true as the record grows.\<close>

definition ran_ok :: "(string \<Rightarrow> string) \<Rightarrow> string list \<Rightarrow> string \<Rightarrow> ws_event list \<Rightarrow> bool" where
  "ran_ok lossy c out tr \<longleftrightarrow> (\<exists>p r. Ran c (Inr p) \<in> set tr \<and> finish_process lossy c p = Inr r
     \<and> cr_success r \<and> cr_stdout r = out)"

definition stable :: "(ws_event list \<Rightarrow> bool) \<Rightarrow> bool" where
  "stable A \<longleftrightarrow> (\<forall>tr es. A tr \<longrightarrow> A (tr @ es))"

definition held :: "ws_event list \<Rightarrow> bool" where
  "held tr \<longleftrightarrow> tr \<noteq> [] \<and> last tr = Lease_Answer True"

named_theorems stable_intros

lemma stable_True [stable_intros]: "stable (\<lambda>tr. b)"
  by (simp add: stable_def)

lemma stable_ran_ok [stable_intros]: "stable (ran_ok lossy c out)"
  unfolding stable_def ran_ok_def by auto

lemma stable_conj [stable_intros]: "stable A \<Longrightarrow> stable B \<Longrightarrow> stable (\<lambda>tr. A tr \<and> B tr)"
  by (simp add: stable_def)

lemma stable_ex [stable_intros]: "(\<And>x. stable (A x)) \<Longrightarrow> stable (\<lambda>tr. \<exists>x. A x tr)"
  unfolding stable_def by blast

lemma stable_ball [stable_intros]: "(\<And>x. stable (A x)) \<Longrightarrow> stable (\<lambda>tr. \<forall>x\<in>S. A x tr)"
  unfolding stable_def by blast

definition ended :: "(string \<Rightarrow> string) \<Rightarrow> string list \<Rightarrow> command_result \<Rightarrow> (ws_event list \<Rightarrow> bool) \<Rightarrow> ws_event list \<Rightarrow> bool" where
  "ended lossy c r A tr \<longleftrightarrow> (\<exists>tr0 p r0. A tr0 \<and> tr = tr0 @ [Ran c (Inr p)] \<and> finish_process lossy c p = Inr r0
     \<and> cr_success r = cr_success r0 \<and> cr_stdout r = cr_stdout r0)"

lemma ended_stable: "ended lossy c r A tr \<Longrightarrow> stable A \<Longrightarrow> A tr \<and> (cr_success r \<longrightarrow> ran_ok lossy c (cr_stdout r) tr)"
  unfolding ended_def stable_def ran_ok_def by force

lemma confined_bounded:
  assumes "\<And>tr. is_push c \<Longrightarrow> A tr \<Longrightarrow> P tr c"
  shows "confined P A (run_bounded_argv_with_optional_input path lossy (wk_spawn (recorded_env env)) root c environment input)
     (\<lambda>r. ended lossy c r A)"
  using assms unfolding confined_def run_bounded_argv_with_optional_input_def recorded_env_def ended_def
  by (auto split: prod.splits sum.splits)

lemma confined_run_result:
  assumes "\<And>tr. is_push c \<Longrightarrow> A tr \<Longrightarrow> P tr c"
  shows "confined P A (run_result (recorded_env env) ws root c) (\<lambda>r. ended (wk_lossy env) c r A)"
  unfolding run_result_def run_bounded_argv_def
  by (rule confined_then [OF confined_map_err [OF confined_bounded]])
    (use assms in \<open>auto simp: recorded_env_def ended_def intro!: confined_ok\<close>)

lemma confined_run_in:
  assumes "\<And>tr. is_push c \<Longrightarrow> A tr \<Longrightarrow> P tr c" and stable: "\<And>tr es. A tr \<Longrightarrow> B (tr @ es)"
  shows "confined P A (run_in (recorded_env env) ws root c) (\<lambda>r tr. B tr \<and> ran_ok (wk_lossy env) c (cr_stdout r) tr)"
  unfolding run_in_def
  by (rule confined_then [OF confined_run_result], use assms(1) in blast, rule confined_lift)
    (auto simp: succeed_def ended_def ran_ok_def stable split: if_splits)

lemma confined_run:
  assumes "\<not> is_push c" "stable A"
  shows "confined P A (run_repo (recorded_env env) ws c) (\<lambda>r tr. A tr \<and> ran_ok (wk_lossy env) c (cr_stdout r) tr)"
  unfolding run_repo_def by (rule confined_run_in) (use assms in \<open>auto simp: stable_def\<close>)

lemma confined_run_push:
  assumes "\<And>tr. A tr \<Longrightarrow> held tr \<Longrightarrow> P tr c" "stable A"
  shows "confined P (\<lambda>tr. A tr \<and> held tr) (run_repo (recorded_env env) ws c)
     (\<lambda>r tr. A tr \<and> ran_ok (wk_lossy env) c (cr_stdout r) tr)"
  unfolding run_repo_def by (rule confined_run_in) (use assms in \<open>auto simp: stable_def\<close>)

lemma confined_lease:
  assumes "stable A"
  shows "confined P A (ensure_lease (recorded_env env) lease) (\<lambda>x tr. A tr \<and> held tr)"
  using assms unfolding confined_def ensure_lease_def io_then_def io_map_err_def recorded_env_def stable_def held_def
  by (auto split: prod.splits sum.splits)

text \<open>The rules for a first step followed by the rest, with and without what the step shows.\<close>

lemma lift_then:
  "(\<And>x. r = Inr x \<Longrightarrow> confined P A (f x) C) \<Longrightarrow> confined P A (io_then (io_lift r) f) C"
  by (cases r) (auto simp: confined_def)

lemma run_then:
  assumes "\<not> is_push c" "stable A"
    "\<And>r. confined P (\<lambda>tr. A tr \<and> ran_ok (wk_lossy env) c (cr_stdout r) tr) (f r) C"
  shows "confined P A (io_then (run_repo (recorded_env env) ws c) f) C"
  by (rule confined_then [OF confined_run [OF assms(1,2)] assms(3)])

lemma run_quiet:
  assumes "\<not> is_push c" "stable A" "\<And>r. confined P A (f r) C"
  shows "confined P A (io_then (run_repo (recorded_env env) ws c) f) C"
  by (rule run_then [OF assms(1,2)], rule confined_weaken [OF assms(3)]) auto

lemma run_result_quiet:
  assumes "\<not> is_push c" "stable A" "\<And>r. confined P A (f r) C"
  shows "confined P A (io_then (run_result (recorded_env env) ws root c) f) C"
  by (rule confined_then [OF confined_run_result])
    (use assms in \<open>auto intro: confined_weaken [OF assms(3)] dest: ended_stable [OF _ assms(2)]\<close>)

lemma lease_then:
  assumes "stable A" "confined P (\<lambda>tr. A tr \<and> held tr) (f ()) C"
  shows "confined P A (io_then (ensure_lease (recorded_env env) lease) f) C"
  by (rule confined_then [OF confined_lease [OF assms(1)]]) (use assms(2) in simp)

lemma lease_quiet:
  assumes "stable A" "confined P A (f ()) C"
  shows "confined P A (io_then (ensure_lease (recorded_env env) lease) f) C"
  by (rule lease_then [OF assms(1)], rule confined_weaken [OF assms(2)]) auto

lemma push_then:
  assumes "\<And>tr. A tr \<Longrightarrow> held tr \<Longrightarrow> P tr c" "stable A"
    "\<And>r. confined P (\<lambda>tr. A tr \<and> ran_ok (wk_lossy env) c (cr_stdout r) tr) (f r) C"
  shows "confined P (\<lambda>tr. A tr \<and> held tr) (io_then (run_repo (recorded_env env) ws c) f) C"
  by (rule confined_then [OF confined_run_push [where A = A]]) (use assms in auto)

lemma step_then:
  assumes "confined P A m (\<lambda>x. A)" "\<And>x. confined P A (f x) C"
  shows "confined P A (io_then m f) C"
  by (rule confined_then [OF assms])

text \<open>An effect that neither runs a process nor asks about the lease.\<close>

lemma confined_silent:
  assumes "\<And>tr w. fst (snd (m (tr, w))) = tr"
  shows "confined P A m (\<lambda>x. A)"
  using assms by (simp add: confined_def)


definition silent :: "('w recorded, 'e, 'a) io \<Rightarrow> bool" where
  "silent m \<longleftrightarrow> (\<forall>tr w. fst (snd (m (tr, w))) = tr)"

named_theorems silent_intros

lemma silent_confined: "silent m \<Longrightarrow> confined P A m (\<lambda>x. A)"
  by (rule confined_silent) (simp add: silent_def)

lemma silent_then [silent_intros]: "silent m \<Longrightarrow> (\<And>x. silent (f x)) \<Longrightarrow> silent (io_then m f)"
  unfolding silent_def io_then_def by (auto split: prod.splits sum.splits) (metis fst_conv snd_conv)+

lemma silent_lift [silent_intros]: "silent (io_lift r)" "silent (io_ok x)"
  by (simp_all add: silent_def)

lemma silent_on_files [silent_intros]: "silent (on_files (recorded_env env) f)"
  by (auto simp: silent_def on_files_def recorded_env_def split: sum.splits)

lemma silent_create_dirs [silent_intros]: "silent (create_dirs (recorded_env env) names)"
  by (auto simp: silent_def create_dirs_def recorded_env_def split: prod.splits)

lemma silent_copy_one: "silent (copy_changed_path (recorded_env env) source_root destination_root p)"
  unfolding copy_changed_path_def
proof (rule silent_then [OF silent_lift(1)], unfold silent_def Let_def, intro allI)
  fix tr :: "ws_event list" and w :: 'a
  let ?dst = "path_names (path_join destination_root p)"
  have "silent (io_then (create_dirs (recorded_env env) (butlast ?dst))
      (\<lambda>_. on_files (recorded_env env) (\<lambda>fs. copy_file fs (path_names (path_join source_root p)) ?dst)))"
    by (intro silent_intros)
  moreover have "silent (on_files (recorded_env env) (remove_if_present ?dst))" by (intro silent_intros)
  ultimately show "fst (snd (case symlink_metadata (wk_files (recorded_env env) (tr, w)) (path_names (path_join source_root p)) of
       Inl NotFound \<Rightarrow> on_files (recorded_env env) (remove_if_present ?dst) (tr, w)
     | Inl e \<Rightarrow> (Err (Ws_Io e), (tr, w))
     | Inr n \<Rightarrow> if is_symlink n then (Err (Ws_Invalid_Input (''symlink repair path is not supported: '' @ p)), (tr, w))
         else if is_file n
         then io_then (create_dirs (recorded_env env) (butlast ?dst))
              (\<lambda>_. on_files (recorded_env env) (\<lambda>fs. copy_file fs (path_names (path_join source_root p)) ?dst)) (tr, w)
         else (Err (Ws_Invalid_Input (''repair path is not a regular file: '' @ p)), (tr, w)))) = tr"
    by (auto simp: silent_def split: sum.splits io_error.splits)
qed

lemma silent_copy [silent_intros]: "silent (copy_changed_paths (recorded_env env) source_root destination_root ps)"
  by (induction ps) (auto simp only: copy_changed_paths.simps intro!: silent_intros silent_copy_one)

section \<open>Validation\<close>

text \<open>Every configured command has run in the sandbox and ended well.\<close>

definition validated :: "(string \<Rightarrow> string) \<Rightarrow> validation_command list \<Rightarrow> ws_event list \<Rightarrow> bool" where
  "validated lossy commands tr \<longleftrightarrow> commands \<noteq> []
     \<and> (\<exists>root. \<forall>c\<in>set commands. \<exists>out. ran_ok lossy (sandbox_prefix root @ argv c) out tr)"

lemma stable_validated [stable_intros]: "stable (validated lossy commands)"
  unfolding validated_def by (intro stable_intros)

lemma sandbox_not_push: "\<not> is_push (sandbox_prefix root @ command)"
  by (simp add: is_push_def sandbox_prefix_def)

lemma confined_sandboxed:
  assumes "stable A"
  shows "confined P A (run_sandboxed_command path lossy (wk_spawn (recorded_env env)) root c)
     (\<lambda>r tr. A tr \<and> (cr_success r \<longrightarrow> (\<exists>out. ran_ok lossy (sandbox_prefix root @ argv c) out tr)))"
proof -
  have eq: "run_sandboxed_command path lossy (wk_spawn (recorded_env env)) root c =
      io_then (io_lift (validation_sandbox_argv root (argv c))) (\<lambda>sandbox.
      io_then (run_bounded_argv_with_optional_input path lossy (wk_spawn (recorded_env env)) ''/'' sandbox [] None)
        (\<lambda>r. io_ok (r\<lparr>cr_argv := argv c\<rparr>)))"
    by (rule ext) (auto simp: run_sandboxed_command_def run_bounded_argv_def io_then_def split: sum.splits prod.splits)
  show ?thesis unfolding eq
  proof (rule confined_then [OF confined_lift])
    fix x tr assume "validation_sandbox_argv root (argv c) = Inr x" "A tr"
    then show "x = sandbox_prefix root @ argv c \<and> A tr"
      by (auto simp: validation_sandbox_argv_def split: if_splits list.splits)
  next
    fix sandbox
    show "confined P (\<lambda>tr. sandbox = sandbox_prefix root @ argv c \<and> A tr)
       (io_then (run_bounded_argv_with_optional_input path lossy (wk_spawn (recorded_env env)) ''/'' sandbox [] None)
         (\<lambda>r. io_ok (r\<lparr>cr_argv := argv c\<rparr>)))
       (\<lambda>r tr. A tr \<and> (cr_success r \<longrightarrow> (\<exists>out. ran_ok lossy (sandbox_prefix root @ argv c) out tr)))"
      by (rule confined_then [OF confined_bounded confined_ok])
        (auto simp: sandbox_not_push dest: ended_stable [OF _ stable_conj [OF stable_True assms]])
  qed
qed

lemma run_each_then: "run_each run (c # cs) results =
    io_then (run c) (\<lambda>r. if cr_success r then run_each run cs (results @ [r]) else io_ok (results @ [r]))"
  by (rule ext) (auto simp: io_then_def split: prod.splits sum.splits)

lemma confined_run_each:
  assumes "stable A"
  shows "confined P A (run_each (run_sandboxed_command path lossy (wk_spawn (recorded_env env)) root) cs results)
     (\<lambda>rs tr. A tr \<and> (list_all cr_success rs \<longrightarrow>
        (\<forall>c\<in>set cs. \<exists>out. ran_ok lossy (sandbox_prefix root @ argv c) out tr)))"
  using assms
proof (induction cs arbitrary: A results)
  case Nil
  then show ?case by (simp add: confined_def)
next
  case (Cons c cs)
  let ?ran = "\<lambda>tr. \<exists>out. ran_ok lossy (sandbox_prefix root @ argv c) out tr"
  show ?case unfolding run_each_then
  proof (rule confined_then [OF confined_sandboxed [OF Cons.prems]])
    fix r
    have "stable (\<lambda>tr. A tr \<and> ?ran tr)" by (intro stable_intros Cons.prems)
    from Cons.IH [OF this, of "results @ [r]"]
    show "confined P (\<lambda>tr. A tr \<and> (cr_success r \<longrightarrow> ?ran tr))
        (if cr_success r then run_each (run_sandboxed_command path lossy (wk_spawn (recorded_env env)) root) cs (results @ [r])
         else io_ok (results @ [r]))
        (\<lambda>rs tr. A tr \<and> (list_all cr_success rs \<longrightarrow>
           (\<forall>c\<in>set (c # cs). \<exists>out. ran_ok lossy (sandbox_prefix root @ argv c) out tr)))"
      by (cases "cr_success r") (auto intro: confined_ok elim!: confined_weaken)
  qed
qed

lemma all_succeeded_Ok: "all_succeeded rs = Inr u \<Longrightarrow> list_all cr_success rs"
  by (auto simp: all_succeeded_def list_all_iff find_None_iff split: option.splits)

lemma confined_validate:
  assumes "stable A"
  shows "confined P A (validate_snapshot (recorded_env env) ws changed commands)
     (\<lambda>x tr. A tr \<and> validated (wk_lossy env) commands tr)"
proof -
  have not_push: "\<not> is_push [''git'', ''-c'', ''core.hooksPath=/dev/null'', ''archive'', ''--format=tar'', ''--output'', a, ''HEAD'']"
      "\<not> is_push [''tar'', ''-xf'', a, ''-C'', v]" for a v
    by (simp_all add: is_push_def)
  have prepare: "confined P A (prepare_validation_snapshot (recorded_env env) ws changed) (\<lambda>root. A)"
    unfolding prepare_validation_snapshot_def Let_def
    by (rule step_then [OF silent_confined [OF silent_on_files]] run_quiet not_push assms
      step_then [OF silent_confined [OF silent_copy]] silent_confined [OF silent_lift(2)])+
  have each: "run_validation_commands_sandboxed path lossy spawn root commands =
      io_then (io_lift (reject_if (commands = []) NoValidationCommands))
        (\<lambda>_. run_each (run_sandboxed_command path lossy spawn root) commands [])" for path lossy spawn root
    by (rule ext) (simp add: run_validation_commands_sandboxed_def)
  have sandboxed: "confined P A (run_validation_commands_sandboxed path (wk_lossy env) (wk_spawn (recorded_env env)) root commands)
      (\<lambda>rs tr. A tr \<and> (list_all cr_success rs \<longrightarrow> validated (wk_lossy env) commands tr))" for path root
    unfolding each
  proof (rule confined_then [OF confined_lift])
    fix x :: unit and tr
    assume "reject_if (commands = []) NoValidationCommands = Inr x" "A tr"
    then show "commands \<noteq> [] \<and> A tr" by auto
  next
    fix x :: unit
    show "confined P (\<lambda>tr. commands \<noteq> [] \<and> A tr)
       (run_each (run_sandboxed_command path (wk_lossy env) (wk_spawn (recorded_env env)) root) commands [])
       (\<lambda>rs tr. A tr \<and> (list_all cr_success rs \<longrightarrow> validated (wk_lossy env) commands tr))"
      by (cases "commands = []")
        (auto simp: confined_def [of _ "\<lambda>tr. False"] validated_def intro!: confined_weaken [OF confined_run_each [OF assms]])
  qed
  show ?thesis unfolding validate_snapshot_def
    by (rule confined_then [OF prepare], rule confined_then [OF confined_map_err])
      (use sandboxed in \<open>auto simp: recorded_env_def intro!: confined_lift dest: all_succeeded_Ok\<close>)
qed


section \<open>What a push of a repair follows\<close>

text \<open>
  The branch was at the expected commit when it was read, and the staged paths are those of the
  repair.
\<close>

definition head_was :: "(string \<Rightarrow> string) \<Rightarrow> string \<Rightarrow> string \<Rightarrow> ws_event list \<Rightarrow> bool" where
  "head_was lossy branch expected tr \<longleftrightarrow>
     (\<exists>out. observed_head out = expected
        \<and> ran_ok lossy [''git'', ''ls-remote'', ''origin'', ''refs/heads/'' @ branch] out tr)"

definition staged_exactly :: "(string \<Rightarrow> string) \<Rightarrow> string list \<Rightarrow> ws_event list \<Rightarrow> bool" where
  "staged_exactly lossy paths tr \<longleftrightarrow>
     (\<exists>out. set (filter (\<lambda>p. p \<noteq> []) (lines out)) = set paths
        \<and> ran_ok lossy [''git'', ''diff'', ''--cached'', ''--name-only'', ''--''] out tr)"

lemma stable_head_was [stable_intros]: "stable (head_was lossy branch expected)"
  unfolding head_was_def by (intro stable_intros)

lemma stable_staged [stable_intros]: "stable (staged_exactly lossy paths)"
  unfolding staged_exactly_def by (intro stable_intros)

definition repair_push ::
  "(string \<Rightarrow> string) \<Rightarrow> workspace \<Rightarrow> string list \<Rightarrow> string \<Rightarrow> string \<Rightarrow> validation_command list \<Rightarrow> push_condition" where
  "repair_push lossy ws paths branch expected commands tr c \<longleftrightarrow>
     c = push_argv ws branch \<and> held tr \<and> head_was lossy branch expected tr
     \<and> staged_exactly lossy paths tr \<and> validated lossy commands tr"

named_theorems not_push

lemma not_push_git [not_push]:
  "a \<noteq> ''-c'' \<Longrightarrow> a \<noteq> ''push'' \<Longrightarrow> \<not> is_push (''git'' # a # rest)"
  by (cases rest) (simp_all add: is_push_def)

lemma not_push_commit [not_push]: "\<not> is_push (commit_argv message)"
  by (simp add: is_push_def commit_argv_def)

lemma not_push_rebase [not_push]:
  "\<not> is_push [''git'', ''-c'', ''core.hooksPath=/dev/null'', ''rebase'', a]"
  by (simp add: is_push_def)

lemma staged_set:
  assumes "validate_staged_paths paths out = Inr u"
  shows "set (filter (\<lambda>p. p \<noteq> []) (lines out)) = set paths"
proof -
  have "sorted_set paths = sorted_set (filter (\<lambda>p. p \<noteq> []) (lines out))"
    using assms by (auto simp: validate_staged_paths_def and_then_Ok Let_def split: if_splits)
  then have "set (sorted_set paths) = set (sorted_set (filter (\<lambda>p. p \<noteq> []) (lines out)))" by simp
  then show ?thesis by simp
qed

lemma confined_staged:
  assumes "stable A"
  shows "confined P A (ensure_staged_paths (recorded_env env) ws paths)
     (\<lambda>x tr. A tr \<and> staged_exactly (wk_lossy env) paths tr)"
  unfolding ensure_staged_paths_def
proof (rule run_then [OF _ assms], simp add: not_push, rule lift_then)
  fix r x
  assume staged: "validate_staged_paths paths (cr_stdout r) = Inr x"
  let ?A = "\<lambda>tr. A tr \<and> ran_ok (wk_lossy env) [''git'', ''diff'', ''--cached'', ''--name-only'', ''--''] (cr_stdout r) tr"
  have stable: "stable ?A" by (intro stable_intros assms)
  have "staged_exactly (wk_lossy env) paths tr" if "?A tr" for tr
    unfolding staged_exactly_def by (rule exI [of _ "cr_stdout r"]) (use that staged_set [OF staged] in simp)
  then show "confined P ?A (io_then (run_repo (recorded_env env) ws [''git'', ''diff'', ''--cached'', ''--summary'', ''--'']) (\<lambda>summary.
     io_then (io_lift (validate_staged_diff_summary (cr_stdout summary))) (\<lambda>_.
     io_then (run_repo (recorded_env env) ws [''git'', ''diff'', ''--name-only'', ''--'']) (\<lambda>unstaged.
     io_then (io_lift (no_output unstaged)) (\<lambda>_.
     io_then (run_repo (recorded_env env) ws [''git'', ''ls-files'', ''--others'', ''--exclude-standard'']) (\<lambda>untracked.
     io_lift (no_output untracked)))))))
     (\<lambda>x tr. A tr \<and> staged_exactly (wk_lossy env) paths tr)"
    by (intro run_quiet [OF _ stable] lift_then confined_lift not_push) auto
qed

lemma confined_head:
  assumes "stable A"
  shows "confined P A (ensure_remote_head (recorded_env env) ws branch expected)
     (\<lambda>x tr. A tr \<and> head_was (wk_lossy env) branch expected tr)"
  unfolding ensure_remote_head_def
proof (rule lift_then, rule lift_then)
  fix x c assume "remote_head_argv branch = Inr c"
  then have c: "c = [''git'', ''ls-remote'', ''origin'', ''refs/heads/'' @ branch]"
    by (auto simp: remote_head_argv_def and_then_Ok)
  show "confined P A (io_then (run_repo (recorded_env env) ws c) (\<lambda>r. io_lift (check_head branch expected r)))
     (\<lambda>x tr. A tr \<and> head_was (wk_lossy env) branch expected tr)"
    unfolding c by (rule run_then [OF _ assms confined_lift])
      (auto simp: not_push check_head_def Let_def head_was_def split: if_splits)
qed

lemma confined_publish:
  assumes "stable A"
  shows "confined (repair_push (wk_lossy env) ws paths branch expected commands) A
     (publish_staged (recorded_env env) ws lease paths subject repair_kind branch expected commands)
     (\<lambda>x tr. A tr \<and> (\<exists>out. ran_ok (wk_lossy env) (push_argv ws branch) out tr))"
proof -
  let ?P = "repair_push (wk_lossy env) ws paths branch expected commands"
  let ?B = "\<lambda>tr. ((A tr \<and> validated (wk_lossy env) commands tr) \<and> staged_exactly (wk_lossy env) paths tr)
     \<and> head_was (wk_lossy env) branch expected tr"
  have stable: "stable ?B" by (intro stable_intros assms)
  have push: "confined ?P (\<lambda>tr. ?B tr \<and> held tr)
      (io_then (run_repo (recorded_env env) ws (push_argv ws branch)) (\<lambda>_.
       io_then (run_repo (recorded_env env) ws [''git'', ''rev-parse'', ''HEAD'']) (\<lambda>head.
       io_ok (trim (cr_stdout head)))))
      (\<lambda>x tr. A tr \<and> (\<exists>out. ran_ok (wk_lossy env) (push_argv ws branch) out tr))"
    by (rule push_then [where A = ?B, OF _ stable], simp add: repair_push_def,
        rule run_quiet [OF not_push_git], simp, simp, intro stable_intros assms, rule confined_ok) auto
  show ?thesis unfolding publish_staged_def
    by (rule confined_then [OF confined_validate [OF assms]],
        rule confined_then [OF confined_staged], intro stable_intros assms,
        (rule lease_quiet, (intro stable_intros assms)[1])+,
        rule confined_then [OF confined_head], intro stable_intros assms,
        rule run_quiet [OF not_push_commit], intro stable_intros assms,
        rule lease_then, intro stable_intros assms, rule push)
qed


section \<open>Repairs\<close>

lemma confined_patch_command:
  assumes "\<not> is_push c" "stable A"
  shows "confined P A (run_patch_command (recorded_env env) ws lease c input) (\<lambda>x. A)"
  unfolding run_patch_command_def run_bounded_argv_with_input_def
proof (rule confined_then [OF confined_map_err [OF confined_bounded]])
  fix r
  show "confined P (ended (wk_lossy (recorded_env env)) c r A)
     (io_then (ensure_lease (recorded_env env) lease)
       (\<lambda>_. io_lift (if cr_success r then Ok () else Err (Ws_Command_Failed c (cr_stderr r))))) (\<lambda>x. A)"
    by (rule confined_weaken [where A' = A, OF lease_quiet [OF assms(2) confined_lift]])
      (auto dest: ended_stable [OF _ assms(2)])
qed (use assms(1) in simp)

lemma confined_patches:
  "stable A \<Longrightarrow> confined P A (apply_patches (recorded_env env) ws lease patches) (\<lambda>x. A)"
proof (induction patches)
  case Nil
  show ?case unfolding apply_patches.simps by (rule confined_ok)
next
  case (Cons p ps)
  show ?case unfolding apply_patches.simps
    by (intro lease_quiet step_then [OF confined_patch_command] Cons not_push) simp_all
qed

lemma confined_clean: "stable A \<Longrightarrow> confined P A (ensure_clean (recorded_env env) ws) (\<lambda>x. A)"
  unfolding ensure_clean_def by (intro run_quiet confined_lift not_push) simp_all

lemma confined_ci_repair:
  assumes "stable A"
  shows "confined (\<lambda>tr c. validate_patch_set patches allowed = Ok ()
        \<and> repair_push (wk_lossy env) ws (map patch_path patches) branch expected commands tr c) A
     (apply_ci_repair (recorded_env env) ws lease patches allowed branch expected commands)
     (\<lambda>x tr. \<exists>out. ran_ok (wk_lossy env) (push_argv ws branch) out tr)"
proof (cases "validate_patch_set patches allowed")
  case (Inl e)
  show ?thesis unfolding apply_ci_repair_def Let_def by (rule lift_then) (simp add: Inl)
next
  case (Inr u)
  have P: "(\<lambda>tr c. validate_patch_set patches allowed = Ok ()
        \<and> repair_push (wk_lossy env) ws (map patch_path patches) branch expected commands tr c)
      = repair_push (wk_lossy env) ws (map patch_path patches) branch expected commands"
    using Inr by simp
  show ?thesis unfolding P apply_ci_repair_def Let_def
    by (rule lift_then, rule step_then [OF confined_clean [OF assms]],
        rule step_then [OF confined_patches [OF assms]], rule lease_quiet [OF assms],
        simp only: append_Cons append_Nil, rule run_quiet [OF _ assms], simp add: not_push,
        rule confined_then [OF confined_publish [OF assms]], rule confined_ok) auto
qed

lemma repair_files_Ok:
  assumes "repair_files env ws allowlist f w = (Inr outcome, w')" "resolution_eligible outcome"
    "outcome_path outcome = Some path"
  shows "is_automation f \<and> actor_type f = ''Bot'' \<and> actor_login f \<in> set allowlist
    \<and> validate_relative_path path = Ok ()"
proof -
  obtain fs where fs: "repair_feedback (wk_interfere env) (wk_files env w) (wk_cwd env) (wsp_repository_root ws)
      allowlist f Apply = (Inr outcome, fs)"
    using assms(1) by (auto simp: repair_files_def split: prod.splits)
  then obtain p where admitted: "is_automation f" "actor_type f = ''Bot''" "actor_login f \<in> set allowlist"
    and p: "apply_prepared (wk_interfere env (wk_files env w)) (wk_cwd env) (wsp_repository_root ws) p = (Inr outcome, fs)"
    using assms(2) by (auto simp: repair_feedback_def non_mutating_def list_ex_iff split: if_splits sum.splits)
  from p assms(3) have "path = prep_path p"
    and "\<exists>target. checked_target (wk_interfere env (wk_files env w)) (wk_cwd env) (wsp_repository_root ws) (prep_path p) = Inr target"
    by (auto simp: apply_prepared_def and_then_Ok split: sum.splits prod.splits)
  then show ?thesis using admitted by (auto simp: checked_target_def and_then_Ok)
qed

definition feedback_push ::
  "(string \<Rightarrow> string) \<Rightarrow> workspace \<Rightarrow> string list \<Rightarrow> feedback \<Rightarrow> string \<Rightarrow> string \<Rightarrow> validation_command list \<Rightarrow> push_condition" where
  "feedback_push lossy ws allowlist f branch expected commands tr c \<longleftrightarrow>
     is_automation f \<and> actor_type f = ''Bot'' \<and> actor_login f \<in> set allowlist
     \<and> (\<exists>path. validate_relative_path path = Ok () \<and> repair_push lossy ws [path] branch expected commands tr c)"

lemma confined_repair_files:
  "confined P A (repair_files (recorded_env env) ws allowlist f)
     (\<lambda>outcome tr. A tr \<and> (\<forall>path. resolution_eligible outcome \<longrightarrow> outcome_path outcome = Some path \<longrightarrow>
        is_automation f \<and> actor_type f = ''Bot'' \<and> actor_login f \<in> set allowlist \<and> validate_relative_path path = Ok ()))"
  unfolding confined_def
proof (intro allI impI)
  fix tr w assume "A tr"
  obtain r tr' w' where run: "repair_files (recorded_env env) ws allowlist f (tr, w) = (r, (tr', w'))"
    by (metis prod.exhaust)
  then have "tr' = tr" by (auto simp: repair_files_def recorded_env_def split: prod.splits)
  then show "\<exists>es. fst (snd (repair_files (recorded_env env) ws allowlist f (tr, w))) = tr @ es \<and> guarded P tr es
      \<and> (\<forall>x. fst (repair_files (recorded_env env) ws allowlist f (tr, w)) = Inr x \<longrightarrow>
          A (tr @ es) \<and> (\<forall>path. resolution_eligible x \<longrightarrow> outcome_path x = Some path \<longrightarrow>
            is_automation f \<and> actor_type f = ''Bot'' \<and> actor_login f \<in> set allowlist \<and> validate_relative_path path = Ok ()))"
    using run \<open>A tr\<close> repair_files_Ok [of "recorded_env env" ws allowlist f "(tr, w)" _ "(tr', w')"]
    by (intro exI [of _ "[]"]) auto
qed

lemma guarded_mono: "guarded P tr es \<Longrightarrow> (\<And>tr c. P tr c \<Longrightarrow> Q tr c) \<Longrightarrow> guarded Q tr es"
  by (induction P tr es rule: guarded.induct) auto

lemma confined_mono: "confined P A m B \<Longrightarrow> (\<And>tr c. P tr c \<Longrightarrow> Q tr c) \<Longrightarrow> confined Q A m B"
  unfolding confined_def by (elim all_forward imp_forward ex_forward conj_forward) (auto elim: guarded_mono)

lemma confined_feedback:
  assumes "stable A"
  shows "confined (feedback_push (wk_lossy env) ws allowlist f branch expected commands) A
     (apply_feedback (recorded_env env) ws lease allowlist f branch expected commands)
     (\<lambda>x tr. \<exists>out. ran_ok (wk_lossy env) (push_argv ws branch) out tr)"
  unfolding apply_feedback_def
proof (rule step_then [OF confined_clean [OF assms]], rule lease_quiet [OF assms],
    rule confined_then [OF confined_repair_files])
  fix outcome
  let ?P = "feedback_push (wk_lossy env) ws allowlist f branch expected commands"
  let ?B = "\<lambda>path. is_automation f \<and> actor_type f = ''Bot'' \<and> actor_login f \<in> set allowlist
     \<and> validate_relative_path path = Ok ()"
  show "confined ?P (\<lambda>tr. A tr \<and> (\<forall>path. resolution_eligible outcome \<longrightarrow> outcome_path outcome = Some path \<longrightarrow> ?B path))
     (io_then (io_lift (reject_if (\<not> resolution_eligible outcome) Ws_Repair_Not_Applied)) (\<lambda>_.
      io_then (io_lift (ok_or Ws_Repair_Not_Applied (outcome_path outcome))) (\<lambda>path.
      io_then (ensure_lease (recorded_env env) lease) (\<lambda>_.
      io_then (run_repo (recorded_env env) ws [''git'', ''add'', ''--'', path]) (\<lambda>_.
      io_then (publish_staged (recorded_env env) ws lease [path] ''fix: apply automated review suggestion'' ''feedback''
        branch expected commands) (\<lambda>commit.
      io_ok \<lparr>rcm_commit = commit, rcm_path = path\<rparr>))))))
     (\<lambda>x tr. \<exists>out. ran_ok (wk_lossy env) (push_argv ws branch) out tr)"
  proof (rule lift_then, rule lift_then)
    fix u path
    assume eligible: "reject_if (\<not> resolution_eligible outcome) Ws_Repair_Not_Applied = Inr u"
      "ok_or Ws_Repair_Not_Applied (outcome_path outcome) = Inr path"
    show "confined ?P (\<lambda>tr. A tr \<and> (\<forall>path. resolution_eligible outcome \<longrightarrow> outcome_path outcome = Some path \<longrightarrow> ?B path))
       (io_then (ensure_lease (recorded_env env) lease) (\<lambda>_.
        io_then (run_repo (recorded_env env) ws [''git'', ''add'', ''--'', path]) (\<lambda>_.
        io_then (publish_staged (recorded_env env) ws lease [path] ''fix: apply automated review suggestion'' ''feedback''
          branch expected commands) (\<lambda>commit.
        io_ok \<lparr>rcm_commit = commit, rcm_path = path\<rparr>))))
       (\<lambda>x tr. \<exists>out. ran_ok (wk_lossy env) (push_argv ws branch) out tr)"
    proof (cases "?B path")
      case False
      then show ?thesis using eligible by (auto simp: confined_def)
    next
      case True
      then have mono: "repair_push (wk_lossy env) ws [path] branch expected commands tr c \<Longrightarrow> ?P tr c" for tr c
        by (auto simp: feedback_push_def)
      have published: "confined ?P A (publish_staged (recorded_env env) ws lease [path] subject repair_kind branch expected commands)
          (\<lambda>x tr. A tr \<and> (\<exists>out. ran_ok (wk_lossy env) (push_argv ws branch) out tr))" for subject repair_kind
        by (rule confined_mono [OF confined_publish [OF assms] mono])
      show ?thesis
        by (rule confined_pre [where A' = A], rule lease_quiet [OF assms], rule run_quiet [OF _ assms],
            simp add: not_push, rule confined_then [OF published], rule confined_ok) auto
    qed
  qed
qed


section \<open>Rebasing\<close>

text \<open>
  What a push of a rebase follows. Without permission to force, the old commit was found to be
  an ancestor of the new one; with it, the push names the old commit as its lease.
\<close>

definition rebased :: "(string \<Rightarrow> string) \<Rightarrow> string \<Rightarrow> string \<Rightarrow> ws_event list \<Rightarrow> bool" where
  "rebased lossy target after tr \<longleftrightarrow>
     (\<exists>out. ran_ok lossy [''git'', ''-c'', ''core.hooksPath=/dev/null'', ''rebase'', remote_branch target] out tr)
     \<and> (\<exists>out. trim out = after \<and> ran_ok lossy [''git'', ''rev-parse'', ''HEAD''] out tr)"

definition rebase_push ::
  "(string \<Rightarrow> string) \<Rightarrow> string \<Rightarrow> string \<Rightarrow> string \<Rightarrow> bool \<Rightarrow> validation_command list \<Rightarrow> push_condition" where
  "rebase_push lossy branch target expected allow_force commands tr c \<longleftrightarrow>
     held tr \<and> head_was lossy branch expected tr \<and> validated lossy commands tr
     \<and> (\<exists>forced after. rebase_push_argv branch expected forced = Ok c \<and> (forced \<longrightarrow> allow_force)
         \<and> rebased lossy target after tr \<and> after \<noteq> expected
         \<and> (\<not> forced \<longrightarrow> (\<exists>out. ran_ok lossy [''git'', ''merge-base'', ''--is-ancestor'', expected, after] out tr)))"

definition rebase_reported :: "(string \<Rightarrow> string) \<Rightarrow> string \<Rightarrow> bool \<Rightarrow> rebase_commit \<Rightarrow> ws_event list \<Rightarrow> bool" where
  "rebase_reported lossy branch allow_force o1 tr \<longleftrightarrow>
     (rbc_force_pushed o1 \<longrightarrow> allow_force)
     \<and> (rbc_before o1 \<noteq> rbc_after o1 \<longrightarrow>
         (\<exists>c out. rebase_push_argv branch (rbc_before o1) (rbc_force_pushed o1) = Ok c \<and> ran_ok lossy c out tr))"

lemma stable_rebased [stable_intros]: "stable (rebased lossy target after)"
  unfolding rebased_def by (intro stable_intros)

lemma confined_abort:
  "confined P A (abort_rebase (recorded_env env) ws) (\<lambda>x tr. True)"
proof -
  have "confined P A (run_result (recorded_env env) ws (wsp_repository_root ws)
      [''git'', ''-c'', ''core.hooksPath=/dev/null'', ''rebase'', ''--abort'']) (\<lambda>r.
      ended (wk_lossy env) [''git'', ''-c'', ''core.hooksPath=/dev/null'', ''rebase'', ''--abort''] r A)"
    by (rule confined_run_result) (simp add: not_push)
  then show ?thesis unfolding confined_def abort_rebase_def by simp meson
qed

lemma confined_rebase_or_abort:
  assumes "stable A"
  shows "confined P A (rebase_or_abort (recorded_env env) ws branch target) (\<lambda>x tr. A tr
     \<and> (\<exists>out. ran_ok (wk_lossy env)
          [''git'', ''-c'', ''core.hooksPath=/dev/null'', ''rebase'', remote_branch target] out tr))"
  unfolding rebase_or_abort_def
proof (rule confined_then [OF confined_run_result])
  fix r
  let ?c = "[''git'', ''-c'', ''core.hooksPath=/dev/null'', ''rebase'', remote_branch target]"
  let ?ended = "ended (wk_lossy env) ?c r A"
  show "confined P ?ended
     (if cr_success r then io_ok ()
      else io_then (abort_rebase (recorded_env env) ws) (\<lambda>_. io_lift (Err (Ws_Rebase_Conflict branch target (cr_stderr r)))))
     (\<lambda>x tr. A tr \<and> (\<exists>out. ran_ok (wk_lossy env) ?c out tr))"
  proof (cases "cr_success r")
    case True
    have "?ended tr \<Longrightarrow> A tr \<and> (\<exists>out. ran_ok (wk_lossy env) ?c out tr)" for tr
      using ended_stable [OF _ assms, of "wk_lossy env" ?c r tr] True by blast
    with True show ?thesis by (simp del: io_ok_simp) (rule confined_ok)
  next
    case False
    then show ?thesis by (auto intro: confined_then [OF confined_abort] confined_fail)
  qed
qed (simp add: not_push)

lemma confined_publish_rebase:
  assumes "stable A" "\<And>tr. A tr \<Longrightarrow> head_was (wk_lossy env) branch expected tr"
    "\<And>tr. A tr \<Longrightarrow> rebased (wk_lossy env) target after tr" "after \<noteq> expected"
  shows "confined (rebase_push (wk_lossy env) branch target expected allow_force commands) A
     (publish_rebase (recorded_env env) ws lease branch target expected allow_force commands after)
     (rebase_reported (wk_lossy env) branch allow_force)"
  unfolding publish_rebase_def
proof (rule confined_then [OF confined_validate [OF assms(1)]], rule confined_then [OF confined_run_result])
  fix ancestor :: command_result
  let ?P = "rebase_push (wk_lossy env) branch target expected allow_force commands"
  let ?V = "\<lambda>tr. A tr \<and> validated (wk_lossy env) commands tr"
  let ?c = "[''git'', ''merge-base'', ''--is-ancestor'', expected, after]"
  let ?forced = "\<not> cr_success ancestor"
  let ?B = "\<lambda>tr. ?V tr \<and> (\<not> ?forced \<longrightarrow> (\<exists>out. ran_ok (wk_lossy env) ?c out tr))"
  have stable: "stable ?V" by (intro stable_intros assms)
  have stableB: "stable ?B"
  proof (cases ?forced)
    case True
    then show ?thesis using stable by simp
  next
    case False
    then show ?thesis by simp (intro stable_intros assms(1))
  qed
  have push: "confined ?P (\<lambda>tr. ?B tr \<and> held tr)
      (io_then (io_lift (rebase_push_argv branch expected ?forced)) (\<lambda>command.
       io_then (run_repo (recorded_env env) ws command) (\<lambda>_.
       io_ok \<lparr>rbc_before = expected, rbc_after = after, rbc_target_branch = target, rbc_force_pushed = ?forced\<rparr>)))
      (rebase_reported (wk_lossy env) branch allow_force)" if "?forced \<longrightarrow> allow_force"
  proof (rule lift_then)
    fix c assume c: "rebase_push_argv branch expected ?forced = Inr c"
    have "?P tr c" if "?B tr" "held tr" for tr
      using that c assms(2-4) \<open>?forced \<longrightarrow> allow_force\<close> unfolding rebase_push_def by blast
    then show "confined ?P (\<lambda>tr. ?B tr \<and> held tr)
        (io_then (run_repo (recorded_env env) ws c) (\<lambda>_.
         io_ok \<lparr>rbc_before = expected, rbc_after = after, rbc_target_branch = target, rbc_force_pushed = ?forced\<rparr>))
        (rebase_reported (wk_lossy env) branch allow_force)"
      by (rule push_then [where A = ?B, OF _ stableB]) 
        (use c \<open>?forced \<longrightarrow> allow_force\<close> in \<open>auto simp: rebase_reported_def simp del: io_ok_simp intro!: confined_ok\<close>)
  qed
  show "confined ?P (ended (wk_lossy env) ?c ancestor ?V)
     (if \<not> cr_success ancestor \<and> \<not> allow_force then io_lift (Err (Ws_Rebase_Requires_Force_Push branch target))
      else let forced = \<not> cr_success ancestor in io_then (ensure_lease (recorded_env env) lease) (\<lambda>_.
        io_then (io_lift (rebase_push_argv branch expected forced)) (\<lambda>command.
        io_then (run_repo (recorded_env env) ws command) (\<lambda>_.
        io_ok \<lparr>rbc_before = expected, rbc_after = after, rbc_target_branch = target, rbc_force_pushed = forced\<rparr>))))
     (rebase_reported (wk_lossy env) branch allow_force)"
  proof (cases "\<not> cr_success ancestor \<and> \<not> allow_force")
    case False
    have pre: "ended (wk_lossy env) ?c ancestor ?V tr \<Longrightarrow> ?B tr" for tr
      using ended_stable [OF _ stable, of "wk_lossy env" ?c ancestor tr] by blast
    have "confined ?P (ended (wk_lossy env) ?c ancestor ?V) (io_then (ensure_lease (recorded_env env) lease) (\<lambda>_.
        io_then (io_lift (rebase_push_argv branch expected ?forced)) (\<lambda>command.
        io_then (run_repo (recorded_env env) ws command) (\<lambda>_.
        io_ok \<lparr>rbc_before = expected, rbc_after = after, rbc_target_branch = target, rbc_force_pushed = ?forced\<rparr>))))
       (rebase_reported (wk_lossy env) branch allow_force)"
      by (rule confined_pre [where A' = ?B], rule lease_then [OF stableB], rule push)
        (use False in blast, rule pre)
    then show ?thesis unfolding Let_def if_not_P [OF False] .
  qed (auto intro: confined_fail simp del: io_lift_simp)
qed (simp add: not_push)

lemma confined_rebase:
  "confined (rebase_push (wk_lossy env) branch target expected allow_force commands) (\<lambda>tr. True)
     (rebase_onto (recorded_env env) ws lease branch target expected allow_force commands)
     (rebase_reported (wk_lossy env) branch allow_force)"
  unfolding rebase_onto_def
proof (rule lift_then, rule step_then [OF confined_clean], simp add: stable_True, rule lease_quiet, simp add: stable_True,
    rule run_then, simp add: not_push, simp add: stable_True, rule lift_then)
  fix remote x
  let ?P = "rebase_push (wk_lossy env) branch target expected allow_force commands"
  assume head: "check_head branch expected remote = Inr x"
  let ?H = "head_was (wk_lossy env) branch expected"
  let ?R = "\<lambda>tr. ?H tr \<and> (\<exists>out. ran_ok (wk_lossy env)
      [''git'', ''-c'', ''core.hooksPath=/dev/null'', ''rebase'', remote_branch target] out tr)"
  have stableR: "stable ?R" by (intro stable_intros)
  show "confined ?P (\<lambda>tr. True \<and> ran_ok (wk_lossy env) [''git'', ''ls-remote'', ''origin'', ''refs/heads/'' @ branch] (cr_stdout remote) tr)
     (io_then (ensure_lease (recorded_env env) lease) (\<lambda>_.
     io_then (run_repo (recorded_env env) ws [''git'', ''fetch'', ''--no-tags'', ''origin'',
        ''refs/heads/'' @ target @ '':'' @ remote_branch target]) (\<lambda>_.
     io_then (ensure_lease (recorded_env env) lease) (\<lambda>_.
     io_then (run_repo (recorded_env env) ws [''git'', ''config'', ''user.name'', ''PiTools[bot]'']) (\<lambda>_.
     io_then (ensure_lease (recorded_env env) lease) (\<lambda>_.
     io_then (run_repo (recorded_env env) ws [''git'', ''config'', ''user.email'', ''pitools[bot]@users.noreply.github.com'']) (\<lambda>_.
     io_then (rebase_or_abort (recorded_env env) ws branch target) (\<lambda>_.
     io_then (ensure_lease (recorded_env env) lease) (\<lambda>_.
     io_then (run_repo (recorded_env env) ws [''git'', ''rev-parse'', ''HEAD'']) (\<lambda>head.
     let after = trim (cr_stdout head)
     in if after = expected
        then io_ok \<lparr>rbc_before = expected, rbc_after = after, rbc_target_branch = target, rbc_force_pushed = False\<rparr>
        else publish_rebase (recorded_env env) ws lease branch target expected allow_force commands after))))))))))
     (rebase_reported (wk_lossy env) branch allow_force)"
  proof (rule confined_pre [where A' = ?H], (rule lease_quiet run_quiet stable_head_was | (rule not_push_git; simp))+,
      rule confined_then [OF confined_rebase_or_abort [OF stable_head_was]], rule lease_quiet [OF stableR],
      rule run_then [OF _ stableR], simp add: not_push)
    fix h :: command_result
    show "confined ?P (\<lambda>tr. ?R tr \<and> ran_ok (wk_lossy env) [''git'', ''rev-parse'', ''HEAD''] (cr_stdout h) tr)
     (let after = trim (cr_stdout h)
      in if after = expected
        then io_ok \<lparr>rbc_before = expected, rbc_after = after, rbc_target_branch = target, rbc_force_pushed = False\<rparr>
        else publish_rebase (recorded_env env) ws lease branch target expected allow_force commands after)
     (rebase_reported (wk_lossy env) branch allow_force)"
    proof (cases "trim (cr_stdout h) = expected")
      case True
      then show ?thesis by (auto simp: Let_def rebase_reported_def simp del: io_ok_simp intro!: confined_ok)
    next
      case False
      have "stable (\<lambda>tr. ?R tr \<and> ran_ok (wk_lossy env) [''git'', ''rev-parse'', ''HEAD''] (cr_stdout h) tr)"
        by (intro stable_intros)
      then have "confined ?P (\<lambda>tr. ?R tr \<and> ran_ok (wk_lossy env) [''git'', ''rev-parse'', ''HEAD''] (cr_stdout h) tr)
          (publish_rebase (recorded_env env) ws lease branch target expected allow_force commands (trim (cr_stdout h)))
          (rebase_reported (wk_lossy env) branch allow_force)"
        by (rule confined_publish_rebase [OF _ _ _ False]) (auto simp: rebased_def)
      with False show ?thesis by (simp add: Let_def)
    qed
  next
    fix tr assume "True \<and> ran_ok (wk_lossy env) [''git'', ''ls-remote'', ''origin'', ''refs/heads/'' @ branch] (cr_stdout remote) tr"
    then show "?H tr" using head by (auto simp: check_head_def Let_def head_was_def split: if_splits)
  qed
qed

section \<open>The properties of a whole call\<close>

text \<open>A call from an empty record, when the events that it leaves are guarded.\<close>

definition call_guarded ::
  "push_condition \<Rightarrow> ('a \<Rightarrow> ws_event list \<Rightarrow> bool) \<Rightarrow> ('w recorded, 'e, 'a) io \<Rightarrow> 'w \<Rightarrow> bool" where
  "call_guarded P B m w \<longleftrightarrow> (case m ([], w) of (r, (tr, w')) \<Rightarrow>
     guarded P [] tr \<and> (case r of Inr x \<Rightarrow> B x tr | Inl e \<Rightarrow> True))"

lemma call_guardedI:
  assumes "confined P (\<lambda>tr. True) m B"
  shows "call_guarded P B m w"
proof -
  obtain r tr w' where run: "m ([], w) = (r, (tr, w'))" by (metis prod.exhaust)
  obtain es where "fst (snd (m ([], w))) = [] @ es" "guarded P [] es"
    "\<forall>x. fst (m ([], w)) = Inr x \<longrightarrow> B x ([] @ es)"
    using assms unfolding confined_def by blast
  then show ?thesis using run by (auto simp: call_guarded_def split: sum.splits)
qed

text \<open>
  C29: whatever processes answer, every push of a typed CI repair is one push of the new head to
  the pull request's branch, directly after the queue confirmed the lease, after all configured
  commands ended well in the sandbox, the branch was read at the expected commit, and the staged
  files were exactly those of the patches, which are a valid set inside the allowed paths; a
  repair that reports a commit has pushed.
\<close>

theorem ci_repair_push_checked:
  "call_guarded
     (\<lambda>before push. validate_patch_set patches allowed = Ok ()
        \<and> repair_push (wk_lossy env) ws (map patch_path patches) branch expected commands before push)
     (\<lambda>commit tr. \<exists>out. ran_ok (wk_lossy env) (push_argv ws branch) out tr)
     (apply_ci_repair (recorded_env env) ws lease patches allowed branch expected commands) w"
  by (rule call_guardedI [OF confined_ci_repair [OF stable_True]])

text \<open>
  The same for the application of a suggestion: it comes from an allowed bot, one file with a
  path inside the repository is staged, and the push follows the lease, the commands and the
  check of the head.
\<close>

theorem feedback_push_checked:
  "call_guarded (feedback_push (wk_lossy env) ws allowlist f branch expected commands)
     (\<lambda>commit tr. \<exists>out. ran_ok (wk_lossy env) (push_argv ws branch) out tr)
     (apply_feedback (recorded_env env) ws lease allowlist f branch expected commands) w"
  by (rule call_guardedI [OF confined_feedback [OF stable_True]])

text \<open>
  C30: a rebase pushes only after the lease was confirmed, the branch was read at the expected
  commit, the rebase ended well and the commands passed; it forces only when that is allowed,
  with the expected commit as the lease of the push, and without force only a head that has the
  expected commit as an ancestor; what it reports as changed was pushed.
\<close>

theorem rebase_push_checked:
  "call_guarded (rebase_push (wk_lossy env) branch target expected allow_force commands)
     (rebase_reported (wk_lossy env) branch allow_force)
     (rebase_onto (recorded_env env) ws lease branch target expected allow_force commands) w"
  by (rule call_guardedI [OF confined_rebase])

end
