(* ===== verification/Manifest.thy ===== *)
theory Manifest
  imports Http Json
begin

text \<open>
  The GitHub App's manifest, \<open>src/github/manifest.rs\<close>: the permissions that it asks for and that
  installation tokens are scoped to, its checks, its JSON form, and the exchange of the one-time
  code. The URL parser and the HTTP client are parameters.
\<close>

datatype manifest_error =
    Mf_Missing_Endpoint | Mf_Invalid_Endpoint string | Mf_Invalid_Webhook_Path | Mf_Unsupported_Event string
  | Mf_Unsupported_Permission string string | Mf_Invalid_Code | Mf_Conversion string | Mf_Serialization string

record hook_attributes =
  ha_url :: string
  ha_active :: bool

record app_manifest =
  am_name :: string
  am_url :: string
  am_hook_attributes :: hook_attributes
  am_redirect_url :: string
  am_public :: bool
  am_default_permissions :: "(string, string) btree_map"
  am_default_events :: "string list"

definition default_events :: "string list" where
  "default_events = [''check_run'', ''check_suite'', ''issue_comment'', ''installation'',
     ''installation_repositories'', ''pull_request'', ''pull_request_review'',
     ''pull_request_review_comment'', ''status'', ''workflow_run'']"

definition default_permissions :: "(string, string) btree_map" where
  "default_permissions = [(''actions'', ''read''), (''administration'', ''read''), (''checks'', ''write''),
     (''contents'', ''write''), (''issues'', ''write''), (''metadata'', ''read''),
     (''pull_requests'', ''write''), (''statuses'', ''read'')]"

definition for_public_project :: "string \<Rightarrow> app_manifest" where
  "for_public_project base_url = \<lparr>am_name = ''PiTools'', am_url = base_url,
     am_hook_attributes = \<lparr>ha_url = base_url @ ''/github/webhook'', ha_active = True\<rparr>,
     am_redirect_url = base_url @ ''/github/manifest/callback'', am_public = False,
     am_default_permissions = default_permissions, am_default_events = default_events\<rparr>"

section \<open>Validation\<close>

definition check_endpoint :: "(string \<Rightarrow> url option) \<Rightarrow> string \<times> string \<Rightarrow> (manifest_error, unit) result" where
  "check_endpoint parse e = (case parse (snd e) of
       None \<Rightarrow> Err (Mf_Invalid_Endpoint (fst e))
     | Some u \<Rightarrow> reject_if (url_scheme u \<noteq> ''https'' \<or> url_host u = None \<or> url_username u \<noteq> [])
         (Mf_Invalid_Endpoint (fst e)))"

definition validate_manifest :: "(string \<Rightarrow> url option) \<Rightarrow> app_manifest \<Rightarrow> (manifest_error, unit) result" where
  "validate_manifest parse m =
     and_then (reject_if (trim (am_name m) = [] \<or> trim (am_url m) = []
        \<or> trim (ha_url (am_hook_attributes m)) = [] \<or> trim (am_redirect_url m) = []) Mf_Missing_Endpoint) (\<lambda>_.
     and_then (for_each (check_endpoint parse) [(''url'', am_url m),
        (''hook_attributes.url'', ha_url (am_hook_attributes m)), (''redirect_url'', am_redirect_url m)]) (\<lambda>_.
     and_then (reject_if (\<not> ends_with ''/github/webhook'' (ha_url (am_hook_attributes m)))
        Mf_Invalid_Webhook_Path) (\<lambda>_.
     and_then (for_each (\<lambda>e. reject_if (e \<notin> set default_events) (Mf_Unsupported_Event e)) (am_default_events m)) (\<lambda>_.
     for_each (\<lambda>p. reject_if (snd p \<notin> {''read'', ''write''}) (Mf_Unsupported_Permission (fst p) (snd p)))
       (am_default_permissions m)))))"

definition manifest_value :: "app_manifest \<Rightarrow> json" where
  "manifest_value m = jobj [(''name'', JStr (am_name m)), (''url'', JStr (am_url m)),
     (''hook_attributes'', jobj [(''url'', JStr (ha_url (am_hook_attributes m))),
        (''active'', JBool (ha_active (am_hook_attributes m)))]),
     (''redirect_url'', JStr (am_redirect_url m)), (''public'', JBool (am_public m)),
     (''default_permissions'', JObj (map (\<lambda>(p, l). (p, JStr l)) (am_default_permissions m))),
     (''default_events'', JArr (map JStr (am_default_events m)))]"

definition manifest_as_json :: "(string \<Rightarrow> url option) \<Rightarrow> app_manifest \<Rightarrow> (manifest_error, json) result" where
  "manifest_as_json parse m = and_then (validate_manifest parse m) (\<lambda>_. Ok (manifest_value m))"

section \<open>The exchange of the one-time code\<close>

record manifest_conversion =
  mc_id :: nat
  mc_name :: string
  mc_slug :: string
  mc_client_id :: string
  mc_client_secret :: string
  mc_webhook_secret :: string
  mc_pem :: string
  mc_html_url :: "string option"

definition validate_manifest_code :: "string \<Rightarrow> (manifest_error, unit) result" where
  "validate_manifest_code code =
     reject_if (code = [] \<or> length code > 128
        \<or> \<not> list_all (\<lambda>b. is_ascii_alphanumeric b \<or> b \<in> {CHR ''-'', CHR ''_''}) code) Mf_Invalid_Code"

definition conversion_url :: "string \<Rightarrow> string" where
  "conversion_url code = ''https://api.github.com/app-manifests/'' @ code @ ''/conversions''"

definition exchange_manifest_code ::
  "(string \<Rightarrow> ('w, string, http_response) io) \<Rightarrow> (http_response \<Rightarrow> (string, manifest_conversion) result)
     \<Rightarrow> string \<Rightarrow> ('w, manifest_error, manifest_conversion) io" where
  "exchange_manifest_code post decode code =
     io_then (io_lift (validate_manifest_code code)) (\<lambda>_.
     io_then (io_map_err Mf_Conversion (post (conversion_url code))) (\<lambda>r.
     if \<not> is_success r then io_lift (Err (Mf_Conversion (''GitHub returned HTTP '' @ show_nat (rs_status r))))
     else io_lift (map_err Mf_Conversion (decode r))))"

section \<open>What the default manifest is\<close>

lemma default_permissions_inv [simp]: "bt_inv default_permissions"
  by (simp add: bt_inv_def default_permissions_def)

lemma default_manifest_parts:
  "list_all (\<lambda>p. snd p \<in> {''read'', ''write''}) (am_default_permissions (for_public_project base))"
  "set (am_default_events (for_public_project base)) = set default_events"
  "ends_with ''/github/webhook'' (ha_url (am_hook_attributes (for_public_project base)))"
  by (simp_all add: for_public_project_def default_permissions_def ends_with_iff)

text \<open>The default manifest of an address whose three endpoints are HTTPS URLs is accepted.\<close>

lemma default_manifest_valid:
  assumes "\<And>suffix. suffix \<in> {[], ''/github/webhook'', ''/github/manifest/callback''} \<Longrightarrow>
      trim (base @ suffix) \<noteq> [] \<and> (\<exists>u. parse (base @ suffix) = Some u
        \<and> url_scheme u = ''https'' \<and> url_host u \<noteq> None \<and> url_username u = [])"
  shows "manifest_as_json parse (for_public_project base) = Ok (manifest_value (for_public_project base))"
proof -
  have nonempty: "trim (base @ s) \<noteq> []"
    if "s \<in> {[], ''/github/webhook'', ''/github/manifest/callback''}" for s
    using assms [OF that] by simp
  have endpoint: "check_endpoint parse (f, base @ s) = Ok ()"
    if "s \<in> {[], ''/github/webhook'', ''/github/manifest/callback''}" for f s
    using assms [OF that] by (auto simp: check_endpoint_def)
  have "trim ''PiTools'' \<noteq> []" by code_simp
  then have "validate_manifest parse (for_public_project base) = Ok ()"
    unfolding validate_manifest_def
    using nonempty [of "[]"] nonempty [of "''/github/webhook''"] nonempty [of "''/github/manifest/callback''"]
      endpoint [of "[]" "''url''"] endpoint [of "''/github/webhook''" "''hook_attributes.url''"]
      endpoint [of "''/github/manifest/callback''" "''redirect_url''"]
    by (simp add: for_public_project_def and_then_Ok for_each_Ok ends_with_iff default_permissions_def)
  then show ?thesis by (simp add: manifest_as_json_def)
qed

lemma exchange_sends_checked_code:
  "exchange_manifest_code post decode code w = (Inr c, w') \<Longrightarrow>
     length code \<le> 128 \<and> list_all (\<lambda>b. is_ascii_alphanumeric b \<or> b \<in> {CHR ''-'', CHR ''_''}) code"
  by (auto simp: exchange_manifest_code_def io_then_Ok validate_manifest_code_def)

end
