(* ===== verification/Moves.thy ===== *)
theory Moves
  imports Workspace
begin

text \<open>
  What an effect may do to its world, whatever its result: a reflexive and transitive relation
  that every primitive keeps to is kept by what is composed of them. For the workspace the
  primitives are the start of a process, the question about the lease and a write of files.
\<close>

definition moves :: "('w \<Rightarrow> 'w \<Rightarrow> bool) \<Rightarrow> ('w, 'e, 'a) io \<Rightarrow> bool" where
  "moves R m \<longleftrightarrow> (\<forall>w. R w (snd (m w)))"

lemma movesI: "(\<And>w r w'. m w = (r, w') \<Longrightarrow> R w w') \<Longrightarrow> moves R m"
  unfolding moves_def by (metis surjective_pairing)

lemma movesD: "moves R m \<Longrightarrow> m w = (r, w') \<Longrightarrow> R w w'"
  unfolding moves_def by (metis snd_conv)

named_theorems moves_intros \<open>how effects move\<close>

section \<open>Composition\<close>

locale world_order =
  fixes R :: "'w \<Rightarrow> 'w \<Rightarrow> bool"
  assumes refl: "R w w"
    and trans: "R w w' \<Longrightarrow> R w' w'' \<Longrightarrow> R w w''"
begin

lemma moves_then: "moves R m \<Longrightarrow> (\<And>x. moves R (f x)) \<Longrightarrow> moves R (io_then m f)"
  by (rule movesI) (auto simp: io_then_cases dest: movesD intro: trans)

lemma moves_lift: "moves R (io_lift r)" "moves R (io_ok x)"
  by (simp_all add: moves_def refl)

lemma moves_map_err: "moves R m \<Longrightarrow> moves R (io_map_err g m)"
  by (rule movesI) (auto simp: io_map_err_def dest: movesD split: prod.splits)

lemma moves_if: "moves R m \<Longrightarrow> moves R n \<Longrightarrow> moves R (if b then m else n)"
  by simp

lemma moves_case_option: "moves R m \<Longrightarrow> (\<And>x. moves R (f x)) \<Longrightarrow> moves R (case v of None \<Rightarrow> m | Some x \<Rightarrow> f x)"
  by (cases v) simp_all

lemma moves_case_sum: "(\<And>e. moves R (g e)) \<Longrightarrow> (\<And>x. moves R (f x)) \<Longrightarrow> moves R (case v of Inl e \<Rightarrow> g e | Inr x \<Rightarrow> f x)"
  by (cases v) simp_all

lemma moves_case_prod: "(\<And>x y. moves R (f x y)) \<Longrightarrow> moves R (case p of (x, y) \<Rightarrow> f x y)"
  by (cases p) simp

lemmas composed = moves_then moves_lift moves_map_err moves_if moves_case_option moves_case_sum
  moves_case_prod

end

section \<open>The workspace\<close>

locale workspace_order = world_order R
  for R :: "'w \<Rightarrow> 'w \<Rightarrow> bool" +
  fixes env :: "'w workspace_env"
  assumes spawn: "R w (snd (wk_spawn env c w))"
    and lease: "R w (snd (wk_assert_lease env i n t w))"
    and put: "R w (wk_put_files env fs w)"
begin

lemma moves_bounded_input: "moves R (run_bounded_argv_with_optional_input p l (wk_spawn env) d c e i)"
proof (rule movesI)
  fix w r w'
  assume run: "run_bounded_argv_with_optional_input p l (wk_spawn env) d c e i w = (r, w')"
  have "R w (snd (wk_spawn env \<lparr>cl_argv = c, cl_cwd = d, cl_env = command_env p e, cl_input = i\<rparr> w))"
    by (rule spawn)
  with run show "R w w'"
    by (auto simp: run_bounded_argv_with_optional_input_def refl split: if_splits prod.splits sum.splits)
qed

lemma moves_bounded: "moves R (run_bounded_argv p l (wk_spawn env) d c e)"
  "moves R (run_bounded_argv_with_input p l (wk_spawn env) d c e input)"
  using moves_bounded_input by (simp_all add: moves_def run_bounded_argv_def run_bounded_argv_with_input_def)

lemma moves_sandboxed: "moves R (run_sandboxed_command p l (wk_spawn env) d c)"
  by (rule movesI) (auto simp: run_sandboxed_command_def refl dest: movesD [OF moves_bounded(1)]
      split: prod.splits sum.splits)

lemma moves_each:
  assumes "\<And>c. moves R (run c)"
  shows "moves R (run_each run cs results)"
proof (induction cs arbitrary: results)
  case (Cons c cs)
  show ?case
    by (rule movesI) (auto split: prod.splits sum.splits if_splits dest!: movesD [OF assms] movesD [OF Cons] intro: trans)
qed (simp add: moves_def refl)

lemma moves_validation: "moves R (run_validation_commands_sandboxed p l (wk_spawn env) d cs)"
  unfolding run_validation_commands_sandboxed_def using moves_each [OF moves_sandboxed]
  by (simp add: moves_def refl)

lemma moves_run_result: "moves R (run_result env ws d c)"
  unfolding run_result_def by (intro composed moves_bounded)

lemma moves_run: "moves R (run_in env ws d c)" "moves R (run_repo env ws c)"
  unfolding run_repo_def run_in_def by (intro composed moves_run_result)+

lemma moves_lease: "moves R (ensure_lease env g)"
  unfolding ensure_lease_def by (intro composed) (simp add: moves_def lease)

lemma moves_files: "moves R (on_files env f)" "moves R (create_dirs env names)"
  by (auto intro!: movesI simp: on_files_def create_dirs_def refl put split: sum.splits prod.splits)

lemma moves_copy_one: "moves R (copy_changed_path env source_root destination_root p)"
  unfolding copy_changed_path_def
proof (rule moves_then [OF moves_lift(1)], rule movesI, unfold Let_def)
  let ?dst = "path_names (path_join destination_root p)"
  let ?src = "path_names (path_join source_root p)"
  fix w r w'
  have "moves R (io_then (create_dirs env (butlast ?dst)) (\<lambda>_. on_files env (\<lambda>fs. copy_file fs ?src ?dst)))"
    by (intro composed moves_files)
  then show "(case symlink_metadata (wk_files env w) ?src of
       Inl NotFound \<Rightarrow> on_files env (remove_if_present ?dst) w
     | Inl e \<Rightarrow> (Err (Ws_Io e), w)
     | Inr n \<Rightarrow> if is_symlink n then (Err (Ws_Invalid_Input (''symlink repair path is not supported: '' @ p)), w)
         else if is_file n
         then io_then (create_dirs env (butlast ?dst)) (\<lambda>_. on_files env (\<lambda>fs. copy_file fs ?src ?dst)) w
         else (Err (Ws_Invalid_Input (''repair path is not a regular file: '' @ p)), w)) = (r, w') \<Longrightarrow> R w w'"
    by (auto simp: refl dest: movesD movesD [OF moves_files(1)] split: sum.splits io_error.splits if_splits)
qed

lemma moves_copy: "moves R (copy_changed_paths env source_root destination_root ps)"
  by (induction ps) (auto simp only: copy_changed_paths.simps intro!: composed moves_copy_one)

lemma moves_drop: "R w (drop_workspace env ws w)"
  by (simp add: drop_workspace_def put)

lemma moves_or_drop: "moves R m \<Longrightarrow> moves R (or_drop env ws m)"
  by (rule movesI) (auto simp: or_drop_def dest!: movesD intro: trans moves_drop split: prod.splits sum.splits)

lemmas commands = moves_run moves_run_result moves_lease moves_files moves_copy moves_or_drop moves_bounded

lemma moves_checks:
  "moves R (ensure_clean env ws)" "moves R (ensure_remote_head env ws b h)"
  "moves R (ensure_staged_paths env ws ps)" "moves R (run_patch_command env ws g c input)"
  unfolding ensure_clean_def ensure_remote_head_def ensure_staged_paths_def run_patch_command_def
  by (intro composed commands)+

lemma moves_clone: "moves R (clone_branch env i own repo b h token)"
  unfolding clone_branch_def Let_def by (intro composed commands moves_checks)

lemma moves_snapshot: "moves R (validate_snapshot env ws ps cs)"
  unfolding validate_snapshot_def prepare_validation_snapshot_def Let_def
  by (intro composed commands moves_validation)

lemma moves_publish: "moves R (publish_staged env ws g ps subject kind b h cs)"
  unfolding publish_staged_def by (intro composed commands moves_checks moves_snapshot)

lemma moves_repair_files: "moves R (repair_files env ws allowlist f)"
  by (auto intro!: movesI simp: repair_files_def put split: prod.splits)

lemma moves_feedback: "moves R (apply_feedback env ws g allowlist f b h cs)"
  unfolding apply_feedback_def by (intro composed commands moves_checks moves_repair_files moves_publish)

lemma moves_patches: "moves R (apply_patches env ws g ps)"
  by (induction ps) (auto simp only: apply_patches.simps intro!: composed commands moves_checks)

lemma moves_ci: "moves R (apply_ci_repair env ws g ps allowed b h cs)"
  unfolding apply_ci_repair_def Let_def by (intro composed commands moves_checks moves_patches moves_publish)

lemma moves_abort: "moves R (abort_rebase env ws)"
  using moves_run_result by (simp add: moves_def abort_rebase_def)

lemma moves_rebase: "moves R (rebase_onto env ws g b target h force cs)"
  unfolding rebase_onto_def rebase_or_abort_def publish_rebase_def Let_def
  by (intro composed commands moves_checks moves_abort moves_snapshot)

end

end
