(* ===== verification/Worker_Plan.thy ===== *)
theory Worker_Plan
  imports Workflow Approval Stack Pi_Boundary Workspace Github_Auth Reconcile Manifest
begin

text \<open>
  The plans and results of \<open>src/worker.rs\<close>: the JSON of a job's plan with the values that the
  worker writes into it and reads from it, the items it shows, and the results of a handler. The
  derived \<open>Serialize\<close> writes a structure as an object with one field per name, the derived
  \<open>Deserialize\<close> reads it from an object, or from an array in the order of the fields.
\<close>

datatype worker_error =
    Wk_Repository_Not_Found i64 | Wk_Pull_Request_Not_Found i64 i32 | Wk_Policy policy_error
  | Wk_Mutation_Admission_Required string | Wk_Unknown_Job_Kind string | Wk_Repository repository_error
  | Wk_Github_Auth github_auth_error | Wk_Github github_client_error | Wk_Workflow workflow_error
  | Wk_Contract contract_error | Wk_Queue queue_error | Wk_Pi_Unavailable | Wk_Pi_Serialization string
  | Wk_Pi pi_error | Wk_Lease_Lost | Wk_Plan_Serialization string | Wk_Workspace workspace_error
  | Wk_Review_Thread_Not_Found i64

section \<open>Derived encodings\<close>

text \<open>The fields by name; in an array the ones after the first \<open>required\<close> may be left out.\<close>

fun fields_of :: "nat \<Rightarrow> string list \<Rightarrow> json \<Rightarrow> json option list option" where
  "fields_of required names (JObj m) = Some (map (bt_get m) names)"
| "fields_of required names (JArr xs) =
     (if required \<le> length xs \<and> length xs \<le> length names
      then Some (map Some xs @ replicate (length names - length xs) None) else None)"
| "fields_of required names _ = None"

definition read_str :: "json option \<Rightarrow> string option" where
  "read_str v = Option.bind v as_str"

definition read_bool :: "json option \<Rightarrow> bool option" where
  "read_bool v = Option.bind v as_bool"

definition read_i32 :: "json option \<Rightarrow> i32 option" where
  "read_i32 v = Option.bind (Option.bind v as_i64) to_i32"

definition read_u32 :: "json option \<Rightarrow> nat option" where
  "read_u32 v = Option.bind (Option.bind v as_u64) (\<lambda>n. if n \<le> u32_max then Some n else None)"

definition read_optional :: "(json option \<Rightarrow> 'a option) \<Rightarrow> json option \<Rightarrow> 'a option option" where
  "read_optional read v = (if v = None \<or> v = Some JNull then Some None else map_option Some (read v))"

definition opt_json :: "('a \<Rightarrow> json) \<Rightarrow> 'a option \<Rightarrow> json" where
  "opt_json f v = (case v of None \<Rightarrow> JNull | Some x \<Rightarrow> f x)"

definition some_field :: "string \<Rightarrow> ('a \<Rightarrow> json) \<Rightarrow> 'a option \<Rightarrow> (string \<times> json) list" where
  "some_field k f v = (case v of None \<Rightarrow> [] | Some x \<Rightarrow> [(k, f x)])"

definition jnat :: "nat \<Rightarrow> json" where
  "jnat n = JNum (PosInt n)"

definition feedback_fields :: "string list" where
  "feedback_fields = [''id'', ''actor_login'', ''actor_type'', ''body'', ''resolved'', ''is_automation'',
     ''path'', ''start_line'', ''line'']"

definition feedback_json :: "feedback_record \<Rightarrow> json" where
  "feedback_json f = jobj ([(''id'', JStr (fr_id f)), (''actor_login'', JStr (fr_actor_login f)),
     (''actor_type'', JStr (fr_actor_type f)), (''body'', JStr (fr_body f)),
     (''resolved'', JBool (fr_resolved f)), (''is_automation'', JBool (fr_is_automation f))]
     @ some_field ''path'' JStr (fr_path f) @ some_field ''start_line'' jnat (fr_start_line f)
     @ some_field ''line'' jnat (fr_line f))"

definition read_feedback :: "json \<Rightarrow> feedback_record option" where
  "read_feedback v = Option.bind (fields_of 6 feedback_fields v) (\<lambda>fs. case fs of
       [i, l, t, b, r, a, p, s, e] \<Rightarrow>
         Option.bind (read_str i) (\<lambda>i. Option.bind (read_str l) (\<lambda>l. Option.bind (read_str t) (\<lambda>t.
         Option.bind (read_str b) (\<lambda>b. Option.bind (read_bool r) (\<lambda>r. Option.bind (read_bool a) (\<lambda>a.
         Option.bind (read_optional read_str p) (\<lambda>p. Option.bind (read_optional read_u32 s) (\<lambda>s.
         Option.bind (read_optional read_u32 e) (\<lambda>e.
         Some \<lparr>fr_id = i, fr_actor_login = l, fr_actor_type = t, fr_body = b, fr_resolved = r,
           fr_is_automation = a, fr_path = p, fr_start_line = s, fr_line = e\<rparr>)))))))))
     | _ \<Rightarrow> None)"

definition check_json :: "check_record \<Rightarrow> json" where
  "check_json c = jobj [(''external_id'', JStr (cr_external_id c)), (''name'', JStr (cr_name c)),
     (''app_id'', opt_json jint (cr_app_id c)), (''status'', JStr (cr_status c)),
     (''conclusion'', opt_json JStr (cr_conclusion c)), (''details_url'', opt_json JStr (cr_details_url c))]"

definition stack_fields :: "string list" where
  "stack_fields = [''number'', ''head_branch'', ''base_branch'', ''explicit_parent'']"

definition stack_json :: "stack_pull_request \<Rightarrow> json" where
  "stack_json p = jobj [(''number'', jint (spr_number p)), (''head_branch'', JStr (head_branch p)),
     (''base_branch'', JStr (base_branch p)), (''explicit_parent'', opt_json jint (explicit_parent p))]"

definition read_stack :: "json \<Rightarrow> stack_pull_request option" where
  "read_stack v = Option.bind (fields_of 4 stack_fields v) (\<lambda>fs. case fs of
       [n, h, b, e] \<Rightarrow>
         Option.bind (read_i32 n) (\<lambda>n. Option.bind (read_str h) (\<lambda>h. Option.bind (read_str b) (\<lambda>b.
         Option.bind (read_optional read_i32 e) (\<lambda>e.
         Some \<lparr>spr_number = n, head_branch = h, base_branch = b, explicit_parent = e\<rparr>))))
     | _ \<Rightarrow> None)"

fun read_all :: "(json \<Rightarrow> 'a option) \<Rightarrow> json list \<Rightarrow> 'a list option" where
  "read_all read [] = Some []"
| "read_all read (v # vs) = Option.bind (read v) (\<lambda>x. map_option (Cons x) (read_all read vs))"

definition read_stack_list :: "json \<Rightarrow> stack_pull_request list option" where
  "read_stack_list v = Option.bind (as_array v) (read_all read_stack)"

definition base_update_json :: "base_update \<Rightarrow> json" where
  "base_update_json u = jobj [(''pull_request'', jint (bu_pull_request u)),
     (''from_branch'', JStr (from_branch u)), (''to_branch'', JStr (to_branch u))]"

definition stack_plan_json :: "stack_plan \<Rightarrow> json" where
  "stack_plan_json p = jobj [(''merge_order'', JArr (map jint (merge_order p))),
     (''required_base_updates'', JArr (map base_update_json (required_base_updates p)))]"

definition strings :: "string list \<Rightarrow> json" where
  "strings xs = JArr (map JStr xs)"

section \<open>Reading a plan\<close>

text \<open>\<open>format!("feedback-{index}")\<close>.\<close>

definition feedback_item_id :: "nat \<Rightarrow> string" where
  "feedback_item_id i = ''feedback-'' @ show_nat i"

definition plan_item_is_skipped :: "json \<Rightarrow> string \<Rightarrow> bool" where
  "plan_item_is_skipped p i = (case Option.bind (jget ''skipped_items'' p) as_array of
       None \<Rightarrow> False | Some items \<Rightarrow> list_ex (\<lambda>v. as_str v = Some i) items)"

definition planned_feedback :: "json \<Rightarrow> json list option" where
  "planned_feedback p = Option.bind (jget ''feedback'' p) as_array"

definition plan_has_remaining_feedback :: "json \<Rightarrow> bool" where
  "plan_has_remaining_feedback p = (case planned_feedback p of
       None \<Rightarrow> False
     | Some items \<Rightarrow> list_ex (\<lambda>i. \<not> plan_item_is_skipped p (feedback_item_id i)) [0..<length items])"

definition next_feedback :: "json \<Rightarrow> json option" where
  "next_feedback p = Option.bind (planned_feedback p) (\<lambda>items.
     map_option (\<lambda>i. items ! i)
       (find (\<lambda>i. \<not> plan_item_is_skipped p (feedback_item_id i)) [0..<length items]))"

definition job_kind_summary :: "string \<Rightarrow> string" where
  "job_kind_summary k =
     (if k = ''reconcile'' then ''Refresh GitHub state and evaluate merge readiness''
      else if k = ''feedback_repair'' then ''Validate and apply an approved automation suggestion''
      else if k = ''ci_repair'' then ''Diagnose a GitHub Actions failure and prepare a repair plan''
      else if k = ''stack_rebase'' then ''Plan a safe pull request stack rebase''
      else ''Process a PiTools work item'')"

text \<open>The items of the feedback from an index on; \<open>started\<close> once one of them is not skipped.\<close>

fun feedback_items ::
  "json \<Rightarrow> item_status \<Rightarrow> bool \<Rightarrow> nat list \<Rightarrow> (worker_error, plan_item list) result" where
  "feedback_items p first started [] = Ok []"
| "feedback_items p first started (i # is) =
     (let skipped = plan_item_is_skipped p (feedback_item_id i);
          status = (if skipped then ItemSkipped else if \<not> started then first else ItemPending)
      in and_then (map_err Wk_Contract (new_plan_item (feedback_item_id i) ''Process automated feedback'' status)) (\<lambda>item.
         and_then (feedback_items p first (started \<or> \<not> skipped) is) (\<lambda>items.
         Ok (item # items))))"

definition single_item :: "leased_job \<Rightarrow> item_status \<Rightarrow> (worker_error, plan_item list) result" where
  "single_item job first = and_then (map_err Wk_Contract
     (new_plan_item (leased_kind job) (job_kind_summary (leased_kind job)) first)) (\<lambda>item. Ok [item])"

definition plan_items_for_job :: "leased_job \<Rightarrow> item_status \<Rightarrow> (worker_error, plan_item list) result" where
  "plan_items_for_job job first =
     (if leased_kind job = ''feedback_repair'' then
        let items = (case planned_feedback (leased_plan job) of None \<Rightarrow> [] | Some vs \<Rightarrow> vs)
        in and_then (feedback_items (leased_plan job) first False [0..<min (length items) 100]) (\<lambda>found.
           if found \<noteq> [] then Ok found else single_item job first)
      else single_item job first)"

section \<open>Results\<close>

definition skipped_item_result :: "string \<Rightarrow> json" where
  "skipped_item_result item = jobj [(''completed'', JBool True),
     (''changes'', strings [''skipped '' @ item @ '' as requested'']),
     (''tests'', strings []), (''remaining_blockers'', strings [])]"

definition waiting_for_approval :: "string \<Rightarrow> string \<Rightarrow> json" where
  "waiting_for_approval summary blocker = jobj [(''completed'', JBool False), (''waiting_approval'', JBool True),
     (''approval_details'', jobj [(''summary'', JStr summary), (''blocker'', JStr blocker)]),
     (''changes'', strings [summary]), (''tests'', strings []), (''remaining_blockers'', strings [blocker]),
     (''requires_approval'', JBool True)]"

definition result_lines :: "json \<Rightarrow> string \<Rightarrow> string list" where
  "result_lines v field = (case Option.bind (jget field v) as_array of
       None \<Rightarrow> [] | Some xs \<Rightarrow> List.map_filter as_str xs)"

definition reports_completed :: "json \<Rightarrow> bool" where
  "reports_completed v = (case Option.bind (jget ''completed'' v) as_bool of None \<Rightarrow> True | Some b \<Rightarrow> b)"

section \<open>Policies and rejections\<close>

definition parse_policy :: "(string \<Rightarrow> (string, policy) result) \<Rightarrow> string \<Rightarrow> (worker_error, policy) result" where
  "parse_policy yaml source =
     (if trim source = [] then Ok default_policy else map_err Wk_Policy (from_yaml yaml source))"

fun is_deterministic_feedback_rejection :: "workspace_error \<Rightarrow> bool" where
  "is_deterministic_feedback_rejection (Ws_Feedback e) = (case e of Io _ \<Rightarrow> False | _ \<Rightarrow> True)"
| "is_deterministic_feedback_rejection Ws_Repair_Not_Applied = True"
| "is_deterministic_feedback_rejection (Ws_Validation_Failed _ _) = True"
| "is_deterministic_feedback_rejection _ = False"

end
