(* ===== verification/Worker.thy ===== *)
theory Worker
  imports Worker_Plan
begin

text \<open>
  The worker, \<open>src/worker.rs\<close>: it leases a job, reads the repository and its policy, shows the work
  plan, runs the handler of the job's kind, and settles the job. Its world is the store together
  with everything outside (GitHub, processes, files, the provider). Other processes act between
  its steps: \<open>we_meanwhile\<close> is what they did to the world by the time of a statement. The clocks,
  fresh identifiers, the decoders and the texts of errors are parameters.
\<close>

record 'w worker_env =
  we_workspace :: "'w workspace_env"
  we_auth :: "'w github_app_auth"
  we_client :: "installation_token \<Rightarrow> (github_client_error, 'w github_client) result"
  we_decoders :: github_decoders
  we_pi_codec :: pi_codec
  we_nats :: "'w nats_client option"
  we_meanwhile :: "store \<times> 'w \<Rightarrow> store \<times> 'w"
  we_lease_lost :: "store \<times> 'w \<Rightarrow> bool"
  we_locked :: "'w \<Rightarrow> uuid list"
  we_now :: "'w \<Rightarrow> timestamp"
  we_utc :: "'w \<Rightarrow> timestamp"
  we_nanoseconds :: "'w \<Rightarrow> int"
  we_fresh :: "'w \<Rightarrow> uuid \<times> 'w"
  we_yaml :: "string \<Rightarrow> (string, policy) result"
  we_to_yaml :: "policy \<Rightarrow> (string, string) result"
  we_to_vec :: "policy \<Rightarrow> string"
  we_plan_vec :: "json \<Rightarrow> string"
  we_sha256_hex :: "string \<Rightarrow> string"
  we_printed :: "json \<Rightarrow> string"
  we_pretty :: "json \<Rightarrow> (string, string) result"
  we_codes_value :: "readiness_reason list \<Rightarrow> json"
  we_snapshot_value :: "readiness_snapshot \<Rightarrow> json"
  we_read_pi :: "json \<Rightarrow> (string, pi_job_result) result"
  we_pi_value :: "pi_job_result \<Rightarrow> (string, json) result"
  we_serde_error :: "json \<Rightarrow> string"
  we_show_stack_error :: "stack_error \<Rightarrow> string"
  we_show_error :: "worker_error \<Rightarrow> string"

type_synonym ('w, 'a) wk = "(store \<times> 'w, worker_error, 'a) io"

section \<open>Steps\<close>

text \<open>A statement on the database at its time, and a call to the outside.\<close>

definition on_db ::
  "'w worker_env \<Rightarrow> ('e \<Rightarrow> worker_error) \<Rightarrow> (timestamp \<Rightarrow> (store, 'e, 'a) io) \<Rightarrow> ('w, 'a) wk" where
  "on_db env wrap m w = (case we_meanwhile env w of (s, v) \<Rightarrow>
     (case m (we_now env v) s of (r, s') \<Rightarrow> (map_err wrap r, (s', v))))"

definition outside :: "('e \<Rightarrow> worker_error) \<Rightarrow> ('w \<Rightarrow> ('w, 'e, 'a) io) \<Rightarrow> ('w, 'a) wk" where
  "outside wrap m w = (case m (snd w) (snd w) of (r, v) \<Rightarrow> (map_err wrap r, (fst w, v)))"

definition github :: "('w, 'a) gh \<Rightarrow> ('w, 'a) wk" where
  "github m = outside Wk_Github (\<lambda>v. m)"

definition fresh_id :: "'w worker_env \<Rightarrow> ('w, uuid) wk" where
  "fresh_id env w = (case we_fresh env (snd w) of (i, v) \<Rightarrow> (Ok i, (fst w, v)))"

definition read_utc :: "'w worker_env \<Rightarrow> ('w, timestamp) wk" where
  "read_utc env w = (Ok (we_utc env (snd w)), w)"

definition coordinated ::
  "'w worker_env \<Rightarrow> (uuid \<Rightarrow> timestamp \<Rightarrow> (store \<times> 'w, workflow_error, 'a) io) \<Rightarrow> ('w, 'a) wk" where
  "coordinated env m = io_then (fresh_id env) (\<lambda>i w.
     case we_meanwhile env w of (s, v) \<Rightarrow> io_map_err Wk_Workflow (m i (we_now env v)) (s, v))"

text \<open>What a call answers, also when it fails.\<close>

definition attempt_call :: "('w, 'e, 'a) io \<Rightarrow> ('w, 'f, ('e, 'a) result) io" where
  "attempt_call m w = (case m w of (r, w') \<Rightarrow> (Ok r, w'))"

text \<open>The workspace as the worker uses it: its lease checks ask the same queue.\<close>

definition workspace_world :: "'w worker_env \<Rightarrow> (store \<times> 'w) workspace_env" where
  "workspace_world env = (let base = we_workspace env in \<lparr>
     wk_spawn = (\<lambda>c (s, v). case wk_spawn base c v of (r, v') \<Rightarrow> (r, (s, v'))),
     wk_path = wk_path base, wk_lossy = wk_lossy base,
     wk_assert_lease = (\<lambda>i n t w. case we_meanwhile env w of (s, v) \<Rightarrow>
        (Ok (assert_lease (we_now env v) i n t (queue s)), (s, v))),
     wk_files = (\<lambda>w. wk_files base (snd w)),
     wk_put_files = (\<lambda>fs (s, v). (s, wk_put_files base fs v)),
     wk_interfere = wk_interfere base, wk_cwd = wk_cwd base, wk_temp_dir = wk_temp_dir base,
     wk_current_exe = wk_current_exe base, wk_show_uuid = wk_show_uuid base\<rparr>)"

definition show_id :: "'w worker_env \<Rightarrow> uuid \<Rightarrow> string" where
  "show_id env = wk_show_uuid (we_workspace env)"

text \<open>The workspace goes when its scope ends, whatever the result.\<close>

definition with_workspace :: "'w worker_env \<Rightarrow> workspace \<Rightarrow> ('w, 'a) wk \<Rightarrow> ('w, 'a) wk" where
  "with_workspace env ws m w = (case m w of (r, w') \<Rightarrow> (r, drop_workspace (workspace_world env) ws w'))"

definition clone ::
  "'w worker_env \<Rightarrow> repository_context \<Rightarrow> string \<Rightarrow> string \<Rightarrow> string \<Rightarrow> ('w, workspace) wk" where
  "clone env rep branch sha token = io_then (fresh_id env) (\<lambda>i.
     io_map_err Wk_Workspace (clone_branch (workspace_world env) i (rc_owner rep) (rc_name rep) branch sha token))"

section \<open>Leases and policies\<close>

definition guard_of :: "string \<Rightarrow> leased_job \<Rightarrow> lease_guard" where
  "guard_of worker job = \<lparr>lg_job_id = leased_id job, lg_worker_id = worker, lg_lease_token = leased_token job\<rparr>"

definition guard_ensure :: "'w worker_env \<Rightarrow> lease_guard \<Rightarrow> ('w, unit) wk" where
  "guard_ensure env g = io_map_err Wk_Workspace (Workspace.ensure_lease (workspace_world env) g)"

definition ensure_job_lease :: "'w worker_env \<Rightarrow> string \<Rightarrow> leased_job \<Rightarrow> ('w, unit) wk" where
  "ensure_job_lease env worker job =
     io_then (on_db env Wk_Queue (\<lambda>now. query (\<lambda>s.
        assert_lease now (leased_id job) worker (leased_token job) (queue s)))) (\<lambda>ok.
     io_lift (if ok then Ok () else Err Wk_Lease_Lost))"

definition load_policy ::
  "'w worker_env \<Rightarrow> 'w github_client \<Rightarrow> repository_context \<Rightarrow> ('w, policy) wk" where
  "load_policy env c rep =
     io_then (github (get_repository_policy c (rc_owner rep) (rc_name rep) (rc_default_branch rep))) (\<lambda>source.
     io_then (io_lift (case source of None \<Rightarrow> Ok default_policy | Some t \<Rightarrow> parse_policy (we_yaml env) t)) (\<lambda>p.
     io_then (on_db env Wk_Repository (\<lambda>now. statement_unit
        (save_policy (we_to_yaml env) (revision (we_to_vec env) (we_sha256_hex env)) now (rc_id rep) p))) (\<lambda>_.
     io_ok p)))"

definition policy_revision :: "'w worker_env \<Rightarrow> policy \<Rightarrow> string" where
  "policy_revision env p = revision (we_to_vec env) (we_sha256_hex env) p"

end
