(* ===== verification/Worker_Handlers.thy ===== *)
theory Worker_Handlers
  imports Worker
begin

text \<open>
  The handlers of \<open>src/worker.rs\<close>, one per kind of job: reconciliation with the jobs that follow
  from it, the repair of feedback, the rebase of a stack, and the repair of a failed check with
  the provider's diagnosis.
\<close>

section \<open>Reconciliation\<close>

definition settle_snapshot :: "string \<Rightarrow> readiness_input \<Rightarrow> readiness_input" where
  "settle_snapshot i r = (case update_first (\<lambda>s. fs_id s = i) (\<lambda>s. s\<lparr>fs_resolved := True\<rparr>) (unresolved_feedback r) of
       None \<Rightarrow> r | Some fs \<Rightarrow> r\<lparr>unresolved_feedback := fs\<rparr>)"

text \<open>Feedback that was repaired or rejected before counts as resolved.\<close>

fun settle_feedback ::
  "'w worker_env \<Rightarrow> feedback_record list \<Rightarrow> readiness_input \<Rightarrow> ('w, feedback_record list \<times> readiness_input) wk" where
  "settle_feedback env [] r = io_ok ([], r)"
| "settle_feedback env (f # fs) r =
     io_then (on_db env Wk_Repository (\<lambda>now. query (feedback_resolution_eligible (fr_id f)))) (\<lambda>eligible.
     io_then (settle_feedback env fs (if eligible then settle_snapshot (fr_id f) r else r)) (\<lambda>(done, r').
     io_ok ((if eligible then f\<lparr>fr_resolved := True\<rparr> else f) # done, r')))"

definition snapshot_of_read :: "pull_request_context \<Rightarrow> github_pull_request \<Rightarrow> timestamp \<Rightarrow> pull_request_snapshot" where
  "snapshot_of_read p d now =
     (let merged = (pr_merged d = Some True)
      in \<lparr>prs_repository_id = pcx_repository_id p, prs_github_id = pcx_github_id p, prs_number = pcx_number p,
          prs_title = pcx_title p, prs_url = pcx_url p,
          prs_state = (if merged then Pr_Merged else if pr_state d = Some ''closed'' then Pr_Closed else Pr_Open),
          prs_draft = pr_draft d, prs_merged = merged,
          prs_head_sha = prb_sha (pr_head d), prs_base_sha = prb_sha (pr_base d),
          prs_head_branch = (case prb_reference (pr_head d) of None \<Rightarrow> pcx_head_branch p | Some b \<Rightarrow> b),
          prs_base_branch = (case prb_reference (pr_base d) of None \<Rightarrow> pcx_base_branch p | Some b \<Rightarrow> b),
          prs_author_login = pcx_author_login p, prs_updated_at = now\<rparr>)"

definition enqueue_job :: "'w worker_env \<Rightarrow> job_spec \<Rightarrow> ('w, uuid) wk" where
  "enqueue_job env spec = io_then (fresh_id env) (\<lambda>i.
     on_db env Wk_Queue (\<lambda>now. queue_statement (enqueue (we_printed env) now i spec)))"

definition repairable_feedback :: "policy \<Rightarrow> feedback_record list \<Rightarrow> feedback_record list" where
  "repairable_feedback p fs =
     filter (\<lambda>f. \<not> fr_resolved f \<and> is_configured_automation_actor p (fr_actor_login f)) fs"

definition feedback_plan :: "string \<Rightarrow> feedback_record list \<Rightarrow> json" where
  "feedback_plan policy_rev fs = jobj [(''source'', JStr ''reconcile''),
     (''feedback'', JArr (map feedback_json fs)), (''policy_revision'', JStr policy_rev)]"

definition enqueue_feedback ::
  "'w worker_env \<Rightarrow> repository_context \<Rightarrow> pull_request_context \<Rightarrow> policy \<Rightarrow> feedback_record list \<Rightarrow> ('w, unit) wk" where
  "enqueue_feedback env rep pr p fs =
     (let found = repairable_feedback p fs
      in if found = [] then io_ok ()
         else io_then (enqueue_job env \<lparr>spec_repository_id = rc_id rep, spec_pull_request_number = pcx_number pr,
                 spec_kind = FeedbackRepair, spec_plan = feedback_plan (policy_revision env p) found\<rparr>) (\<lambda>_. io_ok ()))"

definition failed_checks :: "check_record list \<Rightarrow> check_record list" where
  "failed_checks checks = filter (\<lambda>c. case cr_conclusion c of
       None \<Rightarrow> False | Some x \<Rightarrow> is_repairable_check_conclusion x) checks"

definition ci_plan :: "string \<Rightarrow> string \<Rightarrow> check_record list \<Rightarrow> json" where
  "ci_plan policy_rev head checks = jobj [(''source'', JStr ''reconcile''),
     (''checks'', JArr (map check_json checks)), (''head_sha'', JStr head),
     (''policy_revision'', JStr policy_rev)]"

definition enqueue_ci ::
  "'w worker_env \<Rightarrow> repository_context \<Rightarrow> pull_request_context \<Rightarrow> policy \<Rightarrow> check_record list \<Rightarrow> ('w, unit) wk" where
  "enqueue_ci env rep pr p checks =
     (let found = failed_checks checks
      in if found = [] then io_ok ()
         else io_then (enqueue_job env \<lparr>spec_repository_id = rc_id rep, spec_pull_request_number = pcx_number pr,
                 spec_kind = CiRepair, spec_plan = ci_plan (policy_revision env p) (pcx_head_sha pr) found\<rparr>)
              (\<lambda>_. io_ok ()))"

definition stack_candidate :: "policy \<Rightarrow> pull_request_context \<Rightarrow> stack_pull_request" where
  "stack_candidate p c = \<lparr>spr_number = pcx_number c, head_branch = pcx_head_branch c,
     base_branch = pcx_base_branch c, explicit_parent = bt_get (stack_parents p) (pcx_number c)\<rparr>"

definition own_component :: "i32 \<Rightarrow> stack_pull_request list \<Rightarrow> stack_pull_request list" where
  "own_component n prs = (case find (list_ex (\<lambda>c. spr_number c = n)) (partition_stacks prs) of
       None \<Rightarrow> [] | Some c \<Rightarrow> c)"

text \<open>The planner returns for every input (\<open>plan_stack_returns\<close>).\<close>

definition planned_stack :: "stack_pull_request list \<Rightarrow> (stack_error, stack_plan) result" where
  "planned_stack prs = the (plan_stack prs)"

definition rebase_job_plan :: "string \<Rightarrow> string \<Rightarrow> stack_pull_request list \<Rightarrow> stack_plan \<Rightarrow> json" where
  "rebase_job_plan policy_rev head component planned = jobj [(''source'', JStr ''reconcile''),
     (''pull_requests'', JArr (map stack_json component)), (''stack_plan'', stack_plan_json planned),
     (''head_sha'', JStr head), (''policy_revision'', JStr policy_rev)]"

definition enqueue_stack ::
  "'w worker_env \<Rightarrow> repository_context \<Rightarrow> pull_request_context \<Rightarrow> policy \<Rightarrow> ('w, unit) wk" where
  "enqueue_stack env rep pr p =
     io_then (on_db env Wk_Repository (\<lambda>now. query (open_pull_request_contexts (rc_id rep)))) (\<lambda>contexts.
     let component = own_component (pcx_number pr) (map (stack_candidate p) contexts)
     in case planned_stack component of
          Inl e \<Rightarrow> io_ok ()
        | Inr planned \<Rightarrow>
            if length (merge_order planned) > 1 \<and> last (merge_order planned) = pcx_number pr
            then io_then (enqueue_job env \<lparr>spec_repository_id = rc_id rep,
                   spec_pull_request_number = pcx_number pr, spec_kind = StackRebase,
                   spec_plan = rebase_job_plan (policy_revision env p) (pcx_head_sha pr) component planned\<rparr>)
                   (\<lambda>_. io_ok ())
            else io_ok ())"

definition enqueue_follow_up_jobs ::
  "'w worker_env \<Rightarrow> repository_context \<Rightarrow> pull_request_context \<Rightarrow> policy \<Rightarrow> feedback_record list
     \<Rightarrow> check_record list \<Rightarrow> ('w, unit) wk" where
  "enqueue_follow_up_jobs env rep pr p fs checks =
     io_then (enqueue_feedback env rep pr p fs) (\<lambda>_.
     io_then (enqueue_ci env rep pr p checks) (\<lambda>_.
     enqueue_stack env rep pr p))"

definition reconcile_result ::
  "'w worker_env \<Rightarrow> readiness_snapshot \<Rightarrow> feedback_record list \<Rightarrow> check_record list \<Rightarrow> json" where
  "reconcile_result env v fs checks = jobj [(''completed'', JBool True), (''ready'', JBool (ready v)),
     (''reason_codes'', we_codes_value env (reason_codes v)),
     (''changes'', strings [''updated pull request, feedback, checks, and readiness state'']),
     (''tests'', strings [''GitHub read set fetched and readiness evaluated'']),
     (''feedback_count'', jnat (length fs)), (''check_count'', jnat (length checks))]"

definition reconcile ::
  "'w worker_env \<Rightarrow> 'w github_client \<Rightarrow> repository_context \<Rightarrow> pull_request_context \<Rightarrow> policy \<Rightarrow> leased_job
     \<Rightarrow> ('w, json) wk" where
  "reconcile env c rep pr p job =
     io_then (github (read_pull_request c (we_decoders env) (rc_owner rep) (rc_name rep)
        (leased_pull_request_number job))) (\<lambda>data.
     let found = reconcile_read_set data p
     in io_then (settle_feedback env (feedback_of found) (readiness_of found)) (\<lambda>(fs, input).
        io_then (read_utc env) (\<lambda>updated.
        io_then (read_utc env) (\<lambda>evaluated.
        io_then (fresh_id env) (\<lambda>i.
        let v = evaluate evaluated i input p
        in io_then (on_db env Wk_Repository (\<lambda>now. save_reconciliation (we_codes_value env) (we_snapshot_value env)
              now (snapshot_of_read pr (rd_pull_request data) updated) v fs (checks_of found))) (\<lambda>_.
           io_then (enqueue_follow_up_jobs env rep pr p fs (checks_of found)) (\<lambda>_.
           io_ok (reconcile_result env v fs (checks_of found)))))))))"


section \<open>The pull request at the time of a repair\<close>

definition full_name :: "repository_context \<Rightarrow> string" where
  "full_name rep = rc_owner rep @ ''/'' @ rc_name rep"

definition head_repository :: "github_pull_request \<Rightarrow> string option" where
  "head_repository d = Option.bind (prb_repository (pr_head d)) (\<lambda>n. n)"

definition admit_head ::
  "repository_context \<Rightarrow> pull_request_context \<Rightarrow> github_pull_request \<Rightarrow> (worker_error, unit) result" where
  "admit_head rep pr d =
     and_then (ok_or (Wk_Mutation_Admission_Required ''pull request head repository identity is unavailable'')
        (head_repository d)) (\<lambda>found.
     and_then (reject_if (found \<noteq> full_name rep) (Wk_Mutation_Admission_Required
        ''fork pull request repairs are disabled until head-repository write scope is configured'')) (\<lambda>_.
     reject_if (prb_sha (pr_head d) \<noteq> pcx_head_sha pr \<or> prb_reference (pr_head d) \<noteq> Some (pcx_head_branch pr))
       (Wk_Mutation_Admission_Required ''pull request head changed since the repair plan was created'')))"

definition read_admitted_head ::
  "'w worker_env \<Rightarrow> 'w github_client \<Rightarrow> repository_context \<Rightarrow> pull_request_context \<Rightarrow> ('w, unit) wk" where
  "read_admitted_head env c rep pr =
     io_then (github (get_pull_request c (we_decoders env) (rc_owner rep) (rc_name rep) (pcx_number pr))) (\<lambda>d.
     io_lift (admit_head rep pr d))"

section \<open>Feedback repair\<close>

record repair_context =
  rx_repository :: repository_context
  rx_pull_request :: pull_request_context
  rx_policy :: policy
  rx_lease :: lease_guard

datatype feedback_target = Thread_Target i64 string | Conversation_Target

fun reply_target :: "feedback_target \<Rightarrow> feedback_reply_target" where
  "reply_target (Thread_Target i t) = ReviewThread"
| "reply_target Conversation_Target = PullRequestConversation"

fun target_error_text :: "feedback_target_error \<Rightarrow> string" where
  "target_error_text Unsupported = ''feedback target prefix is unsupported''"
| "target_error_text InvalidId = ''feedback target id is invalid''"

fun locate_target ::
  "'w worker_env \<Rightarrow> 'w github_client \<Rightarrow> repair_context \<Rightarrow> feedback_comment_target \<Rightarrow> ('w, feedback_target) wk" where
  "locate_target env c x (OnReviewComment i) =
     io_then (github (review_thread_id_for_comment c (we_decoders env) (rc_owner (rx_repository x))
        (rc_name (rx_repository x)) (pcx_number (rx_pull_request x)) i)) (\<lambda>found.
     io_lift (and_then (ok_or (Wk_Review_Thread_Not_Found i) found) (\<lambda>t. Ok (Thread_Target i t))))"
| "locate_target env c x (OnConversation i) = io_ok Conversation_Target"

definition feedback_of_record :: "feedback_record \<Rightarrow> feedback" where
  "feedback_of_record f = \<lparr>actor_login = fr_actor_login f, actor_type = fr_actor_type f,
     is_automation = fr_is_automation f, body = fr_body f, fb_path = fr_path f,
     start_line = fr_start_line f, line = fr_line f\<rparr>"

fun post_outcome ::
  "'w worker_env \<Rightarrow> 'w github_client \<Rightarrow> repair_context \<Rightarrow> feedback_target \<Rightarrow> string \<Rightarrow> ('w, github_comment) wk" where
  "post_outcome env c x (Thread_Target i t) text = github (reply_to_review_comment c (we_decoders env)
     (rc_owner (rx_repository x)) (rc_name (rx_repository x)) (pcx_number (rx_pull_request x)) i text)"
| "post_outcome env c x Conversation_Target text = github (create_issue_comment c (we_decoders env)
     (rc_owner (rx_repository x)) (rc_name (rx_repository x)) (pcx_number (rx_pull_request x)) text)"

fun resolve_target :: "'w worker_env \<Rightarrow> 'w github_client \<Rightarrow> feedback_target \<Rightarrow> ('w, unit) wk" where
  "resolve_target env c (Thread_Target i t) = github (resolve_review_thread c (we_decoders env) t)"
| "resolve_target env c Conversation_Target = io_ok ()"

definition publish_feedback_outcome ::
  "'w worker_env \<Rightarrow> 'w github_client \<Rightarrow> repair_context \<Rightarrow> feedback_target \<Rightarrow> string \<Rightarrow> ('w, unit) wk" where
  "publish_feedback_outcome env c x target text =
     io_then (guard_ensure env (rx_lease x)) (\<lambda>_.
     io_then (post_outcome env c x target text) (\<lambda>_.
     io_then (guard_ensure env (rx_lease x)) (\<lambda>_.
     resolve_target env c target)))"

fun rejected_change :: "feedback_target \<Rightarrow> string" where
  "rejected_change (Thread_Target i t) = ''rejected automated feedback after deterministic validation''"
| "rejected_change Conversation_Target = ''rejected automated feedback and posted a PR-level outcome comment''"

fun applied_change :: "feedback_target \<Rightarrow> string \<Rightarrow> string" where
  "applied_change (Thread_Target i t) p = ''applied automated feedback to '' @ p"
| "applied_change Conversation_Target p =
     ''applied automated feedback to '' @ p @ '' and posted a PR-level outcome comment''"

definition feedback_rejected ::
  "'w worker_env \<Rightarrow> 'w github_client \<Rightarrow> repair_context \<Rightarrow> feedback_target \<Rightarrow> string \<Rightarrow> ('w, json) wk" where
  "feedback_rejected env c x target i =
     io_then (publish_feedback_outcome env c x target (render_feedback_reply (RejectedReply (reply_target target)))) (\<lambda>_.
     io_then (on_db env Wk_Repository (\<lambda>now. statement_unit (\<lambda>s. Ok (mark_feedback_rejected now i s)))) (\<lambda>_.
     io_ok (jobj [(''completed'', JBool True), (''changes'', strings [rejected_change target]),
       (''tests'', strings []),
       (''remaining_blockers'', strings [''human follow-up remains required for the rejected automation suggestion'']),
       (''feedback_disposition'', JStr ''rejected''), (''resolution_eligible'', JBool False)])))"

definition feedback_applied ::
  "'w worker_env \<Rightarrow> 'w github_client \<Rightarrow> repair_context \<Rightarrow> feedback_target \<Rightarrow> string \<Rightarrow> repair_commit \<Rightarrow> ('w, json) wk" where
  "feedback_applied env c x target i r =
     io_then (publish_feedback_outcome env c x target
        (render_feedback_reply (AppliedReply (reply_target target) (rcm_path r) (rcm_commit r)))) (\<lambda>_.
     io_then (on_db env Wk_Repository (\<lambda>now. statement_unit (\<lambda>s. Ok (mark_feedback_resolved now i s)))) (\<lambda>_.
     io_ok (jobj [(''completed'', JBool True), (''changes'', strings [applied_change target (rcm_path r)]),
       (''tests'', strings [''configured validation commands passed before push'']),
       (''commit'', JStr (rcm_commit r)), (''resolution_eligible'', JBool True)])))"

definition repair_in_workspace ::
  "'w worker_env \<Rightarrow> 'w github_client \<Rightarrow> repair_context \<Rightarrow> feedback_target \<Rightarrow> feedback_record \<Rightarrow> workspace \<Rightarrow> ('w, json) wk" where
  "repair_in_workspace env c x target f ws =
     io_then (guard_ensure env (rx_lease x)) (\<lambda>_.
     io_then (attempt_call (apply_feedback (workspace_world env) ws (rx_lease x) (automation_actors (rx_policy x))
        (feedback_of_record f) (pcx_head_branch (rx_pull_request x)) (pcx_head_sha (rx_pull_request x))
        (validation_commands (rx_policy x)))) (\<lambda>outcome.
     case outcome of
       Inr r \<Rightarrow> feedback_applied env c x target (fr_id f) r
     | Inl e \<Rightarrow>
         if is_deterministic_feedback_rejection e then feedback_rejected env c x target (fr_id f)
         else io_lift (Err (Wk_Workspace e))))"

definition feedback_repair ::
  "'w worker_env \<Rightarrow> 'w github_client \<Rightarrow> repair_context \<Rightarrow> json \<Rightarrow> string \<Rightarrow> ('w, json) wk" where
  "feedback_repair env c x job_plan token =
     (case next_feedback job_plan of
        None \<Rightarrow> io_ok (jobj [(''completed'', JBool True), (''changes'', strings [''skipped all planned feedback items'']),
            (''tests'', strings []), (''remaining_blockers'', strings [])])
      | Some item \<Rightarrow>
          io_then (io_lift (ok_or (Wk_Plan_Serialization (we_serde_error env item)) (read_feedback item))) (\<lambda>f.
          io_then (read_admitted_head env c (rx_repository x) (rx_pull_request x)) (\<lambda>_.
          io_then (io_lift (map_err (\<lambda>e. Wk_Plan_Serialization (target_error_text e))
             (parse_feedback_comment_target (fr_id f)))) (\<lambda>found.
          io_then (locate_target env c x found) (\<lambda>target.
          io_then (clone env (rx_repository x) (pcx_head_branch (rx_pull_request x))
             (pcx_head_sha (rx_pull_request x)) token) (\<lambda>ws.
          with_workspace env ws (repair_in_workspace env c x target f ws)))))))"


section \<open>The provider's diagnosis\<close>

definition jfloat :: "64 word \<Rightarrow> json" where
  "jfloat bits = (if drop_bit 53 (push_bit 1 bits) = 0x7FF then JNull else JNum (Float bits))"

definition annotation_json :: "check_annotation \<Rightarrow> json" where
  "annotation_json a = jobj [(''path'', JStr (ann_path a)), (''start_line'', opt_json jnat (ann_start_line a)),
     (''end_line'', opt_json jnat (ann_end_line a)), (''start_column'', opt_json jnat (ann_start_column a)),
     (''end_column'', opt_json jnat (ann_end_column a)), (''annotation_level'', opt_json JStr (ann_level a)),
     (''message'', JStr (ann_message a)), (''title'', opt_json JStr (ann_title a)),
     (''raw_details'', opt_json JStr (ann_raw_details a)), (''blob_href'', opt_json JStr (ann_blob_href a))]"

definition output_json :: "check_run_output_read \<Rightarrow> json" where
  "output_json r = jobj [(''title'', opt_json JStr (crr_title r)), (''summary'', opt_json JStr (crr_summary r)),
     (''text'', opt_json JStr (crr_text r))]"

definition check_output_json :: "github_check_run \<Rightarrow> json \<Rightarrow> json option \<Rightarrow> json" where
  "check_output_json run annotations log = jobj [(''id'', jint (gcr_id run)), (''name'', JStr (gcr_name run)),
     (''status'', JStr (gcr_status run)), (''conclusion'', opt_json JStr (gcr_conclusion run)),
     (''details_url'', opt_json JStr (gcr_details_url run)), (''output'', opt_json output_json (gcr_output run)),
     (''annotations'', annotations), (''actions_log'', opt_json (\<lambda>v. v) log)]"

definition fetch_annotations ::
  "'w worker_env \<Rightarrow> 'w github_client \<Rightarrow> repository_context \<Rightarrow> i64 \<Rightarrow> ('w, json) wk" where
  "fetch_annotations env c rep i =
     io_then (attempt_call (github (list_check_run_annotations c (we_decoders env) (rc_owner rep) (rc_name rep) i))) (\<lambda>r.
     io_ok (JArr (case r of Inl e \<Rightarrow> [] | Inr anns \<Rightarrow> map annotation_json anns)))"

definition fetch_actions_log ::
  "'w worker_env \<Rightarrow> 'w github_client \<Rightarrow> repository_context \<Rightarrow> github_check_run \<Rightarrow> ('w, json option) wk" where
  "fetch_actions_log env c rep run =
     (if (case gcr_conclusion run of None \<Rightarrow> False | Some x \<Rightarrow> is_repairable_check_conclusion x) then
        (case actions_job_id_from_details_url (gh_parse c) (gcr_details_url run) of
           None \<Rightarrow> io_ok None
         | Some i \<Rightarrow>
             io_then (attempt_call (github (download_workflow_job_logs c (rc_owner rep) (rc_name rep) i))) (\<lambda>r.
             io_ok (case r of Inl e \<Rightarrow> None | Inr log \<Rightarrow> Some (JStr log))))
      else io_ok None)"

definition check_evidence ::
  "'w worker_env \<Rightarrow> 'w github_client \<Rightarrow> repository_context \<Rightarrow> i64 \<Rightarrow> ('w, json list) wk" where
  "check_evidence env c rep i =
     io_then (attempt_call (github (get_check_run c (we_decoders env) (rc_owner rep) (rc_name rep) i))) (\<lambda>r.
     case r of
       Inl e \<Rightarrow> io_ok []
     | Inr run \<Rightarrow>
         io_then (fetch_annotations env c rep (gcr_id run)) (\<lambda>annotations.
         io_then (fetch_actions_log env c rep run) (\<lambda>log.
         io_ok [check_output_json run annotations log])))"

definition check_run_number :: "json \<Rightarrow> i64 option" where
  "check_run_number check = Option.bind (Option.bind (jget ''external_id'' check) as_str) parse_i64"

fun check_outputs ::
  "'w worker_env \<Rightarrow> 'w github_client \<Rightarrow> repository_context \<Rightarrow> json list \<Rightarrow> ('w, json list) wk" where
  "check_outputs env c rep [] = io_ok []"
| "check_outputs env c rep (v # vs) =
     (case check_run_number v of
        None \<Rightarrow> check_outputs env c rep vs
      | Some i \<Rightarrow>
          io_then (check_evidence env c rep i) (\<lambda>found.
          io_then (check_outputs env c rep vs) (\<lambda>others.
          io_ok (found @ others))))"

abbreviation max_evidence_checks :: nat where "max_evidence_checks \<equiv> 16"

text \<open>The redaction of the evidence returns for every text (\<open>redaction_complete\<close>).\<close>

definition ci_failure_evidence ::
  "'w worker_env \<Rightarrow> 'w github_client \<Rightarrow> repository_context \<Rightarrow> leased_job \<Rightarrow> ('w, string) wk" where
  "ci_failure_evidence env c rep job =
     io_then (check_outputs env c rep
       (case Option.bind (jget ''checks'' (leased_plan job)) as_array of
          None \<Rightarrow> [] | Some checks \<Rightarrow> take max_evidence_checks checks)) (\<lambda>outputs.
     io_lift (map_err Wk_Pi_Serialization
       (the (prepare_ci_evidence (we_pretty env) (leased_plan job) (JArr outputs)))))"

text \<open>The files that may be shown, in the order of the policy, up to the bound on their bytes.\<close>

fun snapshot_files ::
  "'w worker_env \<Rightarrow> 'w github_client \<Rightarrow> repair_context \<Rightarrow> string list \<Rightarrow> nat \<Rightarrow> ('w, pi_snapshot_file list) wk" where
  "snapshot_files env c x [] bytes = io_ok []"
| "snapshot_files env c x (p # ps) bytes =
     io_then (guard_ensure env (rx_lease x)) (\<lambda>_.
     io_then (github (get_repository_file c (rc_owner (rx_repository x)) (rc_name (rx_repository x)) p
        (pcx_head_sha (rx_pull_request x)) max_pi_snapshot_file_bytes)) (\<lambda>found.
     case found of
       None \<Rightarrow> snapshot_files env c x ps bytes
     | Some content \<Rightarrow>
         if bytes + length content > max_pi_snapshot_bytes then io_ok []
         else
           io_then (snapshot_files env c x ps (bytes + length content)) (\<lambda>others.
           io_ok (\<lparr>sf_path = p, sf_content = content\<rparr> # others))))"

definition pi_diagnosis ::
  "'w worker_env \<Rightarrow> 'w github_client \<Rightarrow> repair_context \<Rightarrow> leased_job \<Rightarrow> ('w, pi_job_result) wk" where
  "pi_diagnosis env c x job =
     (case we_nats env of
        None \<Rightarrow> io_lift (Err Wk_Pi_Unavailable)
      | Some nats \<Rightarrow>
          io_then (ci_failure_evidence env c (rx_repository x) job) (\<lambda>evidence.
          io_then (snapshot_files env c x
             (take max_pi_snapshot_files (repair_allowed_paths (rx_policy x))) 0) (\<lambda>files.
          io_then (fresh_id env) (\<lambda>nonce.
          outside Wk_Pi (\<lambda>v. execute_nats (we_pi_codec env) nats
            \<lparr>pq_protocol_version = ''pitools.pi/v1'', pq_job_id = leased_id job,
             pq_repository = full_name (rx_repository x), pq_snapshot_path = ''snapshot.json'',
             pq_snapshot_files = files, pq_allowed_paths = repair_allowed_paths (rx_policy x),
             pq_failure_evidence = Some evidence, pq_policy_revision = policy_revision env (rx_policy x),
             pq_nonce = show_id env nonce\<rparr>)))))"

section \<open>CI repair\<close>

definition diagnosis_fields :: "pi_job_result \<Rightarrow> (string \<times> json) list" where
  "diagnosis_fields r = [(''diagnosis'', JStr (px_diagnosis r)), (''confidence'', jfloat (px_confidence r)),
     (''proposed_files'', strings (px_proposed_files r)),
     (''validation_commands'', strings (px_validation_commands r)), (''risks'', strings (px_risks r)),
     (''requires_approval'', JBool True)]"

definition diagnosis_only :: "pi_job_result \<Rightarrow> json" where
  "diagnosis_only r = jobj ([(''completed'', JBool False),
     (''changes'', strings [''received a bounded CI diagnosis'']), (''tests'', strings []),
     (''remaining_blockers'', strings [''Pi did not return a typed patch; no CI mutation was attempted''])]
     @ diagnosis_fields r)"

definition ci_waiting :: "pi_job_result \<Rightarrow> json \<Rightarrow> json" where
  "ci_waiting r serialized = jobj ([(''completed'', JBool False), (''waiting_approval'', JBool True),
     (''approval_details'', jobj [(''pi_result'', serialized)]),
     (''changes'', strings [''received a typed CI repair proposal'']), (''tests'', strings []),
     (''remaining_blockers'',
        strings [''an authorized reviewer must approve the typed patch before it is applied''])]
     @ diagnosis_fields r)"

definition ci_applied :: "pi_job_result \<Rightarrow> ci_repair_commit \<Rightarrow> json" where
  "ci_applied r done = jobj [(''completed'', JBool True),
     (''changes'', strings (map (\<lambda>p. ''applied typed CI repair to '' @ p) (crc_paths done))),
     (''tests'', strings [''configured validation commands passed before push'']),
     (''commit'', JStr (crc_commit done)), (''diagnosis'', JStr (px_diagnosis r)),
     (''confidence'', jfloat (px_confidence r))]"

definition proposed_repair ::
  "'w worker_env \<Rightarrow> 'w github_client \<Rightarrow> repair_context \<Rightarrow> leased_job \<Rightarrow> ('w, pi_job_result) wk" where
  "proposed_repair env c x job =
     (case jget ''pi_result'' (leased_plan job) of
        Some v \<Rightarrow> io_lift (map_err Wk_Plan_Serialization (we_read_pi env v))
      | None \<Rightarrow> pi_diagnosis env c x job)"

definition apply_proposal ::
  "'w worker_env \<Rightarrow> 'w github_client \<Rightarrow> repair_context \<Rightarrow> pi_job_result \<Rightarrow> string \<Rightarrow> ('w, json) wk" where
  "apply_proposal env c x r token =
     io_then (read_admitted_head env c (rx_repository x) (rx_pull_request x)) (\<lambda>_.
     io_then (clone env (rx_repository x) (pcx_head_branch (rx_pull_request x))
        (pcx_head_sha (rx_pull_request x)) token) (\<lambda>ws.
     with_workspace env ws
       (io_then (guard_ensure env (rx_lease x)) (\<lambda>_.
        io_then (io_map_err Wk_Workspace (apply_ci_repair (workspace_world env) ws (rx_lease x)
           (px_proposed_patches r) (repair_allowed_paths (rx_policy x)) (pcx_head_branch (rx_pull_request x))
           (pcx_head_sha (rx_pull_request x)) (validation_commands (rx_policy x)))) (\<lambda>done.
        io_ok (ci_applied r done))))))"

definition ci_repair ::
  "'w worker_env \<Rightarrow> 'w github_client \<Rightarrow> repair_context \<Rightarrow> leased_job \<Rightarrow> string \<Rightarrow> ('w, json) wk" where
  "ci_repair env c x job token =
     io_then (proposed_repair env c x job) (\<lambda>r.
     if px_proposed_patches r = [] then io_ok (diagnosis_only r)
     else
       io_then (io_lift (map_err (\<lambda>e. Wk_Mutation_Admission_Required (pc_show_ci_error (we_pi_codec env) e))
          (admit_ci_mutation (length (px_proposed_patches r)) (px_requires_approval r)
             (plan_is_approved (we_plan_vec env) (we_sha256_hex env) (leased_plan job))))) (\<lambda>admission.
       case admission of
         NoMutation \<Rightarrow> io_lift (Err (Wk_Mutation_Admission_Required
           ''CI mutation admission was requested without a typed patch''))
       | AwaitApproval \<Rightarrow>
           io_then (io_lift (map_err Wk_Pi_Serialization (we_pi_value env r))) (\<lambda>serialized.
           io_ok (ci_waiting r serialized))
       | Admitted \<Rightarrow> apply_proposal env c x r token))"


section \<open>Rebasing a stack\<close>

definition is_open :: "github_pull_request \<Rightarrow> bool" where
  "is_open d \<longleftrightarrow> pr_state d = Some ''open'' \<and> pr_merged d \<noteq> Some True"

definition pull_text :: "i32 \<Rightarrow> string" where
  "pull_text n = ''pull request '' @ show_int n"

definition refuse :: "string \<Rightarrow> worker_error" where
  "refuse reason = Wk_Mutation_Admission_Required reason"

text \<open>Whether an update is still to be made, was made before, or no longer fits.\<close>

definition update_pending :: "base_update \<Rightarrow> github_pull_request \<Rightarrow> (worker_error, bool) result" where
  "update_pending u d =
     and_then (reject_if (\<not> is_open d) (refuse (pull_text (bu_pull_request u) @ '' is no longer open''))) (\<lambda>_.
     case prb_reference (pr_base d) of
       None \<Rightarrow> Err (refuse (pull_text (bu_pull_request u) @ '' base branch is unavailable''))
     | Some b \<Rightarrow>
         if b = from_branch u then Ok True
         else if b = to_branch u then Ok False
         else Err (refuse (pull_text (bu_pull_request u) @ '' base changed from '' @ from_branch u @ '' to '' @ b)))"

fun pending_updates ::
  "'w worker_env \<Rightarrow> 'w github_client \<Rightarrow> repository_context \<Rightarrow> lease_guard \<Rightarrow> base_update list
     \<Rightarrow> ('w, base_update list) wk" where
  "pending_updates env c rep g [] = io_ok []"
| "pending_updates env c rep g (u # us) =
     io_then (guard_ensure env g) (\<lambda>_.
     io_then (github (get_pull_request c (we_decoders env) (rc_owner rep) (rc_name rep) (bu_pull_request u))) (\<lambda>d.
     io_then (io_lift (update_pending u d)) (\<lambda>still.
     io_then (pending_updates env c rep g us) (\<lambda>others.
     io_ok (if still then u # others else others)))))"

text \<open>
  A step of the loop over the branches either goes on with a value or stops with a blocker.
\<close>

datatype 'a step = Stop string | Go 'a

definition admit_branch ::
  "repository_context \<Rightarrow> base_update list \<Rightarrow> i32 \<Rightarrow> stack_pull_request \<Rightarrow> string \<Rightarrow> github_pull_request
     \<Rightarrow> (worker_error, string step) result" where
  "admit_branch rep updates n p target d =
     (let it = pull_text n
      in if \<not> is_open d then Ok (Stop (it @ '' is no longer open''))
         else if head_repository d \<noteq> Some (full_name rep)
         then Ok (Stop (it @ '' is a fork head; branch-history writes are disabled''))
         else
           and_then (ok_or (refuse (it @ '' head branch is unavailable'')) (prb_reference (pr_head d))) (\<lambda>branch.
           if branch \<noteq> head_branch p
           then Ok (Stop (it @ '' head branch changed from '' @ head_branch p @ '' to '' @ branch))
           else
             and_then (ok_or (refuse (it @ '' base branch is unavailable'')) (prb_reference (pr_base d))) (\<lambda>base.
             if base \<noteq> target \<and> \<not> list_ex (\<lambda>u. bu_pull_request u = n \<and> from_branch u = base \<and> to_branch u = target) updates
             then Ok (Stop (it @ '' base is '' @ base @ '', expected '' @ target))
             else Ok (Go branch))))"

definition may_force :: "policy \<Rightarrow> string \<Rightarrow> bool" where
  "may_force p branch \<longleftrightarrow> allow_bot_force_push p \<and> list_ex (\<lambda>b. b = branch) (bot_owned_branches p)"

definition rebase_change :: "string \<Rightarrow> string \<Rightarrow> rebase_commit \<Rightarrow> string" where
  "rebase_change branch target r =
     (if rbc_before r = rbc_after r then ''verified '' @ branch @ '' is already based on '' @ target
      else ''rebased '' @ branch @ '' onto '' @ rbc_target_branch r @ '' and pushed ''
        @ (if rbc_force_pushed r then ''with force-with-lease'' else ''without history rewrite''))"

definition rebase_branch ::
  "'w worker_env \<Rightarrow> repository_context \<Rightarrow> policy \<Rightarrow> lease_guard \<Rightarrow> string \<Rightarrow> string \<Rightarrow> string \<Rightarrow> string
     \<Rightarrow> ('w, string step) wk" where
  "rebase_branch env rep p g branch target sha token =
     io_then (clone env rep branch sha token) (\<lambda>ws.
     with_workspace env ws
       (io_then (attempt_call (rebase_onto (workspace_world env) ws g branch target sha (may_force p branch)
          (validation_commands p))) (\<lambda>r.
        io_lift (case r of
            Inr done \<Rightarrow> Ok (Go (rebase_change branch target done))
          | Inl (Ws_Rebase_Requires_Force_Push b t) \<Rightarrow> Ok (Stop (''rebase of '' @ b @ '' onto '' @ t
              @ '' requires an explicitly authorized bot-owned branch rewrite''))
          | Inl e \<Rightarrow> Err (Wk_Workspace e)))))"

definition target_of ::
  "(i32, stack_pull_request) btree_map \<Rightarrow> i32 option \<Rightarrow> stack_pull_request \<Rightarrow> (worker_error, string) result" where
  "target_of by_number previous p = (case previous of
       None \<Rightarrow> Ok (base_branch p)
     | Some n \<Rightarrow> and_then (ok_or (refuse (''stack plan references missing parent '' @ pull_text n)) (bt_get by_number n))
         (\<lambda>q. Ok (head_branch q)))"

text \<open>The changes made and the blocker that ended the loop, if one did.\<close>

fun rebase_branches ::
  "'w worker_env \<Rightarrow> 'w github_client \<Rightarrow> repository_context \<Rightarrow> policy \<Rightarrow> lease_guard \<Rightarrow> string
     \<Rightarrow> base_update list \<Rightarrow> (i32, stack_pull_request) btree_map \<Rightarrow> i32 option \<Rightarrow> i32 list
     \<Rightarrow> string list \<Rightarrow> ('w, string list \<times> string list) wk" where
  "rebase_branches env c rep p g token updates by_number previous [] changes = io_ok (changes, [])"
| "rebase_branches env c rep p g token updates by_number previous (n # ns) changes =
     io_then (io_lift (ok_or (refuse (''stack plan references missing '' @ pull_text n)) (bt_get by_number n))) (\<lambda>pr.
     io_then (io_lift (target_of by_number previous pr)) (\<lambda>target.
     io_then (guard_ensure env g) (\<lambda>_.
     io_then (github (get_pull_request c (we_decoders env) (rc_owner rep) (rc_name rep) n)) (\<lambda>d.
     io_then (io_lift (admit_branch rep updates n pr target d)) (\<lambda>admitted.
     case admitted of
       Stop blocker \<Rightarrow> io_ok (changes, [blocker])
     | Go branch \<Rightarrow>
         io_then (rebase_branch env rep p g branch target (prb_sha (pr_head d)) token) (\<lambda>done.
         case done of
           Stop blocker \<Rightarrow> io_ok (changes, [blocker])
         | Go change \<Rightarrow>
             rebase_branches env c rep p g token updates by_number (Some n) ns (changes @ [change])))))))"

fun apply_base_updates ::
  "'w worker_env \<Rightarrow> 'w github_client \<Rightarrow> repository_context \<Rightarrow> lease_guard \<Rightarrow> base_update list \<Rightarrow> string list
     \<Rightarrow> ('w, string list) wk" where
  "apply_base_updates env c rep g [] changes = io_ok changes"
| "apply_base_updates env c rep g (u # us) changes =
     io_then (guard_ensure env g) (\<lambda>_.
     io_then (github (update_pull_request_base c (we_decoders env) (rc_owner rep) (rc_name rep)
        (bu_pull_request u) (to_branch u))) (\<lambda>updated.
     if prb_reference (pr_base updated) \<noteq> Some (to_branch u)
     then io_lift (Err (refuse (''GitHub did not confirm base update for '' @ pull_text (bu_pull_request u))))
     else apply_base_updates env c rep g us (changes @ [''updated '' @ pull_text (bu_pull_request u)
       @ '' base from '' @ from_branch u @ '' to '' @ to_branch u])))"

definition planned_pull_requests :: "'w worker_env \<Rightarrow> json \<Rightarrow> (worker_error, stack_pull_request list) result" where
  "planned_pull_requests env job_plan =
     and_then (ok_or (refuse ''stack plan is empty'') (jget ''pull_requests'' job_plan)) (\<lambda>v.
     ok_or (Wk_Plan_Serialization (we_serde_error env v)) (read_stack_list v))"

definition stack_result :: "stack_plan \<Rightarrow> string list \<Rightarrow> string list \<Rightarrow> json" where
  "stack_result planned changes blockers = jobj [(''completed'', JBool (blockers = [])),
     (''changes'', strings changes),
     (''tests'', strings [''GitHub confirmed stack bases; branch rebases used exact remote-head leases'']),
     (''remaining_blockers'', strings blockers), (''merge_order'', JArr (map jint (merge_order planned))),
     (''required_base_updates'', JArr (map base_update_json (required_base_updates planned)))]"

definition stack_rebase ::
  "'w worker_env \<Rightarrow> 'w github_client \<Rightarrow> repository_context \<Rightarrow> policy \<Rightarrow> lease_guard \<Rightarrow> json \<Rightarrow> string
     \<Rightarrow> ('w, json) wk" where
  "stack_rebase env c rep p g job_plan token =
     io_then (io_lift (planned_pull_requests env job_plan)) (\<lambda>prs.
     io_then (io_lift (map_err (\<lambda>e. refuse (we_show_stack_error env e)) (planned_stack prs))) (\<lambda>planned.
     io_then (pending_updates env c rep g (required_base_updates planned)) (\<lambda>pending.
     io_then (rebase_branches env c rep p g token (required_base_updates planned) (index_by_number prs) None
        (merge_order planned) [''computed a deterministic base-most to tip-most stack order'']) (\<lambda>(changes, blockers).
     if blockers = []
     then io_then (apply_base_updates env c rep g pending changes) (\<lambda>all_changes.
            io_ok (stack_result planned all_changes []))
     else io_ok (stack_result planned changes blockers)))))"

end
