(* ===== verification/Worker_Run.thy ===== *)
theory Worker_Run
  imports Worker_Handlers
begin

text \<open>
  A job from its lease to its end, \<open>src/worker.rs\<close>: the reads and the policy, the work plan on
  GitHub, the handler of the kind with the approval it may need, the summary or the parking for
  approval, and the mark on the queue; and the loops of the worker.
\<close>

section \<open>The handler of a job\<close>

definition approved_by :: "'w worker_env \<Rightarrow> leased_job \<Rightarrow> bool" where
  "approved_by env job = plan_is_approved (we_plan_vec env) (we_sha256_hex env) (leased_plan job)"

definition run_feedback_job ::
  "'w worker_env \<Rightarrow> 'w github_client \<Rightarrow> repair_context \<Rightarrow> leased_job \<Rightarrow> string \<Rightarrow> ('w, json) wk" where
  "run_feedback_job env c x job token =
     (if require_approval (rx_policy x) \<and> \<not> approved_by env job
          \<and> plan_has_remaining_feedback (leased_plan job)
      then io_ok (waiting_for_approval ''automation feedback repair is ready for review''
        ''approve the plan to apply the deterministic suggestion'')
      else feedback_repair env c x (leased_plan job) token)"

definition run_stack_job ::
  "'w worker_env \<Rightarrow> 'w github_client \<Rightarrow> repair_context \<Rightarrow> leased_job \<Rightarrow> string \<Rightarrow> ('w, json) wk" where
  "run_stack_job env c x job token =
     (if plan_item_is_skipped (leased_plan job) ''stack_rebase'' then io_ok (skipped_item_result ''stack rebase'')
      else if require_approval (rx_policy x) \<and> \<not> approved_by env job
      then io_ok (waiting_for_approval ''a deterministic stack update is ready for review''
        ''approve the plan to apply safe base updates'')
      else stack_rebase env c (rx_repository x) (rx_policy x) (rx_lease x) (leased_plan job) token)"

definition run_ci_job ::
  "'w worker_env \<Rightarrow> 'w github_client \<Rightarrow> repair_context \<Rightarrow> leased_job \<Rightarrow> string \<Rightarrow> ('w, json) wk" where
  "run_ci_job env c x job token =
     (if plan_item_is_skipped (leased_plan job) ''ci_repair'' then io_ok (skipped_item_result ''CI repair'')
      else ci_repair env c x job token)"

definition run_handler ::
  "'w worker_env \<Rightarrow> 'w github_client \<Rightarrow> repair_context \<Rightarrow> leased_job \<Rightarrow> string \<Rightarrow> ('w, json) wk" where
  "run_handler env c x job token =
     (if leased_kind job = ''reconcile''
      then reconcile env c (rx_repository x) (rx_pull_request x) (rx_policy x) job
      else if leased_kind job = ''feedback_repair'' then run_feedback_job env c x job token
      else if leased_kind job = ''stack_rebase'' then run_stack_job env c x job token
      else if leased_kind job = ''ci_repair'' then run_ci_job env c x job token
      else io_lift (Err (Wk_Unknown_Job_Kind (leased_kind job))))"

section \<open>Around the handler\<close>

definition coordinator_of :: "'w worker_env \<Rightarrow> 'w github_client \<Rightarrow> 'w work_coordinator" where
  "coordinator_of env c = \<lparr>wc_github = c, wc_decoders = we_decoders env, wc_sha256_hex = we_sha256_hex env\<rparr>"

definition start_work ::
  "'w worker_env \<Rightarrow> string \<Rightarrow> 'w github_client \<Rightarrow> repair_context \<Rightarrow> leased_job \<Rightarrow> ('w, work_handle option) wk" where
  "start_work env worker c x job =
     (if leased_kind job = ''reconcile'' then io_ok None
      else
        io_then (io_lift (plan_items_for_job job ItemInProgress)) (\<lambda>items.
        io_then (ensure_job_lease env worker job) (\<lambda>_.
        io_then (coordinated env (\<lambda>i now. start (coordinator_of env c) i now (leased_id job)
           (rc_owner (rx_repository x)) (rc_name (rx_repository x)) (leased_pull_request_number job)
           (pcx_head_sha (rx_pull_request x)) items)) (\<lambda>h.
        io_ok (Some h)))))"

definition finish_work ::
  "'w worker_env \<Rightarrow> 'w github_client \<Rightarrow> repair_context \<Rightarrow> leased_job \<Rightarrow> work_handle \<Rightarrow> string list \<Rightarrow> string list
     \<Rightarrow> string list \<Rightarrow> bool \<Rightarrow> ('w, unit) wk" where
  "finish_work env c x job h changes tests blockers completed =
     io_then (io_lift (map_err Wk_Contract (new_final_summary (show_id env (leased_id job)) changes tests blockers))) (\<lambda>summary.
     coordinated env (\<lambda>i now. finish (coordinator_of env c) i h (rc_owner (rx_repository x))
       (rc_name (rx_repository x)) (leased_pull_request_number job) summary completed))"

definition park ::
  "'w worker_env \<Rightarrow> string \<Rightarrow> 'w github_client \<Rightarrow> repair_context \<Rightarrow> leased_job \<Rightarrow> work_handle option \<Rightarrow> json
     \<Rightarrow> ('w, json) wk" where
  "park env worker c x job h answer =
     (let details = waiting_details (we_plan_vec env) (we_sha256_hex env) (leased_plan job) answer
      in io_then (ensure_job_lease env worker job) (\<lambda>_.
         io_then (io_lift (ok_or (Wk_Plan_Serialization ''approval details did not contain a plan hash'')
            (Option.bind (jget ''plan_hash'' details) as_str))) (\<lambda>approval_hash.
         io_then (case h of
             None \<Rightarrow> io_ok ()
           | Some handle \<Rightarrow>
               io_then (io_lift (plan_items_for_job job ItemPending)) (\<lambda>items.
               coordinated env (\<lambda>i now. update_progress_with_approval (coordinator_of env c) i handle
                 (rc_owner (rx_repository x)) (rc_name (rx_repository x)) items (Some approval_hash)))) (\<lambda>_.
         io_then (on_db env Wk_Queue (\<lambda>now. queue_statement (\<lambda>q. Ok (mark_waiting_approval now (leased_id job)
            worker (leased_token job) details q)))) (\<lambda>parked.
         io_lift (if parked then Ok answer else Err Wk_Lease_Lost))))))"

definition conclude ::
  "'w worker_env \<Rightarrow> string \<Rightarrow> 'w github_client \<Rightarrow> repair_context \<Rightarrow> leased_job \<Rightarrow> work_handle option \<Rightarrow> json
     \<Rightarrow> ('w, json) wk" where
  "conclude env worker c x job h answer =
     (if reports_waiting answer then park env worker c x job h answer
      else
        io_then (ensure_job_lease env worker job) (\<lambda>_.
        io_then (case h of
            None \<Rightarrow> io_ok ()
          | Some handle \<Rightarrow> finish_work env c x job handle (result_lines answer ''changes'')
              (result_lines answer ''tests'') (result_lines answer ''remaining_blockers'')
              (reports_completed answer)) (\<lambda>_.
        io_ok answer)))"

definition conclude_error ::
  "'w worker_env \<Rightarrow> string \<Rightarrow> 'w github_client \<Rightarrow> repair_context \<Rightarrow> leased_job \<Rightarrow> work_handle option
     \<Rightarrow> worker_error \<Rightarrow> ('w, json) wk" where
  "conclude_error env worker c x job h e =
     (case h of
        None \<Rightarrow> io_lift (Err e)
      | Some handle \<Rightarrow>
          io_then (ensure_job_lease env worker job) (\<lambda>_.
          io_then (finish_work env c x job handle [] [] [we_show_error env e] False) (\<lambda>_.
          io_lift (Err e))))"

definition work_context ::
  "string \<Rightarrow> leased_job \<Rightarrow> repository_context \<Rightarrow> pull_request_context \<Rightarrow> policy \<Rightarrow> repair_context" where
  "work_context worker job rep pr p = \<lparr>rx_repository = rep, rx_pull_request = pr, rx_policy = p,
     rx_lease = guard_of worker job\<rparr>"

definition worker_scope :: "repository_context \<Rightarrow> installation_token_scope" where
  "worker_scope rep = \<lparr>ts_permissions = default_permissions, ts_repositories = [rc_name rep]\<rparr>"

definition execute_job :: "'w worker_env \<Rightarrow> string \<Rightarrow> leased_job \<Rightarrow> ('w, json) wk" where
  "execute_job env worker job =
     io_then (ensure_job_lease env worker job) (\<lambda>_.
     io_then (on_db env Wk_Repository (\<lambda>now. query (repository_context_of (leased_repository_id job)))) (\<lambda>found.
     io_then (io_lift (ok_or (Wk_Repository_Not_Found (leased_repository_id job)) found)) (\<lambda>rep.
     io_then (on_db env Wk_Repository (\<lambda>now. query (pull_request_context_of (leased_repository_id job)
        (leased_pull_request_number job)))) (\<lambda>found_pr.
     io_then (io_lift (ok_or (Wk_Pull_Request_Not_Found (leased_repository_id job)
        (leased_pull_request_number job)) found_pr)) (\<lambda>pr.
     io_then (outside Wk_Github_Auth (\<lambda>v. installation_token_with_scope (we_auth env) (we_nanoseconds env v)
        (rc_installation_id rep) (worker_scope rep))) (\<lambda>tk.
     io_then (io_lift (map_err Wk_Github (we_client env tk))) (\<lambda>c.
     io_then (load_policy env c rep) (\<lambda>p.
     io_then (ensure_job_lease env worker job) (\<lambda>_.
     let x = work_context worker job rep pr p
     in io_then (start_work env worker c x job) (\<lambda>h.
        io_then (attempt_call (run_handler env c x job (tk_token tk))) (\<lambda>r.
        case r of
          Inr answer \<Rightarrow> conclude env worker c x job h answer
        | Inl e \<Rightarrow> conclude_error env worker c x job h e)))))))))))"

section \<open>The loops\<close>

text \<open>One beat of the heartbeat: whether the lease is lost.\<close>

definition heartbeat :: "timestamp \<Rightarrow> uuid \<Rightarrow> string \<Rightarrow> uuid \<Rightarrow> store \<Rightarrow> bool \<times> store" where
  "heartbeat now i worker token s = (case renew_lease now i worker token (queue s) of
     (renewed, q) \<Rightarrow> (\<not> renewed, s\<lparr>queue := q\<rparr>))"

definition mark_result ::
  "'w worker_env \<Rightarrow> string \<Rightarrow> leased_job \<Rightarrow> (worker_error, json) result \<Rightarrow> store \<times> 'w \<Rightarrow> store \<times> 'w" where
  "mark_result env worker job r w =
     (case we_meanwhile env w of (s, v) \<Rightarrow>
       (s\<lparr>queue := snd (case r of
          Inr result_json \<Rightarrow> mark_succeeded (we_now env v) (leased_id job) worker (leased_token job) result_json (queue s)
        | Inl e \<Rightarrow> mark_failed (we_now env v) (leased_id job) worker (leased_token job)
            (jobj [(''error'', JStr (we_show_error env e))]) (queue s))\<rparr>, v))"

definition run_job :: "'w worker_env \<Rightarrow> string \<Rightarrow> leased_job \<Rightarrow> store \<times> 'w \<Rightarrow> store \<times> 'w" where
  "run_job env worker job w =
     (case execute_job env worker job w of (r, w') \<Rightarrow>
       if we_lease_lost env w' then w'
       else case r of
           Inr answer \<Rightarrow> if reports_waiting answer then w' else mark_result env worker job r w'
         | Inl e \<Rightarrow> mark_result env worker job r w')"

text \<open>One round of the worker: nothing to lease, or a job that was run.\<close>

definition worker_round :: "'w worker_env \<Rightarrow> string \<Rightarrow> store \<times> 'w \<Rightarrow> store \<times> 'w" where
  "worker_round env worker w =
     (case we_fresh env (snd w) of (token, v1) \<Rightarrow>
      case we_meanwhile env (fst w, v1) of (s, v) \<Rightarrow>
      case lease_next (we_now env v) worker token (we_locked env v) (queue s) of (leased, q) \<Rightarrow>
        (case leased of
           None \<Rightarrow> (s\<lparr>queue := q\<rparr>, v)
         | Some job \<Rightarrow> run_job env worker job (s\<lparr>queue := q\<rparr>, v)))"

definition purge_expired_raw_payloads_once :: "timestamp \<Rightarrow> store \<Rightarrow> nat \<times> store" where
  "purge_expired_raw_payloads_once now s = purge_expired_raw_payloads now s"

end
