(* ===== verification/Worker_Moves.thy ===== *)
theory Worker_Moves
  imports Moves Worker_Run Workflow_Properties
begin

text \<open>
  The worker as a client of the store: whatever happens outside, a round of the worker takes the
  store only through the steps of \<open>store_step\<close>, between which other processes act.
\<close>

section \<open>Runs of the worker's world\<close>

inductive world_run :: "'w worker_env \<Rightarrow> store \<times> 'w \<Rightarrow> store \<times> 'w \<Rightarrow> bool" for env where
  world_nil: "world_run env w w"
| world_step: "world_run env w (s, v) \<Longrightarrow> store_step s s' \<Longrightarrow> world_run env w (s', v)"
| world_outside: "world_run env w (s, v) \<Longrightarrow> world_run env w (s, v')"
| world_others: "world_run env w w' \<Longrightarrow> world_run env w (we_meanwhile env w')"

lemma world_run_trans: "world_run env w' w'' \<Longrightarrow> world_run env w w' \<Longrightarrow> world_run env w w''"
  by (induction rule: world_run.induct) (auto intro: world_run.intros)

lemma world_run_store: "store_run s s' \<Longrightarrow> world_run env (s, v) (s', v')"
proof (induction rule: store_run.induct)
  case (store_nil s) then show ?case by (blast intro: world_run.intros)
qed (blast intro: world_run.intros)

lemma world_run_outside: "world_run env (s, v) (s, v')"
  by (blast intro: world_run.intros)

lemma world_run_others: "world_run env w (we_meanwhile env w)"
  by (blast intro: world_run.intros)

text \<open>When the others keep to the steps too, the store makes a run.\<close>

lemma world_run_keeps:
  assumes "world_run env w w'" "\<And>s v. store_run s (fst (we_meanwhile env (s, v)))"
  shows "store_run (fst w) (fst w')"
  using assms(1)
proof (induction rule: world_run.induct)
  case (world_others w w')
  then show ?case using assms(2) [of "fst w'" "snd w'"] by (auto intro: store_run_trans)
qed (auto intro: store_nil store_more)

interpretation worker: workspace_order "world_run env" "workspace_world env" for env :: "'w worker_env"
proof
  show "world_run env w w" for w by (rule world_nil)
  show "world_run env w w' \<Longrightarrow> world_run env w' w'' \<Longrightarrow> world_run env w w''" for w w' w''
    by (rule world_run_trans)
  show "world_run env w (snd (wk_spawn (workspace_world env) c w))" for w c
    by (cases w) (auto simp: workspace_world_def Let_def intro: world_run_outside split: prod.splits)
  show "world_run env w (snd (wk_assert_lease (workspace_world env) i n t w))" for w i n t
    using world_run_others [of env w] by (auto simp: workspace_world_def Let_def split: prod.splits)
  show "world_run env w (wk_put_files (workspace_world env) fs w)" for w fs
    by (cases w) (simp add: workspace_world_def Let_def world_run_outside)
qed

lemmas composed = worker.composed

section \<open>The steps of the worker\<close>

lemma moves_outside [moves_intros]: "moves (world_run env) (outside wrap m)" "moves (world_run env) (github g)"
  by (auto simp: moves_def github_def outside_def split: prod.splits intro: world_run_outside)

lemma moves_fresh [moves_intros]: "moves (world_run env) (fresh_id env)" "moves (world_run env) (read_utc env)"
  by (auto simp: moves_def fresh_id_def read_utc_def world_nil split: prod.splits intro: world_run_outside)

lemma moves_on_db:
  assumes "\<And>now. runs (m now)"
  shows "moves (world_run env) (on_db env wrap m)"
proof (rule movesI)
  fix w r w'
  assume step: "on_db env wrap m w = (r, w')"
  obtain s v where others: "we_meanwhile env w = (s, v)" by (metis surjective_pairing)
  then have "world_run env w (s, v)" using world_run_others by metis
  moreover have "world_run env (s, v) w'"
    using step others runsD [OF assms] by (auto simp: on_db_def split: prod.splits intro: world_run_store)
  ultimately show "world_run env w w'" by (rule worker.trans)
qed

lemma moves_on_store: "runs m \<Longrightarrow> moves (world_run env) (on_store wrap m)"
  by (rule movesI) (auto simp: on_store_def split: prod.splits intro!: world_run_store dest: runsD)

lemma moves_on_github [moves_intros]: "moves (world_run env) (on_github m)"
  by (rule movesI) (auto simp: on_github_def split: prod.splits intro: world_run_outside)

lemma moves_coordinated:
  assumes "\<And>i now. moves (world_run env) (m i now)"
  shows "moves (world_run env) (coordinated env m)"
  unfolding coordinated_def
proof (rule worker.moves_then [OF moves_fresh(1)], rule movesI)
  fix i w r w'
  assume step: "(case we_meanwhile env w of (s, v) \<Rightarrow> io_map_err Wk_Workflow (m i (we_now env v)) (s, v)) = (r, w')"
  obtain s v where others: "we_meanwhile env w = (s, v)" by (metis surjective_pairing)
  then have "world_run env w (s, v)" using world_run_others by metis
  moreover have "world_run env (s, v) w'"
    using movesD [OF worker.moves_map_err [OF assms], where w = "(s, v)"] step others by simp
  ultimately show "world_run env w w'" by (rule worker.trans)
qed

lemma moves_attempt: "moves R m \<Longrightarrow> moves R (attempt_call m)"
  by (auto simp: moves_def attempt_call_def split: prod.splits) (metis snd_conv)

lemma moves_with_workspace:
  assumes "moves (world_run env) m"
  shows "moves (world_run env) (with_workspace env ws m)"
proof (rule movesI)
  fix w r w'
  assume "with_workspace env ws m w = (r, w')"
  then obtain w1 where "m w = (r, w1)" "w' = drop_workspace (workspace_world env) ws w1"
    by (cases "m w") (simp add: with_workspace_def)
  then show "world_run env w w'" using movesD [OF assms] worker.moves_drop worker.trans by metis
qed

lemma moves_guard [moves_intros]: "moves (world_run env) (guard_ensure env g)"
  unfolding guard_ensure_def by (intro composed worker.moves_lease)

lemma moves_worker_clone [moves_intros]: "moves (world_run env) (clone env rep b h token)"
  unfolding clone_def by (intro composed moves_fresh worker.moves_clone)

lemmas db_steps = moves_on_db runs_intros

lemma moves_queue_statement:
  "(\<And>now q x q'. f now q = Inr (x, q') \<Longrightarrow> queue_step q Silent q')
     \<Longrightarrow> moves (world_run env) (on_db env Wk_Queue (\<lambda>now. queue_statement (f now)))"
  by (intro db_steps) blast

lemma moves_query [moves_intros]: "moves (world_run env) (on_db env wrap (\<lambda>now. query (f now)))"
  by (intro db_steps)

lemma moves_job_lease [moves_intros]: "moves (world_run env) (ensure_job_lease env worker job)"
  unfolding ensure_job_lease_def by (intro composed moves_intros)

lemma moves_statement_unit:
  "(\<And>now s s'. f now s = Inr s' \<Longrightarrow> store_step s s')
     \<Longrightarrow> moves (world_run env) (on_db env Wk_Repository (\<lambda>now. statement_unit (f now)))"
  by (intro db_steps) blast

lemma moves_policy [moves_intros]: "moves (world_run env) (load_policy env c rep)"
  unfolding load_policy_def by (intro composed moves_intros moves_statement_unit) (blast intro: step_policy)

lemma moves_enqueue [moves_intros]: "moves (world_run env) (enqueue_job env spec)"
  unfolding enqueue_job_def by (intro composed moves_intros moves_queue_statement) (blast intro: step_enqueue)

section \<open>Handlers\<close>

lemma moves_settle [moves_intros]: "moves (world_run env) (settle_feedback env fs r)"
  by (induction fs arbitrary: r) (auto simp only: settle_feedback.simps intro!: composed moves_intros)

lemma moves_follow_up [moves_intros]:
  "moves (world_run env) (enqueue_follow_up_jobs env rep pr p fs checks)"
  unfolding enqueue_follow_up_jobs_def enqueue_feedback_def enqueue_ci_def enqueue_stack_def Let_def
  by (intro composed moves_intros)

lemma moves_save [moves_intros]: "moves (world_run env)
    (on_db env Wk_Repository (\<lambda>now. save_reconciliation codes snapshot now p v fs checks))"
proof (rule moves_on_db, unfold runs_def, rule allI, rule store_step_run)
  fix now s
  show "store_step s (snd (save_reconciliation codes snapshot now p v fs checks s))"
    by (rule step_reconciliation) (rule surjective_pairing)
qed

lemma moves_reconcile [moves_intros]: "moves (world_run env) (reconcile env c rep pr p job)"
  unfolding reconcile_def Let_def by (intro composed moves_intros)

lemma moves_admitted [moves_intros]: "moves (world_run env) (read_admitted_head env c rep pr)"
  unfolding read_admitted_head_def by (intro composed moves_intros)

lemma moves_target [moves_intros]: "moves (world_run env) (locate_target env c x found)"
  by (cases found) (auto simp only: locate_target.simps intro!: composed moves_intros)

lemma moves_outcome [moves_intros]: "moves (world_run env) (publish_feedback_outcome env c x target text)"
proof -
  have "moves (world_run env) (post_outcome env c x target text)"
    by (cases target) (auto simp only: post_outcome.simps intro!: moves_intros)
  moreover have "moves (world_run env) (resolve_target env c target)"
    by (cases target) (auto simp only: resolve_target.simps intro!: composed moves_intros)
  ultimately show ?thesis unfolding publish_feedback_outcome_def by (intro composed moves_intros)
qed

lemma moves_marked [moves_intros]:
  "moves (world_run env) (on_db env Wk_Repository (\<lambda>now. statement_unit (\<lambda>s. Ok (mark_feedback_rejected now i s))))"
  "moves (world_run env) (on_db env Wk_Repository (\<lambda>now. statement_unit (\<lambda>s. Ok (mark_feedback_resolved now i s))))"
  by (intro moves_statement_unit, auto intro: step_rejected step_resolved)+

lemma moves_feedback_repair [moves_intros]: "moves (world_run env) (feedback_repair env c x job_plan token)"
  unfolding feedback_repair_def repair_in_workspace_def feedback_applied_def feedback_rejected_def
  by (intro composed moves_intros moves_with_workspace moves_attempt worker.moves_feedback)

lemma moves_check_evidence [moves_intros]: "moves (world_run env) (check_evidence env c rep i)"
  unfolding check_evidence_def fetch_annotations_def fetch_actions_log_def
  by (intro composed moves_intros moves_attempt)

lemma moves_check_outputs [moves_intros]: "moves (world_run env) (check_outputs env c rep vs)"
  by (induction vs) (auto simp only: check_outputs.simps intro!: composed moves_intros)

lemma moves_snapshot_files [moves_intros]: "moves (world_run env) (snapshot_files env c x ps n)"
  by (induction ps arbitrary: n) (auto simp only: snapshot_files.simps intro!: composed moves_intros)

lemma moves_diagnosis [moves_intros]: "moves (world_run env) (pi_diagnosis env c x job)"
  unfolding pi_diagnosis_def ci_failure_evidence_def by (intro composed moves_intros)

lemma moves_proposal [moves_intros]: "moves (world_run env) (apply_proposal env c x r token)"
  unfolding apply_proposal_def
  by (intro composed moves_intros moves_with_workspace worker.moves_ci)

lemma moves_ci_repair [moves_intros]: "moves (world_run env) (ci_repair env c x job token)"
proof -
  have admission: "moves (world_run env) (case a of NoMutation \<Rightarrow> m | AwaitApproval \<Rightarrow> n | Admitted \<Rightarrow> k)"
    if "moves (world_run env) m" "moves (world_run env) n" "moves (world_run env) k"
    for a and m n k :: "('a, json) wk"
    using that by (cases a) simp_all
  show ?thesis unfolding ci_repair_def proposed_repair_def by (intro composed moves_intros admission)
qed

lemma moves_rebase_branch [moves_intros]:
  "moves (world_run env) (rebase_branch env rep p g branch target sha token)"
  unfolding rebase_branch_def
  by (intro composed moves_intros moves_with_workspace moves_attempt worker.moves_rebase)

lemma moves_step: "(\<And>b. moves R (g b)) \<Longrightarrow> (\<And>x. moves R (f x)) \<Longrightarrow> moves R (case a of Stop b \<Rightarrow> g b | Go x \<Rightarrow> f x)"
  by (cases a) simp_all

lemma moves_stack_loops [moves_intros]:
  "moves (world_run env) (pending_updates env c rep g us)"
  "moves (world_run env) (rebase_branches env c rep p g token updates by_number previous ns changes)"
  "moves (world_run env) (apply_base_updates env c rep g us changes)"
proof -
  show "moves (world_run env) (pending_updates env c rep g us)"
    by (induction us) (auto simp only: pending_updates.simps intro!: composed moves_intros)
  show "moves (world_run env) (rebase_branches env c rep p g token updates by_number previous ns changes)"
    by (induction ns arbitrary: previous changes)
      (auto simp only: rebase_branches.simps intro!: composed moves_intros moves_step)
  show "moves (world_run env) (apply_base_updates env c rep g us changes)"
    by (induction us arbitrary: changes) (auto simp only: apply_base_updates.simps intro!: composed moves_intros)
qed

lemma moves_stack_rebase [moves_intros]: "moves (world_run env) (stack_rebase env c rep p g job_plan token)"
  unfolding stack_rebase_def by (intro composed moves_intros)

lemma moves_handler [moves_intros]: "moves (world_run env) (run_handler env c x job token)"
  unfolding run_handler_def run_feedback_job_def run_stack_job_def run_ci_job_def
  by (intro composed moves_intros)

section \<open>A job and a round\<close>

lemma step_link_work: "link_check_run now job run url item s = Inr s' \<Longrightarrow> store_step s s'"
  by (auto simp: link_check_run_def intro: step_queue step_link split: sum.splits)

lemma moves_living: "moves (world_run env) (save_living_comment k fresh job comment text)"
  unfolding save_living_comment_def by (intro moves_on_store runs_statement_unit) (blast intro: step_living)

lemma moves_link: "moves (world_run env) (link_work now job run url items)"
  unfolding link_work_def by (intro moves_on_store runs_statement_unit) (rule step_link_work)

lemma moves_progress: "moves (world_run env) (update_progress_with_approval k fresh h own repo items a)"
  unfolding update_progress_with_approval_def by (intro composed moves_intros moves_living)

lemma moves_start: "moves (world_run env) (start k fresh now job own repo n head_sha items)"
  unfolding start_def resume_work_def start_fresh_def update_progress_def Let_def
  by (intro composed moves_intros moves_living moves_link moves_progress moves_on_store runs_pure)

lemma moves_finish: "moves (world_run env) (finish k fresh h own repo n summary succeeded)"
proof -
  have "runs (statement (insert_final_comment fresh i j m hash))" for i j m hash
    by (intro runs_statement) (blast intro: step_final)
  then show ?thesis unfolding finish_def by (intro composed moves_intros moves_on_store)
qed

lemma moves_work [moves_intros]:
  "moves (world_run env) (start_work env worker c x job)"
  "moves (world_run env) (finish_work env c x job h changes tests blockers done)"
  unfolding start_work_def finish_work_def
  by (intro composed moves_intros moves_coordinated moves_start moves_finish)+

lemma moves_park [moves_intros]: "moves (world_run env) (park env worker c x job h answer)"
proof -
  have parked: "moves (world_run env) (on_db env Wk_Queue (\<lambda>now. queue_statement (\<lambda>q.
      Ok (mark_waiting_approval now (leased_id job) worker (leased_token job) details q))))" for details
  proof (intro moves_queue_statement)
    fix now q x q'
    assume "Ok (mark_waiting_approval now (leased_id job) worker (leased_token job) details q) = Inr (x, q')"
    then have "q' = snd (mark_waiting_approval now (leased_id job) worker (leased_token job) details q)" by simp
    then show "queue_step q Silent q'" by (simp add: step_waiting)
  qed
  show ?thesis unfolding park_def Let_def
    by (intro composed moves_intros moves_coordinated moves_progress parked)
qed

lemma moves_conclude [moves_intros]:
  "moves (world_run env) (conclude env worker c x job h answer)"
  "moves (world_run env) (conclude_error env worker c x job h e)"
  unfolding conclude_def conclude_error_def by (intro composed moves_intros)+

lemma moves_execute: "moves (world_run env) (execute_job env worker job)"
  unfolding execute_job_def Let_def by (intro composed moves_intros moves_attempt)

lemma mark_result_run: "world_run env w (mark_result env worker job r w)"
proof -
  obtain s v where others: "we_meanwhile env w = (s, v)" by (metis surjective_pairing)
  have "\<exists>q. mark_result env worker job r w = (s\<lparr>queue := q\<rparr>, v) \<and> queue_step (queue s) Silent q"
    by (cases r) (auto simp: mark_result_def others intro: step_failed step_succeeded)
  then obtain q where "mark_result env worker job r w = (s\<lparr>queue := q\<rparr>, v)" "queue_step (queue s) Silent q"
    by blast
  then show ?thesis
    using world_run_others [of env w] others by (metis step_queue world_step)
qed

lemma run_job_run: "world_run env w (run_job env worker job w)"
proof -
  obtain r w' where "execute_job env worker job w = (r, w')" by (metis surjective_pairing)
  moreover from this have "world_run env w w'" by (rule movesD [OF moves_execute])
  ultimately show ?thesis
    by (auto simp: run_job_def intro: worker.trans [OF _ mark_result_run] split: sum.split)
qed

lemma worker_round_run: "world_run env w (worker_round env worker w)"
proof -
  obtain token v1 where fresh: "we_fresh env (snd w) = (token, v1)" by (metis surjective_pairing)
  obtain s v where others: "we_meanwhile env (fst w, v1) = (s, v)" by (metis surjective_pairing)
  obtain leased q where lease: "lease_next (we_now env v) worker token (we_locked env v) (queue s) = (leased, q)"
    by (metis surjective_pairing)
  have "world_run env w (fst w, v1)" using world_run_outside [of env "fst w" "snd w" v1] by simp
  moreover have "world_run env (fst w, v1) (s, v)" using world_run_others others by metis
  moreover have "queue_step (queue s) (Grant token) q"
    using step_lease [of "queue s" token "we_now env v" worker "we_locked env v"] lease by simp
  then have "world_run env (s, v) (s\<lparr>queue := q\<rparr>, v)" by (blast intro: world_run.intros step_queue)
  ultimately have "world_run env w (s\<lparr>queue := q\<rparr>, v)" by (blast intro: worker.trans)
  then show ?thesis
    by (auto simp: worker_round_def fresh others lease intro: worker.trans [OF _ run_job_run] split: option.split)
qed

end
