(* ===== verification/Plan_Properties.thy ===== *)
theory Plan_Properties
  imports Worker_Handlers Reconcile_Properties
begin

text \<open>
  The plans of jobs: what the worker writes into a plan it reads back, what it shows for a job
  is a work plan that can be published, the identifiers of feedback lead back to their comments,
  and the snapshot for the provider stays within its bounds.
\<close>

section \<open>Reading back\<close>

lemma bt_get_jobj: "jget k (jobj fs) = map_of (rev fs) k"
  by (induction fs rule: rev_induct) (auto simp: jobj_def bt_get_def [symmetric] bt_get_Nil)

lemma read_str_JStr [simp]: "read_str (Some (JStr s)) = Some s"
  by (simp add: read_str_def)

lemma read_bool_JBool [simp]: "read_bool (Some (JBool b)) = Some b"
  by (simp add: read_bool_def)

lemma read_u32_jnat [simp]: "n \<le> u32_max \<Longrightarrow> read_u32 (Some (jnat n)) = Some n"
  by (simp add: read_u32_def jnat_def)

lemma read_i32_jint [simp]: "i32_min \<le> i \<Longrightarrow> i \<le> i32_max \<Longrightarrow> read_i32 (Some (jint i)) = Some i"
  by (auto simp: read_i32_def jint_def to_i32_def)

lemma read_optional_simps [simp]:
  "read_optional read None = Some None"
  "read_optional read (Some JNull) = Some None"
  "v \<noteq> JNull \<Longrightarrow> read_optional read (Some v) = map_option Some (read (Some v))"
  by (simp_all add: read_optional_def)

lemma written_not_null [simp]: "JStr s \<noteq> JNull" "jnat n \<noteq> JNull" "jint i \<noteq> JNull"
  by (simp_all add: jnat_def jint_def)

text \<open>The numbers that the columns and fields of the code hold.\<close>

definition feedback_typed :: "feedback_record \<Rightarrow> bool" where
  "feedback_typed f \<longleftrightarrow> (\<forall>n. fr_start_line f = Some n \<longrightarrow> n \<le> u32_max) \<and> (\<forall>n. fr_line f = Some n \<longrightarrow> n \<le> u32_max)"

definition stack_typed :: "stack_pull_request \<Rightarrow> bool" where
  "stack_typed p \<longleftrightarrow> (\<forall>i. i = spr_number p \<or> explicit_parent p = Some i \<longrightarrow> i32_min \<le> i \<and> i \<le> i32_max)"

lemma jget_feedback:
  "jget k (feedback_json f) = (
     if k = ''id'' then Some (JStr (fr_id f)) else if k = ''actor_login'' then Some (JStr (fr_actor_login f))
     else if k = ''actor_type'' then Some (JStr (fr_actor_type f)) else if k = ''body'' then Some (JStr (fr_body f))
     else if k = ''resolved'' then Some (JBool (fr_resolved f))
     else if k = ''is_automation'' then Some (JBool (fr_is_automation f))
     else if k = ''path'' then map_option JStr (fr_path f)
     else if k = ''start_line'' then map_option jnat (fr_start_line f)
     else if k = ''line'' then map_option jnat (fr_line f) else None)"
  by (auto simp: feedback_json_def bt_get_jobj some_field_def map_add_def split: option.split)

lemma read_feedback_json:
  assumes "feedback_typed f"
  shows "read_feedback (feedback_json f) = Some f"
proof -
  have "fields_of 6 feedback_fields (feedback_json f) = Some (map (\<lambda>k. jget k (feedback_json f)) feedback_fields)"
    by (simp add: feedback_json_def jobj_def)
  moreover have "read_optional read_str (map_option JStr v) = Some v" for v by (cases v) simp_all
  moreover have "read_optional read_u32 (map_option jnat v) = Some v" if "\<forall>n. v = Some n \<longrightarrow> n \<le> u32_max" for v
    using that by (cases v) simp_all
  ultimately show ?thesis
    using assms by (simp add: read_feedback_def feedback_fields_def jget_feedback feedback_typed_def)
qed

lemma read_stack_json:
  assumes "stack_typed p"
  shows "read_stack (stack_json p) = Some p"
proof -
  have "fields_of 4 stack_fields (stack_json p) = Some (map (\<lambda>k. jget k (stack_json p)) stack_fields)"
    by (simp add: stack_json_def jobj_def)
  moreover have "jget ''number'' (stack_json p) = Some (jint (spr_number p))"
    "jget ''head_branch'' (stack_json p) = Some (JStr (head_branch p))"
    "jget ''base_branch'' (stack_json p) = Some (JStr (base_branch p))"
    "jget ''explicit_parent'' (stack_json p) = Some (opt_json jint (explicit_parent p))"
    by (simp_all add: stack_json_def bt_get_jobj)
  moreover have "read_optional read_i32 (Some (opt_json jint (explicit_parent p))) = Some (explicit_parent p)"
    using assms by (cases "explicit_parent p") (simp_all add: opt_json_def stack_typed_def)
  ultimately show ?thesis
    using assms by (simp add: read_stack_def stack_fields_def stack_typed_def)
qed

lemma read_all_map: "(\<And>x. x \<in> set xs \<Longrightarrow> read (f x) = Some x) \<Longrightarrow> read_all read (map f xs) = Some xs"
  by (induction xs) simp_all

text \<open>
  C35: a plan says what was found: a job for feedback or for a stack that reconciliation queued is
  read back by the handler as the same records, in the same order and starting with the first,
  as long as line numbers and pull request numbers fit their 32 bits.
\<close>

theorem job_plans_read_back:
  assumes "\<forall>f\<in>set fs. feedback_typed f" "\<forall>p\<in>set prs. stack_typed p"
  shows "next_feedback (feedback_plan policy_rev fs) = map_option feedback_json (if fs = [] then None else Some (hd fs))
    \<and> map_option (read_all read_feedback) (planned_feedback (feedback_plan policy_rev fs)) = Some (Some fs)
    \<and> planned_pull_requests env (rebase_job_plan policy_rev head prs planned) = Ok prs"
proof (intro conjI)
  have skipped: "\<not> plan_item_is_skipped (feedback_plan policy_rev fs) i" for i
    by (simp add: plan_item_is_skipped_def feedback_plan_def bt_get_jobj)
  have found: "planned_feedback (feedback_plan policy_rev fs) = Some (map feedback_json fs)"
    by (simp add: planned_feedback_def feedback_plan_def bt_get_jobj)
  show "next_feedback (feedback_plan policy_rev fs) = map_option feedback_json (if fs = [] then None else Some (hd fs))"
    using found skipped by (cases fs) (simp_all add: next_feedback_def upt_rec [of 0] del: upt_Suc)
  show "map_option (read_all read_feedback) (planned_feedback (feedback_plan policy_rev fs)) = Some (Some fs)"
    using assms(1) by (simp add: found read_all_map read_feedback_json)
  show "planned_pull_requests env (rebase_job_plan policy_rev head prs planned) = Ok prs"
    using assms(2) by (simp add: planned_pull_requests_def rebase_job_plan_def bt_get_jobj read_stack_list_def
        read_all_map read_stack_json)
qed

section \<open>Identifiers of feedback\<close>

lemma positive_id_show: "0 < i \<Longrightarrow> i \<le> i64_max \<Longrightarrow> positive_id (show_int i) = Ok i"
  by (simp add: positive_id_def)

lemma target_of_ids:
  assumes "0 < i" "i \<le> i64_max"
  shows "parse_feedback_comment_target (''review-comment:'' @ show_int i) = Ok (OnReviewComment i)"
    and "parse_feedback_comment_target (''issue-comment:'' @ show_int i) = Ok (OnConversation i)"
    and "parse_feedback_comment_target (''review:'' @ show_int i) = Ok (OnConversation i)"
  using positive_id_show [OF assms] by (simp_all add: parse_feedback_comment_target_def strip_prefix_def)

lemma set_dedup_key: "set (dedup_key f xs) \<subseteq> set xs"
  by (induction f xs rule: dedup_key.induct) auto

text \<open>
  C36: the identifiers of feedback lead back: whatever GitHub reports with positive ids, each
  feedback that reconciliation records has an identifier that the repair reads as the review
  comment, or as the review or conversation comment, with that very id.
\<close>

theorem feedback_ids_lead_back:
  assumes "\<forall>r\<in>set (rd_reviews d). 0 < rv_id r \<and> rv_id r \<le> i64_max"
    and "\<forall>c\<in>set (rd_issue_comments d) \<union> set (rd_review_comments d). 0 < pc_id c \<and> pc_id c \<le> i64_max"
    and "f \<in> set (feedback_records d p)"
  shows "(\<exists>c\<in>set (rd_review_comments d). parse_feedback_comment_target (fr_id f) = Ok (OnReviewComment (pc_id c)))
    \<or> (\<exists>c\<in>set (rd_issue_comments d). parse_feedback_comment_target (fr_id f) = Ok (OnConversation (pc_id c)))
    \<or> (\<exists>r\<in>set (rd_reviews d). parse_feedback_comment_target (fr_id f) = Ok (OnConversation (rv_id r)))"
proof -
  let ?latest = "latest_review_decisions (rd_reviews d)"
  have "f \<in> set (List.map_filter (review_record ?latest p) (rd_reviews d))
      \<union> set (List.map_filter (comment_record ''issue-comment'' p) (rd_issue_comments d))
      \<union> set (List.map_filter (comment_record ''review-comment'' p) (rd_review_comments d))"
    using assms(3) set_dedup_key by (fastforce simp: feedback_records_def Let_def)
  then consider r where "r \<in> set (rd_reviews d)" "review_record ?latest p r = Some f"
    | c where "c \<in> set (rd_issue_comments d)" "comment_record ''issue-comment'' p c = Some f"
    | c where "c \<in> set (rd_review_comments d)" "comment_record ''review-comment'' p c = Some f"
    by (auto simp: List.map_filter_def split: option.splits)
  then show ?thesis
  proof cases
    case 1
    then have "fr_id f = ''review:'' @ show_int (rv_id r)" by (auto simp: review_record_def)
    then show ?thesis using 1 assms(1) target_of_ids(3) [of "rv_id r"] by auto
  next
    case 2
    then have "fr_id f = ''issue-comment:'' @ show_int (pc_id c)" by (auto simp: comment_record_def)
    then show ?thesis using 2 assms(2) target_of_ids(2) [of "pc_id c"] by auto
  next
    case 3
    then have "fr_id f = ''review-comment:'' @ show_int (pc_id c)" by (auto simp: comment_record_def)
    then show ?thesis using 3 assms(2) target_of_ids(1) [of "pc_id c"] by auto
  qed
qed

section \<open>The work plan of a job\<close>

definition identifier_byte :: "char \<Rightarrow> bool" where
  "identifier_byte b \<longleftrightarrow> is_ascii_alphanumeric b \<or> b \<in> {CHR ''-'', CHR ''_'', CHR ''.''}"

lemma feedback_item_valid:
  assumes "i < 100"
  shows "validate_identifier field (feedback_item_id i) = Ok ()"
proof -
  have "length (show_nat i) \<le> 2"
    using assms by (subst show_nat.simps, subst show_nat.simps) auto
  moreover have "list_all identifier_byte ''feedback-''" by code_simp
  moreover have "list_all identifier_byte (show_nat i)"
    using show_nat_digits by (auto simp: list_all_iff is_ascii_alphanumeric_def identifier_byte_def)
  ultimately have "list_all identifier_byte (feedback_item_id i)" "length (feedback_item_id i) \<le> 64"
    by (simp_all add: feedback_item_id_def)
  then show ?thesis
    by (simp add: validate_identifier_def feedback_item_id_def identifier_byte_def [abs_def])
qed

lemma feedback_item_id_eq: "feedback_item_id i = feedback_item_id j \<longleftrightarrow> i = j"
  using digits_value_show_nat by (auto simp: feedback_item_id_def) (metis option.inject)

lemma feedback_text_valid: "validate_safe_text ''item summary'' ''Process automated feedback'' = Ok ()"
  by code_simp

lemma kind_texts_valid:
  "validate_safe_text ''item summary'' (job_kind_summary ''reconcile'') = Ok ()"
  "validate_safe_text ''item summary'' (job_kind_summary ''feedback_repair'') = Ok ()"
  "validate_safe_text ''item summary'' (job_kind_summary ''ci_repair'') = Ok ()"
  "validate_safe_text ''item summary'' (job_kind_summary ''stack_rebase'') = Ok ()"
  by code_simp+

lemma kind_ids_valid:
  "validate_identifier ''item id'' ''reconcile'' = Ok ()"
  "validate_identifier ''item id'' ''feedback_repair'' = Ok ()"
  "validate_identifier ''item id'' ''ci_repair'' = Ok ()"
  "validate_identifier ''item id'' ''stack_rebase'' = Ok ()"
  by code_simp+

lemma single_item_of_kind:
  "leased_kind job = as_database_value k \<Longrightarrow> single_item job st
     = Ok [\<lparr>item_id = as_database_value k, item_summary = job_kind_summary (as_database_value k), item_status = st\<rparr>]"
  by (cases k) (simp_all add: single_item_def new_plan_item_def kind_texts_valid kind_ids_valid)

definition feedback_item :: "json \<Rightarrow> item_status \<Rightarrow> bool \<Rightarrow> nat \<Rightarrow> plan_item" where
  "feedback_item p first started i = \<lparr>item_id = feedback_item_id i, item_summary = ''Process automated feedback'',
     item_status = (if plan_item_is_skipped p (feedback_item_id i) then ItemSkipped
       else if \<not> started then first else ItemPending)\<rparr>"

fun feedback_items_spec :: "json \<Rightarrow> item_status \<Rightarrow> bool \<Rightarrow> nat list \<Rightarrow> plan_item list" where
  "feedback_items_spec p first started [] = []"
| "feedback_items_spec p first started (i # is) = feedback_item p first started i
     # feedback_items_spec p first (started \<or> \<not> plan_item_is_skipped p (feedback_item_id i)) is"

lemma feedback_items_Ok:
  "\<forall>i\<in>set is. i < 100 \<Longrightarrow> feedback_items p first started is = Ok (feedback_items_spec p first started is)"
  by (induction "is" arbitrary: started)
    (simp_all add: new_plan_item_def feedback_item_valid feedback_text_valid feedback_item_def Let_def)

lemma feedback_items_ids: "map item_id (feedback_items_spec p first started is) = map feedback_item_id is"
  by (induction "is" arbitrary: started) (simp_all add: feedback_item_def)

lemma feedback_items_started:
  "filter (\<lambda>i. item_status i = ItemInProgress) (feedback_items_spec p first True is) = []"
  by (induction "is") (simp_all add: feedback_item_def)

lemma feedback_items_active:
  "length (filter (\<lambda>i. item_status i = ItemInProgress) (feedback_items_spec p first False is)) \<le> 1"
  by (induction "is") (simp_all add: feedback_item_def feedback_items_started)

text \<open>What is published as the plan of a job: an entry per item, valid and with distinct ids.\<close>

definition publishable :: "plan_item list \<Rightarrow> bool" where
  "publishable items \<longleftrightarrow> items \<noteq> [] \<and> validate_items items = Ok ()
     \<and> list_all (\<lambda>i. new_plan_item (item_id i) (item_summary i) (item_status i) = Ok i) items
     \<and> length (filter (\<lambda>i. item_status i = ItemInProgress) items) \<le> 1"

lemma feedback_items_publishable:
  assumes "is \<noteq> []" "\<forall>i\<in>set is. i < 100" "distinct is"
  shows "publishable (feedback_items_spec p first False is)"
proof -
  let ?items = "feedback_items_spec p first False is"
  have "distinct (map item_id ?items)"
    using assms(3) by (simp add: feedback_items_ids distinct_map inj_on_def feedback_item_id_eq)
  moreover have "length ?items = length is" by (metis feedback_items_ids length_map)
  moreover have "length is \<le> 100"
  proof -
    have "set is \<subseteq> {..<100}" using assms(2) by auto
    then have "card (set is) \<le> card {..<100 :: nat}" by (rule card_mono [rotated]) simp
    then show ?thesis using assms(3) by (simp add: distinct_card)
  qed
  moreover have "list_all (\<lambda>i. new_plan_item (item_id i) (item_summary i) (item_status i) = Ok i)
      (feedback_items_spec p first started is)" for started
    using assms(2) by (induction "is" arbitrary: started)
      (simp_all add: feedback_item_def new_plan_item_def feedback_item_valid feedback_text_valid)
  ultimately show ?thesis
    using assms(1) feedback_items_active [of p first "is"]
    by (auto simp: publishable_def validate_items_def)
qed

text \<open>
  C37: what is shown for a job is a work plan: for every job of one of the four kinds, whatever
  its plan holds, the items are made without an error, between one and a hundred, with valid
  texts, distinct identifiers and at most one of them in progress.
\<close>

theorem work_plan_typed:
  "\<exists>items. plan_items_for_job (job\<lparr>leased_kind := as_database_value k\<rparr>) first = Ok items \<and> publishable items"
proof -
  let ?job = "job\<lparr>leased_kind := as_database_value k\<rparr>"
  let ?one = "\<lparr>item_id = as_database_value k, item_summary = job_kind_summary (as_database_value k), item_status = first\<rparr>"
  have single: "single_item ?job first = Ok [?one]" by (rule single_item_of_kind) simp
  then have one: "publishable [?one]"
    by (cases k) (simp_all add: publishable_def validate_items_def new_plan_item_def kind_texts_valid kind_ids_valid)
  show ?thesis
  proof (cases "k = FeedbackRepair")
    case True
    define items where "items = (case planned_feedback (leased_plan job) of None \<Rightarrow> [] | Some vs \<Rightarrow> vs)"
    let ?is = "[0..<min (length items) 100]"
    have found: "feedback_items (leased_plan job) first False ?is
        = Ok (feedback_items_spec (leased_plan job) first False ?is)"
      by (rule feedback_items_Ok) simp
    show ?thesis
    proof (cases "items = []")
      case True
      then show ?thesis using single one found \<open>k = FeedbackRepair\<close>
        by (simp add: plan_items_for_job_def items_def [symmetric])
    next
      case False
      then have "publishable (feedback_items_spec (leased_plan job) first False ?is)"
        by (intro feedback_items_publishable) auto
      then show ?thesis using found \<open>k = FeedbackRepair\<close>
        by (simp add: plan_items_for_job_def items_def [symmetric] publishable_def)
    qed
  next
    case False
    then show ?thesis using single one by (cases k) (simp_all add: plan_items_for_job_def)
  qed
qed

section \<open>The snapshot for the provider\<close>

lemma github_Ok: "github m w = (Inr d, w') \<longleftrightarrow> (\<exists>v. m (snd w) = (Inr d, v) \<and> w' = (fst w, v))"
  by (auto simp: github_def outside_def split: prod.split)

lemma bounded_chunks_length:
  "bounded_chunks fault limit too_large got cs = Ok r \<Longrightarrow> length got \<le> limit \<Longrightarrow> length r \<le> limit"
  by (induction fault limit too_large got cs rule: bounded_chunks.induct) (auto split: if_splits)

lemma repository_file_bounded:
  "get_repository_file c own repo p reference limit w = (Inr (Some r), w') \<Longrightarrow> length r \<le> limit"
  by (auto simp: get_repository_file_def io_then_Ok fetch_raw_def and_then_Ok dest: bounded_chunks_length
      split: if_splits)

definition snapshot_bounded :: "string list \<Rightarrow> nat \<Rightarrow> pi_snapshot_file list \<Rightarrow> bool" where
  "snapshot_bounded paths bytes files \<longleftrightarrow> length files \<le> length paths
     \<and> (\<forall>f\<in>set files. sf_path f \<in> set paths \<and> length (sf_content f) \<le> max_pi_snapshot_file_bytes)
     \<and> bytes + sum_list (map (\<lambda>f. length (sf_content f)) files) \<le> max_pi_snapshot_bytes"

lemma snapshot_files_bounded:
  "snapshot_files env c x paths bytes w = (Inr files, w') \<Longrightarrow> bytes \<le> max_pi_snapshot_bytes
     \<Longrightarrow> snapshot_bounded paths bytes files"
proof (induction paths arbitrary: bytes w files)
  case (Cons p ps)
  obtain found w1 where read: "\<exists>w0. github (get_repository_file c (rc_owner (rx_repository x)) (rc_name (rx_repository x)) p
        (pcx_head_sha (rx_pull_request x)) max_pi_snapshot_file_bytes) w0 = (Inr found, w1)"
    and rest: "(case found of
         None \<Rightarrow> snapshot_files env c x ps bytes
       | Some content \<Rightarrow>
           if bytes + length content > max_pi_snapshot_bytes then io_ok []
           else io_then (snapshot_files env c x ps (bytes + length content)) (\<lambda>others.
             io_ok (\<lparr>sf_path = p, sf_content = content\<rparr> # others))) w1 = (Inr files, w')"
    using Cons.prems(1) unfolding snapshot_files.simps io_then_Ok by blast
  show ?case
  proof (cases found)
    case None
    with rest Cons.IH Cons.prems(2) show ?thesis by (fastforce simp: snapshot_bounded_def)
  next
    case (Some content)
    then have small: "length content \<le> max_pi_snapshot_file_bytes"
      using read by (auto simp: github_Ok dest: repository_file_bounded)
    show ?thesis
    proof (cases "bytes + length content > max_pi_snapshot_bytes")
      case True
      with rest Some Cons.prems(2) show ?thesis by (simp add: snapshot_bounded_def)
    next
      case False
      then obtain others where "snapshot_files env c x ps (bytes + length content) w1 = (Inr others, w')"
        "files = \<lparr>sf_path = p, sf_content = content\<rparr> # others"
        using rest Some by (auto simp: io_then_Ok)
      with Cons.IH [of "bytes + length content"] False small show ?thesis
        by (fastforce simp: snapshot_bounded_def)
    qed
  qed
qed (simp add: snapshot_bounded_def)

text \<open>
  C38: what the provider sees is bounded: the files that the worker reads for a diagnosis are at
  most sixteen, among the paths that the policy allows for repairs, of at most 16 KiB each and
  48 KiB together, whatever GitHub answers.
\<close>

theorem provider_snapshot_bounded:
  "case fst (snapshot_files env c x (take max_pi_snapshot_files (repair_allowed_paths (rx_policy x))) 0 w) of
     Inl e \<Rightarrow> True
   | Inr files \<Rightarrow> length files \<le> 16 \<and> sf_path ` set files \<subseteq> set (repair_allowed_paths (rx_policy x))
       \<and> list_all (\<lambda>f. length (sf_content f) \<le> 16384) files
       \<and> sum_list (map (\<lambda>f. length (sf_content f)) files) \<le> 49152"
proof -
  let ?paths = "take max_pi_snapshot_files (repair_allowed_paths (rx_policy x))"
  obtain r w' where run: "snapshot_files env c x ?paths 0 w = (r, w')" by (metis surjective_pairing)
  have "set ?paths \<subseteq> set (repair_allowed_paths (rx_policy x))" by (rule set_take_subset)
  moreover have "snapshot_bounded ?paths 0 files" if "r = Inr files" for files
    using snapshot_files_bounded run that by fastforce
  ultimately show ?thesis by (auto simp: run snapshot_bounded_def list_all_iff split: sum.split)
qed

section \<open>Witnesses\<close>

definition sample_found :: feedback_record where
  "sample_found = \<lparr>fr_id = ''review:5'', fr_actor_login = ''bot'', fr_actor_type = ''Bot'', fr_body = ''fix'',
     fr_resolved = False, fr_is_automation = True, fr_path = Some ''a'', fr_start_line = None, fr_line = Some 3\<rparr>"

definition sample_stacked :: stack_pull_request where
  "sample_stacked = \<lparr>spr_number = 3, head_branch = ''b'', base_branch = ''a'', explicit_parent = Some 2\<rparr>"

theorem job_plans_read_back_witness:
  "\<forall>env. next_feedback (feedback_plan [] [sample_found]) = Some (feedback_json sample_found)
     \<and> planned_pull_requests env (rebase_job_plan [] [] [sample_stacked]
          \<lparr>merge_order = [], required_base_updates = []\<rparr>) = Ok [sample_stacked]"
proof -
  have "\<forall>f\<in>set [sample_found]. feedback_typed f" by (simp add: feedback_typed_def sample_found_def)
  moreover have "\<forall>p\<in>set [sample_stacked]. stack_typed p" by (simp add: stack_typed_def sample_stacked_def)
  ultimately show ?thesis using job_plans_read_back [of "[sample_found]" "[sample_stacked]"]
    by (simp only: list.sel list.simps if_False option.map simp_thms) blast
qed

definition sample_commented :: pull_request_read_set where
  "sample_commented = sample_read_set\<lparr>rd_reviews := [], rd_issue_comments := [],
     rd_review_comments := [\<lparr>pc_id = 5, pc_body = Some ''fix'', pc_user = sample_author, pc_path = Some ''a'',
       pc_start_line = None, pc_line = Some 3\<rparr>]\<rparr>"

theorem feedback_ids_lead_back_witness:
  "\<exists>f\<in>set (feedback_records sample_commented default_policy).
     parse_feedback_comment_target (fr_id f) = Ok (OnReviewComment 5)"
proof -
  have records: "feedback_records sample_commented default_policy =
      [\<lparr>fr_id = ''review-comment:5'', fr_actor_login = ''alice'', fr_actor_type = ''User'', fr_body = ''fix'',
        fr_resolved = False, fr_is_automation = False, fr_path = Some ''a'', fr_start_line = None, fr_line = Some 3\<rparr>]"
    by code_simp
  have "\<forall>f\<in>set (feedback_records sample_commented default_policy).
      parse_feedback_comment_target (fr_id f) = Ok (OnReviewComment 5)"
  proof
    fix f assume "f \<in> set (feedback_records sample_commented default_policy)"
    then show "parse_feedback_comment_target (fr_id f) = Ok (OnReviewComment 5)"
      using feedback_ids_lead_back [of sample_commented f default_policy] by (simp add: sample_commented_def)
  qed
  then show ?thesis by (simp add: records)
qed

end
