(* ===== verification/Worker_Properties.thy ===== *)
theory Worker_Properties
  imports Worker_Moves Plan_Properties
begin

text \<open>
  What the worker may do: its rounds as runs of the store, no process before an approval or for
  the head of a fork, and no change of a base before every branch of a stack was rebased.
\<close>

section \<open>Rounds as runs of the store\<close>

definition alone :: "'w worker_env \<Rightarrow> 'w worker_env" where
  "alone env = env\<lparr>we_meanwhile := \<lambda>w. w\<rparr>"

text \<open>
  A round of the worker, whatever it runs and however the outside answers, changes the store
  only by the statements of the store, in sequence with what other processes do meanwhile; with
  nobody else it is a run of the store, so all that runs preserve is preserved by the worker.
\<close>

theorem worker_refines_store:
  "world_run env w (worker_round env worker w)
   \<and> store_run (fst w) (fst (worker_round (alone env) worker w))"
proof
  show "world_run env w (worker_round env worker w)" by (rule worker_round_run)
  have "world_run (alone env) w (worker_round (alone env) worker w)" by (rule worker_round_run)
  then show "store_run (fst w) (fst (worker_round (alone env) worker w))"
    by (rule world_run_keeps) (simp add: alone_def store_nil)
qed

section \<open>Effects that start no process\<close>

definition with_spawn :: "'w worker_env \<Rightarrow> 'w spawner \<Rightarrow> 'w worker_env" where
  "with_spawn env f = env\<lparr>we_workspace := (we_workspace env)\<lparr>wk_spawn := f\<rparr>\<rparr>"

named_theorems spawn_free

lemma with_spawn_fields [spawn_free]:
  "we_meanwhile (with_spawn env f) = we_meanwhile env" "we_now (with_spawn env f) = we_now env"
  "we_fresh (with_spawn env f) = we_fresh env" "we_decoders (with_spawn env f) = we_decoders env"
  "we_plan_vec (with_spawn env f) = we_plan_vec env" "we_sha256_hex (with_spawn env f) = we_sha256_hex env"
  "we_read_pi (with_spawn env f) = we_read_pi env" "we_pi_value (with_spawn env f) = we_pi_value env"
  "we_nats (with_spawn env f) = we_nats env" "we_pi_codec (with_spawn env f) = we_pi_codec env"
  "we_pretty (with_spawn env f) = we_pretty env" "we_to_vec (with_spawn env f) = we_to_vec env"
  "we_serde_error (with_spawn env f) = we_serde_error env"
  "we_show_stack_error (with_spawn env f) = we_show_stack_error env"
  "we_codes_value (with_spawn env f) = we_codes_value env"
  "we_snapshot_value (with_spawn env f) = we_snapshot_value env"
  "we_printed (with_spawn env f) = we_printed env" "we_utc (with_spawn env f) = we_utc env"
  by (simp_all add: with_spawn_def)

lemma with_spawn_steps [spawn_free]:
  "on_db (with_spawn env f) = on_db env" "fresh_id (with_spawn env f) = fresh_id env"
  "read_utc (with_spawn env f) = read_utc env"
  "show_id (with_spawn env f) = show_id env" "policy_revision (with_spawn env f) = policy_revision env"
  "guard_ensure (with_spawn env f) = guard_ensure env"
  "drop_workspace (workspace_world (with_spawn env f)) = drop_workspace (workspace_world env)"
  by (intro ext, simp add: on_db_def fresh_id_def read_utc_def show_id_def policy_revision_def guard_ensure_def
      Workspace.ensure_lease_def drop_workspace_def workspace_world_def Let_def with_spawn_def)+

lemma reconcile_spawn_free [spawn_free]: "reconcile (with_spawn env f) = reconcile env"
proof -
  have settle: "settle_feedback (with_spawn env f) fs r = settle_feedback env fs r" for fs r
    by (induction fs arbitrary: r) (simp_all only: settle_feedback.simps spawn_free)
  show ?thesis
    by (intro ext) (simp only: reconcile_def settle enqueue_follow_up_jobs_def enqueue_feedback_def
        enqueue_ci_def enqueue_stack_def enqueue_job_def reconcile_result_def spawn_free)
qed

lemma diagnosis_spawn_free [spawn_free]: "pi_diagnosis (with_spawn env f) = pi_diagnosis env"
proof -
  have outputs: "check_outputs (with_spawn env f) c rep vs = check_outputs env c rep vs" for c rep vs
    by (induction vs) (simp_all only: check_outputs.simps check_evidence_def fetch_annotations_def
        fetch_actions_log_def spawn_free)
  have files: "snapshot_files (with_spawn env f) c x ps n = snapshot_files env c x ps n" for c x ps n
    by (induction ps arbitrary: n) (simp_all only: snapshot_files.simps spawn_free)
  show ?thesis
    by (intro ext) (simp only: pi_diagnosis_def ci_failure_evidence_def outputs files spawn_free)
qed

lemma target_spawn_free [spawn_free]:
  "locate_target (with_spawn env f) c x found = locate_target env c x found"
  by (cases found) (simp_all only: locate_target.simps spawn_free)

lemma head_spawn_free [spawn_free]: "read_admitted_head (with_spawn env f) = read_admitted_head env"
  by (intro ext) (simp only: read_admitted_head_def spawn_free)

lemma proposed_spawn_free [spawn_free]: "proposed_repair (with_spawn env f) = proposed_repair env"
  by (intro ext) (simp only: proposed_repair_def spawn_free)

lemma pending_spawn_free [spawn_free]:
  "pending_updates (with_spawn env f) c rep g us = pending_updates env c rep g us"
  by (induction us) (simp_all only: pending_updates.simps spawn_free)

lemma planned_spawn_free [spawn_free]: "planned_pull_requests (with_spawn env f) = planned_pull_requests env"
  by (intro ext) (simp only: planned_pull_requests_def spawn_free)

lemma approved_spawn_free [spawn_free]: "approved_by (with_spawn env f) = approved_by env"
  by (intro ext) (simp only: approved_by_def spawn_free)

section \<open>Approval\<close>











section \<open>Forks\<close>

definition only_forks :: "'w github_client \<Rightarrow> github_decoders \<Rightarrow> repository_context \<Rightarrow> bool" where
  "only_forks c ds rep \<longleftrightarrow> (\<forall>n v d v'. get_pull_request c ds (rc_owner rep) (rc_name rep) n v = (Inr d, v')
     \<longrightarrow> head_repository d \<noteq> Some (full_name rep))"

lemma io_then_agree:
  "(\<And>x w1. m w = (Inr x, w1) \<Longrightarrow> f x w1 = g x w1) \<Longrightarrow> io_then m f w = io_then m g w"
  by (auto simp: io_then_def split: prod.split sum.split)

lemma head_never_admitted:
  assumes "only_forks c (we_decoders env) rep"
  shows "io_then (read_admitted_head env c rep pr) k = io_then (read_admitted_head env c rep pr) k'"
proof (rule ext, rule io_then_agree)
  fix w u w1 assume "read_admitted_head env c rep pr w = (Inr u, w1)"
  then show "k u w1 = k' u w1"
    using assms by (auto simp: read_admitted_head_def io_then_Ok github_Ok admit_head_def and_then_Ok only_forks_def)
qed

lemma branches_never_admitted:
  assumes forks: "only_forks c (we_decoders env) rep"
  shows "rebase_branches (with_spawn env f) c rep p g token us by_number previous ns changes
    = rebase_branches env c rep p g token us by_number previous ns changes"
proof (cases ns)
  case (Cons n ns')
  have stops: "io_then (github (get_pull_request c (we_decoders env) (rc_owner rep) (rc_name rep) n)) (\<lambda>d.
        io_then (io_lift (admit_branch rep us n pr target d)) (\<lambda>a. case a of
          Stop blocker \<Rightarrow> io_ok (changes, [blocker]) | Go branch \<Rightarrow> k d branch)) =
      io_then (github (get_pull_request c (we_decoders env) (rc_owner rep) (rc_name rep) n)) (\<lambda>d.
        io_then (io_lift (admit_branch rep us n pr target d)) (\<lambda>a. case a of
          Stop blocker \<Rightarrow> io_ok (changes, [blocker]) | Go branch \<Rightarrow> k' d branch))"
    for pr target and k k' :: "github_pull_request \<Rightarrow> string \<Rightarrow> ('a, string list \<times> string list) wk"
  proof (rule ext, rule io_then_agree)
    fix w d w1
    assume "github (get_pull_request c (we_decoders env) (rc_owner rep) (rc_name rep) n) w = (Inr d, w1)"
    then have "head_repository d \<noteq> Some (full_name rep)"
      using forks by (auto simp: github_Ok only_forks_def)
    then show "io_then (io_lift (admit_branch rep us n pr target d)) (\<lambda>a. case a of
          Stop blocker \<Rightarrow> io_ok (changes, [blocker]) | Go branch \<Rightarrow> k d branch) w1
        = io_then (io_lift (admit_branch rep us n pr target d)) (\<lambda>a. case a of
          Stop blocker \<Rightarrow> io_ok (changes, [blocker]) | Go branch \<Rightarrow> k' d branch) w1"
      by (simp add: admit_branch_def Let_def)
  qed
  show ?thesis
    unfolding Cons rebase_branches.simps spawn_free
    by (intro arg_cong [where f = "io_then _"] ext stops)
qed simp

text \<open>
  C33: no work on forks: when GitHub reports the head of every pull request in another repository
  (or none at all), no job of the repository, whatever its kind, plan and approval, runs any
  process, so nothing is cloned, executed or pushed.
\<close>

theorem forks_are_not_repaired:
  assumes "only_forks c (we_decoders env) (rx_repository x)"
  shows "run_handler (with_spawn env f) c x job token w = run_handler env c x job token w"
proof -
  note head = head_never_admitted [OF assms]
  have feedback: "feedback_repair (with_spawn env f) c x p token = feedback_repair env c x p token" for p
    unfolding feedback_repair_def spawn_free
    by (intro option.case_cong refl arg_cong [where f = "io_then _"] ext head)
  have proposal: "apply_proposal (with_spawn env f) c x r token = apply_proposal env c x r token" for r
    unfolding apply_proposal_def spawn_free by (rule head)
  have ci: "ci_repair (with_spawn env f) c x job token = ci_repair env c x job token"
    by (simp only: ci_repair_def spawn_free proposal)
  have stack: "stack_rebase (with_spawn env f) c (rx_repository x) p g jp token
      = stack_rebase env c (rx_repository x) p g jp token" for p g jp
  proof -
    have "apply_base_updates (with_spawn env f) c rep g us changes = apply_base_updates env c rep g us changes" for rep us changes
      by (induction us arbitrary: changes) (simp_all only: apply_base_updates.simps spawn_free)
    then show ?thesis by (simp only: stack_rebase_def spawn_free branches_never_admitted [OF assms])
  qed
  show ?thesis
    by (simp only: run_handler_def run_feedback_job_def run_stack_job_def run_ci_job_def spawn_free
        feedback ci stack)
qed

section \<open>The bases of a stack\<close>

text \<open>A client whose \<open>PATCH\<close> requests all fail.\<close>

definition no_patch :: "'w github_client \<Rightarrow> 'w github_client" where
  "no_patch c = c\<lparr>gh_send := \<lambda>rq. if rq_method rq = PATCH then \<lambda>w. (Err [], w) else gh_send c rq\<rparr>"

lemma decode_no_patch: "decode_response (no_patch c) decode r = decode_response c decode r"
  by (auto simp: decode_response_def api_error_def no_patch_def)

lemma get_pull_request_no_patch: "get_pull_request (no_patch c) = get_pull_request c"
proof -
  have "join_path (no_patch c) p = join_path c p" "send_get (no_patch c) u = send_get c u" for p u
    by (simp_all add: join_path_def send_get_def request_def no_patch_def)
  then show ?thesis by (intro ext) (simp only: get_pull_request_def get_json_def decode_no_patch)
qed

lemma pending_no_patch: "pending_updates env (no_patch c) rep g us = pending_updates env c rep g us"
  by (induction us) (simp_all only: pending_updates.simps get_pull_request_no_patch)

lemma branches_no_patch:
  "rebase_branches env (no_patch c) rep p g token us by_number previous ns changes
     = rebase_branches env c rep p g token us by_number previous ns changes"
  by (induction ns arbitrary: previous changes)
    (simp_all only: rebase_branches.simps get_pull_request_no_patch)

lemma step_case: "(case a of Stop b \<Rightarrow> f b | Go x \<Rightarrow> g x) w = r
    \<longleftrightarrow> (\<exists>b. a = Stop b \<and> f b w = r) \<or> (\<exists>x. a = Go x \<and> g x w = r)"
  by (cases a) auto

lemma branches_counted:
  "rebase_branches env c rep p g token us by_number previous ns changes w = (Inr (changes', []), w')
     \<Longrightarrow> length changes' = length changes + length ns"
proof (induction ns arbitrary: previous changes w)
  case (Cons n ns)
  obtain change w1 where "rebase_branches env c rep p g token us by_number (Some n) ns (changes @ [change]) w1 = (Inr (changes', []), w')"
    using Cons.prems by (auto simp: io_then_Ok step_case)
  from Cons.IH [OF this] show ?case by simp
qed simp

text \<open>Every branch of a plan was found on its target or rebased onto it.\<close>

definition all_rebased ::
  "'w worker_env \<Rightarrow> 'w github_client \<Rightarrow> repository_context \<Rightarrow> policy \<Rightarrow> lease_guard \<Rightarrow> string
     \<Rightarrow> stack_pull_request list \<Rightarrow> stack_plan \<Rightarrow> store \<times> 'w \<Rightarrow> bool" where
  "all_rebased env c rep p g token prs planned w \<longleftrightarrow>
     (\<exists>changes w'. rebase_branches env c rep p g token (required_base_updates planned) (index_by_number prs) None
        (merge_order planned) [''computed a deterministic base-most to tip-most stack order''] w
        = (Inr (changes, []), w') \<and> length changes = Suc (length (merge_order planned)))"

text \<open>
  C34: bases change last: a rebase of a stack runs as it would if GitHub refused every change of a
  base, unless the plan is valid, its updates still fit the bases that GitHub reports, and every
  branch in the merge order was rebased (or found based) on its target first; so a conflict, a
  fork, a moved head or a lost lease changes no base.
\<close>

theorem bases_change_last:
  "stack_rebase env (no_patch c) rep p g job_plan token w = stack_rebase env c rep p g job_plan token w
   \<or> (\<exists>prs planned pending w'. planned_pull_requests env job_plan = Ok prs \<and> planned_stack prs = Ok planned
        \<and> pending_updates env c rep g (required_base_updates planned) w = (Inr pending, w')
        \<and> all_rebased env c rep p g token prs planned w')"
proof (rule disjCI)
  assume blocked: "\<not> (\<exists>prs planned pending w'. planned_pull_requests env job_plan = Ok prs \<and> planned_stack prs = Ok planned
        \<and> pending_updates env c rep g (required_base_updates planned) w = (Inr pending, w')
        \<and> all_rebased env c rep p g token prs planned w')"
  show "stack_rebase env (no_patch c) rep p g job_plan token w = stack_rebase env c rep p g job_plan token w"
    unfolding stack_rebase_def pending_no_patch branches_no_patch
    apply (intro io_then_agree)
    subgoal premises reached for prs w1 planned w2 pending w3 ended w4
    proof -
      obtain changes blockers where ended: "ended = (changes, blockers)" by fastforce
      have "blockers \<noteq> []"
      proof
        assume "blockers = []"
        with reached ended have "all_rebased env c rep p g token prs planned w3"
          unfolding all_rebased_def using branches_counted by fastforce
        moreover have "planned_pull_requests env job_plan = Ok prs" "planned_stack prs = Ok planned" "w2 = w"
          using reached by auto
        ultimately show False using reached blocked by blast
      qed
      then show ?thesis by (simp add: ended)
    qed
    done
qed

section \<open>Witnesses\<close>

definition sample_leased :: "string \<Rightarrow> json \<Rightarrow> leased_job" where
  "sample_leased k p = \<lparr>leased_id = 1, leased_repository_id = 7, leased_pull_request_number = 3,
     leased_kind = k, leased_plan = p, leased_until = 900, leased_token = 11, leased_attempt = 1,
     leased_max_attempts = 3\<rparr>"

definition sample_context :: repair_context where
  "sample_context = \<lparr>
     rx_repository = \<lparr>rc_id = 7, rc_installation_id = 5, rc_owner = ''acme'', rc_name = ''app'',
       rc_default_branch = ''main'', rc_policy_yaml = []\<rparr>,
     rx_pull_request = \<lparr>pcx_repository_id = 7, pcx_number = 3, pcx_github_id = 70, pcx_title = ''t'',
       pcx_url = ''u'', pcx_state = ''open'', pcx_draft = False, pcx_merged = False, pcx_head_sha = ''abcdef0'',
       pcx_base_sha = ''abcdef1'', pcx_head_branch = ''topic'', pcx_base_branch = ''main'', pcx_author_login = ''ann''\<rparr>,
     rx_policy = default_policy,
     rx_lease = \<lparr>lg_job_id = 1, lg_worker_id = ''worker'', lg_lease_token = 11\<rparr>\<rparr>"

text \<open>A head in a fork of the repository.\<close>

definition sample_fork_pull :: github_pull_request where
  "sample_fork_pull = \<lparr>pr_number = 3, pr_draft = False, pr_state = Some ''open'', pr_merged = None,
     pr_mergeable_state = None, pr_mergeable = None,
     pr_head = \<lparr>prb_sha = ''abcdef0'', prb_reference = Some ''topic'', prb_repository = Some (Some ''mallory/app'')\<rparr>,
     pr_base = \<lparr>prb_sha = ''abcdef1'', prb_reference = Some ''main'', prb_repository = Some (Some ''acme/app'')\<rparr>\<rparr>"

definition answering :: "github_pull_request \<Rightarrow> 'w worker_env \<Rightarrow> 'w worker_env" where
  "answering d env = env\<lparr>we_decoders := (we_decoders env)\<lparr>dec_pull := \<lambda>r. Ok d\<rparr>\<rparr>"

lemma answering_forks:
  "only_forks c (we_decoders (answering sample_fork_pull env)) (rx_repository sample_context)"
  by (auto simp: only_forks_def answering_def get_pull_request_def get_json_def io_then_Ok decode_response_def
      sample_fork_pull_def head_repository_def sample_context_def full_name_def split: if_splits)


theorem forks_are_not_repaired_witness:
  "\<forall>env f c w. run_handler (with_spawn (answering sample_fork_pull env) f) c sample_context
       (sample_leased ''ci_repair'' JNull) [] w
     = run_handler (answering sample_fork_pull env) c sample_context (sample_leased ''ci_repair'' JNull) [] w"
  using forks_are_not_repaired [OF answering_forks] by blast

end
