(* ===== verification/Rewrite_Properties.thy ===== *)
theory Rewrite_Properties
  imports Worker_Properties Workspace_Properties
begin

text \<open>
  The history of branches: no job makes a push that may rewrite a branch unless the policy lists
  it. Shown as independence from what such a push would do, for every job of the worker.
\<close>

section \<open>Pushes that may rewrite a branch\<close>

text \<open>The arguments by which \<open>git push\<close> is made to rewrite, and what the policy permits of them.\<close>

definition is_force :: "string \<Rightarrow> bool" where
  "is_force a \<longleftrightarrow> a = ''-f'' \<or> a = ''--mirror'' \<or> starts_with ''--force'' a \<or> starts_with ''+'' a"

definition permitted_rewrite :: "policy \<Rightarrow> string list \<Rightarrow> bool" where
  "permitted_rewrite p c \<longleftrightarrow> allow_bot_force_push p
     \<and> list_ex (\<lambda>b. last c = ''HEAD:refs/heads/'' @ b
          \<and> list_all (starts_with (''--force-with-lease=refs/heads/'' @ b @ '':'')) (filter is_force c))
        (bot_owned_branches p)"

definition unlisted_rewrite :: "policy \<Rightarrow> string list \<Rightarrow> bool" where
  "unlisted_rewrite p c \<longleftrightarrow> is_push c \<and> list_ex is_force c \<and> \<not> permitted_rewrite p c"

section \<open>Two environments that differ in the processes of one kind\<close>

text \<open>
  \<open>respawned\<close> is the environment with another spawner, which answers every command line alike
  unless it is \<open>special\<close>; only pushes are.
\<close>

locale two_spawners =
  fixes special :: "string list \<Rightarrow> bool" and env :: "'w workspace_env" and spawn :: "'w spawner"
  assumes alike: "\<not> special (cl_argv l) \<Longrightarrow> spawn l w = wk_spawn env l w"
    and only_pushes: "special c \<Longrightarrow> is_push c"
begin

definition respawned :: "'w workspace_env" where
  "respawned = env\<lparr>wk_spawn := spawn\<rparr>"

lemma fields [simp]:
  "wk_spawn respawned = spawn" "wk_path respawned = wk_path env" "wk_lossy respawned = wk_lossy env"
  "wk_assert_lease respawned = wk_assert_lease env" "wk_files respawned = wk_files env"
  "wk_put_files respawned = wk_put_files env" "wk_interfere respawned = wk_interfere env"
  "wk_cwd respawned = wk_cwd env" "wk_temp_dir respawned = wk_temp_dir env"
  "wk_current_exe respawned = wk_current_exe env" "wk_show_uuid respawned = wk_show_uuid env"
  by (simp_all add: respawned_def)

lemma quiet: "\<not> is_push c \<Longrightarrow> \<not> special c"
  using only_pushes by blast

lemma bounded_same:
  "\<not> special c \<Longrightarrow> run_bounded_argv_with_optional_input path lossy spawn root c environment input
     = run_bounded_argv_with_optional_input path lossy (wk_spawn env) root c environment input"
  by (intro ext) (simp add: run_bounded_argv_with_optional_input_def alike)

lemma run_result_same: "\<not> special c \<Longrightarrow> run_result respawned ws root c = run_result env ws root c"
  unfolding run_result_def run_bounded_argv_def by (simp add: bounded_same)

lemma run_in_same: "\<not> special c \<Longrightarrow> run_in respawned ws root c = run_in env ws root c"
  by (simp add: run_in_def run_result_same)

lemma run_repo_same: "\<not> special c \<Longrightarrow> run_repo respawned ws c = run_repo env ws c"
  by (simp add: run_repo_def run_in_same)

lemma files_same:
  "Workspace.ensure_lease respawned g = Workspace.ensure_lease env g"
  "on_files respawned f = on_files env f" "create_dirs respawned names = create_dirs env names"
  "drop_workspace respawned ws = drop_workspace env ws" "repair_files respawned ws allowed found = repair_files env ws allowed found"
  unfolding Workspace.ensure_lease_def on_files_def create_dirs_def drop_workspace_def repair_files_def fields
  by (rule refl)+

lemma copy_same: "copy_changed_paths respawned source destination ps = copy_changed_paths env source destination ps"
  by (induction ps) (simp_all only: copy_changed_paths.simps copy_changed_path_def files_same fields)

lemma patch_command_same:
  "\<not> special c \<Longrightarrow> run_patch_command respawned ws g c input = run_patch_command env ws g c input"
  unfolding run_patch_command_def run_bounded_argv_with_input_def by (simp add: bounded_same files_same)

lemma validation_same:
  "run_validation_commands_sandboxed path lossy spawn root cs = run_validation_commands_sandboxed path lossy (wk_spawn env) root cs"
proof -
  have "run_sandboxed_command path lossy spawn root = run_sandboxed_command path lossy (wk_spawn env) root"
  proof
    fix c
    show "run_sandboxed_command path lossy spawn root c = run_sandboxed_command path lossy (wk_spawn env) root c"
    proof (cases "validation_sandbox_argv root (argv c)")
      case (Inr command)
      then have "\<not> special command"
        by (intro quiet) (auto simp: validation_sandbox_argv_def sandbox_not_push split: if_splits list.splits)
      with Inr show ?thesis
        by (intro ext) (simp add: run_sandboxed_command_def run_bounded_argv_def bounded_same)
    qed (intro ext, simp add: run_sandboxed_command_def)
  qed
  then show ?thesis by (intro ext) (simp add: run_validation_commands_sandboxed_def)
qed

lemma not_pushes:
  "\<not> special (''git'' # a # c)" if "a \<notin> {''-c'', ''push''}" for a c
  using that by (intro quiet) (cases c, auto simp: is_push_def)

lemma not_pushes_configured:
  "\<not> special (''git'' # ''-c'' # v # a # c)" if "a \<notin> {''-c'', ''push''}" for v a c
  using that by (intro quiet) (cases c, auto simp: is_push_def)

lemma not_git: "\<not> special (a # c)" if "a \<noteq> ''git''" for a c
  using that by (intro quiet) (simp add: is_push_def)

lemmas same = run_result_same run_in_same run_repo_same files_same copy_same patch_command_same
  validation_same not_pushes not_pushes_configured not_git

section \<open>The operations of a workspace\<close>

lemma clean_same: "ensure_clean respawned ws = ensure_clean env ws"
  by (simp add: ensure_clean_def same)

lemma or_drop_same: "or_drop respawned ws m = or_drop env ws m"
  unfolding or_drop_def files_same ..

lemma clone_branch_same:
  "clone_branch respawned i own repo branch sha token = clone_branch env i own repo branch sha token"
  by (simp add: clone_branch_def same clean_same or_drop_same Let_def)

lemma snapshot_same: "validate_snapshot respawned ws changed cs = validate_snapshot env ws changed cs"
  by (simp add: validate_snapshot_def prepare_validation_snapshot_def same Let_def)

lemma staged_same: "ensure_staged_paths respawned ws expected = ensure_staged_paths env ws expected"
  by (simp add: ensure_staged_paths_def same)

lemma lifted_same:
  assumes "\<And>c. r = Ok c \<Longrightarrow> \<not> special c"
  shows "io_then (io_lift r) (\<lambda>c. io_then (run_repo respawned ws c) k) = io_then (io_lift r) (\<lambda>c. io_then (run_repo env ws c) k)"
  using assms by (intro ext io_then_agree) (simp add: run_repo_same)

lemma remote_head_same: "ensure_remote_head respawned ws branch expected = ensure_remote_head env ws branch expected"
  unfolding ensure_remote_head_def
  by (intro arg_cong [where f = "io_then _"] ext fun_cong [OF lifted_same])
    (auto simp: remote_head_argv_def and_then_Ok same)

lemma publish_staged_same:
  assumes "\<not> special (push_argv ws branch)"
  shows "publish_staged respawned ws g paths subject what branch expected cs
    = publish_staged env ws g paths subject what branch expected cs"
proof -
  have "\<not> special (commit_argv m)" for m by (intro quiet) (simp add: commit_argv_def is_push_def)
  with assms show ?thesis
    by (simp add: publish_staged_def same snapshot_same staged_same remote_head_same)
qed

lemma apply_feedback_same:
  assumes "\<not> special (push_argv ws branch)"
  shows "apply_feedback respawned ws g allowed found branch expected cs
    = apply_feedback env ws g allowed found branch expected cs"
  by (simp add: apply_feedback_def same clean_same publish_staged_same [OF assms])

lemma apply_ci_repair_same:
  assumes "\<not> special (push_argv ws branch)"
  shows "apply_ci_repair respawned ws g patches allowed branch expected cs
    = apply_ci_repair env ws g patches allowed branch expected cs"
proof -
  have "apply_patches respawned ws g ps = apply_patches env ws g ps" for ps
    by (induction ps) (simp_all add: same)
  then show ?thesis
    by (simp add: apply_ci_repair_def same clean_same publish_staged_same [OF assms] Let_def)
qed

lemma publish_rebase_same:
  assumes "\<And>forced c. rebase_push_argv branch expected forced = Ok c \<Longrightarrow> \<not> forced \<or> allow \<Longrightarrow> \<not> special c"
  shows "publish_rebase respawned ws g branch target expected allow cs after
    = publish_rebase env ws g branch target expected allow cs after"
proof -
  have push: "io_then (io_lift (rebase_push_argv branch expected forced)) (\<lambda>c. io_then (run_repo respawned ws c) k)
      = io_then (io_lift (rebase_push_argv branch expected forced)) (\<lambda>c. io_then (run_repo env ws c) k)"
    if "\<not> forced \<or> allow" for forced and k :: "command_result \<Rightarrow> ('w, rebase_commit) ws_io"
    by (rule lifted_same) (rule assms [OF _ that])
  show ?thesis
    unfolding publish_rebase_def snapshot_same Let_def files_same
      run_result_same [OF not_pushes [of "''merge-base''", simplified]]
    by (intro arg_cong [where f = "io_then _"] ext fun_cong [OF if_cong] refl push) auto
qed

lemma rebase_onto_same:
  assumes "\<And>forced c. rebase_push_argv branch expected forced = Ok c \<Longrightarrow> \<not> forced \<or> allow \<Longrightarrow> \<not> special c"
  shows "rebase_onto respawned ws g branch target expected allow cs
    = rebase_onto env ws g branch target expected allow cs"
proof -
  have "abort_rebase respawned ws = abort_rebase env ws"
    by (intro ext) (simp add: abort_rebase_def same)
  then have "rebase_or_abort respawned ws branch target = rebase_or_abort env ws branch target"
    by (simp add: rebase_or_abort_def same cong: if_cong)
  then show ?thesis
    by (simp only: rebase_onto_def clean_same publish_rebase_same [OF assms]) (simp add: same)
qed

end

section \<open>The worker with another spawner for unlisted rewrites\<close>

text \<open>The environment in which pushes that rewrite unlisted branches do what \<open>f\<close> does.\<close>

abbreviation rewriting :: "policy \<Rightarrow> 'w spawner \<Rightarrow> 'w worker_env \<Rightarrow> 'w worker_env" where
  "rewriting p f env \<equiv> with_spawn env
     (\<lambda>l. if unlisted_rewrite p (cl_argv l) then f l else wk_spawn (we_workspace env) l)"

interpretation unlisted: two_spawners "unlisted_rewrite p" "workspace_world env"
  "wk_spawn (workspace_world (rewriting p f env))" for p :: policy and env :: "'w worker_env" and f
  by unfold_locales (auto simp: workspace_world_def Let_def with_spawn_def unlisted_rewrite_def)

lemma respawned_world:
  "two_spawners.respawned (workspace_world env) (wk_spawn (workspace_world (rewriting p f env))) = workspace_world (rewriting p f env)"
  by (simp add: unlisted.respawned_def) (simp add: workspace_world_def Let_def with_spawn_def)

lemma plain_push_listed: "\<not> unlisted_rewrite p (push_argv ws branch)"
  by (simp add: unlisted_rewrite_def push_argv_def is_force_def starts_with_def)

lemma rebase_push_listed:
  assumes "rebase_push_argv branch expected forced = Ok c" "\<not> forced \<or> may_force p branch"
  shows "\<not> unlisted_rewrite p c"
proof (cases forced)
  case False
  with assms(1) show ?thesis
    by (auto simp: unlisted_rewrite_def rebase_push_argv_def and_then_Ok is_force_def starts_with_def)
next
  case True
  with assms have "permitted_rewrite p c"
    by (auto simp: permitted_rewrite_def rebase_push_argv_def and_then_Ok is_force_def starts_with_def may_force_def list_ex_iff)
  then show ?thesis by (simp add: unlisted_rewrite_def)
qed

lemmas clone_branch_listed = unlisted.clone_branch_same [unfolded respawned_world]
lemmas apply_feedback_listed = unlisted.apply_feedback_same [OF plain_push_listed, unfolded respawned_world]
lemmas apply_ci_repair_listed = unlisted.apply_ci_repair_same [OF plain_push_listed, unfolded respawned_world]

lemma rebase_onto_listed:
  "rebase_onto (workspace_world (rewriting p f env)) ws g branch target expected (may_force p branch) cs
     = rebase_onto (workspace_world env) ws g branch target expected (may_force p branch) cs"
  by (rule unlisted.rebase_onto_same [unfolded respawned_world]) (rule rebase_push_listed)

lemma clone_listed: "clone (rewriting p f env) rep branch sha token = clone env rep branch sha token"
  by (simp add: clone_def clone_branch_listed spawn_free)

lemma workspace_listed: "with_workspace (rewriting p f env) ws m = with_workspace env ws m"
  by (intro ext) (simp add: with_workspace_def spawn_free)

lemma outcome_spawn_free [spawn_free]:
  "publish_feedback_outcome (with_spawn env f) = publish_feedback_outcome env"
proof -
  have "post_outcome (with_spawn env f) c x t s = post_outcome env c x t s"
    "resolve_target (with_spawn env f) c t = resolve_target env c t" for c x t s
    by (cases t; simp only: post_outcome.simps resolve_target.simps spawn_free)+
  then show ?thesis by (intro ext) (simp only: publish_feedback_outcome_def spawn_free)
qed

lemma feedback_listed:
  "feedback_repair (rewriting p f env) c x job_plan token = feedback_repair env c x job_plan token"
proof -
  have "repair_in_workspace (rewriting p f env) c x target found ws = repair_in_workspace env c x target found ws"
    for target found ws
    by (simp only: repair_in_workspace_def feedback_applied_def feedback_rejected_def apply_feedback_listed spawn_free)
  then show ?thesis
    by (simp only: feedback_repair_def clone_listed workspace_listed spawn_free)
qed

lemma ci_listed: "ci_repair (rewriting p f env) c x job token = ci_repair env c x job token"
  by (simp only: ci_repair_def apply_proposal_def clone_listed workspace_listed apply_ci_repair_listed spawn_free)

lemma stack_listed:
  "stack_rebase (rewriting p f env) c rep p g job_plan token = stack_rebase env c rep p g job_plan token"
proof -
  have branch: "rebase_branch (rewriting p f env) rep p g branch target sha token = rebase_branch env rep p g branch target sha token"
    for branch target sha
    by (simp only: rebase_branch_def clone_listed workspace_listed rebase_onto_listed)
  have branches: "rebase_branches (rewriting p f env) c rep p g token us by_number previous ns changes
      = rebase_branches env c rep p g token us by_number previous ns changes" for us by_number previous ns changes
    by (induction ns arbitrary: previous changes) (simp_all only: rebase_branches.simps branch spawn_free)
  have "apply_base_updates (rewriting p f env) c rep g us changes = apply_base_updates env c rep g us changes" for us changes
    by (induction us arbitrary: changes) (simp_all only: apply_base_updates.simps spawn_free)
  then show ?thesis by (simp only: stack_rebase_def branches spawn_free)
qed

section \<open>Property\<close>

text \<open>
  C15: history is rewritten only where the policy lists it: no job, whatever its kind, plan and
  approval and whatever GitHub, the provider and the processes answer, makes a push that may
  rewrite a branch (with a force option or a forced refspec), unless the policy allows forced
  pushes and lists the branch that is pushed, and the only force in it is a lease on that very
  branch. Such a push is never attempted: the run of the job, with its result, store and outside,
  does not depend on what the push would do.
\<close>

theorem rewrites_need_policy:
  "run_handler (with_spawn env (\<lambda>l. if unlisted_rewrite (rx_policy x) (cl_argv l) then f l
       else wk_spawn (we_workspace env) l)) c x job token w
   = run_handler env c x job token w"
  by (simp only: run_handler_def run_feedback_job_def run_stack_job_def run_ci_job_def feedback_listed
      ci_listed stack_listed spawn_free)

text \<open>What counts as such a push: the push of a rebase for a branch that the policy does not list.\<close>

lemma unlisted_rewrite_examples:
  "unlisted_rewrite default_policy [''git'', ''push'', ''--force-with-lease=refs/heads/topic:abc'', ''origin'', ''HEAD:refs/heads/topic'']"
  "unlisted_rewrite (default_policy\<lparr>allow_bot_force_push := True, bot_owned_branches := [''bot/x'']\<rparr>)
     [''git'', ''push'', ''--force-with-lease=refs/heads/topic:abc'', ''origin'', ''HEAD:refs/heads/topic'']"
  "\<not> unlisted_rewrite (default_policy\<lparr>allow_bot_force_push := True, bot_owned_branches := [''topic'']\<rparr>)
     [''git'', ''push'', ''--force-with-lease=refs/heads/topic:abc'', ''origin'', ''HEAD:refs/heads/topic'']"
  by code_simp+

end
