(* ===== verification/Settings.thy ===== *)
theory Settings
  imports Json Http
begin

text \<open>
  The settings of a process, \<open>src/config.rs\<close> with the errors of \<open>src/error.rs\<close>, and the operator's
  token, \<open>src/admin.rs\<close>. The environment (after \<open>.env\<close> was read), the content of a file, Argon2
  and the texts of the library's errors are parameters.
\<close>

datatype config_error = Cf_Missing string | Cf_Invalid string string

record app_config =
  cfg_bind_address :: string
  cfg_database_url :: string
  cfg_nats_url :: string
  cfg_github_app_id :: u64
  cfg_github_private_key :: string
  cfg_github_webhook_secret :: string
  cfg_admin_bearer_token_hash :: string
  cfg_reconcile_interval_seconds :: u64

text \<open>The password hashes of the \<open>argon2\<close> crate: reading one and checking a password.\<close>

record 'h password_hashing =
  ph_new :: "string \<Rightarrow> (string, 'h) result"
  ph_verify :: "string \<Rightarrow> 'h \<Rightarrow> bool"

record 'h config_env =
  ce_var :: "string \<Rightarrow> string option"
  ce_read_file :: "string \<Rightarrow> (string, string) result"
  ce_show_parse_error :: "string \<Rightarrow> string"
  ce_show_utf8_error :: "string \<Rightarrow> string"
  ce_hashing :: "'h password_hashing"

section \<open>The operator's token\<close>

definition verify_bearer_token :: "'h password_hashing \<Rightarrow> string \<Rightarrow> string \<Rightarrow> bool" where
  "verify_bearer_token h token stored =
     (case ph_new h stored of Inl e \<Rightarrow> False | Inr x \<Rightarrow> ph_verify h token x)"

definition validate_bearer_hash :: "'h password_hashing \<Rightarrow> string \<Rightarrow> (string, unit) result" where
  "validate_bearer_hash h value =
     (case ph_new h value of Inl e \<Rightarrow> Err (''invalid Argon2 password hash: '' @ e) | Inr x \<Rightarrow> Ok ())"

text \<open>The headers by their lower-case names, each with its text when it has one.\<close>

definition bearer_token :: "(string \<Rightarrow> string option) \<Rightarrow> string option" where
  "bearer_token headers =
     Option.bind (headers ''authorization'') (\<lambda>v.
     Option.bind (strip_prefix ''Bearer '' v) (\<lambda>t. if t = [] then None else Some t))"

definition is_operator :: "'h password_hashing \<Rightarrow> (string \<Rightarrow> string option) \<Rightarrow> string \<Rightarrow> bool" where
  "is_operator h headers stored =
     (case bearer_token headers of None \<Rightarrow> False | Some t \<Rightarrow> verify_bearer_token h t stored)"

section \<open>Reading the settings\<close>

definition required :: "'h config_env \<Rightarrow> string \<Rightarrow> (config_error, string) result" where
  "required env x = ok_or (Cf_Missing x) (ce_var env x)"

definition var_or :: "'h config_env \<Rightarrow> string \<Rightarrow> string \<Rightarrow> string" where
  "var_or env x default_value = (case ce_var env x of None \<Rightarrow> default_value | Some v \<Rightarrow> v)"

definition read_secret_path :: "'h config_env \<Rightarrow> string \<Rightarrow> (config_error, string) result" where
  "read_secret_path env x =
     and_then (required env x) (\<lambda>path.
     and_then (map_err (\<lambda>e. Cf_Invalid x (''cannot read '' @ path @ '': '' @ e)) (ce_read_file env path)) (\<lambda>bytes.
     if utf8_valid bytes then Ok bytes
     else Err (Cf_Invalid x (''private key is not UTF-8: '' @ ce_show_utf8_error env bytes))))"

text \<open>
  \<open>IpAddr::from_str\<close> on a text without a colon, which is never an IPv6 address: four decimal
  octets without leading zeros.
\<close>

definition ipv4_octet :: "string \<Rightarrow> bool" where
  "ipv4_octet s \<longleftrightarrow> s \<noteq> [] \<and> length s \<le> 3 \<and> list_all is_ascii_digit s
     \<and> (length s > 1 \<longrightarrow> hd s \<noteq> CHR ''0'')
     \<and> (case parse_digits s of None \<Rightarrow> False | Some n \<Rightarrow> n \<le> 255)"

definition is_ipv4 :: "string \<Rightarrow> bool" where
  "is_ipv4 s = (case split_char CHR ''.'' s of
       [a, b, c, d] \<Rightarrow> ipv4_octet a \<and> ipv4_octet b \<and> ipv4_octet c \<and> ipv4_octet d
     | _ \<Rightarrow> False)"

definition validate_bind_address :: "'h config_env \<Rightarrow> string \<Rightarrow> (config_error, unit) result" where
  "validate_bind_address env value =
     and_then (ok_or (Cf_Invalid ''PITOOLS_BIND_ADDRESS'' ''expected host:port'') (split_once '':'' value)) (\<lambda>(host, port).
     and_then (reject_if (\<not> is_ipv4 host) (Cf_Invalid ''PITOOLS_BIND_ADDRESS'' (ce_show_parse_error env host))) (\<lambda>_.
     reject_if (parse_unsigned 65535 port = None)
       (Cf_Invalid ''PITOOLS_BIND_ADDRESS'' (ce_show_parse_error env port))))"

definition parse_setting :: "'h config_env \<Rightarrow> string \<Rightarrow> string \<Rightarrow> (config_error, u64) result" where
  "parse_setting env field value = ok_or (Cf_Invalid field (ce_show_parse_error env value)) (parse_u64 value)"

definition from_env :: "'h config_env \<Rightarrow> (config_error, app_config) result" where
  "from_env env =
     (let bind_address = var_or env ''PITOOLS_BIND_ADDRESS'' ''0.0.0.0:8080''
      in and_then (validate_bind_address env bind_address) (\<lambda>_.
         and_then (required env ''DATABASE_URL'') (\<lambda>database_url.
         let nats_url = var_or env ''NATS_URL'' ''nats://127.0.0.1:4222''
         in and_then (required env ''GITHUB_APP_ID'') (\<lambda>app_id_text.
         and_then (parse_setting env ''GITHUB_APP_ID'' app_id_text) (\<lambda>app_id.
         and_then (read_secret_path env ''GITHUB_PRIVATE_KEY_PATH'') (\<lambda>private_key.
         and_then (required env ''GITHUB_WEBHOOK_SECRET'') (\<lambda>webhook_secret.
         and_then (required env ''ADMIN_BEARER_TOKEN_HASH'') (\<lambda>hash.
         and_then (map_err (Cf_Invalid ''ADMIN_BEARER_TOKEN_HASH'') (validate_bearer_hash (ce_hashing env) hash)) (\<lambda>_.
         and_then (parse_setting env ''PITOOLS_RECONCILE_INTERVAL_SECONDS''
            (var_or env ''PITOOLS_RECONCILE_INTERVAL_SECONDS'' ''300'')) (\<lambda>interval.
         and_then (reject_if (\<not> (30 \<le> interval \<and> interval \<le> 86400))
            (Cf_Invalid ''PITOOLS_RECONCILE_INTERVAL_SECONDS'' ''must be between 30 and 86400 seconds'')) (\<lambda>_.
         Ok \<lparr>cfg_bind_address = bind_address, cfg_database_url = database_url, cfg_nats_url = nats_url,
           cfg_github_app_id = app_id, cfg_github_private_key = private_key,
           cfg_github_webhook_secret = webhook_secret, cfg_admin_bearer_token_hash = hash,
           cfg_reconcile_interval_seconds = interval\<rparr>)))))))))))"

text \<open>The fields of \<open>Debug\<close>, each with the text or number that is formatted.\<close>

datatype debug_value = Debug_Text string | Debug_Number nat

definition config_debug :: "app_config \<Rightarrow> (string \<times> debug_value) list" where
  "config_debug c =
     [(''bind_address'', Debug_Text (cfg_bind_address c)), (''database_url'', Debug_Text ''[REDACTED]''),
      (''nats_url'', Debug_Text (cfg_nats_url c)), (''github_app_id'', Debug_Number (cfg_github_app_id c)),
      (''github_private_key'', Debug_Text ''[REDACTED]''),
      (''github_webhook_secret'', Debug_Text ''[REDACTED]''),
      (''admin_bearer_token_hash'', Debug_Text ''[REDACTED]''),
      (''reconcile_interval_seconds'', Debug_Number (cfg_reconcile_interval_seconds c))]"

section \<open>What accepted settings are\<close>

lemma from_env_Ok:
  "from_env env = Ok c \<Longrightarrow> validate_bind_address env (cfg_bind_address c) = Ok ()
     \<and> ce_var env ''DATABASE_URL'' = Some (cfg_database_url c)
     \<and> ce_var env ''GITHUB_WEBHOOK_SECRET'' = Some (cfg_github_webhook_secret c)
     \<and> ce_var env ''ADMIN_BEARER_TOKEN_HASH'' = Some (cfg_admin_bearer_token_hash c)
     \<and> validate_bearer_hash (ce_hashing env) (cfg_admin_bearer_token_hash c) = Ok ()
     \<and> utf8_valid (cfg_github_private_key c) \<and> cfg_github_app_id c \<le> u64_max
     \<and> 30 \<le> cfg_reconcile_interval_seconds c \<and> cfg_reconcile_interval_seconds c \<le> 86400"
  by (auto simp: from_env_def Let_def and_then_Ok required_def read_secret_path_def parse_setting_def
      dest: parse_unsigned_range split: if_splits)

lemma digits_value_digits: "digits_value acc s = Some n \<Longrightarrow> list_all is_ascii_digit s"
  by (induction acc s rule: digits_value.induct) (auto split: if_splits)

lemma parse_unsigned_no_colon:
  assumes "parse_unsigned hi s \<noteq> None"
  shows "CHR '':'' \<notin> set s"
proof
  assume colon: "CHR '':'' \<in> set s"
  have "\<not> is_ascii_digit CHR '':''" by code_simp
  then have "\<not> list_all is_ascii_digit s" "\<not> list_all is_ascii_digit (tl s)" if "hd s \<noteq> CHR '':''"
    using colon that by (cases s; auto simp: list_all_iff)+
  moreover have "\<not> list_all is_ascii_digit s" if "hd s = CHR '':''"
    using \<open>\<not> is_ascii_digit CHR '':''\<close> colon that by (cases s) auto
  ultimately show False
    using assms digits_value_digits
    by (cases s) (auto simp: parse_unsigned_def parse_digits_def split: option.splits if_splits)
qed

lemma bind_address_port:
  "validate_bind_address env value = Ok () \<Longrightarrow> split_once '':'' value = Some (host, port) \<Longrightarrow> parse_unsigned 65535 port \<noteq> None"
  by (simp add: validate_bind_address_def and_then_Ok)

text \<open>
  The address is split at its first colon, so an IPv6 address, which has several, is refused
  although the host is parsed as any IP address.
\<close>

theorem ipv6_addresses_refused:
  "validate_bind_address env (a @ '':'' @ b @ '':'' @ c) \<noteq> Ok ()"
proof (cases "find_sub '':'' (a @ '':'' @ b @ '':'' @ c)")
  case None
  then show ?thesis by (simp add: validate_bind_address_def split_once_def)
next
  case (Some i)
  let ?s = "a @ '':'' @ b @ '':'' @ c"
  have "i \<le> length a"
  proof (rule ccontr)
    assume "\<not> i \<le> length a"
    then have "\<not> starts_with '':'' (drop (length a) ?s)" using find_sub_first [OF Some, of "length a"] by simp
    then show False by (simp add: starts_with_iff)
  qed
  then consider "i = length a" | "Suc i \<le> length a" by linarith
  then have "CHR '':'' \<in> set (drop (Suc i) ?s)" by cases simp_all
  then have "parse_unsigned 65535 (drop (Suc i) ?s) = None" using parse_unsigned_no_colon by blast
  moreover have "split_once '':'' ?s = Some (take i ?s, drop (Suc i) ?s)"
    unfolding split_once_def Some by simp
  ultimately show ?thesis using bind_address_port by fastforce
qed

lemma config_debug_hides_secrets:
  "config_debug (c\<lparr>cfg_database_url := u, cfg_github_private_key := k, cfg_github_webhook_secret := w,
     cfg_admin_bearer_token_hash := h\<rparr>) = config_debug c"
  by (simp add: config_debug_def)

end
