(* ===== verification/Api.thy ===== *)
theory Api
  imports Settings Webhook Manifest
begin

text \<open>
  The HTTP surface, \<open>src/api.rs\<close> and \<open>src/web.rs\<close>: the operator's endpoints with their check of the
  token, the answers of health, readiness and metrics, and the callback of the manifest flow.
  Routing, extraction of arguments and the encoding of a body as JSON belong to the framework.
\<close>

datatype api_error = Api_Unauthorized | Api_Unavailable string | Api_Not_Found | Api_Internal string

fun api_error_response :: "api_error \<Rightarrow> nat \<times> json" where
  "api_error_response Api_Unauthorized = (401, jobj [(''error'', JStr ''unauthorized'')])"
| "api_error_response (Api_Unavailable component) = (503, jobj [(''error'', JStr component)])"
| "api_error_response Api_Not_Found = (404, jobj [(''error'', JStr ''not found'')])"
| "api_error_response (Api_Internal message) = (500, jobj [(''error'', JStr message)])"

text \<open>The whole of \<open>AppState\<close>.\<close>

record operator_state = app_state +
  st_admin_bearer_token_hash :: string
  st_has_nats :: bool

record 'h api_env =
  ap_hashing :: "'h password_hashing"
  ap_printed :: "json \<Rightarrow> string"
  ap_show_queue :: "queue_error \<Rightarrow> string"

type_synonym 'a api_io = "(store, api_error, 'a) io"

section \<open>The operator's endpoints\<close>

definition require_admin :: "'h api_env \<Rightarrow> (string \<Rightarrow> string option) \<Rightarrow> operator_state \<Rightarrow> (api_error, unit) result" where
  "require_admin env headers st =
     reject_if (\<not> is_operator (ap_hashing env) headers (st_admin_bearer_token_hash st)) Api_Unauthorized"

definition the_repositories :: "operator_state \<Rightarrow> (api_error, unit) result" where
  "the_repositories st = reject_if (\<not> st_has_repositories st) (Api_Unavailable ''database'')"

definition the_queue :: "operator_state \<Rightarrow> (api_error, unit) result" where
  "the_queue st = reject_if (\<not> st_has_queue st) (Api_Unavailable ''queue'')"

definition list_limit :: "nat option \<Rightarrow> i64" where
  "list_limit limit = int (max 1 (min 100 (case limit of None \<Rightarrow> 50 | Some n \<Rightarrow> n)))"

definition list_watchlist ::
  "'h api_env \<Rightarrow> (string \<Rightarrow> string option) \<Rightarrow> operator_state \<Rightarrow> pull_request_row list api_io" where
  "list_watchlist env headers st =
     io_then (io_lift (require_admin env headers st)) (\<lambda>_.
     io_then (io_lift (the_repositories st)) (\<lambda>_.
     query open_pull_requests))"

definition get_watchlist_item ::
  "'h api_env \<Rightarrow> (string \<Rightarrow> string option) \<Rightarrow> operator_state \<Rightarrow> i64 \<Rightarrow> i32 \<Rightarrow> pull_request_detail api_io" where
  "get_watchlist_item env headers st r n =
     io_then (io_lift (require_admin env headers st)) (\<lambda>_.
     io_then (io_lift (the_repositories st)) (\<lambda>_.
     io_then (query (pull_request_detail_of r n)) (\<lambda>detail.
     io_lift (ok_or Api_Not_Found detail))))"

definition get_watchlist_history ::
  "'h api_env \<Rightarrow> (string \<Rightarrow> string option) \<Rightarrow> operator_state \<Rightarrow> i64 \<Rightarrow> i32 \<Rightarrow> nat option
     \<Rightarrow> pull_request_history api_io" where
  "get_watchlist_history env headers st r n limit =
     io_then (io_lift (require_admin env headers st)) (\<lambda>_.
     io_then (io_lift (the_repositories st)) (\<lambda>_.
     io_then (query (pull_request_history_of r n (list_limit limit))) (\<lambda>history.
     io_lift (ok_or Api_Not_Found history))))"

definition list_events ::
  "'h api_env \<Rightarrow> (string \<Rightarrow> string option) \<Rightarrow> operator_state \<Rightarrow> nat option \<Rightarrow> event_delivery_row list api_io" where
  "list_events env headers st limit =
     io_then (io_lift (require_admin env headers st)) (\<lambda>_.
     io_then (io_lift (the_repositories st)) (\<lambda>_.
     query (recent_events (list_limit limit))))"

definition list_audit ::
  "'h api_env \<Rightarrow> (string \<Rightarrow> string option) \<Rightarrow> operator_state \<Rightarrow> nat option \<Rightarrow> audit_row list api_io" where
  "list_audit env headers st limit =
     io_then (io_lift (require_admin env headers st)) (\<lambda>_.
     io_then (io_lift (the_repositories st)) (\<lambda>_.
     query (recent_audit_entries (list_limit limit))))"

definition sourced :: "string \<Rightarrow> i64 \<Rightarrow> i32 \<Rightarrow> job_spec" where
  "sourced source r n = \<lparr>spec_repository_id = r, spec_pull_request_number = n, spec_kind = Reconcile,
     spec_plan = jobj [(''source'', JStr source)]\<rparr>"

definition enqueue_reconcile ::
  "'h api_env \<Rightarrow> timestamp \<Rightarrow> uuid \<Rightarrow> (string \<Rightarrow> string option) \<Rightarrow> operator_state \<Rightarrow> i64 \<Rightarrow> i32 \<Rightarrow> uuid api_io" where
  "enqueue_reconcile env now fresh headers st r n =
     io_then (io_lift (require_admin env headers st)) (\<lambda>_.
     io_then (io_lift (the_queue st)) (\<lambda>_.
     io_map_err (\<lambda>e. Api_Internal (ap_show_queue env e))
       (queue_statement (enqueue (ap_printed env) now fresh (sourced ''operator'' r n)))))"

definition cancel_job_request ::
  "'h api_env \<Rightarrow> timestamp \<Rightarrow> (string \<Rightarrow> string option) \<Rightarrow> operator_state \<Rightarrow> uuid \<Rightarrow> bool api_io" where
  "cancel_job_request env now headers st i =
     io_then (io_lift (require_admin env headers st)) (\<lambda>_.
     io_then (io_lift (the_queue st)) (\<lambda>_.
     io_map_err (\<lambda>e. Api_Internal (ap_show_queue env e)) (queue_statement (\<lambda>q. Ok (request_cancel now i q)))))"

section \<open>The router\<close>

datatype api_request =
    Get_Watchlist | Get_Item i64 i32 | Get_History i64 i32 "nat option" | Get_Events "nat option"
  | Get_Audit "nat option" | Post_Reconcile i64 i32 | Post_Cancel uuid

datatype api_answer =
    Watchlist "pull_request_row list" | Item pull_request_detail | History pull_request_history
  | Events "event_delivery_row list" | Audit "audit_row list" | Job_Queued uuid | Cancel_Requested uuid bool

definition io_map :: "('a \<Rightarrow> 'b) \<Rightarrow> ('w, 'e, 'a) io \<Rightarrow> ('w, 'e, 'b) io" where
  "io_map f m = io_then m (\<lambda>x. io_ok (f x))"

fun serve_api ::
  "'h api_env \<Rightarrow> timestamp \<Rightarrow> uuid \<Rightarrow> (string \<Rightarrow> string option) \<Rightarrow> operator_state \<Rightarrow> api_request
     \<Rightarrow> api_answer api_io" where
  "serve_api env now fresh headers st Get_Watchlist = io_map Watchlist (list_watchlist env headers st)"
| "serve_api env now fresh headers st (Get_Item r n) = io_map Item (get_watchlist_item env headers st r n)"
| "serve_api env now fresh headers st (Get_History r n limit) =
     io_map History (get_watchlist_history env headers st r n limit)"
| "serve_api env now fresh headers st (Get_Events limit) = io_map Events (list_events env headers st limit)"
| "serve_api env now fresh headers st (Get_Audit limit) = io_map Audit (list_audit env headers st limit)"
| "serve_api env now fresh headers st (Post_Reconcile r n) =
     io_map Job_Queued (enqueue_reconcile env now fresh headers st r n)"
| "serve_api env now fresh headers st (Post_Cancel i) =
     io_map (Cancel_Requested i) (cancel_job_request env now headers st i)"

text \<open>The status of an answer: only a queued job is \<open>202\<close>.\<close>

fun answer_status :: "(api_error, api_answer) result \<Rightarrow> nat" where
  "answer_status (Inl e) = fst (api_error_response e)"
| "answer_status (Inr (Job_Queued i)) = 202"
| "answer_status (Inr answer) = 200"

section \<open>Health, readiness, metrics and the manifest callback\<close>

definition health :: "nat \<times> string" where
  "health = (200, ''ok'')"

definition ready_stateless :: "nat \<times> string" where
  "ready_stateless = (200, ''ready'')"

text \<open>How a check of a service within its time ended.\<close>

datatype check_end = Check_Ok | Check_Failed | Check_Timed_Out

definition ready_with_state ::
  "operator_state \<Rightarrow> ('w \<Rightarrow> check_end \<times> 'w) \<Rightarrow> ('w \<Rightarrow> bool \<times> 'w) \<Rightarrow> 'w \<Rightarrow> (nat \<times> string) \<times> 'w" where
  "ready_with_state st flush ping w =
     (if \<not> st_has_nats st then ((503, ''nats unavailable''), w)
      else case flush w of (ended, w1) \<Rightarrow>
        (case ended of
           Check_Failed \<Rightarrow> ((503, ''nats unavailable''), w1)
         | Check_Timed_Out \<Rightarrow> ((503, ''nats unavailable''), w1)
         | Check_Ok \<Rightarrow>
             if \<not> st_has_repositories st then ((503, ''database unavailable''), w1)
             else case ping w1 of (alive, w2) \<Rightarrow>
               (if alive then ((200, ''ready''), w2) else ((503, ''database unavailable''), w2))))"

definition metrics_response :: "metrics \<Rightarrow> (string \<times> string) list \<times> string" where
  "metrics_response m =
     ([(''content-type'', ''text/plain; version=0.0.4; charset=utf-8'')], render_prometheus m)"

datatype manifest_callback_error = Missing_Code | Conversion_Failed manifest_error

definition manifest_callback ::
  "(string \<Rightarrow> ('w, manifest_error, manifest_conversion) io) \<Rightarrow> string option
     \<Rightarrow> ('w, manifest_callback_error, (string \<times> string) list \<times> manifest_conversion) io" where
  "manifest_callback exchange code =
     io_then (io_lift (ok_or Missing_Code code)) (\<lambda>c.
     io_then (io_map_err Conversion_Failed (exchange c)) (\<lambda>conversion.
     io_ok ([(''cache-control'', ''no-store''), (''x-content-type-options'', ''nosniff'')], conversion)))"

definition callback_error_response :: "(manifest_error \<Rightarrow> string) \<Rightarrow> manifest_callback_error \<Rightarrow> nat \<times> string" where
  "callback_error_response show_error e = (case e of
       Missing_Code \<Rightarrow> (400, ''missing manifest conversion code'')
     | Conversion_Failed m \<Rightarrow> (502, show_error m))"

end
