(* ===== verification/Service.thy ===== *)
theory Service
  imports Worker_Handlers Api
begin

text \<open>
  The process entry, \<open>src/main.rs\<close>: the helper that answers Git's question for credentials, the
  periodic inventory of the open pull requests, and the commands of the operator with what they
  print. Connections, listening and logging are not modelled; an inventory runs in the world of
  the worker, whose store and GitHub client it uses.
\<close>

section \<open>The helper for Git's credentials\<close>

definition askpass_variable :: "string list \<Rightarrow> string" where
  "askpass_variable args =
     (if contains_sub ''username'' (to_ascii_lowercase (case args of _ # prompt # _ \<Rightarrow> prompt | _ \<Rightarrow> []))
      then ''PITOOLS_GIT_USERNAME'' else ''PITOOLS_GIT_PASSWORD'')"

definition run_git_askpass :: "(string \<Rightarrow> string option) \<Rightarrow> string list \<Rightarrow> (string, string) result" where
  "run_git_askpass var args =
     (let variable = askpass_variable args
      in case var variable of
           None \<Rightarrow> Err (variable @ '' is unavailable to the Git askpass helper'')
         | Some v \<Rightarrow> Ok (v @ [LF]))"

section \<open>The inventory\<close>

definition inventory_permissions :: "(string, string) btree_map" where
  "inventory_permissions = [(''contents'', ''read''), (''metadata'', ''read''), (''pull_requests'', ''read'')]"

definition inventory_scope :: "repository_context \<Rightarrow> installation_token_scope" where
  "inventory_scope rep = \<lparr>ts_permissions = inventory_permissions, ts_repositories = [rc_name rep]\<rparr>"

text \<open>The snapshot of a listed pull request that names both its branches.\<close>

definition inventory_snapshot ::
  "repository_context \<Rightarrow> timestamp \<Rightarrow> github_open_pull_request \<Rightarrow> pull_request_snapshot option" where
  "inventory_snapshot rep now p =
     Option.bind (prb_reference (opr_head p)) (\<lambda>head_name.
     map_option (\<lambda>base_name.
       \<lparr>prs_repository_id = rc_id rep, prs_github_id = opr_id p, prs_number = opr_number p,
        prs_title = opr_title p, prs_url = opr_html_url p,
        prs_state = (if opr_merged p then Pr_Merged else if opr_state p = ''closed'' then Pr_Closed else Pr_Open),
        prs_draft = opr_draft p, prs_merged = opr_merged p,
        prs_head_sha = prb_sha (opr_head p), prs_base_sha = prb_sha (opr_base p),
        prs_head_branch = head_name, prs_base_branch = base_name,
        prs_author_login = author_login (opr_user p),
        prs_updated_at = (case opr_updated_at p of None \<Rightarrow> now | Some t \<Rightarrow> t)\<rparr>)
     (prb_reference (opr_base p)))"

definition enqueue_sourced :: "'w worker_env \<Rightarrow> string \<Rightarrow> i64 \<Rightarrow> i32 \<Rightarrow> ('w, unit) wk" where
  "enqueue_sourced env source r n = io_then (enqueue_job env (sourced source r n)) (\<lambda>_. io_ok ())"

fun take_inventory ::
  "'w worker_env \<Rightarrow> repository_context \<Rightarrow> github_open_pull_request list \<Rightarrow> ('w, unit) wk" where
  "take_inventory env rep [] = io_ok ()"
| "take_inventory env rep (p # ps) =
     io_then (read_utc env) (\<lambda>now.
     case inventory_snapshot rep now p of
       None \<Rightarrow> take_inventory env rep ps
     | Some v \<Rightarrow>
         io_then (on_db env Wk_Repository (\<lambda>now. statement_unit (upsert_pull_request v))) (\<lambda>_.
         io_then (enqueue_sourced env ''periodic-inventory'' (rc_id rep) (prs_number v)) (\<lambda>_.
         take_inventory env rep ps)))"

fun enqueue_watched :: "'w worker_env \<Rightarrow> pull_request_row list \<Rightarrow> ('w, unit) wk" where
  "enqueue_watched env [] = io_ok ()"
| "enqueue_watched env (r # rs) =
     io_then (enqueue_sourced env ''periodic-watchlist'' (prr_repository_id r) (prr_number r)) (\<lambda>_.
     enqueue_watched env rs)"

definition reconcile_repository_inventory ::
  "'w worker_env \<Rightarrow> repository_context \<Rightarrow> ('w, unit) wk" where
  "reconcile_repository_inventory env rep =
     io_then (outside Wk_Github_Auth (\<lambda>v. installation_token_with_scope (we_auth env) (we_nanoseconds env v)
        (rc_installation_id rep) (inventory_scope rep))) (\<lambda>tk.
     io_then (io_lift (map_err Wk_Github (we_client env tk))) (\<lambda>c.
     io_then (github (list_open_pull_requests c (we_decoders env) (rc_owner rep) (rc_name rep))) (\<lambda>listed.
     io_then (take_inventory env rep listed) (\<lambda>_.
     io_then (on_db env Wk_Repository (\<lambda>now. query open_pull_requests)) (\<lambda>watched.
     enqueue_watched env watched)))))"

text \<open>One round of the loop: a repository that fails does not keep the others from their turn.\<close>

fun inventory_all :: "'w worker_env \<Rightarrow> repository_context list \<Rightarrow> ('w, unit) wk" where
  "inventory_all env [] = io_ok ()"
| "inventory_all env (r # rs) =
     io_then (attempt_call (reconcile_repository_inventory env r)) (\<lambda>_. inventory_all env rs)"

definition periodic_reconcile_round :: "'w worker_env \<Rightarrow> ('w, unit) wk" where
  "periodic_reconcile_round env =
     io_then (on_db env Wk_Repository (\<lambda>now. query active_repository_contexts)) (\<lambda>contexts.
     inventory_all env contexts)"

section \<open>The operator's commands\<close>

datatype command =
    Cmd_Reconcile i64 i32 | Cmd_Watchlist bool | Cmd_Events i64 bool | Cmd_Audit i64 bool
  | Cmd_Inspect i64 i32 i64 bool | Cmd_Cancel uuid

record cli_env =
  cl_printed :: "json \<Rightarrow> string"
  cl_show_uuid :: "uuid \<Rightarrow> string"
  cl_show_time :: "timestamp \<Rightarrow> string"
  cl_show_queue_error :: "queue_error \<Rightarrow> string"
  cl_pretty_pulls :: "pull_request_row list \<Rightarrow> (string, string) result"
  cl_pretty_events :: "event_delivery_row list \<Rightarrow> (string, string) result"
  cl_pretty_audit :: "audit_row list \<Rightarrow> (string, string) result"
  cl_pretty_history :: "pull_request_history \<Rightarrow> (string, string) result"

fun job_state_text :: "job_state \<Rightarrow> string" where
  "job_state_text JQueued = ''queued''"
| "job_state_text JRunning = ''running''"
| "job_state_text JWaitingApproval = ''waiting_approval''"
| "job_state_text JSucceeded = ''succeeded''"
| "job_state_text JFailed = ''failed''"
| "job_state_text JCancelled = ''cancelled''"

definition show_bool :: "bool \<Rightarrow> string" where
  "show_bool b = (if b then ''true'' else ''false'')"

definition watchlist_line :: "pull_request_row \<Rightarrow> string" where
  "watchlist_line r = show_int (prr_repository_id r) @ ''#'' @ show_int (prr_number r) @ '' '' @ prr_title r
     @ '' ['' @ prr_state r @ ''] '' @ prr_url r"

definition event_line :: "cli_env \<Rightarrow> event_delivery_row \<Rightarrow> string" where
  "event_line env r = cl_show_time env (ev_received_at r) @ '' '' @ ev_delivery_id r @ '' '' @ ev_event_name r
     @ '' '' @ (case ev_action r of None \<Rightarrow> ''-'' | Some a \<Rightarrow> a)"

definition audit_line :: "cli_env \<Rightarrow> audit_row \<Rightarrow> string" where
  "audit_line env r = cl_show_time env (ar_created_at r) @ '' '' @ au_event_type (ar_entry r) @ '' ''
     @ au_summary (ar_entry r)"

definition inspect_lines :: "cli_env \<Rightarrow> pull_request_history \<Rightarrow> string list" where
  "inspect_lines env h =
     (let p = pd_context (ph_pull_request h)
      in [show_int (pcx_repository_id p) @ ''#'' @ show_int (pcx_number p) @ '' '' @ pcx_title p
            @ '' ['' @ pcx_state p @ '']'', ''jobs: '' @ show_nat (length (ph_jobs h))]
         @ map (\<lambda>j. ''  '' @ cl_show_uuid env (jr_id j) @ '' '' @ jr_kind j @ '' '' @ job_state_text (jr_state j)) (ph_jobs h)
         @ [''audit entries: '' @ show_nat (length (ph_audit h)), ''deliveries: '' @ show_nat (length (ph_events h))])"

text \<open>What a command prints, by lines or as one JSON text.\<close>

definition printed_rows :: "bool \<Rightarrow> (string, string) result \<Rightarrow> string list \<Rightarrow> (string, string list) result" where
  "printed_rows as_json encoded rows = (if as_json then and_then encoded (\<lambda>t. Ok [t]) else Ok rows)"

fun run_command :: "cli_env \<Rightarrow> timestamp \<Rightarrow> uuid \<Rightarrow> command \<Rightarrow> (store, string, string list) io" where
  "run_command env now fresh (Cmd_Reconcile r n) =
     io_then (io_map_err (cl_show_queue_error env)
        (queue_statement (enqueue (cl_printed env) now fresh (sourced ''cli'' r n)))) (\<lambda>i.
     io_ok [''reconciliation job queued: '' @ cl_show_uuid env i])"
| "run_command env now fresh (Cmd_Watchlist as_json) =
     io_then (query open_pull_requests) (\<lambda>rows.
     io_lift (printed_rows as_json (cl_pretty_pulls env rows) (map watchlist_line rows)))"
| "run_command env now fresh (Cmd_Events limit as_json) =
     io_then (query (recent_events limit)) (\<lambda>rows.
     io_lift (printed_rows as_json (cl_pretty_events env rows) (map (event_line env) rows)))"
| "run_command env now fresh (Cmd_Audit limit as_json) =
     io_then (query (recent_audit_entries limit)) (\<lambda>rows.
     io_lift (printed_rows as_json (cl_pretty_audit env rows) (map (audit_line env) rows)))"
| "run_command env now fresh (Cmd_Inspect r n limit as_json) =
     io_then (query (pull_request_history_of r n limit)) (\<lambda>found.
     io_lift (and_then (ok_or ''pull request not found'' found) (\<lambda>h.
       printed_rows as_json (cl_pretty_history env h) (inspect_lines env h))))"
| "run_command env now fresh (Cmd_Cancel i) =
     io_then (io_map_err (cl_show_queue_error env) (queue_statement (\<lambda>q. Ok (request_cancel now i q)))) (\<lambda>changed.
     io_ok [''job '' @ cl_show_uuid env i @ '' cancellation_requested='' @ show_bool changed])"

text \<open>The commands without a database: the hash of a token and the manifest.\<close>

definition trim_end :: "string \<Rightarrow> string" where
  "trim_end s = concat (rev (dropWhile is_whitespace (rev (chars s))))"

definition hash_token :: "(string \<Rightarrow> (string, string) result) \<Rightarrow> string \<Rightarrow> (string, string) result" where
  "hash_token hash_password input = and_then (hash_password (trim_end input)) (\<lambda>h. Ok (h @ [LF]))"

definition print_manifest ::
  "(string \<Rightarrow> url option) \<Rightarrow> (manifest_error \<Rightarrow> string) \<Rightarrow> (json \<Rightarrow> (string, string) result) \<Rightarrow> string
     \<Rightarrow> (string, string) result" where
  "print_manifest parse show_error pretty base_url =
     and_then (map_err show_error (manifest_as_json parse (for_public_project base_url))) (\<lambda>v.
     and_then (pretty v) (\<lambda>t. Ok (t @ [LF])))"

definition doctor_line :: "app_config \<Rightarrow> bool \<Rightarrow> github_app_status \<Rightarrow> string" where
  "doctor_line c nats_up status =
     ''configuration ok: bind_address='' @ cfg_bind_address c @ '', database=ok, github_key=ok, nats=''
     @ (if nats_up then ''ok'' else ''degraded'') @ '', '' @ render_app_status status"

text \<open>The state of the server: a database and a queue always, NATS when it answered at the start.\<close>

definition server_state :: "app_config \<Rightarrow> bool \<Rightarrow> operator_state" where
  "server_state c nats_up = \<lparr>st_webhook_secret = cfg_github_webhook_secret c, st_has_repositories = True,
     st_has_queue = True, st_admin_bearer_token_hash = cfg_admin_bearer_token_hash c, st_has_nats = nats_up\<rparr>"

end
