(* ===== verification/Service_Properties.thy ===== *)
theory Service_Properties
  imports Service Worker_Properties Webhook_Properties
begin

text \<open>
  The service as a whole: every way into it changes the store only by the store's statements, the
  operator's endpoints ask for the token first, the inventory keeps what is watched queued, and
  Git gets its credentials from the environment of its own workspace.
\<close>

section \<open>The inventory\<close>

lemma moves_enqueue_sourced [moves_intros]: "moves (world_run env) (enqueue_sourced env source r n)"
  unfolding enqueue_sourced_def by (intro composed moves_intros)

lemma moves_inventory [moves_intros]: "moves (world_run env) (take_inventory env rep ps)"
proof (induction ps)
  case (Cons p ps)
  have "moves (world_run env) (on_db env Wk_Repository (\<lambda>now. statement_unit (upsert_pull_request v)))" for v
    by (intro moves_statement_unit) (rule step_pull)
  with Cons show ?case by (auto simp only: take_inventory.simps intro!: composed moves_intros)
qed (auto simp only: take_inventory.simps intro!: composed)

lemma moves_watched [moves_intros]: "moves (world_run env) (enqueue_watched env rows)"
  by (induction rows) (auto simp only: enqueue_watched.simps intro!: composed moves_intros)

lemma moves_repository_inventory: "moves (world_run env) (reconcile_repository_inventory env rep)"
  unfolding reconcile_repository_inventory_def by (intro composed moves_intros)

lemma moves_round: "moves (world_run env) (periodic_reconcile_round env)"
proof -
  have "moves (world_run env) (inventory_all env contexts)" for contexts
    by (induction contexts)
      (auto simp only: inventory_all.simps intro!: composed moves_attempt moves_repository_inventory)
  then show ?thesis unfolding periodic_reconcile_round_def by (intro composed moves_intros)
qed

section \<open>Operators\<close>

lemma runs_enqueue: "runs (queue_statement (enqueue printed now fresh spec))"
  by (intro runs_queue_statement) (blast intro: step_enqueue)

lemma runs_cancel: "runs (queue_statement (\<lambda>q. Ok (request_cancel now i q)))"
proof (intro runs_queue_statement)
  fix q x q'
  assume "Ok (request_cancel now i q) = Inr (x, q')"
  then have "q' = snd (request_cancel now i q)" by simp
  then show "queue_step q Silent q'" by (simp add: step_cancel)
qed

lemma runs_api: "runs (serve_api env now fresh headers st rq)"
  by (cases rq) (auto simp only: serve_api.simps io_map_def list_watchlist_def get_watchlist_item_def
      get_watchlist_history_def list_events_def list_audit_def enqueue_reconcile_def cancel_job_request_def
      intro!: runs_intros runs_enqueue runs_cancel)

lemma runs_command: "runs (run_command env now fresh cmd)"
  by (cases cmd) (auto simp only: run_command.simps intro!: runs_intros runs_enqueue runs_cancel)

fun is_post :: "api_request \<Rightarrow> bool" where
  "is_post (Post_Reconcile r n) = True"
| "is_post (Post_Cancel i) = True"
| "is_post rq = False"

definition reads :: "(store, 'e, 'a) io \<Rightarrow> bool" where
  "reads m \<longleftrightarrow> (\<forall>s. snd (m s) = s)"

lemma reads_intros:
  "reads (io_lift r)" "reads (io_ok a)" "reads (query g)"
  "reads m \<Longrightarrow> (\<And>a. reads (f a)) \<Longrightarrow> reads (io_then m f)"
  by (auto simp: reads_def query_def io_then_def split: prod.split sum.split) (metis snd_conv)+

lemma reads_get: "\<not> is_post rq \<Longrightarrow> snd (serve_api env now fresh headers st rq s) = s"
proof -
  assume "\<not> is_post rq"
  then have "reads (serve_api env now fresh headers st rq)"
    by (cases rq) (auto simp only: serve_api.simps is_post.simps io_map_def list_watchlist_def get_watchlist_item_def
        get_watchlist_history_def list_events_def list_audit_def simp_thms intro!: reads_intros)
  then show ?thesis by (simp add: reads_def)
qed

definition touches_queue :: "(store, 'e, 'a) io \<Rightarrow> bool" where
  "touches_queue m \<longleftrightarrow> (\<forall>s. \<exists>q. snd (m s) = s\<lparr>queue := q\<rparr>)"

lemma touches_intros:
  "touches_queue (io_lift r)" "touches_queue (io_ok a)" "touches_queue (queue_statement k)"
  "touches_queue m \<Longrightarrow> touches_queue (io_map_err h m)"
  "touches_queue m \<Longrightarrow> (\<And>a. touches_queue (f a)) \<Longrightarrow> touches_queue (io_then m f)"
proof -
  have same: "\<exists>q. s = s\<lparr>queue := q\<rparr>" for s :: store by (rule exI [of _ "queue s"]) simp
  show "touches_queue (io_lift r)" "touches_queue (io_ok a)" "touches_queue (queue_statement k)"
    using same by (auto simp: touches_queue_def queue_statement_def statement_def split: sum.split prod.split)
  show "touches_queue m \<Longrightarrow> touches_queue (io_map_err h m)"
    by (auto simp: touches_queue_def io_map_err_def split: prod.split) (metis snd_conv)
  assume m: "touches_queue m" and f: "\<And>a. touches_queue (f a)"
  show "touches_queue (io_then m f)"
    unfolding touches_queue_def
  proof
    fix s
    obtain r s1 where run: "m s = (r, s1)" by (metis surjective_pairing)
    with m obtain q where "s1 = s\<lparr>queue := q\<rparr>" unfolding touches_queue_def by (metis snd_conv)
    with run show "\<exists>q. snd (io_then m f s) = s\<lparr>queue := q\<rparr>"
      using f [unfolded touches_queue_def, rule_format, of _ s1] by (cases r) (auto simp: io_then_def)
  qed
qed

lemma touches_post: "is_post rq \<Longrightarrow> touches_queue (serve_api env now fresh headers st rq)"
  by (cases rq) (auto simp only: serve_api.simps is_post.simps io_map_def enqueue_reconcile_def
      cancel_job_request_def simp_thms intro!: touches_intros)

lemma alone_run: "world_run (alone env) w w' \<Longrightarrow> store_run (fst w) (fst w')"
  by (erule world_run_keeps) (simp add: alone_def store_nil)

section \<open>Properties\<close>

text \<open>
  C31: every way into the service refines the store: a webhook request, an operator's request and
  command, a round of the worker, a round of the periodic inventory and a purge of old payloads
  change the store by its statements alone, whatever GitHub, the provider, processes and files
  answer; the two long ones interleaved with what other processes do. So every invariant of
  the store's runs holds for the whole service.
\<close>

theorem entry_points_refine_store:
  "store_run (sv_store x) (sv_store (snd (receive wenv st now i j f headers sent x)))
   \<and> store_run s (snd (serve_api aenv now i headers opst rq s))
   \<and> store_run s (snd (run_command cenv now i cmd s))
   \<and> store_run s (snd (purge_expired_raw_payloads_once now s))
   \<and> world_run env w (worker_round env worker w)
   \<and> store_run (fst w) (fst (worker_round (alone env) worker w))
   \<and> world_run env w (snd (periodic_reconcile_round env w))
   \<and> store_run (fst w) (fst (snd (periodic_reconcile_round (alone env) w)))"
proof (intro conjI)
  show "store_run (sv_store x) (sv_store (snd (receive wenv st now i j f headers sent x)))"
    using serves_receive by (simp add: serves_def)
  show "store_run s (snd (serve_api aenv now i headers opst rq s))" by (rule runs_api [unfolded runs_def, rule_format])
  show "store_run s (snd (run_command cenv now i cmd s))" by (rule runs_command [unfolded runs_def, rule_format])
  show "store_run s (snd (purge_expired_raw_payloads_once now s))"
    unfolding purge_expired_raw_payloads_once_def by (rule store_step_run [OF step_purge])
  show "world_run env w (worker_round env worker w)"
    "store_run (fst w) (fst (worker_round (alone env) worker w))"
    using worker_round_run alone_run by blast+
  have "world_run env w (snd (periodic_reconcile_round env w))" for env
    by (rule moves_round [unfolded moves_def, rule_format])
  then show "world_run env w (snd (periodic_reconcile_round env w))"
    "store_run (fst w) (fst (snd (periodic_reconcile_round (alone env) w)))"
    using alone_run by blast+
qed

text \<open>
  C39: operators only: a request to any endpoint of the operator's API without a bearer token that
  verifies against the configured hash is answered \<open>401\<close> and reads and changes nothing, and
  with one only the two posts change the store, and those only its queue.
\<close>

theorem operator_api_guarded:
  "if is_operator (ap_hashing aenv) headers (st_admin_bearer_token_hash st)
   then (is_post rq \<or> snd (serve_api aenv now fresh headers st rq s) = s)
     \<and> (\<exists>q. snd (serve_api aenv now fresh headers st rq s) = s\<lparr>queue := q\<rparr>)
   else serve_api aenv now fresh headers st rq s = (Err Api_Unauthorized, s)
     \<and> answer_status (fst (serve_api aenv now fresh headers st rq s)) = 401"
proof (cases "is_operator (ap_hashing aenv) headers (st_admin_bearer_token_hash st)")
  case False
  then have "require_admin aenv headers st = Inl Api_Unauthorized" by (simp add: require_admin_def)
  then have "serve_api aenv now fresh headers st rq s = (Err Api_Unauthorized, s)"
    by (cases rq) (simp_all add: io_map_def list_watchlist_def get_watchlist_item_def get_watchlist_history_def
        list_events_def list_audit_def enqueue_reconcile_def cancel_job_request_def io_then_def)
  with False show ?thesis by simp
next
  case True
  have same: "s = s\<lparr>queue := queue s\<rparr>" by simp
  have "\<exists>q. snd (serve_api aenv now fresh headers st rq s) = s\<lparr>queue := q\<rparr>"
  proof (cases "is_post rq")
    case True
    then show ?thesis by (rule touches_post [unfolded touches_queue_def, rule_format])
  next
    case False
    then have "snd (serve_api aenv now fresh headers st rq s) = s" by (rule reads_get)
    then show ?thesis using same by metis
  qed
  moreover have "is_post rq \<or> snd (serve_api aenv now fresh headers st rq s) = s"
    using reads_get by blast
  ultimately show ?thesis using True by simp
qed

text \<open>
  Git authenticates as the app: run with the environment that a workspace gives to Git, the
  helper answers a prompt that mentions a user name (in any case) with the workspace's user name
  and every other prompt with its token, and never fails.
\<close>

theorem askpass_answers_workspace:
  "run_git_askpass (map_of (git_environment ws)) (exe # prompt # others)
     = Ok ((if contains_sub ''username'' (to_ascii_lowercase prompt) then wsp_username ws else wsp_password ws) @ [LF])"
  by (simp add: run_git_askpass_def askpass_variable_def git_environment_def Let_def)

section \<open>What is watched stays queued\<close>

definition is_queued :: "queue_db \<Rightarrow> pull_request_row \<Rightarrow> bool" where
  "is_queued q r \<longleftrightarrow> (\<exists>j\<in>set (jobs q). repository_id j = prr_repository_id r
     \<and> pull_request_number j = prr_number r \<and> kind j = ''reconcile'' \<and> is_active j)"

definition all_queued :: "store \<Rightarrow> bool" where
  "all_queued s \<longleftrightarrow> list_all (is_queued (queue s)) (open_pull_requests s)"

lemma insert_keeps_jobs: "insert_job now i spec q = Ok (k, q') \<Longrightarrow> set (jobs q) \<subseteq> set (jobs q')"
  by (erule insert_job_cases) auto

lemma enqueue_keeps_queued:
  assumes "enqueue printed now i spec q = Ok (k, q')" "is_queued q r"
  shows "is_queued q' r"
  using enqueue_cases [OF assms(1)] assms(2) insert_keeps_jobs by (fastforce simp: is_queued_def)

lemma enqueue_queues:
  assumes "enqueue printed now i (sourced source (prr_repository_id r) (prr_number r)) q = Ok (k, q')"
  shows "is_queued q' r"
proof -
  have "has_active (sourced source (prr_repository_id r) (prr_number r)) q'"
    by (rule enqueue_reconcile_active [OF assms]) (simp add: sourced_def)
  then show ?thesis
    by (auto simp: has_active_def same_key_def deduplication_key_def sourced_def is_queued_def)
qed

lemma open_pull_requests_queue [simp]: "open_pull_requests (s\<lparr>queue := q\<rparr>) = open_pull_requests s"
  by (simp add: open_pull_requests_def is_live_pull_def live_repositories_def is_live_def cong: filter_cong)

lemma enqueue_sourced_alone:
  assumes "enqueue_sourced (alone env) source r n w = (Inr u, w')"
  obtains k i now q where "enqueue (worker_env.we_printed env) now i (sourced source r n) (queue (fst w)) = Ok (k, q)"
    "fst w' = (fst w)\<lparr>queue := q\<rparr>"
  using assms
  by (auto simp: enqueue_sourced_def enqueue_job_def io_then_Ok fresh_id_def on_db_def queue_statement_def
      statement_def alone_def split: prod.splits sum.splits)

lemma enqueue_watched_alone:
  "enqueue_watched (alone env) rows w = (Inr u, w') \<Longrightarrow>
     open_pull_requests (fst w') = open_pull_requests (fst w)
     \<and> (\<forall>r. is_queued (queue (fst w)) r \<or> r \<in> set rows \<longrightarrow> is_queued (queue (fst w')) r)"
proof (induction rows arbitrary: w)
  case (Cons r rows)
  then obtain w1 where first: "enqueue_sourced (alone env) ''periodic-watchlist'' (prr_repository_id r) (prr_number r) w = (Inr (), w1)"
    and rest: "enqueue_watched (alone env) rows w1 = (Inr u, w')"
    by (auto simp: io_then_Ok)
  obtain k i now q where "enqueue (worker_env.we_printed env) now i (sourced ''periodic-watchlist'' (prr_repository_id r) (prr_number r))
      (queue (fst w)) = Ok (k, q)" "fst w1 = (fst w)\<lparr>queue := q\<rparr>"
    by (rule enqueue_sourced_alone [OF first])
  with Cons.IH [OF rest] show ?case
    using enqueue_queues enqueue_keeps_queued by (auto; blast)
qed simp

text \<open>
  C40: what is watched stays queued: when an inventory of a repository ends well, with nobody else
  at the store, every pull request on the watchlist, of this repository and of all others, has
  an active reconciliation in the queue.
\<close>

theorem inventory_queues_watchlist:
  "case reconcile_repository_inventory (alone env) rep w of
     (Inl e, w') \<Rightarrow> True
   | (Inr u, w') \<Rightarrow> all_queued (fst w')"
proof -
  obtain r w' where run: "reconcile_repository_inventory (alone env) rep w = (r, w')" by (metis surjective_pairing)
  show ?thesis
  proof (cases r)
    case (Inr u)
    with run obtain w1 where "enqueue_watched (alone env) (open_pull_requests (fst w1)) w1 = (Inr u, w')"
      by (auto simp: reconcile_repository_inventory_def io_then_Ok on_db_def query_def alone_def split: prod.splits)
    from enqueue_watched_alone [OF this] show ?thesis
      by (simp add: run Inr all_queued_def list_all_iff)
  qed (simp add: run)
qed

end
