(* ===== verification/Spec2Isabelle.thy ===== *)
theory Spec2Isabelle
  imports Policy Readiness Queue_Properties Control_Properties Approval Stack_Order Ci_Properties
    Feedback_Properties Reconcile_Properties Client_Properties Webhook_Properties Pi_Properties
    Github_Auth Workspace_Properties Manifest Rewrite_Properties
    Service_Properties
begin

text \<open>
  PiTools is a GitHub App that keeps pull requests ready to merge: one Rust program (the crate
  under \<open>src/\<close> of the repository, whose files are named here as \<open>queue.rs\<close> and so on) that
  receives GitHub's deliveries, reconciles what GitHub reports with a PostgreSQL store, tells on
  each pull request what is missing, and repairs what it is allowed to repair. This library
  models the whole of it but for its connections to the outside.

  How the parts interact. A delivery comes in through \<open>webhook.rs\<close>: its signature is checked
  before anything is read of it, it is recorded and applied once in a transaction of
  \<open>repository.rs\<close>, and either decides a control (\<open>workflow.rs\<close>, \<open>pr_controls.rs\<close>) or puts a
  reconciliation in the queue (\<open>queue.rs\<close>). An operator's request (\<open>api.rs\<close>) and the periodic
  inventory (\<open>main.rs\<close>) put jobs there too. The worker (\<open>worker.rs\<close>) leases a job, reads the
  repository and its policy (\<open>policy.rs\<close>) through the GitHub client (\<open>github/client.rs\<close>,
  \<open>github/auth.rs\<close>), publishes the work plan, and runs the job's handler under a heartbeat: a
  reconciliation (\<open>reconcile.rs\<close>, \<open>readiness.rs\<close>), a repair of feedback (\<open>feedback.rs\<close>), a repair
  of a failed check (\<open>ci.rs\<close>, with the isolated provider of \<open>pi.rs\<close>) or the rebase of a stack
  (\<open>stack.rs\<close>), the last three in an ephemeral clone (\<open>workspace.rs\<close>).

  \<^bold>\<open>Theories and code.\<close>

  \<^item> Foundations. \<open>Prelude\<close>: result types with the early return of \<open>?\<close>, machine types, loops that stop
  at the first error, ordered lists for \<open>BTreeMap\<close>; \<open>Rust_Text\<close>: \<open>str\<close> as the list of its UTF-8
  bytes; \<open>Tables\<close>: tables as lists of rows with the upsert and update statements; \<open>Json\<close>:
  \<open>serde_json::Value\<close>; \<open>File_System\<close>: the part of \<open>std::fs\<close> in use; \<open>Http\<close>: effects that thread a
  world and may fail, URLs, requests; \<open>Gates\<close>: the contracts of a path check and of a forbidden
  text that several components share (locales, interpreted where the checks are defined);
  \<open>Moves\<close>: relations on worlds that every effect keeps to (locales, interpreted in
  \<open>Worker_Moves\<close>).

  \<^item> \<open>Models\<close> (\<open>models.rs\<close>), \<open>Policy\<close> (\<open>policy.rs\<close>), \<open>Readiness\<close> (\<open>readiness.rs\<close>): data, the policy
  with its validation, the merge gate as the list of its reasons.
  \<^item> \<open>Job_Queue\<close> (\<open>queue.rs\<close>): the jobs table as \<open>queue_db\<close>, one function per statement; \<open>Queue_Safety\<close>:
  the statements as a labelled step relation with its invariant; \<open>Queue_Properties\<close>: leases,
  order, keys and cancellation.
  \<^item> \<open>Store\<close>, \<open>Deliveries\<close>, \<open>Store_Reads\<close> (\<open>repository.rs\<close>): the tables as \<open>store\<close>, the writes of
  deliveries, and the reads; \<open>Store_Properties\<close>, \<open>Store_Runs\<close> and \<open>Access\<close>: the step relation
  \<open>store_step\<close> with its invariant of keys and references, the once-only effect of a delivery and
  what revoked access ends.
  \<^item> \<open>Events\<close> (\<open>github/events.rs\<close>), \<open>Webhook\<close> (\<open>webhook.rs\<close>), \<open>Metrics\<close> (\<open>metrics.rs\<close>),
  \<open>Webhook_Properties\<close>: from the headers and bytes of a request to its answer and counters.
  \<^item> \<open>Pr_Controls\<close> (\<open>pr_controls.rs\<close>), \<open>Workflow\<close> (\<open>workflow.rs\<close>), \<open>Approval\<close>: work plans, the run
  state machine, fingerprints and the controls; \<open>Control_Properties\<close>, \<open>Workflow_Properties\<close>.
  \<^item> \<open>Stack\<close> (\<open>stack.rs\<close>), \<open>Stack_Properties\<close>, \<open>Stack_Order\<close>: the planner and its specification by
  chains of a parent function.
  \<^item> \<open>Ci\<close> (\<open>ci.rs\<close>), \<open>Feedback_Repair\<close> (\<open>feedback.rs\<close>), \<open>Reconcile\<close> (\<open>reconcile.rs\<close>), \<open>Pi_Boundary\<close>
  (\<open>pi.rs\<close>), each with its \<open>_Properties\<close> theory.
  \<^item> \<open>Github_Types\<close>, \<open>Github_Client\<close> (\<open>github/client.rs\<close>), \<open>Github_Auth\<close> (\<open>github/auth.rs\<close>),
  \<open>Manifest\<close> (\<open>github/manifest.rs\<close>), \<open>Client_Properties\<close>: one function per request, pagination and
  the redaction of errors.
  \<^item> \<open>Workspace\<close> (\<open>workspace.rs\<close>), \<open>Workspace_Properties\<close>: the clone, the command lines of Git, and
  what was checked before each push.
  \<^item> \<open>Worker_Plan\<close>, \<open>Worker\<close>, \<open>Worker_Handlers\<close>, \<open>Worker_Run\<close> (\<open>worker.rs\<close>): the JSON of plans, the
  checks of a pull request and its policy, the handlers, and a job from its lease to its mark;
  \<open>Plan_Properties\<close>, \<open>Worker_Moves\<close>, \<open>Worker_Properties\<close>, and \<open>Rewrite_Properties\<close>, which follows
  every push of every job down to the command line of Git: the environments with and without a
  given answer to a push that rewrites an unlisted branch are a locale, interpreted on the worker.
  \<^item> \<open>Settings\<close> (\<open>config.rs\<close>, \<open>error.rs\<close>, \<open>admin.rs\<close>), \<open>Api\<close> (\<open>api.rs\<close>, \<open>web.rs\<close>, \<open>state.rs\<close>),
  \<open>Service\<close> (\<open>main.rs\<close>), \<open>Service_Properties\<close>: the settings, the operator's endpoints, the
  commands and the loops of the process.

  \<^bold>\<open>How state and effects correspond.\<close> A statement on the database is a function from the store to the
  store; its clock, fresh identifiers, and the rows that others have locked are arguments. An
  effect is a function from a world to a result and a world (type \<open>('w, 'e, 'a) io\<close>). In the
  worker the world is a pair: the store, and an outside that GitHub, processes and files act on
  through parameters. \<open>we_meanwhile\<close> lets other processes change the store before each of the worker's
  statements; \<open>world_run\<close> says that a world was reached by statements of this and of other
  processes. Logging has no effect on a world and is left out. What a method of the store does within
  one transaction, or in a few statements without a transaction of its own (\<open>enqueue\<close>, the record,
  the effect and the mark of a delivery), is one step.

  \<^bold>\<open>What the lemmas show.\<close> The invariants of the queue, the store and the runs of controls hold in
  every run of their step relations; every entry point of the program, from the webhook to the
  round of the worker, changes the store only by such steps (\<open>entry_points_refine_store\<close>), so the
  invariants are those of the program. The planner of stacks, the partition into components and
  the merge gate equal their specifications. Pushes, controls, approvals, deliveries, the
  operator's endpoints and the repairs happen only after their checks; the rewrite of history is the
  policy's (\<open>rewrites_need_policy\<close>; the \<open>plan_rebase\<close> and \<open>authorize_push\<close> of \<open>stack.rs\<close> are modelled,
  but no other part of the program calls them). Plans and identifiers
  that one part writes and another reads survive the way.

  \<^bold>\<open>Bounds and termination.\<close> Symbolic links are followed at most \<open>max_links\<close> = 40 times, the limit of
  Linux. Pages are read at most 100 per listing, the evidence of a repair covers at most 16 checks, plans have at
  most 100 items, a snapshot for the provider at most 16 files of 16 KiB and 48 KiB together: all of
  these but the first are bounds of the code, none is a bound of the model. \<open>merge_chain\<close> and \<open>redact_token_marker\<close> are loops of the
  code without a bound, modelled as partial functions and proved to return (\<open>plan_stack_returns\<close>,
  and \<open>redaction_complete\<close>, which states that there is a result).

  \<^bold>\<open>Parameters.\<close> Code that is not in the repository is an argument: SHA-256, HMAC, RSA and Argon2; the
  codecs of YAML, JSON and URLs; the HTTP client; the start and the end of a process; the NATS
  client; the clock and fresh UUIDs. What the proofs ask of them is named in the theorems.

  \<^bold>\<open>Not modelled.\<close> Connections and the pool (\<open>db.rs\<close>), tracing and log lines, the parsing of the
  command line, the router's paths, shutdown signals, and timers: when a heartbeat or a round takes
  place is an argument, what it does is modelled. The texts that are embedded in the binary (the
  web pages) are arguments. Requests of \<open>github/auth.rs\<close> and \<open>github/client.rs\<close> are modelled to the
  request that is sent and the value that is decoded. The TypeScript of the provider and of the
  web assets is not Rust code and is left aside.

  \<^bold>\<open>What remains to be shown.\<close> Liveness of the queue under a fair worker (each job is leased or ended),
  the settlement of a job by exactly one mark, and a refinement of the labels of the queue to the
  worker's handlers.
\<close>

end
